(* ===== verification/Prelude.thy ===== *)
theory Prelude
  imports Main "HOL-Library.Char_ord" "HOL-Library.List_Lexorder" "HOL-Library.AList"
begin

text \<open>
  What every component shares: the lemma collections of the development, the Python
  string operations the source uses (on ASCII text, as Kalshi tickers and the program's
  own labels are), slices counted from the end, and dictionaries as association lists in
  insertion order.
\<close>

named_theorems frame \<open>facts that an operation leaves a part of the state alone\<close>
named_theorems keeps \<open>facts that an operation keeps an invariant\<close>
named_theorems pystr \<open>rewrite rules for the Python string operations\<close>

section \<open>Strings\<close>

definition upper_char :: "char \<Rightarrow> char" where
  "upper_char c = (let n = of_char c :: nat in
     if 97 \<le> n \<and> n \<le> 122 then char_of (n - 32) else c)"

definition lower_char :: "char \<Rightarrow> char" where
  "lower_char c = (let n = of_char c :: nat in
     if 65 \<le> n \<and> n \<le> 90 then char_of (n + 32) else c)"

definition upper :: "string \<Rightarrow> string" where
  "upper s = map upper_char s"

definition lower :: "string \<Rightarrow> string" where
  "lower s = map lower_char s"

text \<open>On ASCII text \<open>str.casefold\<close> and \<open>str.lower\<close> agree.\<close>

abbreviation casefold :: "string \<Rightarrow> string" where
  "casefold \<equiv> lower"

definition is_space :: "char \<Rightarrow> bool" where
  "is_space c = (let n = of_char c :: nat in n = 32 \<or> 9 \<le> n \<and> n \<le> 13 \<or> 28 \<le> n \<and> n \<le> 31)"

definition strip :: "string \<Rightarrow> string" where
  "strip s = rev (dropWhile is_space (rev (dropWhile is_space s)))"

text \<open>\<open>s.split(sep, 1)[0]\<close> and \<open>s.split(sep)[0]\<close> for a one-character separator.\<close>

definition split_head :: "char \<Rightarrow> string \<Rightarrow> string" where
  "split_head sep s = takeWhile (\<lambda>c. c \<noteq> sep) s"

definition startswith :: "string \<Rightarrow> string \<Rightarrow> bool" where
  "startswith s p \<longleftrightarrow> take (length p) s = p"

text \<open>Evaluation by cases on the list leaves the case change of an unknown text alone.\<close>

lemma upper_code [code]: "upper [] = []" "upper (c # s) = upper_char c # upper s"
  by (simp_all add: upper_def)

lemma lower_code [code]: "lower [] = []" "lower (c # s) = lower_char c # lower s"
  by (simp_all add: lower_def)

lemma upper_Nil [pystr, simp]: "upper [] = []"
  by (simp add: upper_def)

lemma lower_Nil [pystr, simp]: "lower [] = []"
  by (simp add: lower_def)

lemma lower_lower_char: "lower_char (lower_char c) = lower_char c"
proof (cases "65 \<le> (of_char c :: nat) \<and> (of_char c :: nat) \<le> 90")
  case True
  then have "(of_char (lower_char c) :: nat) = of_char c + 32"
    by (simp add: lower_char_def)
  with True show ?thesis by (simp add: lower_char_def Let_def)
next
  case False
  then show ?thesis by (auto simp: lower_char_def Let_def)
qed

lemma lower_lower [pystr, simp]: "lower (lower s) = lower s"
  by (simp add: lower_def lower_lower_char)

lemma strip_Nil [pystr, simp]: "strip [] = []"
  by (simp add: strip_def)

lemma strip_eq_Nil: "strip s = [] \<longleftrightarrow> (\<forall>c \<in> set s. is_space c)"
proof -
  have "(\<forall>c \<in> set (dropWhile is_space s). is_space c) \<longleftrightarrow> (\<forall>c \<in> set s. is_space c)"
    by (metis (mono_tags, lifting) dropWhile_eq_Nil_conv hd_dropWhile hd_in_set list.set(1) empty_iff)
  then show ?thesis by (simp add: strip_def)
qed

lemma strip_Cons_nonempty: "\<not> is_space c \<Longrightarrow> strip (c # s) \<noteq> []"
  by (simp add: strip_eq_Nil)

lemma not_space_letters [simp]:
  "\<not> is_space (CHR ''p'')" "\<not> is_space (CHR ''l'')" "\<not> is_space (CHR ''c'')" "\<not> is_space (CHR ''k'')"
  by (simp_all add: is_space_def)

lemma strip_nonempty_imp: "strip s \<noteq> [] \<Longrightarrow> s \<noteq> []"
  by auto

lemma split_head_no_sep [pystr]: "sep \<notin> set s \<Longrightarrow> split_head sep s = s"
  unfolding split_head_def by (induction s) auto

lemma split_head_sep [pystr]: "sep \<notin> set s \<Longrightarrow> split_head sep (s @ sep # t) = s"
  unfolding split_head_def by (induction s) auto

lemma sep_notin_split_head [simp]: "sep \<notin> set (split_head sep s)"
  unfolding split_head_def by (auto dest: set_takeWhileD)

lemma split_head_eq_iff:
  "sep \<notin> set p \<Longrightarrow> split_head sep s = p \<longleftrightarrow> s = p \<or> (\<exists>t. s = p @ sep # t)"
proof
  assume p: "sep \<notin> set p" and eq: "split_head sep s = p"
  show "s = p \<or> (\<exists>t. s = p @ sep # t)"
  proof (cases "dropWhile (\<lambda>c. c \<noteq> sep) s")
    case Nil
    with eq have "s = p"
      by (metis append_Nil2 split_head_def takeWhile_dropWhile_id)
    then show ?thesis by blast
  next
    case (Cons c t)
    then have "c = sep" by (simp add: dropWhile_eq_Cons_conv)
    with Cons eq have "s = p @ sep # t"
      using takeWhile_dropWhile_id [of "\<lambda>c. c \<noteq> sep" s] by (simp add: split_head_def)
    then show ?thesis by blast
  qed
qed (auto simp: pystr)

section \<open>Printing and reading integers\<close>

text \<open>\<open>str(n)\<close> of an int.\<close>

definition digit_char :: "nat \<Rightarrow> char" where
  "digit_char d = char_of (48 + d)"

fun show_nat :: "nat \<Rightarrow> string" where
  "show_nat n = (if n < 10 then [digit_char n] else show_nat (n div 10) @ [digit_char (n mod 10)])"

declare show_nat.simps [simp del]

definition show_int :: "int \<Rightarrow> string" where
  "show_int n = (if n < 0 then ''-'' @ show_nat (nat (- n)) else show_nat (nat n))"

definition digit_val :: "char \<Rightarrow> nat option" where
  "digit_val c = (let n = of_char c :: nat in if 48 \<le> n \<and> n \<le> 57 then Some (n - 48) else None)"

text \<open>
  The digits part of \<open>int(text)\<close>: decimal digits, with single underscores allowed between
  two digits. The flag says that the last character was a digit.
\<close>

fun read_digits :: "nat \<Rightarrow> bool \<Rightarrow> string \<Rightarrow> nat option" where
  "read_digits acc after_digit [] = (if after_digit then Some acc else None)"
| "read_digits acc after_digit (c # cs) =
     (case digit_val c of
        Some d \<Rightarrow> read_digits (10 * acc + d) True cs
      | None \<Rightarrow> if c = CHR ''_'' \<and> after_digit then read_digits acc False cs else None)"

text \<open>\<open>int(text)\<close>; \<open>None\<close> is ValueError.\<close>

definition int_of_text :: "string \<Rightarrow> int option" where
  "int_of_text s =
     (case strip s of
        [] \<Rightarrow> None
      | c # cs \<Rightarrow>
          if c = CHR ''-'' then map_option (\<lambda>n. - int n) (read_digits 0 False cs)
          else if c = CHR ''+'' then map_option int (read_digits 0 False cs)
          else map_option int (read_digits 0 False (c # cs)))"

text \<open>Printing an int and reading it back gives the int.\<close>

definition digit_code :: "char \<Rightarrow> bool" where
  "digit_code c \<longleftrightarrow> 48 \<le> (of_char c :: nat) \<and> (of_char c :: nat) \<le> 57"

lemma of_char_digit_char: "d < 10 \<Longrightarrow> (of_char (digit_char d) :: nat) = 48 + d"
  by (simp add: digit_char_def)

lemma digit_val_digit_char: "d < 10 \<Longrightarrow> digit_val (digit_char d) = Some d"
  by (simp add: digit_val_def of_char_digit_char)

lemma show_nat_digits: "c \<in> set (show_nat n) \<Longrightarrow> digit_code c"
proof (induction n rule: show_nat.induct)
  case (1 n)
  have dig: "digit_code (digit_char d)" if "d < 10" for d
    using that by (simp add: digit_code_def of_char_digit_char)
  show ?case
  proof (cases "n < 10")
    case True
    with "1.prems" dig show ?thesis by (simp add: show_nat.simps [of n])
  next
    case False
    with 1 dig [of "n mod 10"] show ?thesis by (auto simp: show_nat.simps [of n])
  qed
qed

lemma show_nat_nonempty: "show_nat n \<noteq> []"
  by (simp add: show_nat.simps [of n])

lemma read_digits_append:
  assumes "\<And>c. c \<in> set s \<Longrightarrow> digit_code c" and "s \<noteq> []"
  shows "\<exists>v. read_digits acc b s = Some v \<and> (\<forall>t. read_digits acc b (s @ t) = read_digits v True t)"
  using assms
proof (induction s arbitrary: acc b)
  case Nil
  then show ?case by simp
next
  case (Cons c s)
  have "digit_code c" using Cons.prems(1) by simp
  then obtain d where d: "digit_val c = Some d" by (auto simp: digit_val_def digit_code_def)
  show ?case
  proof (cases "s = []")
    case True
    with d show ?thesis by simp
  next
    case False
    with Cons.IH [of "10 * acc + d" True] Cons.prems d show ?thesis by auto
  qed
qed

lemma read_digits_show_nat: "read_digits 0 b (show_nat n) = Some n"
proof (induction n arbitrary: b rule: show_nat.induct)
  case (1 n)
  show ?case
  proof (cases "n < 10")
    case True
    then show ?thesis by (simp add: show_nat.simps [of n] digit_val_digit_char)
  next
    case False
    with 1 have IH: "read_digits 0 b (show_nat (n div 10)) = Some (n div 10)" by simp
    obtain v where v: "read_digits 0 b (show_nat (n div 10)) = Some v"
        "\<And>t. read_digits 0 b (show_nat (n div 10) @ t) = read_digits v True t"
      using read_digits_append [of "show_nat (n div 10)" 0 b] show_nat_digits show_nat_nonempty by blast
    with IH have "v = n div 10" by simp
    with v False show ?thesis by (simp add: show_nat.simps [of n] digit_val_digit_char)
  qed
qed

lemma strip_no_space: "(\<And>c. c \<in> set s \<Longrightarrow> \<not> is_space c) \<Longrightarrow> strip s = s"
proof -
  assume ns: "\<And>c. c \<in> set s \<Longrightarrow> \<not> is_space c"
  have id: "dropWhile is_space t = t" if "set t \<subseteq> set s" for t
    using that ns by (cases t) auto
  show ?thesis using id [of s] id [of "rev s"] by (simp add: strip_def)
qed

lemma set_show_int: "set (show_int n) \<subseteq> insert CHR ''-'' (Collect digit_code)"
  using show_nat_digits by (auto simp: show_int_def)

lemma int_of_text_show_int: "int_of_text (show_int n) = Some n"
proof -
  have ns: "\<not> is_space c" if "c \<in> set (show_int n)" for c
    using that set_show_int [of n] by (auto simp: is_space_def digit_code_def)
  have st: "strip (show_int n) = show_int n" by (rule strip_no_space) (rule ns)
  show ?thesis
  proof (cases "n < 0")
    case True
    then show ?thesis using st by (simp add: int_of_text_def show_int_def read_digits_show_nat)
  next
    case False
    obtain c cs where cs: "show_nat (nat n) = c # cs" using show_nat_nonempty by (cases "show_nat (nat n)") auto
    then have "digit_code c" using show_nat_digits [of c "nat n"] by simp
    then have "c \<noteq> CHR ''-''" "c \<noteq> CHR ''+''" by (auto simp: digit_code_def)
    with False st cs read_digits_show_nat [of False "nat n"] show ?thesis
      by (simp add: int_of_text_def show_int_def)
  qed
qed

lemma letters_notin_show_int: "57 < (of_char c :: nat) \<Longrightarrow> c \<notin> set (show_int n)"
  using set_show_int [of n] by (auto simp: digit_code_def)

section \<open>Slices and dictionaries\<close>

text \<open>\<open>xs[-n:]\<close> for a positive \<open>n\<close>.\<close>

definition last_n :: "nat \<Rightarrow> 'a list \<Rightarrow> 'a list" where
  "last_n n xs = drop (length xs - n) xs"

lemma last_n_short [simp]: "length xs \<le> n \<Longrightarrow> last_n n xs = xs"
  by (simp add: last_n_def)

lemma set_last_n: "set (last_n n xs) \<subseteq> set xs"
  by (simp add: last_n_def set_drop_subset)

lemma length_last_n: "length (last_n n xs) = min n (length xs)"
  by (simp add: last_n_def)

lemma last_n_map: "last_n n (map f xs) = map f (last_n n xs)"
  by (simp add: last_n_def drop_map)

text \<open>
  A dictionary is an association list in insertion order: \<open>d[k] = v\<close> is \<open>AList.update\<close>,
  which overwrites in place or appends, and \<open>d.get(k)\<close> is \<open>map_of d k\<close>.
\<close>

lemma sum_list_update_dict:
  fixes f :: "'v \<Rightarrow> int"
  assumes "distinct (map fst d)"
  shows "(\<Sum>v\<leftarrow>map snd (AList.update k v d). f v) =
         (\<Sum>v\<leftarrow>map snd d. f v) + f v - (case map_of d k of None \<Rightarrow> 0 | Some u \<Rightarrow> f u)"
  using assms
proof (induction d)
  case Nil
  then show ?case by simp
next
  case (Cons p d)
  then show ?case by (cases p) (auto split: option.splits)
qed

lemma update_dict_values:
  "v' \<in> set (map snd (AList.update k v d)) \<Longrightarrow> v' = v \<or> v' \<in> set (map snd d)"
  by (induction d) (auto split: if_splits)

lemma sum_list_filter_split:
  fixes f :: "'a \<Rightarrow> int"
  shows "(\<Sum>x\<leftarrow>xs. f x) = (\<Sum>x\<leftarrow>filter P xs. f x) + (\<Sum>x\<leftarrow>filter (\<lambda>x. \<not> P x) xs. f x)"
  by (induction xs) auto

lemma sum_list_filter_le:
  fixes f :: "'a \<Rightarrow> int"
  assumes "\<And>x. x \<in> set xs \<Longrightarrow> 0 \<le> f x"
  shows "(\<Sum>x\<leftarrow>filter P xs. f x) \<le> (\<Sum>x\<leftarrow>xs. f x)"
  using assms by (induction xs) (auto simp: add_increasing)

lemma sum_list_nonneg_int:
  fixes f :: "'a \<Rightarrow> int"
  assumes "\<And>x. x \<in> set xs \<Longrightarrow> 0 \<le> f x"
  shows "0 \<le> (\<Sum>x\<leftarrow>xs. f x)"
  using assms by (intro sum_list_nonneg) auto

end
