(* ===== verification/PyNum.thy ===== *)
theory PyNum
  imports Complex_Main "HOL-Library.Log_Nat" Prelude
begin

text \<open>
  Python's two inexact number types. A \<open>float\<close> is an IEEE 754 binary64 number and a
  \<open>Decimal\<close> of the default context has 28 significant digits; both round every operation
  to nearest, ties to even. One rounding function \<open>rnd B p emin\<close> on rationals (base,
  digits, least exponent) gives both. It computes, so concrete values evaluate, and it is
  monotone, which is what the properties of the priced components rest on. The two zeros of
  a float are one value here: the program never divides by zero or prints one.
\<close>

section \<open>Rounding a rational to a given precision\<close>

definition round_half_even :: "rat \<Rightarrow> int" where
  "round_half_even x =
     (let f = \<lfloor>x\<rfloor>; d = x - of_int f in
      if d < 1 / 2 then f else if 1 / 2 < d then f + 1 else if even f then f else f + 1)"

text \<open>The number of base-\<open>B\<close> digits of a positive integer.\<close>

function ilen :: "int \<Rightarrow> int \<Rightarrow> int" where
  "ilen B n = (if n \<le> 0 \<or> B \<le> 1 then 0 else 1 + ilen B (n div B))"
  by pat_completeness auto
termination
  by (relation "measure (\<lambda>(B, n). nat n)") (auto intro: int_div_less_self)

declare ilen.simps [simp del]

lemma ilen_floorlog: "ilen (int B) n = int (floorlog B (nat n))"
proof (induction "int B" n rule: ilen.induct)
  case (1 n)
  show ?case
  proof (cases "n \<le> 0 \<or> int B \<le> 1")
    case True
    then show ?thesis by (auto simp: ilen.simps [of "int B" n] compute_floorlog [of B "nat n"])
  next
    case False
    then have "nat n div B = nat (n div int B)" by (simp add: nat_div_distrib)
    with False 1 show ?thesis
      by (simp add: ilen.simps [of "int B" n] compute_floorlog [of B "nat n"])
  qed
qed

text \<open>The exponent \<open>e\<close> with \<open>B powi e \<le> x < B powi (e + 1)\<close>, for positive \<open>x\<close>.\<close>

definition ilog :: "nat \<Rightarrow> rat \<Rightarrow> int" where
  "ilog B x =
     (if 1 \<le> x then ilen (int B) \<lfloor>x\<rfloor> - 1 else - ilen (int B) (\<lceil>1 / x\<rceil> - 1))"

text \<open>Powers of the base, computed by squaring on integers.\<close>

function ipow :: "int \<Rightarrow> int \<Rightarrow> int" where
  "ipow b n = (if n \<le> 0 then 1
     else let h = ipow b (n div 2) in if even n then h * h else b * (h * h))"
  by pat_completeness auto
termination
  by (relation "measure (\<lambda>(b, n). nat n)") auto

declare ipow.simps [simp del]

lemma ipow_power: "ipow b n = b ^ nat n"
proof (induction b n rule: ipow.induct)
  case (1 b n)
  show ?case
  proof (cases "n \<le> 0")
    case True
    then show ?thesis by (simp add: ipow.simps [of b n])
  next
    case False
    then have h: "nat n = (if even n then 2 * nat (n div 2) else Suc (2 * nat (n div 2)))"
      by (auto elim!: evenE oddE simp: nat_mult_distrib nat_add_distrib)
    show ?thesis
      using False 1 by (simp add: ipow.simps [of b n] Let_def h power_mult power2_eq_square power_mult_distrib)
  qed
qed

definition bpow :: "nat \<Rightarrow> int \<Rightarrow> rat" where
  "bpow B e = of_nat B powi e"

lemma bpow_code [code]:
  "bpow B e = (if 0 \<le> e then of_int (ipow (int B) e) else 1 / of_int (ipow (int B) (- e)))"
  by (simp add: bpow_def power_int_def ipow_power divide_inverse power_inverse)

definition grid_exp :: "nat \<Rightarrow> int \<Rightarrow> rat \<Rightarrow> int" where
  "grid_exp B emin x = max (ilog B \<bar>x\<bar>) emin"

definition rnd :: "nat \<Rightarrow> nat \<Rightarrow> int \<Rightarrow> rat \<Rightarrow> rat" where
  "rnd B p emin x =
     (if x = 0 then 0
      else let q = bpow B (grid_exp B emin x - int p + 1)
           in of_int (round_half_even (x / q)) * q)"

lemma round_half_even_bounds:
  "x - 1 / 2 \<le> of_int (round_half_even x)" "of_int (round_half_even x) \<le> x + 1 / 2"
  unfolding round_half_even_def Let_def by (auto; linarith)+

lemma round_half_even_of_int [simp]: "round_half_even (of_int n) = n"
  by (simp add: round_half_even_def)

lemma round_half_even_mono: "x \<le> y \<Longrightarrow> round_half_even x \<le> round_half_even y"
proof -
  assume le: "x \<le> y"
  then have f: "\<lfloor>x\<rfloor> \<le> \<lfloor>y\<rfloor>" by (rule floor_mono)
  have up: "round_half_even x \<le> \<lfloor>x\<rfloor> + 1" and dn: "\<lfloor>y\<rfloor> \<le> round_half_even y"
    by (auto simp: round_half_even_def Let_def)
  show ?thesis
  proof (cases "\<lfloor>x\<rfloor> = \<lfloor>y\<rfloor>")
    case True
    with le show ?thesis by (auto simp: round_half_even_def Let_def)
  next
    case False
    with f have "\<lfloor>x\<rfloor> + 1 \<le> \<lfloor>y\<rfloor>" by simp
    with up dn show ?thesis by linarith
  qed
qed

lemma ilog_bounds:
  assumes B: "1 < B" and x: "0 < x"
  shows "(of_nat B :: rat) powi ilog B x \<le> x" and "x < of_nat B powi (ilog B x + 1)"
proof -
  let ?b = "of_nat B :: rat"
  have b: "1 < ?b" using B by simp
  have "?b powi ilog B x \<le> x \<and> x < ?b powi (ilog B x + 1)"
  proof (cases "1 \<le> x")
    case True
    let ?n = "nat \<lfloor>x\<rfloor>" and ?k = "floorlog B (nat \<lfloor>x\<rfloor>)"
    have n: "0 < ?n" "of_nat ?n \<le> x" "x < of_nat ?n + 1" using True by auto linarith+
    have fl: "B ^ (?k - 1) \<le> ?n" "?n < B ^ ?k" using floorlog_bounds [OF n(1) B] by auto
    have k: "0 < ?k" using n(1) B by (simp add: floorlog_def)
    have "?b powi ilog B x = of_nat (B ^ (?k - 1))"
      using True k by (simp add: ilog_def ilen_floorlog power_int_def nat_diff_distrib)
    also have "\<dots> \<le> of_nat ?n" using fl(1) by (simp only: of_nat_le_iff)
    finally have lo: "?b powi ilog B x \<le> x" using n(2) by linarith
    have "x < of_nat (?n + 1)" using n(3) by simp
    also have "\<dots> \<le> of_nat (B ^ ?k)" using fl(2) by (simp only: of_nat_le_iff)
    also have "\<dots> = ?b powi (ilog B x + 1)" using True by (simp add: ilog_def ilen_floorlog power_int_def)
    finally show ?thesis using lo by simp
  next
    case False
    let ?m = "\<lceil>1 / x\<rceil>"
    have inv: "1 < 1 / x" using False x by simp
    then have m: "1 < ?m" by (simp add: less_ceiling_iff)
    let ?n = "nat (?m - 1)" and ?k = "floorlog B (nat (\<lceil>1 / x\<rceil> - 1))"
    have n: "0 < ?n" using m by simp
    have nn: "(of_nat ?n :: rat) = of_int (?m - 1)"
      using m by (metis diff_ge_0_iff_ge int_nat_eq less_imp_le of_int_of_nat_eq)
    have fl: "B ^ (?k - 1) \<le> ?n" "?n < B ^ ?k" using floorlog_bounds [OF n B] by auto
    have k: "0 < ?k" using n B by (simp add: floorlog_def)
    have e: "ilog B x = - int ?k" using False by (simp add: ilog_def ilen_floorlog)
    have "1 / x \<le> of_int ?m" by (rule le_of_int_ceiling)
    also have "of_int ?m = (of_nat ?n + 1 :: rat)" using nn by simp
    also have "\<dots> = of_nat (?n + 1)" by simp
    also have "\<dots> \<le> of_nat (B ^ ?k)" using fl(2) by (simp only: of_nat_le_iff)
    finally have "1 / x \<le> ?b ^ ?k" by simp
    then have lo: "?b powi ilog B x \<le> x"
      using x b by (simp add: e power_int_minus field_simps)
    have "of_nat (B ^ (?k - 1)) \<le> (of_nat ?n :: rat)" using fl(1) by (simp only: of_nat_le_iff)
    also have "(of_nat ?n :: rat) < 1 / x" using nn ceiling_correct [of "1 / x"] by simp
    finally have "?b ^ (?k - 1) < 1 / x" by simp
    then have "x < 1 / ?b ^ (?k - 1)" using x b by (simp add: field_simps)
    also have "1 / ?b ^ (?k - 1) = ?b powi (ilog B x + 1)"
      using k b by (simp add: e power_int_def nat_diff_distrib divide_inverse of_nat_diff power_inverse)
    finally show ?thesis using lo by simp
  qed
  then show "?b powi ilog B x \<le> x" and "x < ?b powi (ilog B x + 1)" by auto
qed


text \<open>
  Monotonicity. Two positive numbers with the same grid are rounded to multiples of one
  step; if the grids differ, a power of the base that both roundings respect lies between.
\<close>

lemma rnd_0 [simp]: "rnd B p emin 0 = 0"
  by (simp add: rnd_def)

lemma rnd_minus: "1 < B \<Longrightarrow> rnd B p emin x = of_int (round_half_even (x / of_nat B powi (grid_exp B emin x - int p + 1)))
    * of_nat B powi (grid_exp B emin x - int p + 1)"
  using round_half_even_of_int [of 0] by (simp add: rnd_def Let_def bpow_def del: round_half_even_of_int)

lemma rnd_nonneg: "1 < B \<Longrightarrow> 0 \<le> x \<Longrightarrow> 0 \<le> rnd B p emin x"
proof -
  assume B: "1 < B" and x: "0 \<le> x"
  let ?q = "(of_nat B :: rat) powi (grid_exp B emin x - int p + 1)"
  have q: "0 < ?q" using B by (simp add: zero_less_power_int)
  have "round_half_even 0 \<le> round_half_even (x / ?q)"
    using x q by (intro round_half_even_mono) simp
  then have "0 \<le> round_half_even (x / ?q)" by (simp add: round_half_even_def)
  then show ?thesis using B q by (simp add: rnd_minus)
qed

lemma rnd_upper_grid:
  assumes B: "1 < B" and x: "0 < x"
  shows "rnd B p emin x \<le> of_nat B powi (grid_exp B emin x + 1)"
proof -
  let ?b = "of_nat B :: rat" and ?e = "grid_exp B emin x"
  let ?q = "?b powi (?e - int p + 1)"
  have b: "1 < ?b" using B by simp
  have q: "0 < ?q" using b by (simp add: zero_less_power_int)
  have pw: "?b powi (?e + 1) = ?b ^ p * ?q"
    using b by (simp add: power_int_add power_int_diff)
  have "x < ?b powi (ilog B x + 1)" using ilog_bounds(2) [OF B x] .
  also have "\<dots> \<le> ?b powi (?e + 1)"
    using b x by (intro power_int_increasing) (auto simp: grid_exp_def)
  finally have "x \<le> of_int (int (B ^ p)) * ?q" using pw by simp
  then have "x / ?q \<le> of_int (int (B ^ p))" by (simp only: pos_divide_le_eq [OF q])
  then have "round_half_even (x / ?q) \<le> round_half_even (of_int (int (B ^ p)))"
    by (rule round_half_even_mono)
  then have le: "round_half_even (x / ?q) \<le> int (B ^ p)" by (simp only: round_half_even_of_int)
  then have "(of_int (round_half_even (x / ?q)) :: rat) \<le> of_int (int (B ^ p))" by (simp only: of_int_le_iff)
  then have "of_int (round_half_even (x / ?q)) * ?q \<le> ?b ^ p * ?q"
    using q by (intro mult_right_mono) auto
  then show ?thesis using B pw by (simp add: rnd_minus)
qed

lemma rnd_lower_grid:
  assumes B: "1 < B" and p: "0 < p" and x: "0 < x" and e: "emin < grid_exp B emin x"
  shows "of_nat B powi (grid_exp B emin x) \<le> rnd B p emin x"
proof -
  let ?b = "of_nat B :: rat" and ?e = "grid_exp B emin x"
  let ?q = "?b powi (?e - int p + 1)"
  have b: "1 < ?b" using B by simp
  have q: "0 < ?q" using b by (simp add: zero_less_power_int)
  have il: "?e = ilog B x" using e x by (simp add: grid_exp_def)
  have pw: "?b powi ?e = ?b ^ (p - 1) * ?q"
  proof -
    have "?b ^ (p - 1) * ?q = ?b powi (int (p - 1) + (?e - int p + 1))"
      using b by (subst power_int_add) auto
    also have "int (p - 1) + (?e - int p + 1) = ?e" using p by (simp add: of_nat_diff)
    finally show ?thesis by simp
  qed
  have "?b powi ?e \<le> x" using ilog_bounds(1) [OF B x] il by simp
  then have "of_int (int (B ^ (p - 1))) * ?q \<le> x" using pw by simp
  then have "of_int (int (B ^ (p - 1))) \<le> x / ?q" by (simp only: pos_le_divide_eq [OF q])
  then have "round_half_even (of_int (int (B ^ (p - 1)))) \<le> round_half_even (x / ?q)"
    by (rule round_half_even_mono)
  then have "int (B ^ (p - 1)) \<le> round_half_even (x / ?q)" by (simp only: round_half_even_of_int)
  then have "(of_int (int (B ^ (p - 1))) :: rat) \<le> of_int (round_half_even (x / ?q))"
    by (simp only: of_int_le_iff)
  then have "?b ^ (p - 1) * ?q \<le> of_int (round_half_even (x / ?q)) * ?q"
    using q by (intro mult_right_mono) auto
  then show ?thesis using B pw by (simp add: rnd_minus)
qed

lemma rnd_mono_pos:
  assumes B: "1 < B" and p: "0 < p" and x: "0 < x" and xy: "x \<le> y"
  shows "rnd B p emin x \<le> rnd B p emin y"
proof -
  let ?b = "of_nat B :: rat"
  have b: "1 < ?b" using B by simp
  have y: "0 < y" using x xy by simp
  have "ilog B x \<le> ilog B y"
  proof (rule ccontr)
    assume "\<not> ilog B x \<le> ilog B y"
    then have "?b powi (ilog B y + 1) \<le> ?b powi ilog B x"
      using b by (intro power_int_increasing) auto
    with ilog_bounds(1) [OF B x] ilog_bounds(2) [OF B y] xy show False by linarith
  qed
  then have ge: "grid_exp B emin x \<le> grid_exp B emin y" using x y by (simp add: grid_exp_def)
  show ?thesis
  proof (cases "grid_exp B emin x = grid_exp B emin y")
    case True
    let ?q = "?b powi (grid_exp B emin y - int p + 1)"
    have q: "0 < ?q" using b by (simp add: zero_less_power_int)
    have "round_half_even (x / ?q) \<le> round_half_even (y / ?q)"
      using xy q by (intro round_half_even_mono) (simp add: divide_right_mono)
    then show ?thesis using B q True by (simp add: rnd_minus mult_right_mono)
  next
    case False
    with ge have lt: "grid_exp B emin x + 1 \<le> grid_exp B emin y" by simp
    have "emin \<le> grid_exp B emin x" by (simp add: grid_exp_def)
    with lt have e: "emin < grid_exp B emin y" by simp
    have "rnd B p emin x \<le> ?b powi (grid_exp B emin x + 1)" by (rule rnd_upper_grid [OF B x])
    also have "\<dots> \<le> ?b powi (grid_exp B emin y)" using b lt by (intro power_int_increasing) auto
    also have "\<dots> \<le> rnd B p emin y" by (rule rnd_lower_grid [OF B p y e])
    finally show ?thesis .
  qed
qed

lemma rnd_mono_nonneg:
  assumes "1 < B" and "0 < p" and "0 \<le> x" and "x \<le> y"
  shows "rnd B p emin x \<le> rnd B p emin y"
proof (cases "x = 0")
  case True
  with assms show ?thesis by (simp add: rnd_nonneg)
next
  case False
  with assms show ?thesis by (intro rnd_mono_pos) auto
qed

section \<open>Floats\<close>

datatype pyfloat = Fin rat | PosInf | NegInf | NaN

text \<open>
  The float nearest to a rational: the value of a literal, of an int converted to float and
  of an int divided by an int. Where Python raises OverflowError on such a conversion
  (beyond \<open>2 ^ 1024\<close>) the model has an infinity.
\<close>

definition r64 :: "rat \<Rightarrow> rat" where
  "r64 x = rnd 2 53 (- 1022) x"

definition float_limit :: rat where
  "float_limit = 2 ^ 1024"

lemma float_limit_code [code]: "float_limit = 179769313486231590772930519078902473361797697894230657273430081157732675805500963132708477322407536021120113879871393357658789768814416622492847430639474124377767893424865485276302219601246094119453082952085005768838150682342462881473913110540827237163350510684586298239947245938479716304835356329624224137216"
  by (simp add: float_limit_def)

definition to_float :: "rat \<Rightarrow> pyfloat" where
  "to_float x = (let r = r64 x in
     if float_limit \<le> r then PosInf else if r \<le> - float_limit then NegInf else Fin r)"

definition float_of_int :: "int \<Rightarrow> pyfloat" where
  "float_of_int n = to_float (of_int n)"

definition int_truediv :: "int \<Rightarrow> int \<Rightarrow> pyfloat" where
  "int_truediv a b = to_float (of_int a / of_int b)"

fun fneg :: "pyfloat \<Rightarrow> pyfloat" where
  "fneg (Fin x) = Fin (- x)"
| "fneg PosInf = NegInf"
| "fneg NegInf = PosInf"
| "fneg NaN = NaN"

fun fadd :: "pyfloat \<Rightarrow> pyfloat \<Rightarrow> pyfloat" where
  "fadd (Fin x) (Fin y) = to_float (x + y)"
| "fadd NaN _ = NaN"
| "fadd _ NaN = NaN"
| "fadd PosInf NegInf = NaN"
| "fadd NegInf PosInf = NaN"
| "fadd PosInf _ = PosInf"
| "fadd NegInf _ = NegInf"
| "fadd (Fin _) y = y"

definition fsub :: "pyfloat \<Rightarrow> pyfloat \<Rightarrow> pyfloat" where
  "fsub a b = fadd a (fneg b)"

definition inf_of_sign :: "bool \<Rightarrow> pyfloat" where
  "inf_of_sign negative = (if negative then NegInf else PosInf)"

fun fmul :: "pyfloat \<Rightarrow> pyfloat \<Rightarrow> pyfloat" where
  "fmul (Fin x) (Fin y) = to_float (x * y)"
| "fmul NaN _ = NaN"
| "fmul _ NaN = NaN"
| "fmul (Fin x) PosInf = (if x = 0 then NaN else inf_of_sign (x < 0))"
| "fmul (Fin x) NegInf = (if x = 0 then NaN else inf_of_sign (0 < x))"
| "fmul PosInf (Fin y) = (if y = 0 then NaN else inf_of_sign (y < 0))"
| "fmul NegInf (Fin y) = (if y = 0 then NaN else inf_of_sign (0 < y))"
| "fmul PosInf PosInf = PosInf"
| "fmul NegInf NegInf = PosInf"
| "fmul _ _ = NegInf"

text \<open>Division; \<open>None\<close> is ZeroDivisionError.\<close>

fun fdiv :: "pyfloat \<Rightarrow> pyfloat \<Rightarrow> pyfloat option" where
  "fdiv a (Fin y) =
     (if y = 0 then None
      else case a of
        Fin x \<Rightarrow> Some (to_float (x / y))
      | PosInf \<Rightarrow> Some (inf_of_sign (y < 0))
      | NegInf \<Rightarrow> Some (inf_of_sign (0 < y))
      | NaN \<Rightarrow> Some NaN)"
| "fdiv (Fin x) PosInf = Some (Fin 0)"
| "fdiv (Fin x) NegInf = Some (Fin 0)"
| "fdiv _ _ = Some NaN"

text \<open>Comparisons; every one with a NaN is false.\<close>

fun flt :: "pyfloat \<Rightarrow> pyfloat \<Rightarrow> bool" where
  "flt (Fin x) (Fin y) = (x < y)"
| "flt NaN _ = False"
| "flt _ NaN = False"
| "flt PosInf _ = False"
| "flt _ NegInf = False"
| "flt _ _ = True"

fun fle :: "pyfloat \<Rightarrow> pyfloat \<Rightarrow> bool" where
  "fle (Fin x) (Fin y) = (x \<le> y)"
| "fle NaN _ = False"
| "fle _ NaN = False"
| "fle NegInf _ = True"
| "fle _ PosInf = True"
| "fle _ _ = False"

definition fisfinite :: "pyfloat \<Rightarrow> bool" where
  "fisfinite a = (case a of Fin _ \<Rightarrow> True | _ \<Rightarrow> False)"

definition fabs :: "pyfloat \<Rightarrow> pyfloat" where
  "fabs a = (case a of Fin x \<Rightarrow> Fin \<bar>x\<bar> | NegInf \<Rightarrow> PosInf | _ \<Rightarrow> a)"

text \<open>\<open>max(a, b)\<close> and \<open>min(a, b)\<close> keep the first argument unless the second beats it.\<close>

definition fmax :: "pyfloat \<Rightarrow> pyfloat \<Rightarrow> pyfloat" where
  "fmax a b = (if flt a b then b else a)"

definition fmin :: "pyfloat \<Rightarrow> pyfloat \<Rightarrow> pyfloat" where
  "fmin a b = (if flt b a then b else a)"

text \<open>\<open>int(x)\<close> and \<open>math.ceil(x)\<close>; \<open>None\<close> is the error raised on a NaN or an infinity.\<close>

definition trunc_rat :: "rat \<Rightarrow> int" where
  "trunc_rat x = (if 0 \<le> x then \<lfloor>x\<rfloor> else \<lceil>x\<rceil>)"

definition int_of_float :: "pyfloat \<Rightarrow> int option" where
  "int_of_float a = (case a of Fin x \<Rightarrow> Some (trunc_rat x) | _ \<Rightarrow> None)"

definition ceil_of_float :: "pyfloat \<Rightarrow> int option" where
  "ceil_of_float a = (case a of Fin x \<Rightarrow> Some \<lceil>x\<rceil> | _ \<Rightarrow> None)"

text \<open>
  \<open>sum\<close> of a list of floats. Python 3.11 folds from the left; 3.12 and later carry a
  compensation term that is added at the end when it is nonzero and finite. The program
  runs on both, so the version is an argument.
\<close>

fun sum_plain :: "pyfloat \<Rightarrow> pyfloat list \<Rightarrow> pyfloat" where
  "sum_plain acc [] = acc"
| "sum_plain acc (x # xs) = sum_plain (fadd acc x) xs"

fun sum_compensated :: "pyfloat \<Rightarrow> pyfloat \<Rightarrow> pyfloat list \<Rightarrow> pyfloat" where
  "sum_compensated acc c [] = (if fisfinite c \<and> c \<noteq> Fin 0 then fadd acc c else acc)"
| "sum_compensated acc c (x # xs) =
     (let t = fadd acc x;
          d = (if fle (fabs x) (fabs acc) then fadd (fsub acc t) x else fadd (fsub x t) acc)
      in sum_compensated t (fadd c d) xs)"

definition py_sum :: "bool \<Rightarrow> pyfloat list \<Rightarrow> pyfloat" where
  "py_sum compensated xs =
     (if compensated then sum_compensated (Fin 0) (Fin 0) xs else sum_plain (Fin 0) xs)"

subsection \<open>Order and signs\<close>

lemma r64_mono: "0 \<le> x \<Longrightarrow> x \<le> y \<Longrightarrow> r64 x \<le> r64 y"
  by (simp add: r64_def rnd_mono_nonneg)

lemma r64_nonneg: "0 \<le> x \<Longrightarrow> 0 \<le> r64 x"
  by (simp add: r64_def rnd_nonneg)

lemma r64_0 [simp]: "r64 0 = 0"
  by (simp add: r64_def)

text \<open>A float that is a number at least 0, or positive infinity.\<close>

definition fnonneg :: "pyfloat \<Rightarrow> bool" where
  "fnonneg a \<longleftrightarrow> fle (Fin 0) a"

lemma fnonneg_simps [simp]:
  "fnonneg (Fin x) \<longleftrightarrow> 0 \<le> x" "fnonneg PosInf" "\<not> fnonneg NegInf" "\<not> fnonneg NaN"
  by (simp_all add: fnonneg_def)

lemma to_float_nonneg: "0 \<le> x \<Longrightarrow> to_float x = (if float_limit \<le> r64 x then PosInf else Fin (r64 x))"
  using r64_nonneg [of x] by (auto simp: to_float_def Let_def float_limit_def)

lemma fnonneg_to_float: "0 \<le> x \<Longrightarrow> fnonneg (to_float x)"
  by (simp add: to_float_nonneg r64_nonneg)

lemma to_float_mono: "0 \<le> x \<Longrightarrow> x \<le> y \<Longrightarrow> fle (to_float x) (to_float y)"
  using r64_mono [of x y] by (auto simp: to_float_nonneg)

lemma fnonneg_fmul: "fnonneg (Fin x) \<Longrightarrow> fnonneg (Fin y) \<Longrightarrow> fnonneg (fmul (Fin x) (Fin y))"
  by (simp add: fnonneg_to_float)

lemma fle_trans: "fle a b \<Longrightarrow> fle b c \<Longrightarrow> fle a c"
  by (cases a; cases b; cases c) auto

lemma fle_refl [simp]: "fle a a \<longleftrightarrow> a \<noteq> NaN"
  by (cases a) auto

text \<open>Rounding is odd, so it is monotone on all numbers.\<close>

lemma round_half_even_minus: "round_half_even (- x) = - round_half_even x"
proof (cases "x = of_int \<lfloor>x\<rfloor>")
  case True
  then show ?thesis by (metis of_int_minus round_half_even_of_int)
next
  case False
  then have fl: "\<lfloor>- x\<rfloor> = - \<lfloor>x\<rfloor> - 1" by (simp add: floor_minus ceiling_altdef)
  have d: "- x - of_int (- \<lfloor>x\<rfloor> - 1) = 1 - (x - of_int \<lfloor>x\<rfloor>)" by simp
  show ?thesis
    unfolding round_half_even_def Let_def fl d by (auto simp: not_less)
qed

lemma r64_minus: "r64 (- x) = - r64 x"
  by (simp add: r64_def rnd_def grid_exp_def Let_def round_half_even_minus)

lemma r64_mono_all: "x \<le> y \<Longrightarrow> r64 x \<le> r64 y"
proof (cases "0 \<le> x")
  case True
  then show "x \<le> y \<Longrightarrow> r64 x \<le> r64 y" by (rule r64_mono)
next
  case neg: False
  show "x \<le> y \<Longrightarrow> r64 x \<le> r64 y"
  proof (cases "0 \<le> y")
    case True
    have "0 \<le> r64 (- x)" using neg by (intro r64_nonneg) simp
    with r64_nonneg [OF True] show ?thesis by (simp add: r64_minus)
  next
    case False
    assume "x \<le> y"
    then have "r64 (- y) \<le> r64 (- x)" using False by (intro r64_mono) auto
    then show ?thesis by (simp add: r64_minus)
  qed
qed

lemma to_float_mono_all: "x \<le> y \<Longrightarrow> fle (to_float x) (to_float y)"
  using r64_mono_all [of x y] by (auto simp: to_float_def Let_def float_limit_def)

lemma to_float_not_NaN [simp]: "to_float x \<noteq> NaN"
  by (simp add: to_float_def Let_def)

lemma fle_PosInf [simp]: "fle a PosInf \<longleftrightarrow> a \<noteq> NaN"
  by (cases a) auto

lemma fle_NegInf [simp]: "fle NegInf a \<longleftrightarrow> a \<noteq> NaN"
  by (cases a) auto

text \<open>Sums and products respect the order of their first operand.\<close>

lemma fadd_mono: "fle a b \<Longrightarrow> fle (fadd a (Fin c)) (fadd b (Fin c))"
  by (cases a; cases b) (auto intro: to_float_mono_all)

lemma fmul_mono:
  assumes "fnonneg a" and "fle a b" and "0 < c"
  shows "fle (fmul a (Fin c)) (fmul b (Fin c))"
  using assms by (cases a; cases b) (auto simp: inf_of_sign_def intro!: to_float_mono_all mult_right_mono)

lemma fmul_nonneg: "fnonneg a \<Longrightarrow> 0 < c \<Longrightarrow> fnonneg (fmul a (Fin c))"
  by (cases a) (auto simp: inf_of_sign_def fnonneg_to_float)

lemma ceil_of_float_mono:
  "fle a b \<Longrightarrow> ceil_of_float a = Some m \<Longrightarrow> ceil_of_float b = Some n \<Longrightarrow> m \<le> n"
  by (cases a; cases b) (auto simp: ceil_of_float_def intro: ceiling_mono)

subsection \<open>Accuracy\<close>

lemma rnd_error:
  assumes "1 < B"
  shows "\<bar>rnd B p emin x - x\<bar> \<le> of_nat B powi (grid_exp B emin x - int p + 1) / 2"
proof -
  let ?q = "(of_nat B :: rat) powi (grid_exp B emin x - int p + 1)"
  have q: "0 < ?q" using assms by (simp add: zero_less_power_int)
  have "\<bar>of_int (round_half_even (x / ?q)) - x / ?q\<bar> \<le> 1 / 2"
    using round_half_even_bounds [of "x / ?q"] by linarith
  then have "\<bar>of_int (round_half_even (x / ?q)) - x / ?q\<bar> * ?q \<le> 1 / 2 * ?q"
    using q by (intro mult_right_mono) auto
  moreover have "(of_int (round_half_even (x / ?q)) - x / ?q) * ?q = rnd B p emin x - x"
    using q assms by (simp add: rnd_minus left_diff_distrib)
  moreover have "\<bar>of_int (round_half_even (x / ?q)) - x / ?q\<bar> * ?q =
      \<bar>(of_int (round_half_even (x / ?q)) - x / ?q) * ?q\<bar>"
    using q by (simp only: abs_mult abs_of_pos)
  ultimately show ?thesis by simp
qed

lemma ilog_less_imp: "1 < B \<Longrightarrow> 0 < x \<Longrightarrow> x < of_nat B powi n \<Longrightarrow> ilog B x < n"
proof (rule ccontr)
  assume B: "1 < B" and x: "0 < x" and less: "x < of_nat B powi n" and "\<not> ilog B x < n"
  then have "(of_nat B :: rat) powi n \<le> of_nat B powi ilog B x" by (intro power_int_increasing) auto
  with ilog_bounds(1) [OF B x] less show False by linarith
qed

lemma r64_error_below:
  assumes "0 < x" and "x < 2 powi n" and "- 1021 \<le> n"
  shows "\<bar>r64 x - x\<bar> \<le> 2 powi (n - 54)"
proof -
  have "ilog 2 x < n" using ilog_less_imp [of 2 x n] assms by simp
  then have g: "grid_exp 2 (- 1022) x \<le> n - 1" using assms by (simp add: grid_exp_def)
  have "\<bar>r64 x - x\<bar> \<le> of_nat 2 powi (grid_exp 2 (- 1022) x - int 53 + 1) / 2"
    unfolding r64_def by (rule rnd_error) simp
  also have "(of_nat 2 :: rat) powi (grid_exp 2 (- 1022) x - int 53 + 1) \<le> 2 powi (n - 53)"
    using g by (simp add: power_int_increasing)
  finally have "\<bar>r64 x - x\<bar> \<le> 2 powi (n - 53) / 2" by simp
  also have "(2::rat) powi (n - 53) / 2 = 2 powi (n - 54)"
    using power_int_add [of "2 :: rat" "n - 54" 1] by simp
  finally show ?thesis .
qed

text \<open>Integers of at most 53 bits are floats.\<close>

lemma r64_of_int:
  assumes "0 \<le> n" and "n < 2 ^ 53"
  shows "r64 (of_int n) = of_int n"
proof (cases "n = 0")
  case False
  then have n: "0 < (of_int n :: rat)" using assms by simp
  have lt: "(of_int n :: rat) < 2 powi 53"
  proof -
    have "(of_int n :: rat) < of_int (2 ^ 53)" using assms(2) by (simp only: of_int_less_iff)
    then show ?thesis by (simp add: power_int_def)
  qed
  let ?g = "grid_exp 2 (- 1022) (of_int n)"
  have "ilog 2 (of_int n) < 53" using ilog_less_imp [of 2 "of_int n" 53] n lt by simp
  then have g: "?g \<le> 52" using n by (simp add: grid_exp_def)
  have ex: "\<exists>j. g - 52 = - int j" if "g \<le> 52" for g :: int
    using that by (intro exI [of _ "nat (52 - g)"]) simp
  obtain j where e: "?g - 52 = - int j" using ex [OF g] by blast
  have "(of_int n :: rat) / of_nat 2 powi (- int j) = of_int n * 2 powi int j"
    unfolding power_int_minus by (simp add: divide_inverse)
  then have "(of_int n :: rat) / of_nat 2 powi (- int j) = of_int (n * 2 ^ j)" by simp
  then have "(of_int (round_half_even ((of_int n :: rat) / of_nat 2 powi (- int j))) :: rat) =
      of_int n / of_nat 2 powi (- int j)"
    by (simp only: round_half_even_of_int)
  moreover have "?g - int 53 + 1 = - int j" using e by simp
  ultimately show ?thesis by (simp add: r64_def rnd_minus zero_less_power_int)
qed simp

text \<open>
  The same rounding on the numerator and the denominator, in integers. It is what evaluations of
  the development run: every quotient is computed once.
\<close>

definition round_step :: "int \<Rightarrow> int \<Rightarrow> int \<Rightarrow> int" where
  "round_step q r b = (if 2 * r < b then q else if b < 2 * r then q + 1 else if even q then q else q + 1)"

definition div_round :: "int \<Rightarrow> int \<Rightarrow> int" where
  "div_round a b = round_step (a div b) (a mod b) b"

definition qlog :: "nat \<Rightarrow> int \<Rightarrow> int \<Rightarrow> int" where
  "qlog B a b = (if b \<le> a then ilen (int B) (a div b) - 1 else - ilen (int B) ((b - 1) div a))"

lemma round_half_even_quotient:
  assumes "0 < b"
  shows "round_half_even (of_int a / of_int b) = div_round a b"
proof -
  have b: "(0 :: rat) < of_int b" using assms by simp
  have f: "\<lfloor>(of_int a :: rat) / of_int b\<rfloor> = a div b" by (rule floor_divide_of_int_eq)
  have "of_int a = (of_int b :: rat) * of_int (a div b) + of_int (a mod b)"
    by (metis mult_div_mod_eq of_int_add of_int_mult)
  then have d: "(of_int a :: rat) / of_int b - of_int (a div b) = of_int (a mod b) / of_int b"
    using b by (simp add: field_simps)
  have lt: "(of_int (a mod b) / of_int b < (1 / 2 :: rat)) = (2 * (a mod b) < b)"
  proof -
    have "(of_int (a mod b) / of_int b < (1 / 2 :: rat)) = (of_int (2 * (a mod b)) < (of_int b :: rat))"
      using b by (simp add: pos_divide_less_eq mult.commute)
    then show ?thesis by (simp only: of_int_less_iff)
  qed
  have gt: "((1 / 2 :: rat) < of_int (a mod b) / of_int b) = (b < 2 * (a mod b))"
  proof -
    have "((1 / 2 :: rat) < of_int (a mod b) / of_int b) = ((of_int b :: rat) < of_int (2 * (a mod b)))"
      using b by (simp add: pos_less_divide_eq mult.commute)
    then show ?thesis by (simp only: of_int_less_iff)
  qed
  show ?thesis by (simp only: round_half_even_def Let_def f d lt gt div_round_def round_step_def)
qed

lemma ilog_quotient:
  assumes "0 < a" "0 < b"
  shows "ilog B (of_int a / of_int b) = qlog B a b"
proof -
  have ab: "(0 :: rat) < of_int a" "(0 :: rat) < of_int b" using assms by simp_all
  have "(1 \<le> (of_int a :: rat) / of_int b) = (b \<le> a)" using ab by (simp add: le_divide_eq)
  moreover have "\<lceil>1 / ((of_int a :: rat) / of_int b)\<rceil> - 1 = (b - 1) div a"
  proof -
    have "\<lceil>1 / ((of_int a :: rat) / of_int b)\<rceil> = \<lceil>(of_int b :: rat) / of_int a\<rceil>" by simp
    also have "\<dots> = - ((- b) div a)" by (rule ceiling_divide_eq_div)
    also have "\<dots> = (b - 1) div a + 1"
    proof -
      have "- b = a * (- ((b - 1) div a) - 1) + (a - (b - 1) mod a - 1)"
        using mult_div_mod_eq [of a "b - 1"] by (simp add: algebra_simps)
      then have "(- b) div a = - ((b - 1) div a) - 1"
        by (rule int_div_pos_eq) (use pos_mod_bound [of a "b - 1"] pos_mod_sign [of a "b - 1"] assms in linarith)+
      then show ?thesis by simp
    qed
    finally show ?thesis by simp
  qed
  ultimately show ?thesis by (simp add: ilog_def qlog_def floor_divide_of_int_eq)
qed

definition rnd_quotient :: "nat \<Rightarrow> int \<Rightarrow> int \<Rightarrow> int \<Rightarrow> rat" where
  "rnd_quotient B e a b =
     (if 0 \<le> e then of_int (div_round a (b * ipow (int B) e)) * of_int (ipow (int B) e)
      else of_int (div_round (a * ipow (int B) (- e)) b) / of_int (ipow (int B) (- e)))"

lemma rnd_code [code]:
  "rnd B p emin x =
     (if 1 < B then (case quotient_of x of (a, b) \<Rightarrow> if a = 0 then 0 else rnd_quotient B (max (qlog B \<bar>a\<bar> b) emin - int p + 1) a b)
      else if x = 0 then 0
      else of_int (round_half_even (x / bpow B (grid_exp B emin x - int p + 1))) * bpow B (grid_exp B emin x - int p + 1))"
proof (cases "1 < B \<and> x \<noteq> 0")
  case True
  obtain a b where q: "quotient_of x = (a, b)" by (cases "quotient_of x")
  have x: "x = of_int a / of_int b" and b: "0 < b"
    using quotient_of_div [OF q] quotient_of_denom_pos [OF q] by simp_all
  have a: "a \<noteq> 0" using True x by auto
  have "\<bar>x\<bar> = of_int \<bar>a\<bar> / of_int b" using b by (simp add: x abs_divide)
  then have g: "grid_exp B emin x = max (qlog B \<bar>a\<bar> b) emin"
    using a b ilog_quotient [of "\<bar>a\<bar>" b B] by (simp add: grid_exp_def)
  let ?e = "max (qlog B \<bar>a\<bar> b) emin - int p + 1"
  have "rnd B p emin x = rnd_quotient B ?e a b"
  proof (cases "0 \<le> ?e")
    case e: True
    have p: "0 < ipow (int B) ?e" using True by (simp add: ipow_power)
    have "x / bpow B ?e = of_int a / of_int (b * ipow (int B) ?e)" using e by (simp add: x bpow_code)
    then have "round_half_even (x / bpow B ?e) = div_round a (b * ipow (int B) ?e)"
      using round_half_even_quotient [of "b * ipow (int B) ?e" a] b p by simp
    then show ?thesis using True e by (simp add: rnd_def g rnd_quotient_def bpow_code)
  next
    case e: False
    have p: "0 < ipow (int B) (- ?e)" using True by (simp add: ipow_power)
    have "x / bpow B ?e = of_int (a * ipow (int B) (- ?e)) / of_int b" using e by (simp add: x bpow_code)
    then have "round_half_even (x / bpow B ?e) = div_round (a * ipow (int B) (- ?e)) b"
      using round_half_even_quotient [OF b, of "a * ipow (int B) (- ?e)"] by simp
    then show ?thesis using True e by (simp add: rnd_def g rnd_quotient_def bpow_code)
  qed
  then show ?thesis using True a by (simp add: q)
next
  case False
  then show ?thesis by (auto simp: rnd_def Let_def)
qed

text \<open>
  Numbers of moderate size round without a comparison with the largest float; as a code
  equation this lets the evaluations of the development skip numbers of 1024 bits.
\<close>

lemma r64_moderate:
  assumes "\<bar>x\<bar> \<le> 4503599627370496"
  shows "\<bar>r64 x\<bar> \<le> 4503599627370496"
proof -
  have b: "r64 4503599627370496 = 4503599627370496" using r64_of_int [of 4503599627370496] by simp
  have "r64 x \<le> r64 4503599627370496" "r64 (- 4503599627370496) \<le> r64 x"
    using assms by (intro r64_mono_all; simp)+
  then show ?thesis unfolding r64_minus b by simp
qed

lemma to_float_code [code]:
  "to_float x =
     (if \<bar>x\<bar> \<le> 4503599627370496 then Fin (r64 x)
      else (let r = r64 x in if float_limit \<le> r then PosInf else if r \<le> - float_limit then NegInf else Fin r))"
proof -
  have "(4503599627370496 :: rat) < float_limit" by (simp add: float_limit_def)
  then have "\<not> float_limit \<le> r64 x" "\<not> r64 x \<le> - float_limit" if "\<bar>x\<bar> \<le> 4503599627370496"
    using r64_moderate [OF that] by linarith+
  then show ?thesis by (simp add: to_float_def Let_def)
qed

text \<open>
  The ceiling of a float division of integers is the ceiling of the quotient, as long as the
  divisor is below \<open>2 ^ 40\<close> and the quotient at most 127: rounding neither reaches nor
  passes an integer.
\<close>

lemma ceil_truediv:
  assumes b: "0 < b" "b \<le> 2 ^ 40" and a: "0 \<le> a" "a \<le> 127 * b"
  shows "ceil_of_float (int_truediv a b) = Some \<lceil>(of_int a :: rat) / of_int b\<rceil>"
proof -
  let ?x = "(of_int a :: rat) / of_int b" and ?k = "\<lceil>(of_int a :: rat) / of_int b\<rceil>"
  have bp: "(0 :: rat) < of_int b" using b by simp
  have x0: "0 \<le> ?x" using a bp by simp
  have "(of_int a :: rat) \<le> of_int (127 * b)" using a by (simp only: of_int_le_iff)
  then have x127: "?x \<le> 127" using bp by (simp add: pos_divide_le_eq)
  have k: "0 \<le> ?k" "?k \<le> 127"
    using x0 x127 ceiling_mono [of 0 ?x] by (simp_all add: ceiling_le_iff)
  have "r64 ?x \<le> r64 (of_int ?k)" using x0 by (intro r64_mono) auto
  also have "\<dots> = of_int ?k" using k by (intro r64_of_int) auto
  finally have up: "r64 ?x \<le> of_int ?k" .
  have dn: "of_int (?k - 1) < r64 ?x"
  proof (cases "?x = 0")
    case True
    show ?thesis unfolding True by simp
  next
    case False
    with x0 have xp: "0 < ?x" by (metis order_le_less)
    have "(?k - 1) * b < a"
    proof -
      have "of_int (?k - 1) < ?x" by linarith
      then have "of_int ((?k - 1) * b) < (of_int a :: rat)" using bp by (simp add: pos_less_divide_eq)
      then show ?thesis by (simp only: of_int_less_iff)
    qed
    then have "(?k - 1) * b + 1 \<le> a" by simp
    then have "of_int ((?k - 1) * b + 1) \<le> (of_int a :: rat)" by (simp only: of_int_le_iff)
    then have "(of_int (?k - 1) + 1 / of_int b) * of_int b \<le> (of_int a :: rat)"
      using bp by (simp add: distrib_right)
    then have "of_int (?k - 1) + 1 / of_int b \<le> ?x" by (simp only: pos_le_divide_eq [OF bp])
    moreover have "1 / 2 ^ 40 \<le> 1 / (of_int b :: rat)"
    proof -
      have "(of_int b :: rat) \<le> of_int (2 ^ 40)" using b by (simp only: of_int_le_iff)
      then show ?thesis using bp by (intro divide_left_mono) auto
    qed
    moreover have "\<bar>r64 ?x - ?x\<bar> \<le> 2 powi (7 - 54)"
      using xp x127 by (intro r64_error_below) (auto simp: power_int_def)
    moreover have "(2 :: rat) powi (7 - 54) < 1 / 2 ^ 40"
    proof -
      have "(7 - 54 :: int) = - 47" by simp
      then have "(2 :: rat) powi (7 - 54) = inverse (2 ^ 47)" by (simp only: power_int_minus power_int_numeral)
      then show ?thesis by simp
    qed
    ultimately show ?thesis by linarith
  qed
  have "\<lceil>r64 ?x\<rceil> = ?k" using up dn by (intro ceiling_unique) auto
  moreover have "\<not> float_limit \<le> r64 ?x"
    using up k by (simp add: float_limit_def) linarith
  ultimately show ?thesis using x0 by (simp add: int_truediv_def to_float_nonneg ceil_of_float_def)
qed

section \<open>Decimals\<close>

text \<open>
  A \<open>Decimal\<close>: a finite number, or an infinity or NaN, which the program only ever tests
  for. Operations round to the 28 digits of the default context.
\<close>

datatype decimal = DFin rat | DNonFinite

definition d28 :: "rat \<Rightarrow> rat" where
  "d28 x = rnd 10 28 (- 999999) x"

lemma d28_mono: "0 \<le> x \<Longrightarrow> x \<le> y \<Longrightarrow> d28 x \<le> d28 y"
  by (simp add: d28_def rnd_mono_nonneg)

lemma d28_nonneg: "0 \<le> x \<Longrightarrow> 0 \<le> d28 x"
  by (simp add: d28_def rnd_nonneg)

end
