(* ===== verification/PyJson.thy ===== *)
theory PyJson
  imports PyNum
begin

text \<open>
  The values \<open>json.loads\<close> gives and the Python operations the program applies to them
  (\<open>dict.get\<close>, truth tests, \<open>is True\<close>, \<open>isinstance\<close>, \<open>int\<close>, \<open>str\<close>), the files that hold
  them, and what the program reads from outside: the clock and the text forms of times.
\<close>

section \<open>Values\<close>

datatype json =
    JNull
  | JBool bool
  | JInt int
  | JFloat pyfloat
  | JStr string
  | JArr "json list"
  | JObj "(string \<times> json) list"

text \<open>\<open>d.get(k)\<close> of an object, with \<open>JNull\<close> where the key is missing.\<close>

definition jget :: "string \<Rightarrow> (string \<times> json) list \<Rightarrow> json" where
  "jget k d = (case map_of d k of None \<Rightarrow> JNull | Some v \<Rightarrow> v)"

definition jget_default :: "string \<Rightarrow> json \<Rightarrow> (string \<times> json) list \<Rightarrow> json" where
  "jget_default k v d = (case map_of d k of None \<Rightarrow> v | Some u \<Rightarrow> u)"

definition jhas :: "string \<Rightarrow> (string \<times> json) list \<Rightarrow> bool" where
  "jhas k d \<longleftrightarrow> map_of d k \<noteq> None"

fun truthy :: "json \<Rightarrow> bool" where
  "truthy JNull = False"
| "truthy (JBool b) = b"
| "truthy (JInt n) = (n \<noteq> 0)"
| "truthy (JFloat x) = (x \<noteq> Fin 0)"
| "truthy (JStr s) = (s \<noteq> [])"
| "truthy (JArr xs) = (xs \<noteq> [])"
| "truthy (JObj d) = (d \<noteq> [])"

text \<open>\<open>a or b\<close>.\<close>

definition por :: "json \<Rightarrow> json \<Rightarrow> json" where
  "por a b = (if truthy a then a else b)"

fun as_str :: "json \<Rightarrow> string option" where
  "as_str (JStr s) = Some s"
| "as_str _ = None"

fun as_obj :: "json \<Rightarrow> (string \<times> json) list option" where
  "as_obj (JObj d) = Some d"
| "as_obj _ = None"

fun as_arr :: "json \<Rightarrow> json list option" where
  "as_arr (JArr xs) = Some xs"
| "as_arr _ = None"

fun is_bool :: "json \<Rightarrow> bool" where
  "is_bool (JBool _) = True"
| "is_bool _ = False"

text \<open>\<open>int(v)\<close>; \<open>None\<close> stands for the TypeError, ValueError or OverflowError it raises.\<close>

fun int_of_json :: "json \<Rightarrow> int option" where
  "int_of_json (JInt n) = Some n"
| "int_of_json (JBool b) = Some (if b then 1 else 0)"
| "int_of_json (JFloat x) = int_of_float x"
| "int_of_json (JStr s) = int_of_text s"
| "int_of_json _ = None"

text \<open>
  \<open>v == w\<close> of Python between a JSON value and an int: True and 1 are equal, and so are 1.0
  and 1.
\<close>

fun json_eq_int :: "json \<Rightarrow> int \<Rightarrow> bool" where
  "json_eq_int (JInt m) n = (m = n)"
| "json_eq_int (JBool b) n = ((if b then 1 else 0) = n)"
| "json_eq_int (JFloat (Fin x)) n = (x = of_int n)"
| "json_eq_int _ n = False"

text \<open>
  \<open>str(v)\<close>. The text of a float, a list or an object is Python's \<open>repr\<close>; no decision of
  the program depends on which text it is, so the printer of those is the argument \<open>rp\<close>.
\<close>

fun str_of_json :: "(json \<Rightarrow> string) \<Rightarrow> json \<Rightarrow> string" where
  "str_of_json rp (JStr s) = s"
| "str_of_json rp (JInt n) = show_int n"
| "str_of_json rp (JBool b) = (if b then ''True'' else ''False'')"
| "str_of_json rp JNull = ''None''"
| "str_of_json rp v = rp v"

definition jopt_str :: "string option \<Rightarrow> json" where
  "jopt_str x = (case x of None \<Rightarrow> JNull | Some s \<Rightarrow> JStr s)"

fun option_all :: "('a \<Rightarrow> 'b option) \<Rightarrow> 'a list \<Rightarrow> 'b list option" where
  "option_all f [] = Some []"
| "option_all f (x # xs) =
     (case f x of
        None \<Rightarrow> None
      | Some y \<Rightarrow> (case option_all f xs of None \<Rightarrow> None | Some ys \<Rightarrow> Some (y # ys)))"

lemma option_all_map: "(\<And>x. x \<in> set xs \<Longrightarrow> f (g x) = Some (h x)) \<Longrightarrow> option_all f (map g xs) = Some (map h xs)"
  by (induction xs) auto

lemma option_all_length: "option_all f xs = Some ys \<Longrightarrow> length ys = length xs"
  by (induction xs arbitrary: ys) (auto split: option.splits)

lemma option_all_set: "option_all f xs = Some ys \<Longrightarrow> y \<in> set ys \<Longrightarrow> \<exists>x \<in> set xs. f x = Some y"
  by (induction xs arbitrary: ys) (auto split: option.splits)

lemma jget_Nil [simp]: "jget k [] = JNull"
  by (simp add: jget_def)

lemma jget_Cons [simp]: "jget k ((k', v) # d) = (if k' = k then v else jget k d)"
  by (simp add: jget_def)

lemma jget_default_Nil [simp]: "jget_default k v [] = v"
  by (simp add: jget_default_def)

lemma jget_default_Cons [simp]:
  "jget_default k v ((k', u) # d) = (if k' = k then u else jget_default k v d)"
  by (simp add: jget_default_def)

lemma jhas_Nil [simp]: "\<not> jhas k []"
  by (simp add: jhas_def)

lemma jhas_Cons [simp]: "jhas k ((k', v) # d) \<longleftrightarrow> k' = k \<or> jhas k d"
  by (simp add: jhas_def)

section \<open>Files, clock and text forms of times\<close>

text \<open>
  A state file: not there, holding a JSON value, or unreadable with the text of the
  exception that reading or parsing it raises.
\<close>

datatype json_file = Absent | Holds json | Unreadable string

text \<open>
  One reading of the clock: the instant in microseconds since the epoch, and the texts
  \<open>datetime.now(timezone.utc).date().isoformat()\<close> and \<open>\<dots>.isoformat()\<close> at that instant.
\<close>

record clock =
  now_us :: int
  utc_date :: string
  iso_now :: string

text \<open>A time of the program: with a UTC offset (then an instant) or naive.\<close>

datatype stamp = Aware int | Naive int

text \<open>
  What the program uses to turn times into text and back. \<open>from_iso\<close> is
  \<open>datetime.fromisoformat\<close> (\<open>None\<close>: ValueError) and \<open>to_iso\<close> is \<open>isoformat\<close> of an instant in
  UTC; \<open>pd_dump\<close> and \<open>pd_parse\<close> are what pydantic does to an \<open>Optional[datetime]\<close> field in
  \<open>model_dump(mode="json")\<close> and \<open>model_validate\<close> (\<open>Inl\<close>: the text of the ValidationError);
  \<open>type_error\<close> is the text of the exception that a field of the wrong type raises;
  \<open>repr_text\<close> prints floats and containers.
\<close>

record codec =
  from_iso :: "string \<Rightarrow> stamp option"
  to_iso :: "int \<Rightarrow> string"
  pd_dump :: "int \<Rightarrow> string"
  pd_parse :: "json \<Rightarrow> string + int"
  type_error :: "string \<Rightarrow> json \<Rightarrow> string"
  repr_text :: "json \<Rightarrow> string"

text \<open>The documented round trips of these codecs.\<close>

definition codec_ok :: "codec \<Rightarrow> bool" where
  "codec_ok c \<longleftrightarrow>
     (\<forall>t. pd_parse c (JStr (pd_dump c t)) = Inr t) \<and>
     (\<forall>t. from_iso c (to_iso c t) = Some (Aware t) \<and> CHR ''Z'' \<notin> set (to_iso c t))"

text \<open>\<open>text.replace("Z", "+00:00")\<close>.\<close>

definition z_to_offset :: "string \<Rightarrow> string" where
  "z_to_offset s = concat (map (\<lambda>c. if c = CHR ''Z'' then ''+00:00'' else [c]) s)"

lemma z_to_offset_id: "CHR ''Z'' \<notin> set s \<Longrightarrow> z_to_offset s = s"
  by (induction s) (auto simp: z_to_offset_def)

text \<open>A codec that meets the round trips: decimal microseconds.\<close>

definition plain_codec :: codec where
  "plain_codec = \<lparr>from_iso = (\<lambda>s. map_option Aware (int_of_text s)), to_iso = show_int, pd_dump = show_int,
     pd_parse = (\<lambda>v. case v of JStr s \<Rightarrow> (case int_of_text s of Some t \<Rightarrow> Inr t | None \<Rightarrow> Inl ''bad datetime'')
                  | _ \<Rightarrow> Inl ''bad datetime''),
     type_error = (\<lambda>f v. ''bad '' @ f), repr_text = (\<lambda>_. ''?'')\<rparr>"

lemma codec_ok_plain_codec: "codec_ok plain_codec"
  by (simp add: codec_ok_def plain_codec_def int_of_text_show_int letters_notin_show_int)

text \<open>A clock reading for concrete runs.\<close>

definition noon :: clock where
  "noon = \<lparr>now_us = 43200000000, utc_date = ''2026-07-26'', iso_now = ''2026-07-26T12:00:00+00:00''\<rparr>"

text \<open>A codec for concrete runs that knows three times.\<close>

definition label_codec :: codec where
  "label_codec = plain_codec\<lparr>from_iso := map_of
     [(''PAST'', Aware 100), (''RECENT'', Aware 43199000000), (''FUTURE'', Aware 90000000000)]\<rparr>"

end
