(* ===== verification/Latch.thy ===== *)
theory Latch
  imports PyJson
begin

text \<open>
  The interface the firewall relies on for its two durable stores, the risk state and the
  exposure book: a store is healthy or latched unhealthy, and a preflight \<open>verify\<close> proves
  the sink writable without ever writing over a file whose contents are unknown.
\<close>

locale latched_store =
  fixes healthy :: "'s \<Rightarrow> bool"
    and file_of :: "'s \<Rightarrow> json_file"
    and verify :: "'s \<Rightarrow> bool \<times> 's"
  assumes verify_unhealthy: "\<not> healthy s \<Longrightarrow> verify s = (False, s)"
    and verify_passes: "healthy s \<Longrightarrow> verify s = (True, s') \<Longrightarrow> healthy s'"
    and verify_latches: "healthy s \<Longrightarrow> verify s = (False, s') \<Longrightarrow> \<not> healthy s' \<and> file_of s' = file_of s"
begin

lemma verify_True: "verify s = (True, s') \<Longrightarrow> healthy s \<and> healthy s'"
  by (cases "healthy s") (auto dest: verify_unhealthy verify_passes)

lemma verify_False: "verify s = (False, s') \<Longrightarrow> \<not> healthy s' \<and> file_of s' = file_of s"
  using verify_unhealthy verify_latches by (cases "healthy s") auto

text \<open>A preflight that failed once fails for good, and changes nothing any more.\<close>

lemma verify_stays_False: "verify s = (False, s') \<Longrightarrow> verify s' = (False, s')"
  using verify_False verify_unhealthy by blast

lemma funpow_verify_False:
  assumes "verify s = (False, s')"
  shows "((\<lambda>t. snd (verify t)) ^^ n) s' = s'"
  using verify_stays_False [OF assms] by (induction n) auto

end

text \<open>
  What the submit path relies on in the exposure book: an accepted reservation adds its full
  notional before transport, and neither the broker's acceptance nor an unknown outcome
  changes what is reserved.
\<close>

locale reservation_book =
  fixes total :: "'b \<Rightarrow> int"
    and order_count :: "'b \<Rightarrow> nat"
    and reserve :: "int \<Rightarrow> int \<Rightarrow> 'b \<Rightarrow> bool \<times> 'b"
    and confirm :: "'b \<Rightarrow> bool \<times> 'b"
    and unknown :: "'b \<Rightarrow> bool \<times> 'b"
  assumes reserve_adds: "reserve n p b = (True, b') \<Longrightarrow> total b' = total b + n * p \<and> order_count b' = order_count b + 1"
    and reserve_refused: "reserve n p b = (False, b') \<Longrightarrow> total b \<le> total b' \<and> order_count b \<le> order_count b'"
    and reserve_sane: "reserve n p b = (True, b') \<Longrightarrow> 1 \<le> n \<and> 1 \<le> p \<and> p \<le> 99"
    and confirm_keeps: "total (snd (confirm b)) = total b \<and> order_count (snd (confirm b)) = order_count b"
    and unknown_keeps: "total (snd (unknown b)) = total b \<and> order_count (snd (unknown b)) = order_count b"
begin

text \<open>Whatever the broker answers after the reservation, the notional stays in the book.\<close>

lemma submission_keeps_notional:
  assumes "reserve n p b = (True, b1)" and "b2 \<in> {snd (confirm b1), snd (unknown b1)}"
  shows "total b2 = total b + n * p" and "order_count b2 = order_count b + 1"
  using reserve_adds [OF assms(1)] assms(2) confirm_keeps unknown_keeps by auto

text \<open>So a total under a cap with the notional added stays under it through the submission.\<close>

lemma submission_under_cap:
  assumes "reserve n p b = (True, b1)" and "b2 \<in> {snd (confirm b1), snd (unknown b1)}"
    and "total b + p * n \<le> cap"
  shows "total b2 \<le> cap"
  using submission_keeps_notional(1) [OF assms(1,2)] assms(3) by (simp add: mult.commute)

end

end
