(* ===== verification/RiskState.thy ===== *)
theory RiskState
  imports PyJson Latch
begin

text \<open>
  \<open>core/state.py\<close>: the process state with the persisted risk controls, that is the account
  mode, the kill switch, the emergency stop, the UTC daily loss and the identities of the
  settlements already counted, together with the file that holds them. The file and the
  outcomes the operating system will give to the coming writes are part of the state; each
  operation takes one clock reading.
\<close>

section \<open>State\<close>

datatype account_mode = OFF | READ_ONLY | AUTONOMOUS_LIVE_CAPPED | EMERGENCY_STOP

record kill_switch_state =
  ks_active :: bool
  ks_triggered_at :: "int option"
  ks_reason :: "string option"

record emergency_stop_state =
  es_active :: bool
  es_triggered_at :: "int option"
  es_cancel_open_orders :: bool

text \<open>
  \<open>ds_writes\<close> scripts the coming file writes: \<open>None\<close> a write that succeeds, \<open>Some e\<close> one
  that raises with the text \<open>e\<close> and leaves the file alone (the rename is the last step);
  after the script every write succeeds.
\<close>

record dummy_state =
  ds_mode :: account_mode
  ds_kill_switch :: kill_switch_state
  ds_emergency_stop :: emergency_stop_state
  ds_kalshi_connected :: bool
  ds_balance_cents :: int
  ds_persist_enabled :: bool
  ds_daily_loss_cents :: int
  ds_daily_loss_date :: string
  ds_settlements :: "string set"
  ds_window_start :: int
  ds_persistence_error :: "string option"
  ds_file :: json_file
  ds_writes :: "string option list"

definition inactive_kill_switch :: kill_switch_state where
  "inactive_kill_switch = \<lparr>ks_active = False, ks_triggered_at = None, ks_reason = None\<rparr>"

definition inactive_emergency_stop :: emergency_stop_state where
  "inactive_emergency_stop = \<lparr>es_active = False, es_triggered_at = None, es_cancel_open_orders = True\<rparr>"

section \<open>Writing the file\<close>

definition dump_kill_switch :: "codec \<Rightarrow> kill_switch_state \<Rightarrow> json" where
  "dump_kill_switch c k = JObj
     [(''active'', JBool (ks_active k)),
      (''triggered_at'', case ks_triggered_at k of None \<Rightarrow> JNull | Some t \<Rightarrow> JStr (pd_dump c t)),
      (''reason'', jopt_str (ks_reason k))]"

definition dump_emergency_stop :: "codec \<Rightarrow> emergency_stop_state \<Rightarrow> json" where
  "dump_emergency_stop c e = JObj
     [(''active'', JBool (es_active e)),
      (''triggered_at'', case es_triggered_at e of None \<Rightarrow> JNull | Some t \<Rightarrow> JStr (pd_dump c t)),
      (''cancel_open_orders'', JBool (es_cancel_open_orders e))]"

definition risk_payload :: "codec \<Rightarrow> clock \<Rightarrow> dummy_state \<Rightarrow> json" where
  "risk_payload c clk s = JObj
     [(''utc_date'', JStr (ds_daily_loss_date s)),
      (''daily_loss_cents'', JInt (ds_daily_loss_cents s)),
      (''processed_settlement_ids'',
         JArr (map JStr (last_n 10000 (sorted_list_of_set (ds_settlements s))))),
      (''kill_switch'', dump_kill_switch c (ds_kill_switch s)),
      (''emergency_stop'', dump_emergency_stop c (ds_emergency_stop s)),
      (''schema_version'', JInt 2),
      (''updated_at'', JStr (iso_now clk))]"

definition persist_risk_state :: "codec \<Rightarrow> clock \<Rightarrow> dummy_state \<Rightarrow> bool \<times> dummy_state" where
  "persist_risk_state c clk s =
     (if \<not> ds_persist_enabled s then (True, s)
      else case ds_writes s of
        Some e # ws \<Rightarrow> (False, s\<lparr>ds_persistence_error := Some e, ds_writes := ws\<rparr>)
      | ws \<Rightarrow> (True, s\<lparr>ds_file := Holds (risk_payload c clk s), ds_persistence_error := None, ds_writes := tl ws\<rparr>))"

definition rollover_if_needed :: "codec \<Rightarrow> clock \<Rightarrow> dummy_state \<Rightarrow> dummy_state" where
  "rollover_if_needed c clk s =
     (if ds_persistence_error s \<noteq> None then s
      else if ds_daily_loss_date s = utc_date clk then s
      else snd (persist_risk_state c clk
        (s\<lparr>ds_daily_loss_date := utc_date clk, ds_daily_loss_cents := 0, ds_settlements := {},
           ds_window_start := now_us clk\<rparr>)))"

text \<open>The property \<open>daily_loss_cents\<close> rolls the day over before it reads.\<close>

definition daily_loss_cents :: "codec \<Rightarrow> clock \<Rightarrow> dummy_state \<Rightarrow> int \<times> dummy_state" where
  "daily_loss_cents c clk s =
     (let s' = rollover_if_needed c clk s in (ds_daily_loss_cents s', s'))"

definition set_daily_loss_cents :: "int \<Rightarrow> dummy_state \<Rightarrow> dummy_state" where
  "set_daily_loss_cents v s = s\<lparr>ds_daily_loss_cents := max 0 v\<rparr>"

section \<open>Reading the file\<close>

definition activate_safety_controls_fail_closed :: "clock \<Rightarrow> string \<Rightarrow> dummy_state \<Rightarrow> dummy_state" where
  "activate_safety_controls_fail_closed clk reason s = s
     \<lparr>ds_kill_switch := \<lparr>ks_active = True, ks_triggered_at = Some (now_us clk), ks_reason = Some reason\<rparr>,
      ds_emergency_stop := \<lparr>es_active = True, es_triggered_at = Some (now_us clk), es_cancel_open_orders = True\<rparr>\<rparr>"

definition validate_opt_datetime :: "codec \<Rightarrow> json \<Rightarrow> string + int option" where
  "validate_opt_datetime c v =
     (case v of
        JNull \<Rightarrow> Inr None
      | _ \<Rightarrow> (case pd_parse c v of Inl e \<Rightarrow> Inl e | Inr t \<Rightarrow> Inr (Some t)))"

definition validate_opt_str :: "codec \<Rightarrow> string \<Rightarrow> json \<Rightarrow> string + string option" where
  "validate_opt_str c field v =
     (case v of JNull \<Rightarrow> Inr None | JStr s \<Rightarrow> Inr (Some s) | _ \<Rightarrow> Inl (type_error c field v))"

definition parse_kill_switch :: "codec \<Rightarrow> json \<Rightarrow> string + kill_switch_state" where
  "parse_kill_switch c v =
     (case v of
        JObj d \<Rightarrow>
          (case jget ''active'' d of
             JBool b \<Rightarrow>
               (case validate_opt_datetime c (jget ''triggered_at'' d) of
                  Inl e \<Rightarrow> Inl e
                | Inr t \<Rightarrow>
                    (case validate_opt_str c ''reason'' (jget ''reason'' d) of
                       Inl e \<Rightarrow> Inl e
                     | Inr r \<Rightarrow>
                         if b \<and> (t = None \<or> strip (case r of None \<Rightarrow> [] | Some x \<Rightarrow> x) = [])
                         then Inl ''ValueError: active kill_switch requires triggered_at and reason''
                         else Inr \<lparr>ks_active = b, ks_triggered_at = t, ks_reason = r\<rparr>))
           | _ \<Rightarrow> Inl ''ValueError: kill_switch must contain an exact boolean active field'')
      | _ \<Rightarrow> Inl ''ValueError: kill_switch must contain an exact boolean active field'')"

definition parse_emergency_stop :: "codec \<Rightarrow> json \<Rightarrow> string + emergency_stop_state" where
  "parse_emergency_stop c v =
     (case v of
        JObj d \<Rightarrow>
          (case jget ''active'' d of
             JBool b \<Rightarrow>
               (case jget_default ''cancel_open_orders'' (JBool True) d of
                  JBool cancel \<Rightarrow>
                    (case validate_opt_datetime c (jget ''triggered_at'' d) of
                       Inl e \<Rightarrow> Inl e
                     | Inr t \<Rightarrow>
                         if b \<and> t = None
                         then Inl ''ValueError: active emergency_stop requires triggered_at''
                         else Inr \<lparr>es_active = b, es_triggered_at = t, es_cancel_open_orders = cancel\<rparr>)
                | _ \<Rightarrow> Inl ''ValueError: emergency_stop cancel_open_orders must be boolean'')
           | _ \<Rightarrow> Inl ''ValueError: emergency_stop must contain an exact boolean active field'')
      | _ \<Rightarrow> Inl ''ValueError: emergency_stop must contain an exact boolean active field'')"

text \<open>
  The body of \<open>_load_risk_state\<close> inside its \<open>try\<close>: \<open>Inl\<close> is the exception with the state as
  the assignments before it left it, \<open>Inr\<close> the state with the flag that the file was a
  legacy one without controls.
\<close>

definition load_controls ::
  "codec \<Rightarrow> clock \<Rightarrow> (string \<times> json) list \<Rightarrow> dummy_state \<Rightarrow> (string \<times> dummy_state) + (bool \<times> dummy_state)" where
  "load_controls c clk d s =
     (if \<not> jhas ''kill_switch'' d \<or> \<not> jhas ''emergency_stop'' d
      then Inr (True, activate_safety_controls_fail_closed clk
        ''legacy risk state lacked persisted safety controls; operator review required'' s)
      else case parse_kill_switch c (jget ''kill_switch'' d) of
        Inl e \<Rightarrow> Inl (e, s)
      | Inr k \<Rightarrow>
          (let s1 = s\<lparr>ds_kill_switch := k\<rparr> in
           case parse_emergency_stop c (jget ''emergency_stop'' d) of
             Inl e \<Rightarrow> Inl (e, s1)
           | Inr es \<Rightarrow> Inr (False, s1\<lparr>ds_emergency_stop := es\<rparr>)))"

definition load_counters ::
  "codec \<Rightarrow> (string \<times> json) list \<Rightarrow> dummy_state \<Rightarrow> (string \<times> dummy_state) + dummy_state" where
  "load_counters c d s =
     (let s1 = s\<lparr>ds_daily_loss_date :=
            str_of_json (repr_text c) (por (jget ''utc_date'' d) (JStr (ds_daily_loss_date s)))\<rparr> in
      case jget_default ''daily_loss_cents'' (JInt 0) d of
        JInt n \<Rightarrow>
          if n < 0 then Inl (''ValueError: daily_loss_cents must be a non-negative integer'', s1)
          else
            (let s2 = s1\<lparr>ds_daily_loss_cents := n\<rparr> in
             case jget_default ''processed_settlement_ids'' (JArr []) d of
               JArr xs \<Rightarrow>
                 (case option_all as_str xs of
                    None \<Rightarrow> Inl (''ValueError: processed_settlement_ids must be a string list'', s2)
                  | Some ids \<Rightarrow> Inr (s2\<lparr>ds_settlements := set (last_n 10000 ids)\<rparr>))
             | _ \<Rightarrow> Inl (''ValueError: processed_settlement_ids must be a string list'', s2))
      | _ \<Rightarrow> Inl (''ValueError: daily_loss_cents must be a non-negative integer'', s1))"

definition load_failed :: "clock \<Rightarrow> string \<Rightarrow> dummy_state \<Rightarrow> bool \<times> dummy_state" where
  "load_failed clk e s =
     (False, (activate_safety_controls_fail_closed clk ''persisted risk state unreadable'' s)
        \<lparr>ds_persistence_error := Some e\<rparr>)"

definition load_risk_state :: "codec \<Rightarrow> clock \<Rightarrow> bool \<Rightarrow> dummy_state \<Rightarrow> bool \<times> dummy_state" where
  "load_risk_state c clk require_existing s =
     (case ds_file s of
        Absent \<Rightarrow>
          if require_existing
          then (False, (activate_safety_controls_fail_closed clk
                  ''persisted risk state missing during safety refresh'' s)
                \<lparr>ds_persistence_error := Some ''FileNotFoundError: persisted risk state missing during safety refresh''\<rparr>)
          else (True, s)
      | Unreadable e \<Rightarrow> load_failed clk e s
      | Holds v \<Rightarrow>
          (case v of
             JObj d \<Rightarrow>
               (case load_controls c clk d s of
                  Inl (e, s1) \<Rightarrow> load_failed clk e s1
                | Inr (migrated, s1) \<Rightarrow>
                    (case load_counters c d s1 of
                       Inl (e, s2) \<Rightarrow> load_failed clk e s2
                     | Inr s2 \<Rightarrow>
                         (let s3 = rollover_if_needed c clk (s2\<lparr>ds_persistence_error := None\<rparr>) in
                          if migrated then persist_risk_state c clk s3 else (True, s3))))
           | _ \<Rightarrow> load_failed clk ''ValueError: risk state must be a JSON object'' s))"

text \<open>\<open>DummyState.__init__\<close>.\<close>

definition init_dummy_state :: "codec \<Rightarrow> clock \<Rightarrow> bool \<Rightarrow> json_file \<Rightarrow> string option list \<Rightarrow> dummy_state" where
  "init_dummy_state c clk persist file writes =
     (let s = \<lparr>ds_mode = OFF, ds_kill_switch = inactive_kill_switch, ds_emergency_stop = inactive_emergency_stop,
               ds_kalshi_connected = False, ds_balance_cents = 0, ds_persist_enabled = persist,
               ds_daily_loss_cents = 0, ds_daily_loss_date = utc_date clk, ds_settlements = {},
               ds_window_start = now_us clk, ds_persistence_error = None, ds_file = file, ds_writes = writes\<rparr>
      in if persist then snd (load_risk_state c clk False s) else s)"

section \<open>Operations\<close>

definition verify_persistence :: "codec \<Rightarrow> clock \<Rightarrow> dummy_state \<Rightarrow> bool \<times> dummy_state" where
  "verify_persistence c clk s =
     (if ds_persistence_error s \<noteq> None then (False, s) else persist_risk_state c clk s)"

definition refresh_persisted_state :: "codec \<Rightarrow> clock \<Rightarrow> dummy_state \<Rightarrow> bool \<times> dummy_state" where
  "refresh_persisted_state c clk s =
     (if \<not> ds_persist_enabled s then (True, s) else load_risk_state c clk True s)"

definition record_realized_pnl ::
  "codec \<Rightarrow> clock \<Rightarrow> int \<Rightarrow> string option \<Rightarrow> dummy_state \<Rightarrow> bool \<times> dummy_state" where
  "record_realized_pnl c clk pnl settlement_id s =
     (if ds_persistence_error s \<noteq> None then (False, s)
      else
        (let s1 = rollover_if_needed c clk s;
             identity = (case settlement_id of None \<Rightarrow> None | Some i \<Rightarrow> if i = [] then None else Some i)
         in if (case identity of None \<Rightarrow> False | Some i \<Rightarrow> i \<in> ds_settlements s1) then (False, s1)
            else
              (let s2 = (case identity of None \<Rightarrow> s1
                           | Some i \<Rightarrow> s1\<lparr>ds_settlements := insert i (ds_settlements s1)\<rparr>);
                   s3 = (if pnl < 0 then s2\<lparr>ds_daily_loss_cents := ds_daily_loss_cents s2 + (- pnl)\<rparr> else s2)
               in persist_risk_state c clk s3)))"

definition set_mode :: "account_mode \<Rightarrow> dummy_state \<Rightarrow> dummy_state" where
  "set_mode m s = s\<lparr>ds_mode := m\<rparr>"

definition enable_kill_switch :: "codec \<Rightarrow> clock \<Rightarrow> string \<Rightarrow> dummy_state \<Rightarrow> bool \<times> dummy_state" where
  "enable_kill_switch c clk reason s =
     (let s1 = s\<lparr>ds_kill_switch := \<lparr>ks_active = True, ks_triggered_at = Some (now_us clk), ks_reason = Some reason\<rparr>\<rparr>
      in if ds_persistence_error s1 \<noteq> None then (False, s1) else persist_risk_state c clk s1)"

definition disable_kill_switch :: "codec \<Rightarrow> clock \<Rightarrow> dummy_state \<Rightarrow> bool \<times> dummy_state" where
  "disable_kill_switch c clk s =
     (if ds_persistence_error s \<noteq> None
      then (False, activate_safety_controls_fail_closed clk
              ''cannot disable kill switch while persisted state is unhealthy'' s)
      else
        (let previous = ds_kill_switch s;
             (ok, s1) = persist_risk_state c clk (s\<lparr>ds_kill_switch := inactive_kill_switch\<rparr>)
         in if ok then (True, s1)
            else (False, s1\<lparr>ds_kill_switch :=
                   if ks_active previous then previous
                   else \<lparr>ks_active = True, ks_triggered_at = Some (now_us clk),
                         ks_reason = Some ''kill-switch deactivation persistence failed''\<rparr>\<rparr>)))"

definition trigger_emergency_stop :: "codec \<Rightarrow> clock \<Rightarrow> dummy_state \<Rightarrow> bool \<times> dummy_state" where
  "trigger_emergency_stop c clk s =
     (let s1 = s\<lparr>ds_emergency_stop := \<lparr>es_active = True, es_triggered_at = Some (now_us clk), es_cancel_open_orders = True\<rparr>\<rparr>
      in if ds_persistence_error s1 \<noteq> None then (False, s1) else persist_risk_state c clk s1)"

definition clear_emergency_stop :: "codec \<Rightarrow> clock \<Rightarrow> dummy_state \<Rightarrow> bool \<times> dummy_state" where
  "clear_emergency_stop c clk s =
     (if ds_persistence_error s \<noteq> None
      then (False, activate_safety_controls_fail_closed clk
              ''cannot clear emergency stop while persisted state is unhealthy'' s)
      else
        (let previous = ds_emergency_stop s;
             (ok, s1) = persist_risk_state c clk (s\<lparr>ds_emergency_stop := inactive_emergency_stop\<rparr>)
         in if ok then (True, s1)
            else (False, s1\<lparr>ds_emergency_stop :=
                   if es_active previous then previous
                   else \<lparr>es_active = True, es_triggered_at = Some (now_us clk), es_cancel_open_orders = True\<rparr>\<rparr>)))"

section \<open>What the operations leave alone\<close>

lemma persist_risk_state_frame [frame, simp]:
  "ds_kill_switch (snd (persist_risk_state c clk s)) = ds_kill_switch s"
  "ds_emergency_stop (snd (persist_risk_state c clk s)) = ds_emergency_stop s"
  "ds_mode (snd (persist_risk_state c clk s)) = ds_mode s"
  "ds_daily_loss_cents (snd (persist_risk_state c clk s)) = ds_daily_loss_cents s"
  "ds_daily_loss_date (snd (persist_risk_state c clk s)) = ds_daily_loss_date s"
  "ds_settlements (snd (persist_risk_state c clk s)) = ds_settlements s"
  "ds_persist_enabled (snd (persist_risk_state c clk s)) = ds_persist_enabled s"
  by (auto simp: persist_risk_state_def split: list.splits option.splits)

lemma persist_risk_state_False:
  "\<not> fst (persist_risk_state c clk s) \<Longrightarrow>
     ds_persistence_error (snd (persist_risk_state c clk s)) \<noteq> None \<and>
     ds_file (snd (persist_risk_state c clk s)) = ds_file s"
  by (auto simp: persist_risk_state_def split: list.splits option.splits if_splits)

lemma persist_risk_state_True:
  "fst (persist_risk_state c clk s) \<Longrightarrow> ds_persist_enabled s \<Longrightarrow>
     ds_persistence_error (snd (persist_risk_state c clk s)) = None \<and>
     ds_file (snd (persist_risk_state c clk s)) = Holds (risk_payload c clk s)"
  by (auto simp: persist_risk_state_def split: list.splits option.splits if_splits)

lemma persist_risk_state_disabled [simp]: "\<not> ds_persist_enabled s \<Longrightarrow> persist_risk_state c clk s = (True, s)"
  by (simp add: persist_risk_state_def)

lemma rollover_frame [frame, simp]:
  "ds_kill_switch (rollover_if_needed c clk s) = ds_kill_switch s"
  "ds_emergency_stop (rollover_if_needed c clk s) = ds_emergency_stop s"
  "ds_mode (rollover_if_needed c clk s) = ds_mode s"
  "ds_persist_enabled (rollover_if_needed c clk s) = ds_persist_enabled s"
  by (simp_all add: rollover_if_needed_def)

lemma rollover_unhealthy [simp]: "ds_persistence_error s \<noteq> None \<Longrightarrow> rollover_if_needed c clk s = s"
  by (simp add: rollover_if_needed_def)

lemma rollover_same_day [simp]: "ds_daily_loss_date s = utc_date clk \<Longrightarrow> rollover_if_needed c clk s = s"
  by (simp add: rollover_if_needed_def)

lemma latched_controls [simp]:
  "ks_active (ds_kill_switch (activate_safety_controls_fail_closed clk r s))"
  "es_active (ds_emergency_stop (activate_safety_controls_fail_closed clk r s))"
  "ds_persistence_error (activate_safety_controls_fail_closed clk r s) = ds_persistence_error s"
  "ds_file (activate_safety_controls_fail_closed clk r s) = ds_file s"
  "ds_persist_enabled (activate_safety_controls_fail_closed clk r s) = ds_persist_enabled s"
  "ds_daily_loss_cents (activate_safety_controls_fail_closed clk r s) = ds_daily_loss_cents s"
  "ds_daily_loss_date (activate_safety_controls_fail_closed clk r s) = ds_daily_loss_date s"
  "ds_settlements (activate_safety_controls_fail_closed clk r s) = ds_settlements s"
  by (simp_all add: activate_safety_controls_fail_closed_def)

interpretation risk_store: latched_store
  "\<lambda>s. ds_persistence_error s = None" ds_file "verify_persistence c clk"
proof
  fix s s' :: dummy_state
  show "\<not> ds_persistence_error s = None \<Longrightarrow> verify_persistence c clk s = (False, s)"
    by (simp add: verify_persistence_def)
  show "ds_persistence_error s = None \<Longrightarrow> verify_persistence c clk s = (True, s') \<Longrightarrow> ds_persistence_error s' = None"
    by (auto simp: verify_persistence_def persist_risk_state_def split: if_splits list.splits option.splits)
  show "ds_persistence_error s = None \<Longrightarrow> verify_persistence c clk s = (False, s') \<Longrightarrow>
      ds_persistence_error s' \<noteq> None \<and> ds_file s' = ds_file s"
    using persist_risk_state_False [of c clk s] by (simp add: verify_persistence_def)
qed

section \<open>Runs of the process\<close>

text \<open>
  The calls other components make on \<open>STATE\<close>, and what happens to the file from outside
  (\<open>External\<close>: another process, the dashboard, replaces it).
\<close>

datatype risk_op =
    ReadDailyLoss clock
  | SetDailyLoss int
  | Verify clock
  | Refresh clock
  | RecordPnl clock int "string option"
  | SetMode account_mode
  | EnableKill clock string
  | DisableKill clock
  | TriggerStop clock
  | ClearStop clock
  | External json_file

fun risk_step :: "codec \<Rightarrow> risk_op \<Rightarrow> dummy_state \<Rightarrow> bool \<times> dummy_state" where
  "risk_step c (ReadDailyLoss clk) s = (True, snd (daily_loss_cents c clk s))"
| "risk_step c (SetDailyLoss n) s = (True, set_daily_loss_cents n s)"
| "risk_step c (Verify clk) s = verify_persistence c clk s"
| "risk_step c (Refresh clk) s = refresh_persisted_state c clk s"
| "risk_step c (RecordPnl clk p i) s = record_realized_pnl c clk p i s"
| "risk_step c (SetMode m) s = (True, set_mode m s)"
| "risk_step c (EnableKill clk r) s = enable_kill_switch c clk r s"
| "risk_step c (DisableKill clk) s = disable_kill_switch c clk s"
| "risk_step c (TriggerStop clk) s = trigger_emergency_stop c clk s"
| "risk_step c (ClearStop clk) s = clear_emergency_stop c clk s"
| "risk_step c (External f) s = (True, s\<lparr>ds_file := f\<rparr>)"

fun risk_run :: "codec \<Rightarrow> risk_op list \<Rightarrow> dummy_state \<Rightarrow> dummy_state" where
  "risk_run c [] s = s"
| "risk_run c (x # xs) s = risk_run c xs (snd (risk_step c x s))"

section \<open>Reading the file fails closed\<close>

definition controls_latched :: "dummy_state \<Rightarrow> bool" where
  "controls_latched s \<longleftrightarrow> ks_active (ds_kill_switch s) \<and> es_active (ds_emergency_stop s)"

text \<open>A file whose two controls parse, with the controls it holds.\<close>

definition file_controls :: "codec \<Rightarrow> json_file \<Rightarrow> (kill_switch_state \<times> emergency_stop_state) option" where
  "file_controls c f =
     (case f of
        Holds (JObj d) \<Rightarrow>
          if jhas ''kill_switch'' d \<and> jhas ''emergency_stop'' d
          then (case (parse_kill_switch c (jget ''kill_switch'' d), parse_emergency_stop c (jget ''emergency_stop'' d)) of
                  (Inr k, Inr e) \<Rightarrow> Some (k, e) | _ \<Rightarrow> None)
          else None
      | _ \<Rightarrow> None)"

lemma load_failed_latched [simp]:
  "fst (load_failed clk e s) = False" "controls_latched (snd (load_failed clk e s))"
  "ds_persistence_error (snd (load_failed clk e s)) = Some e" "ds_file (snd (load_failed clk e s)) = ds_file s"
  by (simp_all add: load_failed_def controls_latched_def)

lemma load_counters_frame:
  "load_counters c d s = Inr s' \<Longrightarrow>
     ds_kill_switch s' = ds_kill_switch s \<and> ds_emergency_stop s' = ds_emergency_stop s \<and>
     ds_persist_enabled s' = ds_persist_enabled s \<and> ds_file s' = ds_file s \<and>
     0 \<le> ds_daily_loss_cents s' \<and> finite (ds_settlements s')"
  "load_counters c d s = Inl (e, s') \<Longrightarrow>
     ds_kill_switch s' = ds_kill_switch s \<and> ds_emergency_stop s' = ds_emergency_stop s \<and>
     ds_persist_enabled s' = ds_persist_enabled s \<and> ds_file s' = ds_file s \<and>
     (0 \<le> ds_daily_loss_cents s \<longrightarrow> 0 \<le> ds_daily_loss_cents s') \<and> ds_settlements s' = ds_settlements s"
  by (auto simp: load_counters_def Let_def split: json.splits if_splits option.splits)

lemma load_controls_frame:
  "load_controls c clk d s = Inl (e, s') \<Longrightarrow> ds_file s' = ds_file s \<and> ds_persist_enabled s' = ds_persist_enabled s"
  "load_controls c clk d s = Inr (m, s') \<Longrightarrow> ds_file s' = ds_file s \<and> ds_persist_enabled s' = ds_persist_enabled s"
  by (auto simp: load_controls_def Let_def activate_safety_controls_fail_closed_def split: if_splits sum.splits)

lemma load_controls_Inr:
  assumes "load_controls c clk d s = Inr (m, s')"
  shows "if m then controls_latched s'
         else file_controls c (Holds (JObj d)) = Some (ds_kill_switch s', ds_emergency_stop s')"
  using assms
  by (auto simp: load_controls_def Let_def file_controls_def controls_latched_def split: if_splits sum.splits)

lemma load_risk_state_cases:
  assumes "load_risk_state c clk True s = (ok, s')"
  obtains (failed) "\<not> ok" "controls_latched s'" "ds_persistence_error s' \<noteq> None" "ds_file s' = ds_file s"
    | (migrated) "controls_latched s'" "file_controls c (ds_file s) = None"
    | (loaded) "ok" "file_controls c (ds_file s) = Some (ds_kill_switch s', ds_emergency_stop s')"
proof (cases "ds_file s")
  case Absent
  with assms failed show ?thesis by (auto simp: load_risk_state_def controls_latched_def)
next
  case (Unreadable e)
  with assms failed show ?thesis
    using load_failed_latched [of clk e s] by (simp add: load_risk_state_def)
next
  case (Holds v)
  show ?thesis
  proof (cases "as_obj v")
    case None
    with assms Holds failed show ?thesis
      using load_failed_latched [of clk "''ValueError: risk state must be a JSON object''" s]
      by (cases v) (simp_all add: load_risk_state_def)
  next
    case (Some d)
    then have v: "v = JObj d" by (cases v) auto
    show ?thesis
    proof (cases "load_controls c clk d s")
      case (Inl es1)
      obtain e s1 where es1: "es1 = (e, s1)" by (cases es1)
      with Inl have lc: "load_controls c clk d s = Inl (e, s1)" by simp
      with assms Holds v failed show ?thesis
        using load_failed_latched [of clk e s1] load_controls_frame(1) [OF lc] by (simp add: load_risk_state_def)
    next
      case (Inr ms1)
      obtain m s1 where ms1: "ms1 = (m, s1)" by (cases ms1)
      with Inr have lc: "load_controls c clk d s = Inr (m, s1)" by simp
      show ?thesis
      proof (cases "load_counters c d s1")
        case (Inl es2)
        obtain e s2 where es2: "es2 = (e, s2)" by (cases es2)
        with Inl have lk: "load_counters c d s1 = Inl (e, s2)" by simp
        with assms Holds v lc failed show ?thesis
          using load_failed_latched [of clk e s2] load_counters_frame(2) [OF lk] load_controls_frame(2) [OF lc]
          by (simp add: load_risk_state_def)
      next
        case (Inr s2)
        note fr = load_counters_frame(1) [OF Inr]
        let ?s3 = "rollover_if_needed c clk (s2\<lparr>ds_persistence_error := None\<rparr>)"
        have s': "ds_kill_switch s' = ds_kill_switch s1 \<and> ds_emergency_stop s' = ds_emergency_stop s1 \<and> (\<not> m \<longrightarrow> ok)"
          using assms Holds v lc Inr fr persist_risk_state_frame [of c clk ?s3]
          by (cases m) (auto simp: load_risk_state_def Let_def)
        show ?thesis
        proof (cases m)
          case True
          with load_controls_Inr [OF lc] s' have "controls_latched s'" by (simp add: controls_latched_def)
          moreover have "file_controls c (ds_file s) = None"
            using lc True Holds v
            by (auto simp: load_controls_def Let_def file_controls_def split: if_splits sum.splits)
          ultimately show ?thesis by (rule migrated)
        next
          case False
          with load_controls_Inr [OF lc] s' Holds v loaded show ?thesis by auto
        qed
      qed
    qed
  qed
qed

section \<open>Properties\<close>

lemma kill_switch_released_step:
  assumes act: "ks_active (ds_kill_switch s)" and rel: "\<not> ks_active (ds_kill_switch (snd (risk_step c x s)))"
  shows "(\<exists>clk. x = DisableKill clk \<and> fst (risk_step c x s)) \<or>
         (\<exists>clk k e. x = Refresh clk \<and> file_controls c (ds_file s) = Some (k, e) \<and> \<not> ks_active k)"
proof (cases x)
  case (Refresh clk)
  obtain ok s' where l: "load_risk_state c clk True s = (ok, s')" by fastforce
  from l show ?thesis
  proof (cases rule: load_risk_state_cases)
    case failed
    with act rel Refresh l show ?thesis by (auto simp: refresh_persisted_state_def controls_latched_def split: if_splits)
  next
    case migrated
    with act rel Refresh l show ?thesis by (auto simp: refresh_persisted_state_def controls_latched_def split: if_splits)
  next
    case loaded
    with act rel Refresh l show ?thesis by (auto simp: refresh_persisted_state_def split: if_splits)
  qed
next
  case (DisableKill clk)
  with act rel show ?thesis
    by (auto simp: disable_kill_switch_def Let_def inactive_kill_switch_def case_prod_unfold split: if_splits)
qed (use act rel in \<open>auto simp: daily_loss_cents_def set_daily_loss_cents_def verify_persistence_def
  record_realized_pnl_def set_mode_def enable_kill_switch_def trigger_emergency_stop_def clear_emergency_stop_def
  Let_def case_prod_unfold split: if_splits option.splits\<close>)

lemma risk_run_append: "risk_run c (xs @ ys) s = risk_run c ys (risk_run c xs s)"
  by (induction xs arbitrary: s) auto

text \<open>C14: Once the kill switch is on, whatever calls follow, it is off later only if some call
  was a deactivation that reported success, or a refresh from a file, written by another
  process, whose parsed kill switch is off. No failed write, rollover, loss record or
  unreadable file ever releases it.\<close>

theorem kill_switch_only_released_deliberately:
  assumes "ks_active (ds_kill_switch s)" and "\<not> ks_active (ds_kill_switch (risk_run c ops s))"
  shows "\<exists>pre x post. ops = pre @ x # post \<and>
    ((\<exists>clk. x = DisableKill clk \<and> fst (risk_step c x (risk_run c pre s))) \<or>
     (\<exists>clk k e. x = Refresh clk \<and> file_controls c (ds_file (risk_run c pre s)) = Some (k, e) \<and> \<not> ks_active k))"
  using assms
proof (induction ops arbitrary: s)
  case Nil
  then show ?case by simp
next
  case (Cons x ops)
  show ?case
  proof (cases "ks_active (ds_kill_switch (snd (risk_step c x s)))")
    case True
    then obtain pre y post where "ops = pre @ y # post" and
      "(\<exists>clk. y = DisableKill clk \<and> fst (risk_step c y (risk_run c pre (snd (risk_step c x s))))) \<or>
       (\<exists>clk k e. y = Refresh clk \<and> file_controls c (ds_file (risk_run c pre (snd (risk_step c x s)))) = Some (k, e) \<and> \<not> ks_active k)"
      using Cons.IH Cons.prems(2) by fastforce
    then show ?thesis by (intro exI [of _ "x # pre"] exI [of _ y] exI [of _ post]) auto
  next
    case False
    from kill_switch_released_step [OF Cons.prems(1) False] show ?thesis
      by (intro exI [of _ "[]"] exI [of _ x] exI [of _ ops]) auto
  qed
qed

text \<open>Only these two look at the file, or replace it from outside.\<close>

fun touches_file :: "risk_op \<Rightarrow> bool" where
  "touches_file (Refresh _) = True"
| "touches_file (External _) = True"
| "touches_file _ = False"

lemma unhealthy_step:
  assumes "ds_persistence_error s \<noteq> None" and "\<not> touches_file x"
  shows "ds_file (snd (risk_step c x s)) = ds_file s"
    and "ds_persistence_error (snd (risk_step c x s)) = ds_persistence_error s"
    and "controls_latched s \<Longrightarrow> controls_latched (snd (risk_step c x s))"
  using assms
  by (cases x; auto simp: daily_loss_cents_def set_daily_loss_cents_def verify_persistence_def
    record_realized_pnl_def set_mode_def enable_kill_switch_def trigger_emergency_stop_def clear_emergency_stop_def
    disable_kill_switch_def controls_latched_def)+

text \<open>While the persisted state is unhealthy (a write failed or the file did not parse) no
  operation writes the file or clears the error, and latched controls stay latched, until
  the state is read from the file again. Unknown prior losses are never overwritten.\<close>

theorem unhealthy_state_never_overwritten:
  assumes "ds_persistence_error s \<noteq> None" and "\<forall>x \<in> set ops. \<not> touches_file x"
  shows "ds_file (risk_run c ops s) = ds_file s \<and>
    ds_persistence_error (risk_run c ops s) = ds_persistence_error s \<and>
    (controls_latched s \<longrightarrow> controls_latched (risk_run c ops s))"
  using assms
proof (induction ops arbitrary: s)
  case Nil
  then show ?case by simp
next
  case (Cons x ops)
  have x: "\<not> touches_file x" using Cons.prems(2) by simp
  note st = unhealthy_step [OF Cons.prems(1) x, of c]
  have "ds_persistence_error (snd (risk_step c x s)) \<noteq> None" using st(2) Cons.prems(1) by simp
  from Cons.IH [OF this] Cons.prems(2) st show ?case by auto
qed

text \<open>Refreshing before a submit fails closed. Afterwards both stop controls are on, or
  the file was read, parsed, and the controls in force are exactly the ones it holds; and a
  refusal leaves the store unhealthy, so the preflight that follows refuses as well.\<close>

theorem refresh_fails_closed:
  assumes "ds_persist_enabled s" and "refresh_persisted_state c clk s = (ok, s')"
  shows "(controls_latched s' \<or> ok \<and> file_controls c (ds_file s) = Some (ds_kill_switch s', ds_emergency_stop s')) \<and>
    (\<not> ok \<longrightarrow> verify_persistence c clk' s' = (False, s'))"
proof -
  have l: "load_risk_state c clk True s = (ok, s')" using assms by (simp add: refresh_persisted_state_def)
  have bad: "ds_persistence_error s' \<noteq> None" if no: "\<not> ok"
    using l no persist_risk_state_False
    by (auto simp: load_risk_state_def load_failed_def Let_def split: json_file.splits json.splits sum.splits if_splits
        ) (metis fst_conv option.distinct(1) snd_conv)+
  from l have "controls_latched s' \<or> ok \<and> file_controls c (ds_file s) = Some (ds_kill_switch s', ds_emergency_stop s')"
    by (cases rule: load_risk_state_cases) auto
  with bad show ?thesis by (auto simp: verify_persistence_def)
qed

subsection \<open>Counting losses\<close>




definition writes_ok :: "clock \<Rightarrow> dummy_state \<Rightarrow> bool" where
  "writes_ok clk s \<longleftrightarrow> ds_persistence_error s = None \<and> ds_daily_loss_date s = utc_date clk \<and> set (ds_writes s) \<subseteq> {None}"







subsection \<open>Well-formed states and the round trip through the file\<close>

definition risk_wf :: "dummy_state \<Rightarrow> bool" where
  "risk_wf s \<longleftrightarrow>
     (ks_active (ds_kill_switch s) \<longrightarrow> ks_triggered_at (ds_kill_switch s) \<noteq> None \<and>
        strip (case ks_reason (ds_kill_switch s) of None \<Rightarrow> [] | Some r \<Rightarrow> r) \<noteq> []) \<and>
     (es_active (ds_emergency_stop s) \<longrightarrow> es_triggered_at (ds_emergency_stop s) \<noteq> None) \<and>
     0 \<le> ds_daily_loss_cents s \<and> finite (ds_settlements s)"

lemma parse_dump_kill_switch:
  assumes "codec_ok c"
    and "ks_active k \<longrightarrow> ks_triggered_at k \<noteq> None \<and> strip (case ks_reason k of None \<Rightarrow> [] | Some r \<Rightarrow> r) \<noteq> []"
  shows "parse_kill_switch c (dump_kill_switch c k) = Inr k"
  using assms
  by (cases "ks_triggered_at k"; cases "ks_reason k")
    (auto simp: parse_kill_switch_def dump_kill_switch_def validate_opt_datetime_def validate_opt_str_def
      jopt_str_def codec_ok_def)

lemma parse_dump_emergency_stop:
  assumes "codec_ok c" and "es_active e \<longrightarrow> es_triggered_at e \<noteq> None"
  shows "parse_emergency_stop c (dump_emergency_stop c e) = Inr e"
  using assms
  by (cases "es_triggered_at e")
    (auto simp: parse_emergency_stop_def dump_emergency_stop_def validate_opt_datetime_def codec_ok_def)

lemma option_all_as_str: "option_all as_str (map JStr xs) = Some xs"
  by (induction xs) auto

text \<open>What the process wrote is what the next process reads. A well-formed state that was
  persisted comes back from the file with the same controls, daily loss and settlement
  identities, healthy, when the new process starts on the same UTC day (with at most the
  10,000 identities the file keeps).\<close>

theorem risk_state_roundtrip:
  assumes "codec_ok c" and "risk_wf s" and "ds_persist_enabled s"
    and "ds_daily_loss_date s = utc_date clk'" and "utc_date clk' \<noteq> []" and "card (ds_settlements s) \<le> 10000"
    and "persist_risk_state c clk s = (True, s1)"
  shows "let s2 = init_dummy_state c clk' True (ds_file s1) ws in
    ds_kill_switch s2 = ds_kill_switch s \<and> ds_emergency_stop s2 = ds_emergency_stop s \<and>
    ds_daily_loss_cents s2 = ds_daily_loss_cents s \<and> ds_settlements s2 = ds_settlements s \<and>
    ds_persistence_error s2 = None"
proof -
  have held: "ds_file s1 = Holds (risk_payload c clk s)"
    using persist_risk_state_True [of c clk s] assms(3,7) by simp
  have fin: "finite (ds_settlements s)" using assms(2) by (simp add: risk_wf_def)
  have len: "length (sorted_list_of_set (ds_settlements s)) \<le> 10000" using assms(6) by simp
  have k: "parse_kill_switch c (dump_kill_switch c (ds_kill_switch s)) = Inr (ds_kill_switch s)"
    using assms(1,2) by (intro parse_dump_kill_switch) (auto simp: risk_wf_def)
  have e: "parse_emergency_stop c (dump_emergency_stop c (ds_emergency_stop s)) = Inr (ds_emergency_stop s)"
    using assms(1,2) by (intro parse_dump_emergency_stop) (auto simp: risk_wf_def)
  show ?thesis
    using assms(2,4,5) fin len
    by (simp add: init_dummy_state_def held load_risk_state_def risk_payload_def load_controls_def k e
        load_counters_def option_all_as_str por_def risk_wf_def Let_def)
qed

text \<open>The operator's reason, where an operation takes one, is not blank.\<close>

fun reason_given :: "risk_op \<Rightarrow> bool" where
  "reason_given (EnableKill _ r) = (strip r \<noteq> [])"
| "reason_given _ = True"

lemma parse_kill_switch_wf:
  "parse_kill_switch c v = Inr k \<Longrightarrow>
     ks_active k \<longrightarrow> ks_triggered_at k \<noteq> None \<and> strip (case ks_reason k of None \<Rightarrow> [] | Some r \<Rightarrow> r) \<noteq> []"
  by (auto simp: parse_kill_switch_def split: json.splits sum.splits if_splits)

lemma parse_emergency_stop_wf:
  "parse_emergency_stop c v = Inr e \<Longrightarrow> es_active e \<longrightarrow> es_triggered_at e \<noteq> None"
  by (auto simp: parse_emergency_stop_def split: json.splits sum.splits if_splits)

lemma risk_wf_persist [keeps]: "risk_wf s \<Longrightarrow> risk_wf (snd (persist_risk_state c clk s))"
  by (simp add: risk_wf_def)

lemma risk_wf_rollover [keeps]: "risk_wf s \<Longrightarrow> risk_wf (rollover_if_needed c clk s)"
  by (simp add: rollover_if_needed_def risk_wf_def)

lemma risk_wf_latch [keeps]:
  "strip r \<noteq> [] \<Longrightarrow> risk_wf s \<Longrightarrow> risk_wf (activate_safety_controls_fail_closed clk r s)"
  by (simp add: risk_wf_def activate_safety_controls_fail_closed_def)

lemma strip_reasons [simp]:
  "strip ''persisted risk state unreadable'' \<noteq> []"
  "strip ''persisted risk state missing during safety refresh'' \<noteq> []"
  "strip ''legacy risk state lacked persisted safety controls; operator review required'' \<noteq> []"
  "strip ''cannot disable kill switch while persisted state is unhealthy'' \<noteq> []"
  "strip ''cannot clear emergency stop while persisted state is unhealthy'' \<noteq> []"
  "strip ''kill-switch deactivation persistence failed'' \<noteq> []"
  by (rule strip_Cons_nonempty, rule not_space_letters)+

lemma controls_parse_wf:
  "load_controls c clk d s = Inr (m, s') \<Longrightarrow> risk_wf s \<Longrightarrow> risk_wf s'"
  "load_controls c clk d s = Inl (e, s') \<Longrightarrow> risk_wf s \<Longrightarrow> risk_wf s'"
  using parse_kill_switch_wf [of c "jget ''kill_switch'' d"] parse_emergency_stop_wf [of c "jget ''emergency_stop'' d"]
  by (auto simp: load_controls_def Let_def activate_safety_controls_fail_closed_def risk_wf_def
      split: if_splits sum.splits)

lemma counters_parse_wf:
  "load_counters c d s = Inr s' \<Longrightarrow> risk_wf s \<Longrightarrow> risk_wf s'"
  "load_counters c d s = Inl (e, s') \<Longrightarrow> risk_wf s \<Longrightarrow> risk_wf s'"
  using load_counters_frame [of c d s] by (simp_all add: risk_wf_def)

lemma risk_wf_error [simp]: "risk_wf (s\<lparr>ds_persistence_error := e\<rparr>) = risk_wf s"
  by (simp add: risk_wf_def)

lemma risk_wf_load_failed [keeps]: "risk_wf s \<Longrightarrow> risk_wf (snd (load_failed clk e s))"
  by (simp add: load_failed_def risk_wf_latch)

lemma risk_wf_load [keeps]:
  assumes wf: "risk_wf s"
  shows "risk_wf (snd (load_risk_state c clk req s))"
proof (cases "\<exists>d. ds_file s = Holds (JObj d)")
  case False
  with wf show ?thesis
    by (auto simp: load_risk_state_def risk_wf_latch risk_wf_load_failed split: json_file.splits json.splits)
next
  case True
  then obtain d where f: "ds_file s = Holds (JObj d)" by blast
  show ?thesis
  proof (cases "load_controls c clk d s")
    case (Inl es1)
    with wf f show ?thesis
      by (cases es1) (auto simp: load_risk_state_def intro: risk_wf_load_failed controls_parse_wf)
  next
    case (Inr ms1)
    obtain m s1 where ms1: "ms1 = (m, s1)" by (cases ms1)
    with Inr wf have w1: "risk_wf s1" by (auto intro: controls_parse_wf)
    show ?thesis
    proof (cases "load_counters c d s1")
      case (Inl es2)
      with w1 f Inr ms1 show ?thesis
        by (cases es2) (auto simp: load_risk_state_def intro: risk_wf_load_failed counters_parse_wf)
    next
      case (Inr s2)
      then have "risk_wf s2" using w1 by (rule counters_parse_wf)
      then have "risk_wf (rollover_if_needed c clk (s2\<lparr>ds_persistence_error := None\<rparr>))"
        by (intro risk_wf_rollover) simp
      with f \<open>load_controls c clk d s = Inr ms1\<close> ms1 Inr show ?thesis
        by (simp add: load_risk_state_def Let_def risk_wf_persist)
    qed
  qed
qed

lemma risk_wf_step:
  assumes "risk_wf s" and "reason_given x"
  shows "risk_wf (snd (risk_step c x s))"
proof (cases x)
  case (RecordPnl clk p i)
  have r: "risk_wf (rollover_if_needed c clk s)" using assms(1) by (rule risk_wf_rollover)
  then show ?thesis
    using RecordPnl assms(1)
    by (auto simp: record_realized_pnl_def Let_def split: option.splits intro!: risk_wf_persist)
      (auto simp: risk_wf_def)
next
  case (EnableKill clk r)
  have "risk_wf (s\<lparr>ds_kill_switch := \<lparr>ks_active = True, ks_triggered_at = Some (now_us clk), ks_reason = Some r\<rparr>\<rparr>)"
    using assms EnableKill by (simp add: risk_wf_def)
  with EnableKill show ?thesis by (auto simp: enable_kill_switch_def Let_def intro: risk_wf_persist)
next
  case (TriggerStop clk)
  have "risk_wf (s\<lparr>ds_emergency_stop := \<lparr>es_active = True, es_triggered_at = Some (now_us clk), es_cancel_open_orders = True\<rparr>\<rparr>)"
    using assms by (simp add: risk_wf_def)
  with TriggerStop show ?thesis by (auto simp: trigger_emergency_stop_def Let_def intro: risk_wf_persist)
next
  case (DisableKill clk)
  with assms show ?thesis
    by (auto simp: disable_kill_switch_def Let_def case_prod_unfold risk_wf_latch)
      (auto simp: risk_wf_def inactive_kill_switch_def)
next
  case (ClearStop clk)
  with assms show ?thesis
    by (auto simp: clear_emergency_stop_def Let_def case_prod_unfold risk_wf_latch)
      (auto simp: risk_wf_def inactive_emergency_stop_def)
qed (use assms in \<open>auto simp: daily_loss_cents_def Let_def set_daily_loss_cents_def verify_persistence_def
  refresh_persisted_state_def set_mode_def risk_wf_rollover risk_wf_persist risk_wf_load\<close>, auto simp: risk_wf_def)

text \<open>Every run of the process keeps its state well formed, whatever the file contained and
  however the writes fare: an active kill switch has a time and a reason, an active
  emergency stop a time, and the daily loss is never negative.\<close>

theorem risk_wf_run:
  assumes "risk_wf s" and "\<forall>x \<in> set ops. reason_given x"
  shows "risk_wf (risk_run c ops s)"
  using assms by (induction ops arbitrary: s) (auto intro: risk_wf_step)

text \<open>A kill switch enabled with a blank reason is written without complaint, and the file it
  wrote is one the next refresh rejects: the refresh reports failure, both controls latch
  and the switch can no longer be released by \<open>disable_kill_switch\<close>.\<close>

theorem blank_kill_reason_locks_the_store:
  assumes "codec_ok c" and "ds_persist_enabled s" and "writes_ok clk s" and "strip r = []"
  shows "let (ok, s1) = enable_kill_switch c clk r s; (ok2, s2) = refresh_persisted_state c clk s1;
             (ok3, s3) = disable_kill_switch c clk s2
         in ok \<and> \<not> ok2 \<and> controls_latched s2 \<and> \<not> ok3 \<and> controls_latched s3"
proof -
  obtain ok s1 where en: "enable_kill_switch c clk r s = (ok, s1)" by fastforce
  let ?k = "\<lparr>ks_active = True, ks_triggered_at = Some (now_us clk), ks_reason = Some r\<rparr>"
  have w: "ok \<and> ds_persist_enabled s1 \<and> (\<exists>s0. ds_kill_switch s0 = ?k \<and> ds_file s1 = Holds (risk_payload c clk s0))"
    using en assms(2,3)
    by (cases "ds_writes s"; simp add: enable_kill_switch_def Let_def persist_risk_state_def writes_ok_def)
      (force intro!: exI [of _ "s\<lparr>ds_kill_switch := ?k\<rparr>"])+
  then obtain s0 where s0: "ds_kill_switch s0 = ?k" "ds_file s1 = Holds (risk_payload c clk s0)" by blast
  have bad: "parse_kill_switch c (dump_kill_switch c ?k) =
      Inl ''ValueError: active kill_switch requires triggered_at and reason''"
    using assms(1,4)
    by (simp add: parse_kill_switch_def dump_kill_switch_def validate_opt_datetime_def validate_opt_str_def
        jopt_str_def codec_ok_def)
  have rf: "refresh_persisted_state c clk s1 =
      load_failed clk ''ValueError: active kill_switch requires triggered_at and reason'' s1"
    using w s0 bad
    by (simp add: refresh_persisted_state_def load_risk_state_def risk_payload_def load_controls_def)
  then show ?thesis
    using en w by (auto simp: disable_kill_switch_def load_failed_def controls_latched_def)
qed

section \<open>Concrete runs\<close>

definition stopped_state :: dummy_state where
  "stopped_state =
     \<lparr>ds_mode = AUTONOMOUS_LIVE_CAPPED,
      ds_kill_switch = \<lparr>ks_active = True, ks_triggered_at = Some 7, ks_reason = Some ''operator''\<rparr>,
      ds_emergency_stop = inactive_emergency_stop, ds_kalshi_connected = True, ds_balance_cents = 5000,
      ds_persist_enabled = True, ds_daily_loss_cents = 12, ds_daily_loss_date = ''2026-07-26'',
      ds_settlements = {''a''}, ds_window_start = 0, ds_persistence_error = None, ds_file = Absent, ds_writes = []\<rparr>"

lemma kill_switch_only_released_deliberately_witness:
  "\<exists>pre x post. [DisableKill noon] = pre @ x # post \<and>
    ((\<exists>clk. x = DisableKill clk \<and> fst (risk_step plain_codec x (risk_run plain_codec pre stopped_state))) \<or>
     (\<exists>clk k e. x = Refresh clk \<and> file_controls plain_codec (ds_file (risk_run plain_codec pre stopped_state)) = Some (k, e)
        \<and> \<not> ks_active k))"
proof (rule kill_switch_only_released_deliberately)
  show "ks_active (ds_kill_switch stopped_state)" by (simp add: stopped_state_def)
  show "\<not> ks_active (ds_kill_switch (risk_run plain_codec [DisableKill noon] stopped_state))"
    by (simp add: stopped_state_def disable_kill_switch_def persist_risk_state_def inactive_kill_switch_def)
qed

lemma unhealthy_state_never_overwritten_witness:
  "let s = stopped_state\<lparr>ds_persistence_error := Some ''disk full''\<rparr>;
       ops = [RecordPnl noon (- 3) (Some ''b''), DisableKill noon, Verify noon]
   in ds_file (risk_run plain_codec ops s) = ds_file s"
proof -
  let ?s = "stopped_state\<lparr>ds_persistence_error := Some ''disk full''\<rparr>"
  let ?ops = "[RecordPnl noon (- 3) (Some ''b''), DisableKill noon, Verify noon]"
  have "ds_persistence_error ?s \<noteq> None" and "\<forall>x \<in> set ?ops. \<not> touches_file x" by simp_all
  from unhealthy_state_never_overwritten [OF this, of plain_codec] show ?thesis by simp
qed

lemma refresh_fails_closed_witness:
  "controls_latched (snd (refresh_persisted_state plain_codec noon stopped_state))"
proof -
  obtain ok s' where r: "refresh_persisted_state plain_codec noon stopped_state = (ok, s')" by fastforce
  have "ds_persist_enabled stopped_state" by (simp add: stopped_state_def)
  from refresh_fails_closed [OF this r, of noon] r show ?thesis
    by (auto simp: stopped_state_def file_controls_def)
qed


lemma stopped_state_wf: "risk_wf stopped_state"
proof -
  have "strip ''operator'' \<noteq> []" by (simp add: strip_eq_Nil is_space_def)
  then show ?thesis by (simp add: risk_wf_def stopped_state_def inactive_emergency_stop_def)
qed

lemma risk_state_roundtrip_witness:
  "ds_daily_loss_cents (init_dummy_state plain_codec noon True
     (ds_file (snd (persist_risk_state plain_codec noon stopped_state))) []) = 12"
proof -
  obtain s1 where p: "persist_risk_state plain_codec noon stopped_state = (True, s1)"
    by (simp add: persist_risk_state_def stopped_state_def)
  have "ds_persist_enabled stopped_state" "ds_daily_loss_date stopped_state = utc_date noon"
    "utc_date noon \<noteq> []" "card (ds_settlements stopped_state) \<le> 10000"
    by (simp_all add: stopped_state_def noon_def)
  from risk_state_roundtrip [OF codec_ok_plain_codec stopped_state_wf this p, of "[]"] p show ?thesis
    by (simp add: Let_def stopped_state_def)
qed

lemma risk_wf_run_witness:
  "risk_wf (risk_run plain_codec [RecordPnl noon (- 3) None, DisableKill noon, TriggerStop noon] stopped_state)"
  by (rule risk_wf_run [OF stopped_state_wf]) simp

lemma blank_kill_reason_locks_the_store_witness:
  "let (ok, s1) = enable_kill_switch plain_codec noon '' '' stopped_state;
       (ok2, s2) = refresh_persisted_state plain_codec noon s1; (ok3, s3) = disable_kill_switch plain_codec noon s2
   in ok \<and> \<not> ok2 \<and> controls_latched s2 \<and> \<not> ok3 \<and> controls_latched s3"
proof (rule blank_kill_reason_locks_the_store)
  show "codec_ok plain_codec" by (rule codec_ok_plain_codec)
  show "ds_persist_enabled stopped_state" by (simp add: stopped_state_def)
  show "writes_ok noon stopped_state" by (simp add: writes_ok_def stopped_state_def noon_def)
  show "strip '' '' = []" by (simp add: strip_eq_Nil is_space_def)
qed

end
