(* ===== verification/Exposure.thy ===== *)
theory Exposure
  imports PyJson Latch
begin

text \<open>
  \<open>live_firewall/exposure_tracker.py\<close>: the book of positions, of open-order reservations and
  of the order history, with the file that persists it. Every operation that the firewall and
  the reconciler call is here; each takes one clock reading, and the file with the outcomes of
  the coming writes is part of the state, as in the risk state.
\<close>

section \<open>State\<close>

text \<open>\<open>core.ontology.Position\<close>.\<close>

record position =
  pos_market :: string
  pos_contract :: string
  pos_side :: string
  pos_quantity :: int
  pos_avg_price :: int
  pos_upnl :: int
  pos_source_ts :: "int option"
  pos_freshness :: "decimal option"

text \<open>
  An open order is a dictionary. The keys the tracker always writes with a fixed type are
  fields; \<open>client_order_id\<close>, \<open>contract\<close> and \<open>side\<close> may be missing or hold any JSON value when the
  order was read from a file, so they are optional values; every other key is in \<open>o_extra\<close>.
\<close>

record open_order =
  o_order_id :: string
  o_client :: "json option"
  o_market :: string
  o_contract :: "json option"
  o_side :: "json option"
  o_size :: int
  o_remaining :: int
  o_filled :: int
  o_filled_cost :: int
  o_price :: int
  o_state :: string
  o_extra :: "(string \<times> json) list"

record history_item =
  h_ts :: int
  h_rest :: "(string \<times> json) list"

record exposure_tracker =
  et_persist_enabled :: bool
  et_positions :: "((string \<times> string) \<times> position) list"
  et_history :: "history_item list"
  et_open_orders :: "open_order list"
  et_error :: "string option"
  et_file :: json_file
  et_writes :: "string option list"

text \<open>What pydantic does to a \<open>Position\<close>.\<close>

record book_codec = codec +
  validate_position :: "json \<Rightarrow> string + position"
  dump_position :: "position \<Rightarrow> json"

definition state_healthy :: "exposure_tracker \<Rightarrow> bool" where
  "state_healthy t \<longleftrightarrow> et_error t = None"

definition position_key :: "position \<Rightarrow> string \<times> string" where
  "position_key p = (pos_contract p, lower (pos_side p))"

definition set_extra :: "string \<Rightarrow> json \<Rightarrow> open_order \<Rightarrow> open_order" where
  "set_extra k v od = od\<lparr>o_extra := AList.update k v (o_extra od)\<rparr>"

section \<open>The file\<close>

text \<open>\<open>_parse_timestamp\<close> of a value read from a file: a naive time is taken as UTC.\<close>

definition parse_timestamp :: "codec \<Rightarrow> json \<Rightarrow> int option" where
  "parse_timestamp c v =
     (case from_iso c (z_to_offset (str_of_json (repr_text c) v)) of
        None \<Rightarrow> None
      | Some (Aware t) \<Rightarrow> Some t
      | Some (Naive t) \<Rightarrow> Some t)"

definition load_history_item :: "codec \<Rightarrow> json \<Rightarrow> string + history_item" where
  "load_history_item c raw =
     (case raw of
        JObj d \<Rightarrow>
          (case map_of d ''ts'' of
             None \<Rightarrow> Inl (''KeyError: '' @ [CHR 0x27] @ ''ts'' @ [CHR 0x27])
           | Some v \<Rightarrow>
               (case parse_timestamp c v of
                  None \<Rightarrow> Inl (type_error c ''ts'' v)
                | Some t \<Rightarrow> Inr \<lparr>h_ts = t, h_rest = filter (\<lambda>p. fst p \<noteq> ''ts'') d\<rparr>))
      | _ \<Rightarrow> Inl ''ValueError: order history item must be an object'')"

definition order_keys :: "string list" where
  "order_keys = [''order_id'', ''client_order_id'', ''market'', ''contract'', ''side'', ''size'', ''remaining_size'',
     ''filled_size'', ''filled_cost_cents'', ''price_cents'', ''state'']"

definition load_order :: "codec \<Rightarrow> json \<Rightarrow> string + open_order" where
  "load_order c raw =
     (case raw of
        JObj d \<Rightarrow>
          (let order_id = strip (str_of_json (repr_text c) (por (jget ''order_id'' d) (JStr [])));
               market = strip (str_of_json (repr_text c) (por (jget ''market'' d) (JStr []))) in
           case int_of_json (jget ''size'' d) of
             None \<Rightarrow> Inl (type_error c ''size'' (jget ''size'' d))
           | Some sz \<Rightarrow>
          (case int_of_json (jget ''price_cents'' d) of
             None \<Rightarrow> Inl (type_error c ''price_cents'' (jget ''price_cents'' d))
           | Some price \<Rightarrow>
          (case int_of_json (jget_default ''filled_size'' (JInt 0) d) of
             None \<Rightarrow> Inl (type_error c ''filled_size'' (jget ''filled_size'' d))
           | Some filled \<Rightarrow>
          (case int_of_json (jget_default ''remaining_size'' (JInt (sz - filled)) d) of
             None \<Rightarrow> Inl (type_error c ''remaining_size'' (jget ''remaining_size'' d))
           | Some remaining \<Rightarrow>
               if order_id = [] \<or> market = [] \<or> sz < 1 \<or> \<not> (1 \<le> price \<and> price \<le> 99) \<or>
                  filled < 0 \<or> remaining < 0 \<or> filled + remaining \<noteq> sz
               then Inl ''ValueError: invalid persisted open-order reservation''
               else (case int_of_json (jget_default ''filled_cost_cents'' (JInt (filled * price)) d) of
                  None \<Rightarrow> Inl (type_error c ''filled_cost_cents'' (jget ''filled_cost_cents'' d))
                | Some cost \<Rightarrow>
                    Inr \<lparr>o_order_id = order_id, o_client = map_of d ''client_order_id'', o_market = market,
                         o_contract = map_of d ''contract'', o_side = map_of d ''side'', o_size = sz,
                         o_remaining = remaining, o_filled = filled, o_filled_cost = cost, o_price = price,
                         o_state = str_of_json (repr_text c) (por (jget ''state'' d) (JStr ''open'')),
                         o_extra = filter (\<lambda>p. fst p \<notin> set order_keys) d\<rparr>)))))
      | _ \<Rightarrow> Inl ''ValueError: open order item must be an object'')"

fun sum_all :: "('a \<Rightarrow> string + 'b) \<Rightarrow> 'a list \<Rightarrow> string + 'b list" where
  "sum_all f [] = Inr []"
| "sum_all f (x # xs) =
     (case f x of
        Inl e \<Rightarrow> Inl e
      | Inr y \<Rightarrow> (case sum_all f xs of Inl e \<Rightarrow> Inl e | Inr ys \<Rightarrow> Inr (y # ys)))"

definition load_collections ::
  "book_codec \<Rightarrow> (string \<times> json) list \<Rightarrow>
     string + (((string \<times> string) \<times> position) list \<times> history_item list \<times> open_order list)" where
  "load_collections c d =
     (case (jget_default ''positions'' (JArr []) d, jget_default ''open_orders'' (JArr []) d,
            jget_default ''order_history'' (JArr []) d) of
        (JArr ps, JArr os, JArr hs) \<Rightarrow>
          (case sum_all (validate_position c) ps of
             Inl e \<Rightarrow> Inl e
           | Inr positions \<Rightarrow>
               (case sum_all (load_history_item (codec.truncate c)) hs of
                  Inl e \<Rightarrow> Inl e
                | Inr history \<Rightarrow>
                    (case sum_all (load_order (codec.truncate c)) os of
                       Inl e \<Rightarrow> Inl e
                     | Inr orders \<Rightarrow>
                         Inr (fold (\<lambda>p. AList.update (position_key p) p) positions [], history, orders))))
      | _ \<Rightarrow> Inl ''ValueError: exposure state collections must be lists'')"

definition load_exposure :: "book_codec \<Rightarrow> exposure_tracker \<Rightarrow> exposure_tracker" where
  "load_exposure c t =
     (case et_file t of
        Absent \<Rightarrow> t
      | Unreadable e \<Rightarrow> t\<lparr>et_error := Some e\<rparr>
      | Holds (JObj d) \<Rightarrow>
          (case load_collections c d of
             Inl e \<Rightarrow> t\<lparr>et_error := Some e\<rparr>
           | Inr (ps, hs, os) \<Rightarrow> t\<lparr>et_positions := ps, et_open_orders := os, et_history := hs\<rparr>)
      | Holds _ \<Rightarrow> t\<lparr>et_error := Some ''ValueError: exposure state must be a JSON object''\<rparr>)"

text \<open>\<open>ExposureTracker.__init__\<close>.\<close>

definition init_exposure :: "book_codec \<Rightarrow> bool \<Rightarrow> json_file \<Rightarrow> string option list \<Rightarrow> exposure_tracker" where
  "init_exposure c persist file writes =
     (let t = \<lparr>et_persist_enabled = persist, et_positions = [], et_history = [], et_open_orders = [],
               et_error = None, et_file = file, et_writes = writes\<rparr>
      in if persist then load_exposure c t else t)"

definition opt_entry :: "string \<Rightarrow> json option \<Rightarrow> (string \<times> json) list" where
  "opt_entry k v = (case v of None \<Rightarrow> [] | Some u \<Rightarrow> [(k, u)])"

definition dump_order :: "open_order \<Rightarrow> json" where
  "dump_order od = JObj
     ([(''order_id'', JStr (o_order_id od)), (''market'', JStr (o_market od)), (''size'', JInt (o_size od)),
       (''remaining_size'', JInt (o_remaining od)), (''filled_size'', JInt (o_filled od)),
       (''filled_cost_cents'', JInt (o_filled_cost od)), (''price_cents'', JInt (o_price od)),
       (''state'', JStr (o_state od))]
      @ opt_entry ''client_order_id'' (o_client od) @ opt_entry ''contract'' (o_contract od)
      @ opt_entry ''side'' (o_side od) @ o_extra od)"

definition dump_history_item :: "codec \<Rightarrow> history_item \<Rightarrow> json" where
  "dump_history_item c h = JObj ((''ts'', JStr (to_iso c (h_ts h))) # h_rest h)"

definition exposure_payload :: "book_codec \<Rightarrow> clock \<Rightarrow> exposure_tracker \<Rightarrow> json" where
  "exposure_payload c clk t = JObj
     [(''positions'', JArr (map (dump_position c \<circ> snd) (et_positions t))),
      (''open_orders'', JArr (map dump_order (et_open_orders t))),
      (''order_history'', JArr (map (dump_history_item (codec.truncate c)) (last_n 10000 (et_history t)))),
      (''updated_at'', JStr (iso_now clk))]"

definition persist_exposure :: "book_codec \<Rightarrow> clock \<Rightarrow> exposure_tracker \<Rightarrow> bool \<times> exposure_tracker" where
  "persist_exposure c clk t =
     (if \<not> et_persist_enabled t then (True, t)
      else case et_writes t of
        Some e # ws \<Rightarrow> (False, t\<lparr>et_error := Some e, et_writes := ws\<rparr>)
      | ws \<Rightarrow> (True, t\<lparr>et_file := Holds (exposure_payload c clk t), et_error := None, et_writes := tl ws\<rparr>))"

definition verify_exposure :: "book_codec \<Rightarrow> clock \<Rightarrow> exposure_tracker \<Rightarrow> bool \<times> exposure_tracker" where
  "verify_exposure c clk t = (if et_error t \<noteq> None then (False, t) else persist_exposure c clk t)"

section \<open>Operations\<close>

definition record_order :: "book_codec \<Rightarrow> clock \<Rightarrow> string \<Rightarrow> int \<Rightarrow> int \<Rightarrow> exposure_tracker \<Rightarrow> exposure_tracker" where
  "record_order c clk market sz price t =
     snd (persist_exposure c clk (t\<lparr>et_history := et_history t @
       [\<lparr>h_ts = now_us clk,
         h_rest = [(''market'', JStr market), (''size'', JInt sz), (''price_cents'', JInt price)]\<rparr>]\<rparr>))"



definition contract_or_market :: "string option \<Rightarrow> string \<Rightarrow> string" where
  "contract_or_market contract market =
     (case contract of None \<Rightarrow> market | Some x \<Rightarrow> if x = [] then market else x)"

definition new_order ::
  "string \<Rightarrow> json option \<Rightarrow> string \<Rightarrow> int \<Rightarrow> int \<Rightarrow> string option \<Rightarrow> string option \<Rightarrow> string \<Rightarrow>
   (string \<times> json) list \<Rightarrow> open_order" where
  "new_order order_id client market sz price contract side state extra =
     \<lparr>o_order_id = order_id, o_client = client, o_market = market,
      o_contract = Some (JStr (contract_or_market contract market)), o_side = Some (jopt_str side),
      o_size = sz, o_remaining = sz, o_filled = 0, o_filled_cost = 0, o_price = price, o_state = state,
      o_extra = extra\<rparr>"


definition matches_order :: "string \<Rightarrow> open_order \<Rightarrow> bool" where
  "matches_order i od \<longleftrightarrow> o_order_id od = i \<or> o_client od = Some (JStr i)"

definition reserve_order_submission ::
  "book_codec \<Rightarrow> clock \<Rightarrow> string \<Rightarrow> string \<Rightarrow> int \<Rightarrow> int \<Rightarrow> string option \<Rightarrow> string option \<Rightarrow> exposure_tracker \<Rightarrow>
   bool \<times> exposure_tracker" where
  "reserve_order_submission c clk client_id market sz price contract side t =
     (if et_error t \<noteq> None then (False, t)
      else if client_id = [] \<or> sz < 1 \<or> \<not> (1 \<le> price \<and> price \<le> 99)
      then (False, t\<lparr>et_error := Some ''invalid order-submission reservation''\<rparr>)
      else if (\<exists>od \<in> set (et_open_orders t). matches_order client_id od)
      then (False, t\<lparr>et_error := Some ''duplicate client order id''\<rparr>)
      else persist_exposure c clk (t
        \<lparr>et_history := et_history t @
           [\<lparr>h_ts = now_us clk,
             h_rest = [(''market'', JStr market), (''size'', JInt sz), (''price_cents'', JInt price),
                       (''client_order_id'', JStr client_id)]\<rparr>],
         et_open_orders := et_open_orders t @
           [new_order client_id (Some (JStr client_id)) market sz price contract side ''submitting''
              [(''reserved_at'', JStr (iso_now clk))]]\<rparr>))"

text \<open>The position in the list of the first order with the given id, as order or client id.\<close>

fun find_order :: "string \<Rightarrow> open_order list \<Rightarrow> nat option" where
  "find_order i [] = None"
| "find_order i (od # ods) = (if matches_order i od then Some 0 else map_option Suc (find_order i ods))"

definition confirm_open_order ::
  "book_codec \<Rightarrow> clock \<Rightarrow> string \<Rightarrow> string \<Rightarrow> exposure_tracker \<Rightarrow> bool \<times> exposure_tracker" where
  "confirm_open_order c clk client_id broker_id t =
     (if et_error t \<noteq> None \<or> broker_id = [] then (False, t)
      else case find_order client_id (et_open_orders t) of
        None \<Rightarrow> (False, t\<lparr>et_error := Some ''accepted order has no durable reservation''\<rparr>)
      | Some n \<Rightarrow>
          persist_exposure c clk (t\<lparr>et_open_orders := (et_open_orders t)[n :=
            set_extra ''accepted_at'' (JStr (iso_now clk))
              ((et_open_orders t ! n)\<lparr>o_client := Some (JStr client_id), o_order_id := broker_id,
                 o_state := ''open''\<rparr>)]\<rparr>))"

definition mark_order_outcome_unknown ::
  "book_codec \<Rightarrow> clock \<Rightarrow> string \<Rightarrow> exposure_tracker \<Rightarrow> bool \<times> exposure_tracker" where
  "mark_order_outcome_unknown c clk client_id t =
     (case find_order client_id (et_open_orders t) of
        None \<Rightarrow> (False, t\<lparr>et_error := Some ''unknown submit outcome has no reservation''\<rparr>)
      | Some n \<Rightarrow>
          persist_exposure c clk (t\<lparr>et_open_orders := (et_open_orders t)[n :=
            (et_open_orders t ! n)\<lparr>o_state := ''submit_outcome_unknown''\<rparr>]\<rparr>))"


subsection \<open>Fills\<close>

text \<open>
  \<open>record_cumulative_fill\<close> in the order of the source: the checks of the cumulative fill
  against the reservation, the position update, the update of the order. The checks give the
  text of the rejection or the terminal state with the cumulative cost.
\<close>

definition fill_terminal :: "string option \<Rightarrow> string option" where
  "fill_terminal terminal_state =
     (let s = lower (case terminal_state of None \<Rightarrow> [] | Some x \<Rightarrow> x) in if s = [] then None else Some s)"

definition check_fill ::
  "open_order \<Rightarrow> int \<Rightarrow> int option \<Rightarrow> string option \<Rightarrow> string + string option \<times> int" where
  "check_fill od cumulative_size avg_price_cents terminal_state =
     (let terminal = fill_terminal terminal_state in
      if terminal \<notin> {None, Some ''filled'', Some ''canceled'', Some ''expired''}
      then Inl ''invalid terminal fill state''
      else if \<not> (o_filled od \<le> cumulative_size \<and> cumulative_size \<le> o_size od)
      then Inl ''non-monotonic or oversized cumulative fill''
      else if terminal = Some ''filled'' \<and> cumulative_size \<noteq> o_size od
      then Inl ''filled status lacks complete fill witness''
      else
        case (if cumulative_size > 0
              then (case avg_price_cents of
                      None \<Rightarrow> Inl ''positive fill lacks price witness''
                    | Some avg \<Rightarrow>
                        if \<not> (1 \<le> avg \<and> avg \<le> 99) then Inl ''positive fill price out of range''
                        else Inr (cumulative_size * avg))
              else Inr 0) of
          Inl e \<Rightarrow> Inl e
        | Inr cumulative_cost \<Rightarrow>
            (let delta_size = cumulative_size - o_filled od; delta_cost = cumulative_cost - o_filled_cost od in
             if delta_size > 0 \<and> (delta_cost < delta_size \<or> delta_cost > 100 * delta_size)
             then Inl ''inconsistent cumulative fill cost''
             else if delta_size = 0 \<and> delta_cost \<noteq> 0
             then Inl ''fill price revision without quantity witness''
             else Inr (terminal, cumulative_cost)))"

text \<open>
  The new position for a positive fill: \<open>Inl\<close> a malformed identity, \<open>Inr None\<close> the
  ZeroDivisionError or OverflowError of the average.
\<close>

definition fill_position ::
  "codec \<Rightarrow> clock \<Rightarrow> ((string \<times> string) \<times> position) list \<Rightarrow> open_order \<Rightarrow> int \<Rightarrow> int \<Rightarrow> string + position option" where
  "fill_position c clk positions od delta_size delta_cost =
     (let str = str_of_json (repr_text c);
          market = o_market od;
          contract = str (por (case o_contract od of None \<Rightarrow> JNull | Some v \<Rightarrow> v) (JStr market));
          side = lower (str (por (case o_side od of None \<Rightarrow> JNull | Some v \<Rightarrow> v) (JStr []))) in
      if market = [] \<or> contract = [] \<or> side \<notin> {''yes'', ''no''} then Inl ''fill reservation identity malformed''
      else
        (let current = map_of positions (contract, side);
             current_size = (case current of None \<Rightarrow> 0 | Some p \<Rightarrow> pos_quantity p);
             current_cost = (case current of None \<Rightarrow> 0 | Some p \<Rightarrow> pos_quantity p * pos_avg_price p);
             new_size = current_size + delta_size;
             new_cost = current_cost + delta_cost in
         if new_size = 0 then Inr None
         else case ceil_of_float (int_truediv new_cost new_size) of
           None \<Rightarrow> Inr None
         | Some avg \<Rightarrow> Inr (Some
             \<lparr>pos_market = market, pos_contract = contract, pos_side = side, pos_quantity = new_size,
              pos_avg_price = avg, pos_upnl = (case current of None \<Rightarrow> 0 | Some p \<Rightarrow> pos_upnl p),
              pos_source_ts = Some (now_us clk), pos_freshness = None\<rparr>)))"

definition filled_order :: "clock \<Rightarrow> open_order \<Rightarrow> int \<Rightarrow> int \<Rightarrow> string option \<Rightarrow> open_order" where
  "filled_order clk od cumulative_size cumulative_cost terminal =
     set_extra ''last_reconciled_at'' (JStr (iso_now clk))
       (od\<lparr>o_filled := cumulative_size, o_filled_cost := cumulative_cost,
           o_remaining := o_size od - cumulative_size,
           o_state := (case terminal of Some s \<Rightarrow> s
              | None \<Rightarrow> if cumulative_size \<noteq> 0 then ''partially_filled''
                        else if o_state od = [] then ''open'' else o_state od)\<rparr>)"

text \<open>
  The state changes once the checks have passed: position first, then the order, which leaves
  the book when the broker's state is terminal.
\<close>

definition book_fill ::
  "book_codec \<Rightarrow> clock \<Rightarrow> nat \<Rightarrow> int \<Rightarrow> int \<Rightarrow> string option \<Rightarrow> position option \<Rightarrow> exposure_tracker \<Rightarrow>
   bool \<times> exposure_tracker" where
  "book_fill c clk n cumulative_size cumulative_cost terminal new_position t =
     (let positions = (case new_position of None \<Rightarrow> et_positions t
            | Some p \<Rightarrow> AList.update (pos_contract p, pos_side p) p (et_positions t));
          od = filled_order clk (et_open_orders t ! n) cumulative_size cumulative_cost terminal;
          orders = (if terminal = None then (et_open_orders t)[n := od]
                    else take n (et_open_orders t) @ drop (Suc n) (et_open_orders t))
      in persist_exposure c clk (t\<lparr>et_positions := positions, et_open_orders := orders\<rparr>))"

definition record_cumulative_fill ::
  "book_codec \<Rightarrow> clock \<Rightarrow> string \<Rightarrow> int \<Rightarrow> int option \<Rightarrow> string option \<Rightarrow> exposure_tracker \<Rightarrow>
   bool option \<times> exposure_tracker" where
  "record_cumulative_fill c clk order_id cumulative_size avg_price_cents terminal_state t =
     (if et_error t \<noteq> None then (Some False, t)
      else case find_order order_id (et_open_orders t) of
        None \<Rightarrow> (Some False, t\<lparr>et_error := Some ''fill references unknown open order''\<rparr>)
      | Some n \<Rightarrow>
          (let od = et_open_orders t ! n in
           case check_fill od cumulative_size avg_price_cents terminal_state of
             Inl e \<Rightarrow> (Some False, t\<lparr>et_error := Some e\<rparr>)
           | Inr (terminal, cumulative_cost) \<Rightarrow>
               if cumulative_size - o_filled od > 0
               then (case fill_position (codec.truncate c) clk (et_positions t) od
                            (cumulative_size - o_filled od) (cumulative_cost - o_filled_cost od) of
                       Inl e \<Rightarrow> (Some False, t\<lparr>et_error := Some e\<rparr>)
                     | Inr None \<Rightarrow> (None, t)
                     | Inr (Some p) \<Rightarrow>
                         apfst Some (book_fill c clk n cumulative_size cumulative_cost terminal (Some p) t))
               else apfst Some (book_fill c clk n cumulative_size cumulative_cost terminal None t)))"

section \<open>Totals\<close>

definition position_value :: "position \<Rightarrow> int" where
  "position_value p = pos_quantity p * pos_avg_price p"

definition reservation_value :: "open_order \<Rightarrow> int" where
  "reservation_value od = o_remaining od * o_price od"

definition total_exposure_cents :: "exposure_tracker \<Rightarrow> int" where
  "total_exposure_cents t =
     (\<Sum>p\<leftarrow>map snd (et_positions t). position_value p) + (\<Sum>od\<leftarrow>et_open_orders t. reservation_value od)"

definition market_exposure_cents :: "string \<Rightarrow> exposure_tracker \<Rightarrow> int" where
  "market_exposure_cents ticker t =
     (\<Sum>p\<leftarrow>filter (\<lambda>p. pos_market p = ticker) (map snd (et_positions t)). position_value p) +
     (\<Sum>od\<leftarrow>filter (\<lambda>od. o_market od = ticker) (et_open_orders t). reservation_value od)"

definition family :: "string \<Rightarrow> string" where
  "family ticker = split_head CHR ''-'' (upper ticker)"

definition correlated_exposure_cents :: "string \<Rightarrow> exposure_tracker \<Rightarrow> int" where
  "correlated_exposure_cents ticker t =
     (let prefix = upper (split_head CHR ''-'' ticker) in
      (\<Sum>p\<leftarrow>filter (\<lambda>p. family (pos_market p) = prefix) (map snd (et_positions t)). position_value p) +
      (\<Sum>od\<leftarrow>filter (\<lambda>od. family (o_market od) = prefix) (et_open_orders t). reservation_value od))"

definition orders_last_hour :: "clock \<Rightarrow> exposure_tracker \<Rightarrow> nat" where
  "orders_last_hour clk t = length (filter (\<lambda>h. now_us clk - 3600000000 < h_ts h) (et_history t))"

definition open_markets :: "exposure_tracker \<Rightarrow> nat" where
  "open_markets t = card (pos_market ` snd ` set (et_positions t) \<union>
     o_market ` {od \<in> set (et_open_orders t). o_market od \<noteq> []})"

definition open_order_count :: "exposure_tracker \<Rightarrow> nat" where
  "open_order_count t = length (et_open_orders t)"

section \<open>What the operations leave alone\<close>

lemma persist_exposure_frame [frame, simp]:
  "et_positions (snd (persist_exposure c clk t)) = et_positions t"
  "et_history (snd (persist_exposure c clk t)) = et_history t"
  "et_open_orders (snd (persist_exposure c clk t)) = et_open_orders t"
  "et_persist_enabled (snd (persist_exposure c clk t)) = et_persist_enabled t"
  by (auto simp: persist_exposure_def split: list.splits option.splits)

lemma persist_exposure_totals [frame, simp]:
  "total_exposure_cents (snd (persist_exposure c clk t)) = total_exposure_cents t"
  "market_exposure_cents m (snd (persist_exposure c clk t)) = market_exposure_cents m t"
  "open_order_count (snd (persist_exposure c clk t)) = open_order_count t"
  by (simp_all add: total_exposure_cents_def market_exposure_cents_def open_order_count_def)

lemma persist_exposure_False:
  "\<not> fst (persist_exposure c clk t) \<Longrightarrow>
     et_error (snd (persist_exposure c clk t)) \<noteq> None \<and> et_file (snd (persist_exposure c clk t)) = et_file t"
  by (auto simp: persist_exposure_def split: list.splits option.splits if_splits)

lemma persist_exposure_True:
  "fst (persist_exposure c clk t) \<Longrightarrow> et_persist_enabled t \<Longrightarrow>
     et_error (snd (persist_exposure c clk t)) = None \<and>
     et_file (snd (persist_exposure c clk t)) = Holds (exposure_payload c clk t)"
  by (auto simp: persist_exposure_def split: list.splits option.splits if_splits)

interpretation exposure_store: latched_store "\<lambda>t. et_error t = None" et_file "verify_exposure c clk"
proof
  fix t t' :: exposure_tracker
  show "\<not> et_error t = None \<Longrightarrow> verify_exposure c clk t = (False, t)" by (simp add: verify_exposure_def)
  show "et_error t = None \<Longrightarrow> verify_exposure c clk t = (True, t') \<Longrightarrow> et_error t' = None"
    by (auto simp: verify_exposure_def persist_exposure_def split: if_splits list.splits option.splits)
  show "et_error t = None \<Longrightarrow> verify_exposure c clk t = (False, t') \<Longrightarrow> et_error t' \<noteq> None \<and> et_file t' = et_file t"
    using persist_exposure_False [of c clk t] by (simp add: verify_exposure_def)
qed

lemma find_order_Some:
  "find_order i ods = Some n \<Longrightarrow> n < length ods \<and> matches_order i (ods ! n) \<and> (\<forall>m < n. \<not> matches_order i (ods ! m))"
proof (induction ods arbitrary: n)
  case Nil
  then show ?case by simp
next
  case (Cons od ods)
  show ?case
  proof (cases "matches_order i od")
    case True
    with Cons.prems show ?thesis by simp
  next
    case False
    with Cons.prems obtain k where k: "find_order i ods = Some k" "n = Suc k" by auto
    from Cons.IH [OF k(1)] k(2) False show ?thesis by (auto simp: nth_Cons' less_Suc_eq_0_disj)
  qed
qed

lemma find_order_None: "find_order i ods = None \<longleftrightarrow> (\<forall>od \<in> set ods. \<not> matches_order i od)"
  by (induction ods) auto

lemma sum_list_update_at:
  fixes f :: "'a \<Rightarrow> int"
  shows "n < length xs \<Longrightarrow> (\<Sum>x\<leftarrow>xs[n := y]. f x) = (\<Sum>x\<leftarrow>xs. f x) - f (xs ! n) + f y"
  by (induction xs arbitrary: n) (auto simp: nth_Cons' split: nat.splits)

lemma sum_list_remove_at:
  fixes f :: "'a \<Rightarrow> int"
  shows "n < length xs \<Longrightarrow> (\<Sum>x\<leftarrow>take n xs @ drop (Suc n) xs. f x) = (\<Sum>x\<leftarrow>xs. f x) - f (xs ! n)"
proof (induction xs arbitrary: n)
  case Nil
  then show ?case by simp
next
  case (Cons x xs)
  then show ?case by (cases n) auto
qed

text \<open>Changing an order's id, state or extra keys changes nothing that is reserved.\<close>

lemma reservation_value_set_extra [simp]: "reservation_value (set_extra k v od) = reservation_value od"
  by (simp add: set_extra_def reservation_value_def)

lemma reservation_value_relabel [simp]:
  "reservation_value (od\<lparr>o_client := x\<rparr>) = reservation_value od"
  "reservation_value (od\<lparr>o_order_id := y\<rparr>) = reservation_value od"
  "reservation_value (od\<lparr>o_state := z\<rparr>) = reservation_value od"
  by (simp_all add: reservation_value_def)

lemma confirm_keeps_totals [frame]:
  "total_exposure_cents (snd (confirm_open_order c clk i b t)) = total_exposure_cents t \<and>
   open_order_count (snd (confirm_open_order c clk i b t)) = open_order_count t"
  using find_order_Some [of i "et_open_orders t"]
  by (auto simp: confirm_open_order_def total_exposure_cents_def sum_list_update_at open_order_count_def
      split: option.splits)

lemma unknown_keeps_totals [frame]:
  "total_exposure_cents (snd (mark_order_outcome_unknown c clk i t)) = total_exposure_cents t \<and>
   open_order_count (snd (mark_order_outcome_unknown c clk i t)) = open_order_count t"
  using find_order_Some [of i "et_open_orders t"]
  by (auto simp: mark_order_outcome_unknown_def total_exposure_cents_def sum_list_update_at open_order_count_def
      split: option.splits)

lemma reserve_True:
  assumes "reserve_order_submission c clk i m n p contract side t = (True, t')"
  shows "total_exposure_cents t' = total_exposure_cents t + n * p \<and> open_order_count t' = open_order_count t + 1 \<and>
    1 \<le> n \<and> 1 \<le> p \<and> p \<le> 99 \<and> et_positions t' = et_positions t \<and>
    et_open_orders t' = et_open_orders t @
      [new_order i (Some (JStr i)) m n p contract side ''submitting'' [(''reserved_at'', JStr (iso_now clk))]]"
proof -
  let ?t1 = "t\<lparr>et_history := et_history t @
           [\<lparr>h_ts = now_us clk,
             h_rest = [(''market'', JStr m), (''size'', JInt n), (''price_cents'', JInt p),
                       (''client_order_id'', JStr i)]\<rparr>],
         et_open_orders := et_open_orders t @
           [new_order i (Some (JStr i)) m n p contract side ''submitting'' [(''reserved_at'', JStr (iso_now clk))]]\<rparr>"
  have "t' = snd (persist_exposure c clk ?t1)" "1 \<le> n" "1 \<le> p" "p \<le> 99"
    using assms by (auto simp: reserve_order_submission_def split: if_splits)
  then show ?thesis by (simp add: total_exposure_cents_def open_order_count_def reservation_value_def new_order_def)
qed

lemma reserve_False:
  assumes "reserve_order_submission c clk i m n p contract side t = (False, t')"
  shows "total_exposure_cents t \<le> total_exposure_cents t' \<and> open_order_count t \<le> open_order_count t'"
proof -
  let ?t1 = "t\<lparr>et_history := et_history t @
           [\<lparr>h_ts = now_us clk,
             h_rest = [(''market'', JStr m), (''size'', JInt n), (''price_cents'', JInt p),
                       (''client_order_id'', JStr i)]\<rparr>],
         et_open_orders := et_open_orders t @
           [new_order i (Some (JStr i)) m n p contract side ''submitting'' [(''reserved_at'', JStr (iso_now clk))]]\<rparr>"
  have "t' = snd (persist_exposure c clk ?t1) \<and> 0 \<le> n * p \<or> (\<exists>e. t' = t\<lparr>et_error := e\<rparr>) \<or> t' = t"
    using assms by (auto simp: reserve_order_submission_def split: if_splits)
  then show ?thesis
    by (auto simp: total_exposure_cents_def open_order_count_def reservation_value_def new_order_def)
qed

interpretation book: reservation_book total_exposure_cents open_order_count
  "\<lambda>n p. reserve_order_submission c clk i m n p contract side" "confirm_open_order c clk i broker_id"
  "mark_order_outcome_unknown c clk i"
proof
  fix n p t t'
  show "reserve_order_submission c clk i m n p contract side t = (True, t') \<Longrightarrow>
      total_exposure_cents t' = total_exposure_cents t + n * p \<and> open_order_count t' = open_order_count t + 1"
    using reserve_True by simp
  show "reserve_order_submission c clk i m n p contract side t = (True, t') \<Longrightarrow> 1 \<le> n \<and> 1 \<le> p \<and> p \<le> 99"
    using reserve_True by simp
qed (use reserve_False confirm_keeps_totals unknown_keeps_totals in auto)

section \<open>The invariant of the book\<close>

text \<open>
  Positions are filed under their own key, once each, and every reservation adds up: a size
  of at least one at a limit between 1 and 99 cents, split into a filled and a remaining part.
\<close>

definition order_wf :: "open_order \<Rightarrow> bool" where
  "order_wf od \<longleftrightarrow> o_order_id od \<noteq> [] \<and> 1 \<le> o_size od \<and> 1 \<le> o_price od \<and> o_price od \<le> 99 \<and>
     0 \<le> o_filled od \<and> 0 \<le> o_remaining od \<and> o_filled od + o_remaining od = o_size od"

definition book_wf :: "exposure_tracker \<Rightarrow> bool" where
  "book_wf t \<longleftrightarrow> distinct (map fst (et_positions t)) \<and>
     (\<forall>(k, p) \<in> set (et_positions t). k = position_key p) \<and> (\<forall>od \<in> set (et_open_orders t). order_wf od)"




lemma book_wf_persist [keeps, simp]: "book_wf (snd (persist_exposure c clk t)) = book_wf t"
  by (simp add: book_wf_def)

lemma book_wf_more [simp]:
  "book_wf (t\<lparr>et_history := h\<rparr>) = book_wf t" "book_wf (t\<lparr>et_error := e\<rparr>) = book_wf t"
  by (simp_all add: book_wf_def)


lemma order_wf_new_order:
  "i \<noteq> [] \<Longrightarrow> 1 \<le> n \<Longrightarrow> 1 \<le> p \<Longrightarrow> p \<le> 99 \<Longrightarrow> order_wf (new_order i k m n p ct sd st x)"
  by (simp add: order_wf_def new_order_def)





lemma lower_sides [simp]: "lower ''yes'' = ''yes''" "lower ''no'' = ''no''"
  by (simp_all add: lower_def lower_char_def)

lemma check_fill_Inr:
  assumes "check_fill od n avg st = Inr (tm, cost)"
  shows "tm = fill_terminal st" and "o_filled od \<le> n" and "n \<le> o_size od"
    and "tm = Some ''filled'' \<Longrightarrow> n = o_size od"
    and "if n > 0 then \<exists>a. avg = Some a \<and> 1 \<le> a \<and> a \<le> 99 \<and> cost = n * a else cost = 0"
    and "o_filled od < n \<Longrightarrow> n - o_filled od \<le> cost - o_filled_cost od \<and> cost - o_filled_cost od \<le> 100 * (n - o_filled od)"
    and "n = o_filled od \<Longrightarrow> cost = o_filled_cost od"
  using assms by (auto simp: check_fill_def Let_def split: if_splits option.splits)



text \<open>
  A call either changes nothing but the error (it was refused, or raised), or all checks
  passed and the fill is booked.
\<close>

lemma record_fill_cases:
  obtains (refused) e where "snd (record_cumulative_fill c clk i n avg st t) = t\<lparr>et_error := e\<rparr>"
      "fst (record_cumulative_fill c clk i n avg st t) \<noteq> Some True"
    | (booked) m tm cost np where "et_error t = None" "find_order i (et_open_orders t) = Some m"
      "check_fill (et_open_orders t ! m) n avg st = Inr (tm, cost)"
      "if o_filled (et_open_orders t ! m) < n
       then np \<noteq> None \<and> fill_position (codec.truncate c) clk (et_positions t) (et_open_orders t ! m)
              (n - o_filled (et_open_orders t ! m)) (cost - o_filled_cost (et_open_orders t ! m)) = Inr np
       else np = None"
      "record_cumulative_fill c clk i n avg st t = apfst Some (book_fill c clk m n cost tm np t)"
proof (cases "et_error t = None \<and> find_order i (et_open_orders t) \<noteq> None")
  case False
  show ?thesis
  proof (cases "et_error t")
    case None
    with False refused [of "Some ''fill references unknown open order''"] show ?thesis
      by (simp add: record_cumulative_fill_def)
  next
    case (Some e)
    with refused [of "et_error t"] show ?thesis by (simp add: record_cumulative_fill_def)
  qed
next
  case True
  then obtain m where m: "find_order i (et_open_orders t) = Some m" and err: "et_error t = None" by auto
  let ?od = "et_open_orders t ! m"
  show ?thesis
  proof (cases "check_fill ?od n avg st")
    case (Inl e)
    with m err refused show ?thesis by (simp add: record_cumulative_fill_def)
  next
    case (Inr tc)
    obtain tm cost where tc: "tc = (tm, cost)" by (cases tc)
    let ?fp = "fill_position (codec.truncate c) clk (et_positions t) ?od (n - o_filled ?od) (cost - o_filled_cost ?od)"
    show ?thesis
    proof (cases "o_filled ?od < n")
      case False
      with m err Inr tc booked [of m tm cost None] show ?thesis by (simp add: record_cumulative_fill_def Let_def)
    next
      case lt: True
      show ?thesis
      proof (cases "\<exists>p. ?fp = Inr (Some p)")
        case False
        have self: "t\<lparr>et_error := None\<rparr> = t" using err by (cases t) simp
        show ?thesis
        proof (cases ?fp)
          case (Inl e)
          with m err \<open>check_fill ?od n avg st = Inr tc\<close> tc lt refused [of "Some e"] show ?thesis
            by (simp add: record_cumulative_fill_def)
        next
          case (Inr np)
          with False have "np = None" by (cases np) auto
          with Inr m err \<open>check_fill ?od n avg st = Inr tc\<close> tc lt refused [of None, unfolded self] show ?thesis
            by (simp add: record_cumulative_fill_def)
        qed
      next
        case True
        then obtain p where "?fp = Inr (Some p)" by blast
        with m err Inr tc lt booked [of m tm cost "Some p"] show ?thesis
          by (simp add: record_cumulative_fill_def Let_def)
      qed
    qed
  qed
qed




section \<open>Properties of reservations and fills\<close>

text \<open>The notional of an accepted reservation enters the book in full before transport and stays
  there: after the broker's acceptance is recorded, or the outcome is recorded as unknown,
  the total is the total before plus size times limit, with one more open order.\<close>

theorem reservation_holds_full_notional:
  assumes "reserve_order_submission c clk i m n p contract side t = (True, t1)"
    and "t2 \<in> {snd (confirm_open_order c clk' i broker_id t1), snd (mark_order_outcome_unknown c clk' i t1)}"
  shows "total_exposure_cents t2 = total_exposure_cents t + n * p \<and>
    open_order_count t2 = open_order_count t + 1 \<and> 0 < n * p"
proof -
  have "total_exposure_cents t1 = total_exposure_cents t + n * p" "open_order_count t1 = open_order_count t + 1"
    "1 \<le> n" "1 \<le> p"
    using book.reserve_adds [OF assms(1)] book.reserve_sane [OF assms(1)] by auto
  with assms(2) book.confirm_keeps [of c clk' i broker_id t1] book.unknown_keeps [of c clk' i t1]
  show ?thesis by auto
qed


definition positions_value :: "exposure_tracker \<Rightarrow> int" where
  "positions_value t = (\<Sum>p\<leftarrow>map snd (et_positions t). position_value p)"

lemma fill_position_fields:
  assumes "fill_position c clk ps od n k = Inr (Some p)"
  shows "pos_quantity p = (case map_of ps (pos_contract p, pos_side p) of None \<Rightarrow> 0 | Some q \<Rightarrow> pos_quantity q) + n"
    and "ceil_of_float (int_truediv
      ((case map_of ps (pos_contract p, pos_side p) of None \<Rightarrow> 0 | Some q \<Rightarrow> position_value q) + k) (pos_quantity p))
      = Some (pos_avg_price p)"
    and "pos_quantity p \<noteq> 0"
  using assms
  by (auto simp: fill_position_def Let_def position_value_def split: if_splits option.splits)

lemma book_fill_positions:
  "et_positions (snd (book_fill c clk m n cost tm np t)) =
     (case np of None \<Rightarrow> et_positions t | Some p \<Rightarrow> AList.update (pos_contract p, pos_side p) p (et_positions t))"
  by (simp add: book_fill_def Let_def)



lemma filled_order_ids [simp]:
  "o_order_id (filled_order clk od n cost tm) = o_order_id od" "o_client (filled_order clk od n cost tm) = o_client od"
  "o_filled (filled_order clk od n cost tm) = n" "o_filled_cost (filled_order clk od n cost tm) = cost"
  "o_size (filled_order clk od n cost tm) = o_size od" "o_price (filled_order clk od n cost tm) = o_price od"
  "o_remaining (filled_order clk od n cost tm) = o_size od - n"
  by (simp_all add: filled_order_def set_extra_def)



lemma positions_value_update:
  assumes "distinct (map fst (et_positions t))"
  shows "positions_value (t\<lparr>et_positions := AList.update k p (et_positions t)\<rparr>) =
    positions_value t + position_value p - (case map_of (et_positions t) k of None \<Rightarrow> 0 | Some q \<Rightarrow> position_value q)"
  using assms by (simp add: positions_value_def sum_list_update_dict del: map_map)

definition sane_position :: "position \<Rightarrow> bool" where
  "sane_position p \<longleftrightarrow> 0 \<le> pos_quantity p \<and> 0 \<le> pos_avg_price p \<and> pos_avg_price p \<le> 100"

lemma fill_value_covers_cost:
  assumes d: "distinct (map fst (et_positions t))" and sane: "\<forall>p \<in> snd ` set (et_positions t). sane_position p \<and> pos_quantity p \<le> 2 ^ 39"
    and n: "0 < n" "n \<le> 2 ^ 39" and k: "n \<le> k" "k \<le> 100 * n"
    and fp: "fill_position c clk (et_positions t) od n k = Inr (Some p)"
  shows "(case map_of (et_positions t) (pos_contract p, pos_side p) of None \<Rightarrow> 0 | Some q \<Rightarrow> position_value q) + k \<le> position_value p"
proof -
  let ?cur = "map_of (et_positions t) (pos_contract p, pos_side p)"
  let ?q = "case ?cur of None \<Rightarrow> 0 | Some q \<Rightarrow> pos_quantity q"
  let ?v = "case ?cur of None \<Rightarrow> 0 | Some q \<Rightarrow> position_value q"
  have q: "0 \<le> ?q \<and> ?q \<le> 2 ^ 39 \<and> 0 \<le> ?v \<and> ?v \<le> 100 * ?q"
  proof (cases ?cur)
    case None
    then show ?thesis by simp
  next
    case (Some r)
    then have "sane_position r \<and> pos_quantity r \<le> 2 ^ 39" using sane map_of_SomeD by force
    moreover from this have "pos_quantity r * pos_avg_price r \<le> pos_quantity r * 100"
      by (intro mult_left_mono) (auto simp: sane_position_def)
    ultimately show ?thesis using Some by (simp add: sane_position_def position_value_def)
  qed
  note f = fill_position_fields [OF fp]
  have b: "0 < pos_quantity p" "pos_quantity p \<le> 2 ^ 40" using q n f(1) by simp_all
  have a: "0 \<le> ?v + k" "?v + k \<le> 127 * pos_quantity p" using q k n f(1) by simp_all
  from f(2) have "pos_avg_price p = \<lceil>(of_int (?v + k) :: rat) / of_int (pos_quantity p)\<rceil>"
    using ceil_truediv [OF b a] by simp
  then have "(of_int (?v + k) :: rat) / of_int (pos_quantity p) \<le> of_int (pos_avg_price p)" by simp
  then have "(of_int (?v + k) :: rat) \<le> of_int (pos_avg_price p) * of_int (pos_quantity p)"
    using b by (simp only: pos_divide_le_eq of_int_0_less_iff)
  then have "?v + k \<le> pos_avg_price p * pos_quantity p" by (simp only: of_int_mult [symmetric] of_int_le_iff)
  then show ?thesis by (simp add: position_value_def mult.commute)
qed

text \<open>The book never understates what was paid. After an accepted fill the value of the
  positions has grown by at least the newly witnessed cost, although the average price is
  stored in whole cents from a float division (for positions of at most \<open>2 ^ 39\<close> contracts).\<close>

theorem fill_never_understates_cost:
  assumes wf: "book_wf t" and find: "find_order i (et_open_orders t) = Some m"
    and sane: "\<forall>p \<in> snd ` set (et_positions t). sane_position p \<and> pos_quantity p \<le> 2 ^ 39"
    and small: "0 \<le> o_filled (et_open_orders t ! m)" "o_size (et_open_orders t ! m) \<le> 2 ^ 39"
    and pos: "0 < n" and ok: "record_cumulative_fill c clk i n (Some a) st t = (Some True, t1)"
  shows "positions_value t + (n * a - o_filled_cost (et_open_orders t ! m)) \<le> positions_value t1"
proof (cases rule: record_fill_cases [of c clk i n "Some a" st t])
  case (refused e)
  with ok show ?thesis by simp
next
  case (booked m' tm cost np)
  let ?od = "et_open_orders t ! m"
  have m': "m' = m" using booked(2) find by simp
  note chk = booked(3) [unfolded m'] and fill = booked(4) [unfolded m']
  have cost: "cost = n * a" using check_fill_Inr(5) [OF chk] pos by simp
  have t1: "t1 = snd (book_fill c clk m n cost tm np t)"
    using booked(5) ok m' by (cases "book_fill c clk m n cost tm np t") auto
  have d: "distinct (map fst (et_positions t))" using wf by (simp add: book_wf_def)
  show ?thesis
  proof (cases "o_filled ?od < n")
    case False
    with check_fill_Inr(2,7) [OF chk] fill show ?thesis
      by (simp add: t1 positions_value_def book_fill_positions cost)
  next
    case True
    with fill obtain p where p: "np = Some p" and
      fp: "fill_position (codec.truncate c) clk (et_positions t) ?od (n - o_filled ?od) (cost - o_filled_cost ?od) = Inr (Some p)"
      by auto
    have "n - o_filled ?od \<le> 2 ^ 39" using check_fill_Inr(3) [OF chk] small by simp
    from fill_value_covers_cost [OF d sane _ this _ _ fp] True check_fill_Inr(6) [OF chk True]
    show ?thesis
      using positions_value_update [OF d, of "(pos_contract p, pos_side p)" p]
      by (simp add: t1 positions_value_def book_fill_positions p cost del: map_map)
  qed
qed

text \<open>C25: A tracker started on an unreadable book is latched: the preflight fails and leaves the
  file. But recording an order (as well as the other unguarded writers) persists without
  looking at the latch: the unreadable file is replaced by a book with no positions, the
  error is cleared and the preflight passes.\<close>

theorem record_order_overwrites_unreadable_book:
  "let t = init_exposure c True (Unreadable e) []; t1 = record_order c clk market n price t
   in verify_exposure c clk t = (False, t) \<and> et_file t = Unreadable e \<and>
      et_positions t1 = [] \<and> et_file t1 \<noteq> Unreadable e \<and> state_healthy t1 \<and> fst (verify_exposure c clk2 t1)"
  by (simp add: init_exposure_def load_exposure_def Let_def record_order_def verify_exposure_def persist_exposure_def
      state_healthy_def)

section \<open>The round trip through the file\<close>

definition storable_order :: "open_order \<Rightarrow> bool" where
  "storable_order od \<longleftrightarrow> order_wf od \<and> strip (o_order_id od) = o_order_id od \<and> strip (o_market od) = o_market od \<and>
     o_market od \<noteq> [] \<and> o_state od \<noteq> [] \<and> (\<forall>p \<in> set (o_extra od). fst p \<notin> set order_keys)"

lemma map_of_extra: "(\<forall>p \<in> set d. fst p \<notin> S) \<Longrightarrow> k \<in> S \<Longrightarrow> map_of d k = None"
  by (auto simp: map_of_eq_None_iff)

lemma load_dump_order:
  assumes "storable_order od"
  shows "load_order c (dump_order od) = Inr od"
proof -
  have ex: "map_of (o_extra od) k = None" if "k \<in> set order_keys" for k
    using assms that by (intro map_of_extra) (auto simp: storable_order_def)
  have fl: "filter (\<lambda>p. fst p \<notin> set order_keys) (o_extra od) = o_extra od"
    using assms by (simp add: storable_order_def)
  show ?thesis
    using assms ex fl
    by (cases "o_client od"; cases "o_contract od"; cases "o_side od")
      (simp_all add: load_order_def dump_order_def jget_def jget_default_def opt_entry_def
        storable_order_def order_wf_def por_def order_keys_def)
qed

lemma sum_all_map: "(\<And>x. x \<in> set xs \<Longrightarrow> f (g x) = Inr x) \<Longrightarrow> sum_all f (map g xs) = Inr xs"
  by (induction xs) auto

lemma update_new_key: "k \<notin> fst ` set d \<Longrightarrow> AList.update k v d = d @ [(k, v)]"
  by (induction d) auto

lemma rebuild_dict:
  "distinct (map fst (d @ ps)) \<Longrightarrow> (\<forall>(k, p) \<in> set ps. k = f p) \<Longrightarrow>
     fold (\<lambda>p. AList.update (f p) p) (map snd ps) d = d @ ps"
proof (induction ps arbitrary: d)
  case Nil
  then show ?case by simp
next
  case (Cons kp ps)
  obtain k p where kp: "kp = (k, p)" by (cases kp)
  with Cons.prems have k: "k = f p" and fresh: "k \<notin> fst ` set d" by auto
  have "distinct (map fst ((d @ [(k, p)]) @ ps))" "\<forall>(k, p) \<in> set ps. k = f p" using Cons.prems kp by auto
  from Cons.IH [OF this] show ?case using kp k fresh by (simp add: update_new_key)
qed

lemma load_dump_history:
  assumes "codec_ok c" and "''ts'' \<notin> fst ` set (h_rest h)"
  shows "load_history_item c (dump_history_item c h) = Inr h"
proof -
  have fl: "filter (\<lambda>p. fst p \<noteq> ''ts'') (h_rest h) = h_rest h"
    using assms(2) by (intro filter_True) force
  have "CHR ''Z'' \<notin> set (to_iso c (h_ts h))" "from_iso c (to_iso c (h_ts h)) = Some (Aware (h_ts h))"
    using assms(1) by (auto simp: codec_ok_def)
  then have "parse_timestamp c (JStr (to_iso c (h_ts h))) = Some (h_ts h)"
    by (simp add: parse_timestamp_def z_to_offset_id)
  then show ?thesis by (simp add: load_history_item_def dump_history_item_def fl)
qed

text \<open>A book that was persisted comes back: positions, reservations and the last 10,000
  orders of the history are read from the file exactly as they were written, and the tracker
  is healthy.\<close>

theorem exposure_roundtrip:
  assumes "codec_ok (codec.truncate c)" and "\<forall>p. validate_position c (dump_position c p) = Inr p"
    and "book_wf t" and "\<forall>od \<in> set (et_open_orders t). storable_order od"
    and "\<forall>h \<in> set (et_history t). ''ts'' \<notin> fst ` set (h_rest h)"
    and "et_persist_enabled t" and "persist_exposure c clk t = (True, t1)"
  shows "let t2 = init_exposure c True (et_file t1) ws in
    et_positions t2 = et_positions t \<and> et_open_orders t2 = et_open_orders t \<and>
    et_history t2 = last_n 10000 (et_history t) \<and> state_healthy t2"
proof -
  have held: "et_file t1 = Holds (exposure_payload c clk t)"
    using persist_exposure_True [of c clk t] assms(6,7) by simp
  have ps: "sum_all (validate_position c) (map (dump_position c \<circ> snd) (et_positions t)) = Inr (map snd (et_positions t))"
    using assms(2) sum_all_map [of "map snd (et_positions t)" "validate_position c" "dump_position c"] by simp
  have os: "sum_all (load_order (codec.truncate c)) (map dump_order (et_open_orders t)) = Inr (et_open_orders t)"
    using assms(4) by (intro sum_all_map) (simp add: load_dump_order)
  have "\<forall>h \<in> set (last_n 10000 (et_history t)). ''ts'' \<notin> fst ` set (h_rest h)"
    using assms(5) set_last_n by (metis subsetD)
  then have hs: "sum_all (load_history_item (codec.truncate c))
      (map (dump_history_item (codec.truncate c)) (last_n 10000 (et_history t))) = Inr (last_n 10000 (et_history t))"
    using assms(1) by (intro sum_all_map) (simp add: load_dump_history)
  have "fold (\<lambda>p. AList.update (position_key p) p) (map snd (et_positions t)) [] = et_positions t"
    using rebuild_dict [of "[]" "et_positions t" position_key] assms(3) by (simp add: book_wf_def)
  then show ?thesis
    by (simp add: init_exposure_def held load_exposure_def exposure_payload_def load_collections_def ps os hs
        state_healthy_def Let_def)
qed

section \<open>Concrete runs\<close>

definition plain_dump_position :: "position \<Rightarrow> json" where
  "plain_dump_position p = JArr [JStr (pos_market p), JStr (pos_contract p), JStr (pos_side p), JInt (pos_quantity p),
     JInt (pos_avg_price p), JInt (pos_upnl p),
     (case pos_source_ts p of None \<Rightarrow> JNull | Some t \<Rightarrow> JInt t),
     (case pos_freshness p of None \<Rightarrow> JNull | Some (DFin x) \<Rightarrow> JFloat (Fin x) | Some DNonFinite \<Rightarrow> JFloat NaN)]"

definition plain_validate_position :: "json \<Rightarrow> string + position" where
  "plain_validate_position v =
     (case v of
        JArr [JStr m, JStr k, JStr s, JInt q, JInt a, JInt u, ts, fr] \<Rightarrow>
          Inr \<lparr>pos_market = m, pos_contract = k, pos_side = s, pos_quantity = q, pos_avg_price = a, pos_upnl = u,
            pos_source_ts = (case ts of JInt t \<Rightarrow> Some t | _ \<Rightarrow> None),
            pos_freshness = (case fr of JFloat (Fin x) \<Rightarrow> Some (DFin x) | JFloat _ \<Rightarrow> Some DNonFinite | _ \<Rightarrow> None)\<rparr>
      | _ \<Rightarrow> Inl ''bad position'')"

definition plain_book_codec :: book_codec where
  "plain_book_codec = codec.extend plain_codec
     \<lparr>validate_position = plain_validate_position, dump_position = plain_dump_position\<rparr>"

lemma truncate_plain_book_codec [simp]: "codec.truncate plain_book_codec = plain_codec"
  by (simp add: plain_book_codec_def codec.defs)

lemma plain_position_roundtrip: "validate_position plain_book_codec (dump_position plain_book_codec p) = Inr p"
  by (cases p) (auto simp: plain_book_codec_def codec.defs plain_dump_position_def plain_validate_position_def
      split: option.splits decimal.splits)

definition sample_book :: exposure_tracker where
  "sample_book =
     \<lparr>et_persist_enabled = True,
      et_positions = [((''KXBTC-1'', ''yes''),
        \<lparr>pos_market = ''KXBTC-1'', pos_contract = ''KXBTC-1'', pos_side = ''yes'', pos_quantity = 3,
         pos_avg_price = 40, pos_upnl = 0, pos_source_ts = None, pos_freshness = None\<rparr>)],
      et_history = [\<lparr>h_ts = 5, h_rest = [(''size'', JInt 3)]\<rparr>],
      et_open_orders = [new_order ''c1'' (Some (JStr ''c1'')) ''KXBTC-1'' 5 42 None (Some ''yes'') ''open'' []],
      et_error = None, et_file = Absent, et_writes = []\<rparr>"

lemma sample_book_wf: "book_wf sample_book"
  by (simp add: book_wf_def sample_book_def position_key_def order_wf_new_order)

lemma sample_find: "find_order ''c1'' (et_open_orders sample_book) = Some 0"
  by (simp add: sample_book_def new_order_def matches_order_def)

lemma sample_fill_price: "ceil_of_float (int_truediv 202 5) = Some 41"
proof -
  have "\<lceil>(of_int 202 :: rat) / of_int 5\<rceil> = 41" by (simp add: ceiling_eq_iff)
  then show ?thesis using ceil_truediv [of 5 202] by simp
qed

lemma sample_fill:
  "fst (record_cumulative_fill plain_book_codec noon ''c1'' 2 (Some 41) None sample_book) = Some True"
  using sample_fill_price
  by (simp add: record_cumulative_fill_def sample_book_def new_order_def matches_order_def check_fill_def
      fill_terminal_def fill_position_def contract_or_market_def jopt_str_def por_def book_fill_def
      persist_exposure_def apfst_def map_prod_def Let_def)


lemma reservation_holds_full_notional_witness:
  "total_exposure_cents (snd (mark_order_outcome_unknown plain_book_codec noon ''c2''
     (snd (reserve_order_submission plain_book_codec noon ''c2'' ''KXETH-1'' 2 30 None (Some ''no'') sample_book)))) = 390"
proof -
  obtain t1 where r: "reserve_order_submission plain_book_codec noon ''c2'' ''KXETH-1'' 2 30 None (Some ''no'') sample_book = (True, t1)"
    by (simp add: reserve_order_submission_def sample_book_def new_order_def matches_order_def persist_exposure_def)
  have "total_exposure_cents sample_book = 330"
    by (simp add: total_exposure_cents_def sample_book_def position_value_def reservation_value_def new_order_def)
  with reservation_holds_full_notional [OF r, of "snd (mark_order_outcome_unknown plain_book_codec noon ''c2'' t1)" noon "''b2''"] r
  show ?thesis by simp
qed


lemma fill_never_understates_cost_witness:
  "202 \<le> positions_value (snd (record_cumulative_fill plain_book_codec noon ''c1'' 2 (Some 41) None sample_book))"
proof -
  obtain t1 where r: "record_cumulative_fill plain_book_codec noon ''c1'' 2 (Some 41) None sample_book = (Some True, t1)"
    using sample_fill by (metis prod.collapse)
  have "\<forall>p \<in> snd ` set (et_positions sample_book). sane_position p \<and> pos_quantity p \<le> 2 ^ 39"
    "0 \<le> o_filled (et_open_orders sample_book ! 0)" "o_size (et_open_orders sample_book ! 0) \<le> 2 ^ 39" "0 < (2 :: int)"
    by (simp_all add: sample_book_def sane_position_def new_order_def)
  from fill_never_understates_cost [OF sample_book_wf sample_find this r] r show ?thesis
    by (simp add: sample_book_def positions_value_def position_value_def new_order_def)
qed

lemma exposure_roundtrip_witness:
  "et_open_orders (init_exposure plain_book_codec True (et_file (snd (persist_exposure plain_book_codec noon sample_book))) [])
     = et_open_orders sample_book"
proof -
  obtain t1 where p: "persist_exposure plain_book_codec noon sample_book = (True, t1)"
    by (simp add: persist_exposure_def sample_book_def)
  have st: "storable_order (new_order ''c1'' (Some (JStr ''c1'')) ''KXBTC-1'' 5 42 None (Some ''yes'') ''open'' [])"
    by (simp add: storable_order_def order_wf_new_order) (simp add: new_order_def strip_def is_space_def)
  have "codec_ok (codec.truncate plain_book_codec)" "\<forall>p. validate_position plain_book_codec (dump_position plain_book_codec p) = Inr p"
    "\<forall>od \<in> set (et_open_orders sample_book). storable_order od"
    "\<forall>h \<in> set (et_history sample_book). ''ts'' \<notin> fst ` set (h_rest h)" "et_persist_enabled sample_book"
    using codec_ok_plain_codec plain_position_roundtrip st by (simp_all add: sample_book_def)
  from exposure_roundtrip [OF this(1,2) sample_book_wf this(3-5) p, of "[]"] p show ?thesis by (simp add: Let_def)
qed

end
