(* ===== verification/Fees.thy ===== *)
theory Fees
  imports PyNum
begin

text \<open>
  \<open>autonomy/fees.py\<close>: the time-bounded fee schedule and the maker and taker fees of an order,
  computed in floats as the source does and rounded up to whole cents. Dates are day numbers
  counted from 1970-01-01.
\<close>

section \<open>The schedule\<close>

definition FEE_SCHEDULE_EFFECTIVE_DATE :: int where
  "FEE_SCHEDULE_EFFECTIVE_DATE = 20641"

definition FEE_SCHEDULE_MAX_AGE_DAYS :: int where
  "FEE_SCHEDULE_MAX_AGE_DAYS = 31"

definition FEE_SCHEDULE_REFRESH_WARNING_DAYS :: int where
  "FEE_SCHEDULE_REFRESH_WARNING_DAYS = 7"

definition FEE_SCHEDULE_URL :: string where
  "FEE_SCHEDULE_URL = ''https://kalshi.com/docs/kalshi-fee-schedule.pdf''"

definition MAKER_FEE_SERIES :: "string list" where
  "MAKER_FEE_SERIES =
    [''KXAAAGASM'', ''KXATPMATCH'', ''KXBALLONDOR'', ''KXBTCMAX150'', ''KXCPI'', ''KXCPIYOY'', ''KXEGGS'',
     ''KXEMMYCACTO'', ''KXEMMYCACTR'', ''KXEMMYCSERIES'', ''KXEMMYDACTO'', ''KXEMMYDACTR'',
     ''KXEMMYDSERIES'', ''KXFED'', ''KXFEDDECISION'', ''KXGDP'', ''KXHEISMAN'', ''KXINXY'', ''KXIPO'',
     ''KXLALIGA'', ''KXLLM1'', ''KXMARMAD'', ''KXMENWORLDCUP'', ''KXMLB'', ''KXMLBAL'', ''KXMLBASGAME'',
     ''KXMLBGAME'', ''KXMLBNL'', ''KXNASDAQ100Y'', ''KXNBA'', ''KXNBAEAST'', ''KXNBAMVP'', ''KXNBAROY'',
     ''KXNBAWEST'', ''KXNCAAF'', ''KXNCAAFACC'', ''KXNCAAFB10'', ''KXNCAAFB12'', ''KXNCAAFGAME'',
     ''KXNCAAFPLAYOFF'', ''KXNCAAFSEC'', ''KXNFLAFCCHAMP'', ''KXNFLAFCEAST'', ''KXNFLAFCNORTH'',
     ''KXNFLAFCSOUTH'', ''KXNFLAFCWEST'', ''KXNFLCOTY'', ''KXNFLCPOTY'', ''KXNFLDPOTY'', ''KXNFLDROTY'',
     ''KXNFLGAME'', ''KXNFLMVP'', ''KXNFLNFCCHAMP'', ''KXNFLNFCEAST'', ''KXNFLNFCNORTH'', ''KXNFLNFCSOUTH'',
     ''KXNFLNFCWEST'', ''KXNFLOPOTY'', ''KXNFLOROTY'', ''KXNHL'', ''KXNHLEAST'', ''KXNHLWEST'',
     ''KXPAYROLLS'', ''KXPGARYDER'', ''KXPGASOLHEIM'', ''KXPGATOUR'', ''KXRATECUTCOUNT'', ''KXSB'',
     ''KXSUPERBOWLHEADLINE'', ''KXU3'', ''KXUCL'', ''KXUCLGAME'', ''KXWCGAME'', ''KXWNBA'', ''KXWNBAGAME'',
     ''KXWTAMATCH'']"

definition ZERO_FEE_SERIES :: "string list" where
  "ZERO_FEE_SERIES =
    [''KXBTCY'', ''KXCITRINI'', ''KXDOED'', ''KXELECTIRAN'', ''KXETHY'', ''KXGAMBLINGREPEAL'',
     ''KXGREENLAND'', ''KXIRANDEMOCRACY'', ''KXLAYOFFSYINFO'', ''KXPAHLAVIHEAD'']"

text \<open>
  \<open>date.isoformat()\<close>: year, month and day of a day number (counted in 400-year eras that start
  on the first of March), padded to four and two digits.
\<close>

definition pad :: "nat \<Rightarrow> int \<Rightarrow> string" where
  "pad w n = (let s = show_int n in replicate (w - length s) CHR ''0'' @ s)"

definition civil_date :: "int \<Rightarrow> int \<times> int \<times> int" where
  "civil_date d =
     (let z = d + 719468; era = z div 146097; doe = z - era * 146097;
          yoe = (doe - doe div 1460 + doe div 36524 - doe div 146096) div 365;
          doy = doe - (365 * yoe + yoe div 4 - yoe div 100); mp = (5 * doy + 2) div 153;
          day = doy - (153 * mp + 2) div 5 + 1; month = (if mp < 10 then mp + 3 else mp - 9)
      in (yoe + era * 400 + (if month \<le> 2 then 1 else 0), month, day))"

definition iso_date :: "int \<Rightarrow> string" where
  "iso_date d = (let (y, m, dd) = civil_date d in pad 4 y @ ''-'' @ pad 2 m @ ''-'' @ pad 2 dd)"

record fee_schedule_freshness =
  fs_as_of :: int
  fs_effective_date :: int
  fs_last_fresh_date :: int
  fs_fail_closed_from :: int
  fs_age_days :: int
  fs_days_until_last_fresh_date :: int
  fs_days_until_fail_closed :: int
  fs_fresh :: bool
  fs_refresh_recommended :: bool
  fs_status :: string
  fs_warning :: "string option"
  fs_source_url :: string

text \<open>\<open>None\<close> for \<open>as_of\<close> means today.\<close>

definition fee_schedule_freshness :: "int \<Rightarrow> int option \<Rightarrow> fee_schedule_freshness" where
  "fee_schedule_freshness today as_of =
     (let current = (case as_of of None \<Rightarrow> today | Some d \<Rightarrow> d);
          age = current - FEE_SCHEDULE_EFFECTIVE_DATE;
          last_fresh = FEE_SCHEDULE_EFFECTIVE_DATE + FEE_SCHEDULE_MAX_AGE_DAYS;
          fail_closed = last_fresh + 1;
          fresh = (0 \<le> age \<and> age \<le> FEE_SCHEDULE_MAX_AGE_DAYS);
          (status, recommended, warning) =
            (if age < 0
             then (''NOT_YET_EFFECTIVE'', False, Some (''embedded fee schedule is not effective until '' @
                     iso_date FEE_SCHEDULE_EFFECTIVE_DATE @ ''; maker pricing fails closed''))
             else if \<not> fresh
             then (''STALE'', True, Some (''embedded fee schedule has been stale since '' @ iso_date fail_closed @
                     ''; maker pricing is failing closed to taker; validate a replacement from '' @ FEE_SCHEDULE_URL))
             else if last_fresh - current \<le> FEE_SCHEDULE_REFRESH_WARNING_DAYS
             then (''REFRESH_DUE'', True, Some (''embedded fee schedule reaches its last fresh date on '' @
                     iso_date last_fresh @ '' and fails closed from '' @ iso_date fail_closed @
                     ''; validate a replacement from '' @ FEE_SCHEDULE_URL))
             else (''FRESH'', False, None))
      in \<lparr>fs_as_of = current, fs_effective_date = FEE_SCHEDULE_EFFECTIVE_DATE, fs_last_fresh_date = last_fresh,
          fs_fail_closed_from = fail_closed, fs_age_days = age,
          fs_days_until_last_fresh_date = last_fresh - current, fs_days_until_fail_closed = fail_closed - current,
          fs_fresh = fresh, fs_refresh_recommended = recommended, fs_status = status, fs_warning = warning,
          fs_source_url = FEE_SCHEDULE_URL\<rparr>)"

definition fee_schedule_refresh_warning :: "int \<Rightarrow> int option \<Rightarrow> string option" where
  "fee_schedule_refresh_warning today as_of = fs_warning (fee_schedule_freshness today as_of)"

definition fee_schedule_is_fresh :: "int \<Rightarrow> int option \<Rightarrow> bool" where
  "fee_schedule_is_fresh today as_of = fs_fresh (fee_schedule_freshness today as_of)"

section \<open>Fees\<close>

definition series_ticker :: "string option \<Rightarrow> string" where
  "series_ticker market = upper (split_head CHR ''-'' (case market of None \<Rightarrow> [] | Some m \<Rightarrow> m))"

text \<open>\<open>None\<close> is the OverflowError of a count beyond the range of floats.\<close>

definition fee_cents :: "int \<Rightarrow> int \<Rightarrow> pyfloat \<Rightarrow> int \<Rightarrow> int option" where
  "fee_cents price_cents count rate multiplier =
     (if count \<le> 0 \<or> multiplier \<le> 0 \<or> \<not> (1 \<le> price_cents \<and> price_cents \<le> 99) then Some 0
      else
        (let p = int_truediv price_cents 100;
             raw_cents = fmul (fmul (fmul (fmul (fmul (Fin 100) (float_of_int multiplier)) rate) (float_of_int count)) p)
                           (fsub (Fin 1) p)
         in ceil_of_float (fsub raw_cents (to_float (1 / 10 ^ 12)))))"

definition kalshi_taker_fee_cents :: "int \<Rightarrow> int \<Rightarrow> string option \<Rightarrow> int option" where
  "kalshi_taker_fee_cents price_cents count market =
     fee_cents price_cents count (to_float (7 / 100))
       (if series_ticker market \<in> set ZERO_FEE_SERIES then 0 else 1)"

text \<open>
  The maker fee. When the schedule is due for a refresh the source also issues a Python
  warning with \<open>fs_warning\<close>; the fee is the same.
\<close>

definition kalshi_maker_fee_cents :: "int \<Rightarrow> int \<Rightarrow> int \<Rightarrow> string option \<Rightarrow> int option \<Rightarrow> int option" where
  "kalshi_maker_fee_cents today price_cents count market as_of =
     (let freshness = fee_schedule_freshness today as_of in
      if \<not> fs_fresh freshness then kalshi_taker_fee_cents price_cents count market
      else
        (let series = series_ticker market in
         if series \<in> set ZERO_FEE_SERIES then Some 0
         else fee_cents price_cents count (to_float (175 / 10000)) (if series \<in> set MAKER_FEE_SERIES then 1 else 0)))"

section \<open>Properties\<close>

lemma price_fraction:
  assumes "1 \<le> price" and "price \<le> 99"
  obtains p q where "int_truediv price 100 = Fin p" "0 < p" "fsub (Fin 1) (Fin p) = Fin q" "0 < q"
proof -
  let ?x = "of_int price / 100 :: rat"
  have lo: "0 < r64 (1 / 100)" and hi: "r64 (99 / 100) < 1" and gap: "0 < r64 (1 - r64 (99 / 100))"
    by code_simp+
  have "(1 :: rat) \<le> of_int price" "(of_int price :: rat) \<le> 99" using assms by simp_all
  then have "1 / 100 \<le> ?x" "?x \<le> 99 / 100" by simp_all
  then have p: "r64 (1 / 100) \<le> r64 ?x" "r64 ?x \<le> r64 (99 / 100)" by (auto intro: r64_mono_all)
  then have "r64 (1 - r64 (99 / 100)) \<le> r64 (1 - r64 ?x)" by (intro r64_mono_all) simp
  moreover have "r64 (1 - r64 ?x) \<le> r64 (of_int 1)" using p lo by (intro r64_mono_all) simp
  moreover have "r64 (of_int 1) = of_int 1" by (intro r64_of_int) auto
  ultimately have q: "0 < r64 (1 - r64 ?x)" "r64 (1 - r64 ?x) \<le> 1" using gap by auto
  have big: "(1 :: rat) < float_limit" by (simp add: float_limit_def)
  show thesis
  proof (rule that)
    show "int_truediv price 100 = Fin (r64 ?x)"
      using p lo hi big by (simp add: int_truediv_def to_float_def Let_def)
    show "fsub (Fin 1) (Fin (r64 ?x)) = Fin (r64 (1 - r64 ?x))"
      using q big by (simp add: fsub_def to_float_def Let_def)
  qed (use p lo q in auto)
qed

text \<open>The fee before rounding up, in the operand order of the source, for multiplier 1.\<close>

definition raw_fee :: "pyfloat \<Rightarrow> int \<Rightarrow> int \<Rightarrow> pyfloat" where
  "raw_fee rate price count =
     fmul (fmul (fmul (fmul (fmul (Fin 100) (float_of_int 1)) rate) (float_of_int count)) (int_truediv price 100))
       (fsub (Fin 1) (int_truediv price 100))"

lemma float_of_one [simp]: "float_of_int 1 = Fin 1"
  using r64_of_int [of 1] by (simp add: float_of_int_def to_float_def Let_def float_limit_def)

lemma float_hundred [simp]: "to_float 100 = Fin 100"
  using r64_of_int [of 100] by (simp add: to_float_def Let_def float_limit_def)

lemma float_count: "0 < count \<Longrightarrow> fnonneg (float_of_int count) \<and> (\<forall>x. float_of_int count = Fin x \<longrightarrow> 1 \<le> x)"
proof -
  assume c: "0 < count"
  have "r64 (of_int 1) \<le> r64 (of_int count)" using c by (intro r64_mono_all) simp
  moreover have "r64 (of_int 1) = of_int 1" by (intro r64_of_int) auto
  ultimately show ?thesis by (auto simp: float_of_int_def to_float_def Let_def float_limit_def)
qed

lemma fmul_PosInf_mono: "fnonneg a \<Longrightarrow> fle a b \<Longrightarrow> a \<noteq> Fin 0 \<Longrightarrow> fle (fmul a PosInf) (fmul b PosInf)"
  by (cases a; cases b) (auto simp: inf_of_sign_def)

lemma raw_fee_mono:
  assumes price: "1 \<le> price" "price \<le> 99" and count: "0 < count" and r: "1 / 1000 \<le> r" "r \<le> s"
  shows "fle (raw_fee (Fin r) price count) (raw_fee (Fin s) price count) \<and> fnonneg (raw_fee (Fin r) price count)"
proof -
  obtain p q where p: "int_truediv price 100 = Fin p" "0 < p" and q: "fsub (Fin 1) (Fin p) = Fin q" "0 < q"
    using price_fraction [OF price] by metis
  let ?a = "fmul (Fin 100) (Fin r)" and ?b = "fmul (Fin 100) (Fin s)"
  have ab: "fle ?a ?b" "fnonneg ?a" using r by (auto intro: to_float_mono_all fnonneg_to_float)
  have step: "fle (fmul ?a (float_of_int count)) (fmul ?b (float_of_int count)) \<and> fnonneg (fmul ?a (float_of_int count))"
    if "?a \<noteq> Fin 0"
  proof (cases "float_of_int count")
    case (Fin x)
    with float_count [OF count] have "0 < x" by auto
    with Fin ab show ?thesis using fmul_mono [of ?a ?b x] fmul_nonneg [of ?a x] by simp
  next
    case PosInf
    have "fmul ?a PosInf = PosInf" using ab(2) that by (cases ?a) (auto simp: inf_of_sign_def)
    with PosInf fmul_PosInf_mono [OF ab(2,1) that] show ?thesis by simp
  next
    case NegInf
    with float_count [OF count] show ?thesis by simp
  next
    case NaN
    with float_count [OF count] show ?thesis by simp
  qed
  have h: "fmul (Fin 100) (Fin 1) = Fin 100" by simp
  have "r64 (1 / 10) \<le> r64 (100 * r)" using r by (intro r64_mono_all) simp
  moreover have "0 < r64 (1 / 10)" by code_simp
  ultimately have "?a \<noteq> Fin 0" by (auto simp: to_float_def Let_def split: if_splits)
  from step [OF this] show ?thesis
    unfolding raw_fee_def float_of_one h p(1) q(1)
    using p(2) q(2) by (auto simp del: fmul.simps(1) intro!: fmul_mono fmul_nonneg)
qed

lemma to_float_bounded:
  assumes "0 \<le> x" and "x \<le> of_int n" and "n < 2 ^ 53"
  shows "\<exists>y. to_float x = Fin y \<and> 0 \<le> y \<and> y \<le> of_int n"
proof -
  have n: "0 \<le> n" using assms(1,2) by (metis of_int_0_le_iff order_trans)
  have "r64 x \<le> r64 (of_int n)" using assms(2) by (rule r64_mono_all)
  then have le: "r64 x \<le> of_int n" using r64_of_int [OF n assms(3)] by simp
  have "(of_int n :: rat) < of_int (2 ^ 53)" using assms(3) by (simp only: of_int_less_iff)
  with le have "\<not> float_limit \<le> r64 x" by (simp add: float_limit_def)
  then show ?thesis using assms(1) le r64_nonneg [of x] by (simp add: to_float_nonneg)
qed

lemma to_float_below: "\<bar>r64 x\<bar> < float_limit \<Longrightarrow> to_float x = Fin (r64 x)"
  by (auto simp: to_float_def Let_def)

lemma rate_bounds:
  "1 / 1000 \<le> r64 (175 / 10000) \<and> r64 (175 / 10000) \<le> r64 (7 / 100) \<and> r64 (7 / 100) \<le> 8 / 100 \<and>
   0 < r64 (1 / 10 ^ 12) \<and> r64 (1 / 10 ^ 12) < 1 \<and> - 1 < r64 (- r64 (1 / 10 ^ 12))"
  by code_simp

lemma rate_floats:
  "to_float (7 / 100) = Fin (r64 (7 / 100))" "to_float (175 / 10000) = Fin (r64 (175 / 10000))"
  "to_float (1 / 10 ^ 12) = Fin (r64 (1 / 10 ^ 12))"
  "1 / 1000 \<le> r64 (175 / 10000)" "r64 (175 / 10000) \<le> r64 (7 / 100)" "r64 (7 / 100) \<le> 8 / 100"
  "0 < r64 (1 / 10 ^ 12)" "- 1 < r64 (- r64 (1 / 10 ^ 12))"
proof -
  have big: "(1 :: rat) \<le> float_limit" by (simp add: float_limit_def)
  have "\<bar>r64 (7 / 100)\<bar> < 1" "\<bar>r64 (175 / 10000)\<bar> < 1" "\<bar>r64 (1 / 10 ^ 12)\<bar> < 1" using rate_bounds by linarith+
  then show "to_float (7 / 100) = Fin (r64 (7 / 100))" "to_float (175 / 10000) = Fin (r64 (175 / 10000))"
    "to_float (1 / 10 ^ 12) = Fin (r64 (1 / 10 ^ 12))"
    using big by (blast intro: to_float_below less_le_trans)+
qed (use rate_bounds in \<open>blast+\<close>)

lemma fee_cents_raw:
  "0 < count \<Longrightarrow> 1 \<le> price \<Longrightarrow> price \<le> 99 \<Longrightarrow>
     fee_cents price count rate 1 = ceil_of_float (fsub (raw_fee rate price count) (to_float (1 / 10 ^ 12)))"
  by (simp add: fee_cents_def raw_fee_def Let_def)

lemma fee_cents_zero: "count \<le> 0 \<or> multiplier \<le> 0 \<or> \<not> (1 \<le> price \<and> price \<le> 99) \<Longrightarrow> fee_cents price count rate multiplier = Some 0"
  by (auto simp: fee_cents_def)

lemma fee_cents_nonneg:
  assumes "rate = Fin r" and "1 / 1000 \<le> r" and "m \<in> {0, 1}" and "fee_cents price count rate m = Some v"
  shows "0 \<le> v"
proof (cases "count \<le> 0 \<or> m \<le> 0 \<or> \<not> (1 \<le> price \<and> price \<le> 99)")
  case True
  then show ?thesis using assms(4) fee_cents_zero [OF True, of rate] by simp
next
  case False
  then have pos: "0 < count" "1 \<le> price" "price \<le> 99" and m: "m = 1" using assms(3) by auto
  let ?raw = "raw_fee rate price count"
  have nn: "fnonneg ?raw" using raw_fee_mono [OF pos(2,3,1) assms(2) order_refl] assms(1) by simp
  have v: "ceil_of_float (fsub ?raw (to_float (1 / 10 ^ 12))) = Some v"
    using assms(4) fee_cents_raw [OF pos] m by simp
  show ?thesis
  proof (cases ?raw)
    case (Fin x)
    then have x: "0 \<le> x" using nn by simp
    have "r64 (- r64 (1 / 10 ^ 12)) \<le> r64 (x - r64 (1 / 10 ^ 12))" using x by (intro r64_mono_all) simp
    then have "- 1 < r64 (x - r64 (1 / 10 ^ 12))" using rate_floats(8) by linarith
    then have "0 \<le> \<lceil>r64 (x - r64 (1 / 10 ^ 12))\<rceil>" by (simp add: zero_le_ceiling)
    with v Fin rate_floats(3) show ?thesis
      by (auto simp: fsub_def to_float_def Let_def ceil_of_float_def split: if_splits)
  qed (use v nn rate_floats(3) in \<open>auto simp: fsub_def ceil_of_float_def\<close>)
qed

lemma fsub_mono: "fle a b \<Longrightarrow> fle (fsub a (Fin c)) (fsub b (Fin c))"
  by (simp add: fsub_def fadd_mono)

text \<open>A resting order never pays more than a crossing one. For every price, count, series and
  date the maker fee is at least zero and at most the taker fee of the same order, computed
  in the floats the source uses.\<close>

theorem maker_fee_at_most_taker:
  assumes "kalshi_maker_fee_cents today price count market as_of = Some maker"
    and "kalshi_taker_fee_cents price count market = Some taker"
  shows "0 \<le> maker \<and> maker \<le> taker"
proof -
  have taker: "0 \<le> taker"
    using assms(2) rate_floats(1,4,5) fee_cents_nonneg [OF refl _ _ , of "r64 (7 / 100)"]
    by (auto simp: kalshi_taker_fee_cents_def split: if_splits)
  show ?thesis
  proof (cases "fs_fresh (fee_schedule_freshness today as_of)")
    case False
    with assms taker show ?thesis by (simp add: kalshi_maker_fee_cents_def)
  next
    case fresh: True
    show ?thesis
    proof (cases "series_ticker market \<in> set ZERO_FEE_SERIES")
      case True
      with assms fresh taker show ?thesis by (simp add: kalshi_maker_fee_cents_def Let_def)
    next
      case False
      let ?m = "if series_ticker market \<in> set MAKER_FEE_SERIES then 1 else 0 :: int"
      have mk: "fee_cents price count (to_float (175 / 10000)) ?m = Some maker"
        using assms(1) fresh False by (simp add: kalshi_maker_fee_cents_def Let_def)
      have tk: "fee_cents price count (to_float (7 / 100)) 1 = Some taker"
        using assms(2) False by (simp add: kalshi_taker_fee_cents_def)
      have lo: "0 \<le> maker" using fee_cents_nonneg [OF rate_floats(2,4) _ mk] by simp
      have "maker \<le> taker"
      proof (cases "count \<le> 0 \<or> ?m \<le> 0 \<or> \<not> (1 \<le> price \<and> price \<le> 99)")
        case True
        with mk fee_cents_zero [of count ?m price "to_float (175 / 10000)"] taker show ?thesis by simp
      next
        case ok: False
        then have pos: "0 < count" "1 \<le> price" "price \<le> 99" and m: "?m = 1" by (auto split: if_splits)
        have "fle (fsub (raw_fee (to_float (175 / 10000)) price count) (to_float (1 / 10 ^ 12)))
            (fsub (raw_fee (to_float (7 / 100)) price count) (to_float (1 / 10 ^ 12)))"
          unfolding rate_floats(1-3)
          using raw_fee_mono [OF pos(2,3,1) rate_floats(4,5)] by (intro fsub_mono) simp
        then show ?thesis
          using mk tk unfolding m fee_cents_raw [OF pos] by (rule ceil_of_float_mono)
      qed
      with lo show ?thesis by simp
    qed
  qed
qed

theorem maker_fee_at_most_taker_witness:
  "kalshi_maker_fee_cents 20650 35 100 (Some ''KXFED-26'') None = Some 40 \<and>
   kalshi_taker_fee_cents 35 100 (Some ''KXFED-26'') = Some 160 \<and> (0 :: int) \<le> 40 \<and> (40 :: int) \<le> 160"
proof -
  have m: "kalshi_maker_fee_cents 20650 35 100 (Some ''KXFED-26'') None = Some 40" by code_simp
  have t: "kalshi_taker_fee_cents 35 100 (Some ''KXFED-26'') = Some 160" by code_simp
  from m t maker_fee_at_most_taker [OF m t] show ?thesis by simp
qed

text \<open>The embedded schedule fails closed. It counts as fresh exactly for the 32 days from its
  effective date; on any other day the maker fee is the taker fee, and the operator is
  warned on every day but the first 24 fresh ones.\<close>

theorem stale_schedule_prices_as_taker:
  "(fee_schedule_is_fresh today as_of \<longleftrightarrow>
      (let d = (case as_of of None \<Rightarrow> today | Some d \<Rightarrow> d)
       in FEE_SCHEDULE_EFFECTIVE_DATE \<le> d \<and> d \<le> FEE_SCHEDULE_EFFECTIVE_DATE + 31)) \<and>
   (fee_schedule_is_fresh today as_of \<or>
      kalshi_maker_fee_cents today price count market as_of = kalshi_taker_fee_cents price count market) \<and>
   (fee_schedule_refresh_warning today as_of = None \<longleftrightarrow>
      (let d = (case as_of of None \<Rightarrow> today | Some d \<Rightarrow> d)
       in FEE_SCHEDULE_EFFECTIVE_DATE \<le> d \<and> d < FEE_SCHEDULE_EFFECTIVE_DATE + 24))"
  by (auto simp: fee_schedule_is_fresh_def fee_schedule_freshness_def fee_schedule_refresh_warning_def
      kalshi_maker_fee_cents_def Let_def FEE_SCHEDULE_MAX_AGE_DAYS_def FEE_SCHEDULE_REFRESH_WARNING_DAYS_def)

end
