(* ===== verification/CapsAuthority.thy ===== *)
theory CapsAuthority
  imports PyJson
begin

text \<open>
  \<open>core/caps_authority.py\<close>: the caps file must be the sealed one, and an operator must have
  registered exactly that file for a time window, before anything may count as registered.
  A file is what one read of its bytes gives: its SHA-256 (\<open>None\<close>: OSError) and its JSON.
\<close>

record hashed_file =
  hf_sha256 :: "string option"
  hf_json :: json_file

definition CURRENT_CAPS_SCHEMA_VERSION :: int where
  "CURRENT_CAPS_SCHEMA_VERSION = 2"

definition CURRENT_CAPS_AUTHORITY_EPOCH :: string where
  "CURRENT_CAPS_AUTHORITY_EPOCH = ''caps-v2-kalshi-category-metadata-20260722''"

definition PROTECTED_CAPS_SHA256 :: string where
  "PROTECTED_CAPS_SHA256 = ''83FCE350D6AAF5DAA623F79FBE39455BE7120D4EE2C01EB254D39EB72B91E954''"

definition REQUIRED_REGISTRATION_SCOPE :: string where
  "REQUIRED_REGISTRATION_SCOPE = ''caps_policy_registration_for_controlled_firewall_only''"

definition REQUIRED_REGISTRATION_ACK :: string where
  "REQUIRED_REGISTRATION_ACK =
     ''I approve this exact caps-v2 hash for controlled firewall-only proof use, '' @
     ''with no market orders, no scale, no autonomy, and every other live gate still required''"

definition STATE_CONFIG_INTEGRITY_BLOCKED :: string where
  "STATE_CONFIG_INTEGRITY_BLOCKED = ''CONFIG_INTEGRITY_BLOCKED''"

definition STATE_REVIEW_REQUIRED :: string where
  "STATE_REVIEW_REQUIRED = ''REVIEW_REQUIRED''"

definition STATE_REGISTERED :: string where
  "STATE_REGISTERED = ''REGISTERED_FOR_SEPARATE_LIVE_GATE_EVALUATION''"

record caps_authority_status =
  ca_state :: string
  ca_current_caps_sha256 :: "string option"
  ca_protected_caps_sha256 :: string
  ca_schema_version :: "int option"
  ca_authority_epoch :: "string option"
  ca_config_integrity_valid :: bool
  ca_authority_registration_required :: bool
  ca_authority_registration_present :: bool
  ca_authority_registration_valid :: bool
  ca_authority_registration_sha256 :: "string option"
  ca_legacy_authority_invalidated :: bool
  ca_errors :: "string list"
  ca_execution_authority :: bool

section \<open>Reading\<close>

text \<open>The object of a file, or the text of what is wrong with it.\<close>

definition load_object :: "json_file \<Rightarrow> string + (string \<times> json) list" where
  "load_object f =
     (case f of
        Absent \<Rightarrow> Inl ''missing''
      | Unreadable e \<Rightarrow> Inl (''unreadable:'' @ e)
      | Holds v \<Rightarrow> (case as_obj v of None \<Rightarrow> Inl ''not_an_object'' | Some d \<Rightarrow> Inr d))"

definition parse_utc :: "codec \<Rightarrow> json \<Rightarrow> int option" where
  "parse_utc c v =
     (case as_str v of
        None \<Rightarrow> None
      | Some s \<Rightarrow>
          if strip s = [] then None
          else (case from_iso c (z_to_offset s) of Some (Aware t) \<Rightarrow> Some t | _ \<Rightarrow> None))"

text \<open>\<open>v == w\<close> of Python for the expected values of a registration.\<close>

fun json_matches :: "json \<Rightarrow> json \<Rightarrow> bool" where
  "json_matches v (JInt n) = json_eq_int v n"
| "json_matches v (JBool b) = json_eq_int v (if b then 1 else 0)"
| "json_matches v w = (v = w)"

definition expected_registration :: "(string \<times> json) list" where
  "expected_registration =
     [(''schema_version'', JInt 1),
      (''caps_config_schema_version'', JInt CURRENT_CAPS_SCHEMA_VERSION),
      (''authority_epoch'', JStr CURRENT_CAPS_AUTHORITY_EPOCH),
      (''caps_sha256'', JStr PROTECTED_CAPS_SHA256),
      (''scope'', JStr REQUIRED_REGISTRATION_SCOPE),
      (''exact_acknowledgement'', JStr REQUIRED_REGISTRATION_ACK),
      (''not_self_authorized_by_dummy'', JBool True),
      (''live_submit_enabled_by_registration'', JBool False),
      (''market_orders_allowed'', JBool False),
      (''scale_allowed'', JBool False),
      (''autonomy_allowed'', JBool False)]"

definition nonblank_str :: "json \<Rightarrow> bool" where
  "nonblank_str v = (case as_str v of None \<Rightarrow> False | Some s \<Rightarrow> strip s \<noteq> [])"

fun loaded_registration_errors :: "codec \<Rightarrow> int \<Rightarrow> string + (string \<times> json) list \<Rightarrow> string list" where
  "loaded_registration_errors c now (Inl e) =
     [if e = ''missing'' then ''CAPS_AUTHORITY_REGISTRATION_MISSING''
      else ''CAPS_AUTHORITY_REGISTRATION_UNREADABLE'']"
| "loaded_registration_errors c now (Inr d) =
     map (\<lambda>(k, v). ''CAPS_AUTHORITY_REGISTRATION_'' @ upper k @ ''_MISMATCH'')
       (filter (\<lambda>(k, v). \<not> json_matches (jget k d) v) expected_registration) @
     map (\<lambda>k. ''CAPS_AUTHORITY_REGISTRATION_'' @ upper k @ ''_MISSING'')
       (filter (\<lambda>k. \<not> nonblank_str (jget k d)) [''operator'', ''reason'']) @
     (case parse_utc c (jget ''issued_at'' d) of
        None \<Rightarrow> [''CAPS_AUTHORITY_REGISTRATION_ISSUED_AT_INVALID'']
      | Some t \<Rightarrow> if now < t then [''CAPS_AUTHORITY_REGISTRATION_ISSUED_AT_INVALID''] else []) @
     (case parse_utc c (jget ''expires_at'' d) of
        None \<Rightarrow> [''CAPS_AUTHORITY_REGISTRATION_EXPIRED'']
      | Some t \<Rightarrow> if t \<le> now then [''CAPS_AUTHORITY_REGISTRATION_EXPIRED''] else [])"

definition registration_errors :: "codec \<Rightarrow> int \<Rightarrow> json_file \<Rightarrow> string list" where
  "registration_errors c now reg = loaded_registration_errors c now (load_object reg)"

definition caps_config_errors :: "hashed_file \<Rightarrow> string list" where
  "caps_config_errors caps =
     (let loaded = load_object (hf_json caps);
          d = (case loaded of Inl e \<Rightarrow> [] | Inr d \<Rightarrow> d);
          required = (d = [] \<or> jget ''authority_registration_required'' d = JBool True)
      in (case loaded of Inl e \<Rightarrow> [''CAPS_CONFIG_'' @ upper e] | Inr d \<Rightarrow> []) @
         (if hf_sha256 caps \<noteq> Some PROTECTED_CAPS_SHA256 then [''CAPS_PROTECTED_HASH_MISMATCH''] else []) @
         (if \<not> json_matches (jget ''schema_version'' d) (JInt CURRENT_CAPS_SCHEMA_VERSION)
          then [''CAPS_SCHEMA_VERSION_MISMATCH''] else []) @
         (if jget ''authority_epoch'' d \<noteq> JStr CURRENT_CAPS_AUTHORITY_EPOCH
          then [''CAPS_AUTHORITY_EPOCH_MISMATCH''] else []) @
         (if \<not> required then [''CAPS_AUTHORITY_REGISTRATION_NOT_REQUIRED''] else []))"

definition evaluate_caps_authority :: "codec \<Rightarrow> int \<Rightarrow> hashed_file \<Rightarrow> hashed_file \<Rightarrow> caps_authority_status" where
  "evaluate_caps_authority c now caps reg =
     (let d = (case load_object (hf_json caps) of Inl e \<Rightarrow> [] | Inr d \<Rightarrow> d);
          errors = caps_config_errors caps;
          config_valid = (errors = []);
          reg_errors = registration_errors c now (hf_json reg);
          reg_valid = (config_valid \<and> reg_errors = [])
      in \<lparr>ca_state = (if \<not> config_valid then STATE_CONFIG_INTEGRITY_BLOCKED
                      else if \<not> reg_valid then STATE_REVIEW_REQUIRED else STATE_REGISTERED),
          ca_current_caps_sha256 = hf_sha256 caps,
          ca_protected_caps_sha256 = PROTECTED_CAPS_SHA256,
          ca_schema_version = (case jget ''schema_version'' d of JInt n \<Rightarrow> Some n | _ \<Rightarrow> None),
          ca_authority_epoch = as_str (jget ''authority_epoch'' d),
          ca_config_integrity_valid = config_valid,
          ca_authority_registration_required = True,
          ca_authority_registration_present = (load_object (hf_json reg) \<noteq> Inl ''missing''),
          ca_authority_registration_valid = reg_valid,
          ca_authority_registration_sha256 = hf_sha256 reg,
          ca_legacy_authority_invalidated = True,
          ca_errors = errors @ reg_errors,
          ca_execution_authority = False\<rparr>)"

section \<open>Properties\<close>

lemma evaluate_caps_authority_fields [simp]:
  "ca_config_integrity_valid (evaluate_caps_authority c now caps reg) \<longleftrightarrow> caps_config_errors caps = []"
  "ca_authority_registration_valid (evaluate_caps_authority c now caps reg) \<longleftrightarrow>
     caps_config_errors caps = [] \<and> registration_errors c now (hf_json reg) = []"
  "ca_current_caps_sha256 (evaluate_caps_authority c now caps reg) = hf_sha256 caps"
  "ca_authority_registration_sha256 (evaluate_caps_authority c now caps reg) = hf_sha256 reg"
  "ca_execution_authority (evaluate_caps_authority c now caps reg) = False"
  "ca_state (evaluate_caps_authority c now caps reg) = STATE_REGISTERED \<longleftrightarrow>
     caps_config_errors caps = [] \<and> registration_errors c now (hf_json reg) = []"
  by (simp_all add: evaluate_caps_authority_def Let_def STATE_REGISTERED_def STATE_REVIEW_REQUIRED_def
      STATE_CONFIG_INTEGRITY_BLOCKED_def)

lemma caps_config_errors_Nil:
  "caps_config_errors caps = [] \<longleftrightarrow>
     hf_sha256 caps = Some PROTECTED_CAPS_SHA256 \<and>
     (\<exists>d. hf_json caps = Holds (JObj d) \<and> json_eq_int (jget ''schema_version'' d) 2 \<and>
          jget ''authority_epoch'' d = JStr CURRENT_CAPS_AUTHORITY_EPOCH \<and>
          jget ''authority_registration_required'' d = JBool True)"
proof -
  have o: "as_obj v = Some d \<longleftrightarrow> v = JObj d" for v d by (cases v) auto
  show ?thesis
    by (cases "hf_json caps"; cases "as_obj (case hf_json caps of Holds v \<Rightarrow> v | _ \<Rightarrow> JNull)")
      (auto simp: caps_config_errors_def load_object_def Let_def CURRENT_CAPS_SCHEMA_VERSION_def o)
qed

text \<open>The times in an operator registration.\<close>

definition reg_time :: "codec \<Rightarrow> string \<Rightarrow> json_file \<Rightarrow> int option" where
  "reg_time c k reg = (case load_object reg of Inl e \<Rightarrow> None | Inr d \<Rightarrow> parse_utc c (jget k d))"

lemma registration_errors_window:
  assumes "registration_errors c now reg = []"
  shows "\<exists>i e. reg_time c ''issued_at'' reg = Some i \<and> reg_time c ''expires_at'' reg = Some e \<and> i \<le> now \<and> now < e"
  using assms by (auto simp: registration_errors_def reg_time_def split: sum.splits option.splits if_splits)

lemma registration_errors_later:
  assumes "registration_errors c now reg = []" and "reg_time c ''issued_at'' reg = Some i"
    and "reg_time c ''expires_at'' reg = Some e" and "i \<le> now'" and "now' < e"
  shows "registration_errors c now' reg = []"
  using assms by (auto simp: registration_errors_def reg_time_def split: sum.splits option.splits if_splits)

text \<open>A registration counts only for the sealed caps file, by an operator, inside its window.
  The status says registered exactly when the caps bytes have the sealed hash and declare the
  current schema and epoch with registration required, and the registration approves that
  hash word for word and is at or past its issue and before its expiry.\<close>

theorem caps_registration_exact:
  "ca_authority_registration_valid (evaluate_caps_authority c now caps reg) \<longleftrightarrow>
     hf_sha256 caps = Some PROTECTED_CAPS_SHA256 \<and>
     (\<exists>d. hf_json caps = Holds (JObj d) \<and> json_eq_int (jget ''schema_version'' d) 2 \<and>
          jget ''authority_epoch'' d = JStr CURRENT_CAPS_AUTHORITY_EPOCH \<and>
          jget ''authority_registration_required'' d = JBool True) \<and>
     (\<exists>d i e. hf_json reg = Holds (JObj d) \<and>
        (\<forall>(k, v) \<in> set expected_registration. json_matches (jget k d) v) \<and>
        nonblank_str (jget ''operator'' d) \<and> nonblank_str (jget ''reason'' d) \<and>
        parse_utc c (jget ''issued_at'' d) = Some i \<and> parse_utc c (jget ''expires_at'' d) = Some e \<and>
        i \<le> now \<and> now < e)"
proof -
  have o: "as_obj v = Some d \<longleftrightarrow> v = JObj d" for v d by (cases v) auto
  have "registration_errors c now (hf_json reg) = [] \<longleftrightarrow>
     (\<exists>d i e. hf_json reg = Holds (JObj d) \<and>
        (\<forall>(k, v) \<in> set expected_registration. json_matches (jget k d) v) \<and>
        nonblank_str (jget ''operator'' d) \<and> nonblank_str (jget ''reason'' d) \<and>
        parse_utc c (jget ''issued_at'' d) = Some i \<and> parse_utc c (jget ''expires_at'' d) = Some e \<and>
        i \<le> now \<and> now < e)" (is "?L = ?R")
  proof (cases "load_object (hf_json reg)")
    case (Inl e)
    then have "\<nexists>d. hf_json reg = Holds (JObj d)" by (auto simp: load_object_def)
    with Inl show ?thesis by (auto simp: registration_errors_def)
  next
    case (Inr d)
    then have h: "hf_json reg = Holds (JObj d)"
      by (auto simp: load_object_def o split: json_file.splits option.splits)
    have f: "filter (\<lambda>(k, v). \<not> json_matches (jget k d) v) expected_registration = [] \<longleftrightarrow>
        (\<forall>(k, v) \<in> set expected_registration. json_matches (jget k d) v)"
      by (auto simp: filter_empty_conv)
    show ?thesis
      unfolding registration_errors_def Inr loaded_registration_errors.simps append_is_Nil_conv map_is_Nil_conv f
      by (auto simp: h split: option.splits if_splits)
  qed
  then show ?thesis unfolding evaluate_caps_authority_fields caps_config_errors_Nil by simp
qed

text \<open>A sealed caps file and a registration of it.\<close>

definition sealed_caps :: hashed_file where
  "sealed_caps = \<lparr>hf_sha256 = Some PROTECTED_CAPS_SHA256,
     hf_json = Holds (JObj [(''schema_version'', JInt 2), (''authority_epoch'', JStr CURRENT_CAPS_AUTHORITY_EPOCH),
       (''authority_registration_required'', JBool True), (''order_type_policy'', JStr ''LIMIT_ONLY''),
       (''market_orders_allowed'', JBool False), (''kill_switch_required'', JBool True)])\<rparr>"

definition sample_registration_object :: "(string \<times> json) list" where
  "sample_registration_object = expected_registration @
     [(''operator'', JStr ''op''), (''reason'', JStr ''pilot''), (''issued_at'', JStr ''PAST''), (''expires_at'', JStr ''FUTURE'')]"

definition sample_registration :: hashed_file where
  "sample_registration = \<lparr>hf_sha256 = Some ''AB12'', hf_json = Holds (JObj sample_registration_object)\<rparr>"

lemma sealed_caps_ok: "caps_config_errors sealed_caps = []"
  by code_simp

lemma sample_registration_ok: "registration_errors label_codec 43200000000 (hf_json sample_registration) = []"
proof -
  have l: "load_object (hf_json sample_registration) = Inr sample_registration_object"
    by (simp add: sample_registration_def load_object_def)
  have f: "filter (\<lambda>(k, v). \<not> json_matches (jget k sample_registration_object) v) expected_registration = []"
    by code_simp
  have n: "filter (\<lambda>k. \<not> nonblank_str (jget k sample_registration_object)) [''operator'', ''reason''] = []"
    by code_simp
  have i: "parse_utc label_codec (jget ''issued_at'' sample_registration_object) = Some 100"
    by code_simp
  have e: "parse_utc label_codec (jget ''expires_at'' sample_registration_object) = Some 90000000000"
    by code_simp
  show ?thesis unfolding registration_errors_def l loaded_registration_errors.simps f n i e by simp
qed

lemma caps_registration_exact_witness:
  "\<exists>d i e. hf_json sample_registration = Holds (JObj d) \<and>
     (\<forall>(k, v) \<in> set expected_registration. json_matches (jget k d) v) \<and>
     nonblank_str (jget ''operator'' d) \<and> nonblank_str (jget ''reason'' d) \<and>
     parse_utc label_codec (jget ''issued_at'' d) = Some i \<and> parse_utc label_codec (jget ''expires_at'' d) = Some e \<and>
     i \<le> 43200000000 \<and> 43200000000 < e"
proof -
  have "ca_authority_registration_valid (evaluate_caps_authority label_codec 43200000000 sealed_caps sample_registration)"
    by (simp add: sealed_caps_ok sample_registration_ok)
  then show ?thesis unfolding caps_registration_exact by blast
qed

end
