(* ===== verification/EnvLoader.thy ===== *)
theory EnvLoader
  imports PyJson
begin

text \<open>
  \<open>core/env_loader.py\<close>: reading a \<open>.env\<close> text, applying only the whitelisted names to the
  process environment, and reporting which credential references are set without showing
  their values. The environment is the association list \<open>os.environ\<close>.
\<close>

type_synonym environ = "(string \<times> string) list"

definition KALSHI_ENV_REFS :: "string list" where
  "KALSHI_ENV_REFS =
    [''KALSHI_API_KEY_ID'', ''KALSHI_API_PRIVATE_KEY_PEM'', ''KALSHI_API_PRIVATE_KEY_PEM_PATH'',
     ''KALSHI_PRIVATE_KEY'', ''KALSHI_PRIVATE_KEY_PATH'', ''KALSHI_API_BASE'', ''KALSHI_API_VERSION'']"

definition LIVE_PROOF_ENV_REFS :: "string list" where
  "LIVE_PROOF_ENV_REFS = [''DUMMY_LIVE_PROOF_MODE'', ''DUMMY_LIVE_PROOF_ACK'']"

definition RUNTIME_ENV_REFS :: "string list" where
  "RUNTIME_ENV_REFS = [''DUMMY_DEBATE_LIVE'', ''DUMMY_EXECUTION_POLICY'']"

definition ALLOWED_ENV_REFS :: "string list" where
  "ALLOWED_ENV_REFS = KALSHI_ENV_REFS @ LIVE_PROOF_ENV_REFS @ RUNTIME_ENV_REFS"

section \<open>The .env text\<close>

text \<open>\<open>str.splitlines\<close> on ASCII text: a carriage return with a line feed ends one line.\<close>

definition line_end :: "char \<Rightarrow> bool" where
  "line_end c = (let n = of_char c :: nat in 10 \<le> n \<and> n \<le> 13 \<or> 28 \<le> n \<and> n \<le> 30)"

fun split_lines :: "string \<Rightarrow> string \<Rightarrow> string list" where
  "split_lines acc [] = (if acc = [] then [] else [rev acc])"
| "split_lines acc (c # cs) =
     (if c = CHR 0x0D then
        (case cs of
           d # ds \<Rightarrow> if d = CHR 0x0A then rev acc # split_lines [] ds else rev acc # split_lines [] (d # ds)
         | [] \<Rightarrow> [rev acc])
      else if line_end c then rev acc # split_lines [] cs
      else split_lines (c # acc) cs)"

definition unquote :: "string \<Rightarrow> string" where
  "unquote v =
     (if 2 \<le> length v \<and> hd v = last v \<and> (hd v = CHR 0x22 \<or> hd v = CHR 0x27)
      then butlast (tl v) else v)"

definition parse_dotenv_line :: "environ \<Rightarrow> string \<Rightarrow> environ" where
  "parse_dotenv_line vals raw =
     (let line = strip raw in
      if line = [] \<or> startswith line ''#'' then vals
      else if CHR ''='' \<notin> set line then vals
      else
        (let key = strip (split_head CHR ''='' line);
             v = unquote (strip (tl (dropWhile (\<lambda>c. c \<noteq> CHR ''='') line)))
         in if key \<noteq> [] then AList.update key v vals else vals))"

text \<open>\<open>None\<close>: the file does not exist or cannot be read.\<close>

definition parse_dotenv :: "string option \<Rightarrow> environ" where
  "parse_dotenv dotenv = (case dotenv of None \<Rightarrow> [] | Some t \<Rightarrow> foldl parse_dotenv_line [] (split_lines [] t))"

definition read_whitelisted_env :: "string option \<Rightarrow> environ" where
  "read_whitelisted_env dotenv = filter (\<lambda>(k, v). k \<in> set ALLOWED_ENV_REFS) (parse_dotenv dotenv)"

text \<open>The names set, and the environment afterwards.\<close>

fun apply_whitelisted_env :: "bool \<Rightarrow> environ \<Rightarrow> environ \<Rightarrow> string list \<times> environ" where
  "apply_whitelisted_env overwrite [] env = ([], env)"
| "apply_whitelisted_env overwrite ((k, v) # vals) env =
     (if k \<notin> set ALLOWED_ENV_REFS then apply_whitelisted_env overwrite vals env
      else if map_of env k \<noteq> None \<and> \<not> overwrite then apply_whitelisted_env overwrite vals env
      else if v \<noteq> [] then
        (let (loaded, env') = apply_whitelisted_env overwrite vals (AList.update k v env) in (k # loaded, env'))
      else apply_whitelisted_env overwrite vals env)"

definition load_whitelisted_env :: "bool \<Rightarrow> string option \<Rightarrow> environ \<Rightarrow> string list \<times> environ" where
  "load_whitelisted_env overwrite dotenv env = apply_whitelisted_env overwrite (read_whitelisted_env dotenv) env"

section \<open>Credential references\<close>

record credential_entry =
  ce_present :: bool
  ce_file_exists :: "bool option"

text \<open>\<open>path_exists v\<close>: the file system has the path \<open>v\<close>, resolved against the working directory.\<close>

definition has_substring :: "string \<Rightarrow> string \<Rightarrow> bool" where
  "has_substring p s \<longleftrightarrow> list_ex (\<lambda>i. startswith (drop i s) p) [0..<Suc (length s)]"

definition credential_ref_status :: "(string \<Rightarrow> bool) \<Rightarrow> string list \<Rightarrow> environ \<Rightarrow> (string \<times> credential_entry) list" where
  "credential_ref_status path_exists refs env =
     map (\<lambda>key. let v = map_of env key; present = (v \<noteq> None \<and> v \<noteq> Some [])
                in (key, \<lparr>ce_present = present,
                          ce_file_exists = (if has_substring ''PATH'' key \<and> present then Some (path_exists (the v)) else None)\<rparr>))
       (sort refs)"

definition kalshi_credential_status :: "(string \<Rightarrow> bool) \<Rightarrow> environ \<Rightarrow> (string \<times> credential_entry) list" where
  "kalshi_credential_status path_exists env = credential_ref_status path_exists KALSHI_ENV_REFS env"

section \<open>Properties\<close>

lemma apply_whitelisted_env_get:
  "map_of (snd (apply_whitelisted_env overwrite vals env)) k =
     (if k \<in> set ALLOWED_ENV_REFS \<and> (map_of env k = None \<or> overwrite)
      then (case filter (\<lambda>(k', v). k' = k \<and> v \<noteq> []) vals of
              [] \<Rightarrow> map_of env k
            | xs \<Rightarrow> Some (snd (if overwrite then last xs else hd xs)))
      else map_of env k)"
proof (cases overwrite)
  case True
  have o: "overwrite = True" using True by simp
  show ?thesis unfolding o
  proof (induction vals arbitrary: env)
    case (Cons p vals)
    then show ?case
      by (cases p; cases "filter (\<lambda>(k', v). k' = k \<and> v \<noteq> []) vals")
        (auto simp: update_conv' case_prod_unfold Let_def)
  qed simp
next
  case False
  have o: "overwrite = False" using False by simp
  show ?thesis unfolding o
  proof (induction vals arbitrary: env)
    case (Cons p vals)
    then show ?case
      by (cases p; cases "filter (\<lambda>(k', v). k' = k \<and> v \<noteq> []) vals")
        (auto simp: update_conv' case_prod_unfold Let_def)
  qed simp
qed

lemma parse_dotenv_line_keys:
  "distinct (map fst vals) \<Longrightarrow> distinct (map fst (parse_dotenv_line vals raw))"
  by (simp add: parse_dotenv_line_def Let_def distinct_update)

lemma parse_dotenv_keys: "distinct (map fst (parse_dotenv dotenv))"
proof -
  have "distinct (map fst vals) \<Longrightarrow> distinct (map fst (foldl parse_dotenv_line vals ls))" for vals ls
    by (induction ls arbitrary: vals) (simp_all add: parse_dotenv_line_keys)
  then show ?thesis by (simp add: parse_dotenv_def split: option.split)
qed

lemma filter_key_distinct:
  "distinct (map fst xs) \<Longrightarrow> filter (\<lambda>(k', v). k' = k \<and> P v) xs =
     (case map_of xs k of Some v \<Rightarrow> if P v then [(k, v)] else [] | None \<Rightarrow> [])"
proof (induction xs)
  case (Cons x xs)
  obtain k' v where x: "x = (k', v)" by force
  show ?case
  proof (cases "k' = k")
    case True
    with Cons.prems x have "map_of xs k = None" by (simp add: map_of_eq_None_iff)
    with Cons x True show ?thesis by simp
  qed (use Cons x in auto)
qed simp

lemma map_of_filter_key: "map_of (filter (\<lambda>(k, v). Q k) xs) k = (if Q k then map_of xs k else None)"
  by (induction xs) auto

text \<open>Loading a \<open>.env\<close> file changes only whitelisted names, never replaces a value the shell
  already has unless told to overwrite, and never sets a name to the empty text: the value
  of every other name is what it was.\<close>

theorem load_whitelisted_env_get:
  "map_of (snd (load_whitelisted_env overwrite dotenv env)) k =
     (case map_of (parse_dotenv dotenv) k of
        Some v \<Rightarrow> if k \<in> set ALLOWED_ENV_REFS \<and> (map_of env k = None \<or> overwrite) \<and> v \<noteq> [] then Some v else map_of env k
      | None \<Rightarrow> map_of env k)"
proof -
  have d: "distinct (map fst (read_whitelisted_env dotenv))"
    by (simp add: read_whitelisted_env_def distinct_map_filter parse_dotenv_keys)
  show ?thesis
    unfolding load_whitelisted_env_def apply_whitelisted_env_get filter_key_distinct [OF d, where P = "\<lambda>v. v \<noteq> []"]
    unfolding read_whitelisted_env_def map_of_filter_key by (simp split: option.split)
qed

end
