(* ===== verification/LiveSubmit.thy ===== *)
theory LiveSubmit
  imports CapsAuthority EnvLoader
begin

text \<open>
  \<open>core/live_submit_state.py\<close>, \<open>core/live_execution_mode.py\<close> and \<open>core/proof_lock.py\<close>: the two
  valid states of the live-submit configuration, the classifier of the execution mode, and
  the lock that keeps a used proof from being used again.
\<close>

definition LIVE_SUBMIT_REQUIRED_ACK :: string where
  "LIVE_SUBMIT_REQUIRED_ACK =
     ''I approve real live Kalshi order submission through Dummy LiveBrokerFirewall only''"

datatype live_submit_state = DEFAULT_DISABLED_VALID | OPERATOR_ONE_PROOF_ENABLED_VALID | INVALID

record validation_result =
  vr_ok :: bool
  vr_state :: live_submit_state
  vr_errors :: "string list"
  vr_config :: json

text \<open>A caps status is the object of \<open>evaluate_caps_authority\<close> or a dictionary with its keys.\<close>

datatype caps_status = StatusObject caps_authority_status | StatusDict "(string \<times> json) list"

definition status_fields :: "caps_authority_status \<Rightarrow> (string \<times> json) list" where
  "status_fields s =
     [(''state'', JStr (ca_state s)),
      (''current_caps_sha256'', jopt_str (ca_current_caps_sha256 s)),
      (''schema_version'', case ca_schema_version s of None \<Rightarrow> JNull | Some n \<Rightarrow> JInt n),
      (''authority_epoch'', jopt_str (ca_authority_epoch s)),
      (''config_integrity_valid'', JBool (ca_config_integrity_valid s)),
      (''authority_registration_valid'', JBool (ca_authority_registration_valid s)),
      (''authority_registration_sha256'', jopt_str (ca_authority_registration_sha256 s))]"

fun caps_status_value :: "caps_status \<Rightarrow> string \<Rightarrow> json" where
  "caps_status_value (StatusDict d) key = jget key d"
| "caps_status_value (StatusObject s) key = jget key (status_fields s)"

text \<open>\<open>status or evaluate_caps_authority()\<close>: an empty dictionary counts as none.\<close>

definition caps_status_or :: "caps_status option \<Rightarrow> caps_authority_status \<Rightarrow> caps_status" where
  "caps_status_or status evaluated =
     (case status of
        None \<Rightarrow> StatusObject evaluated
      | Some s \<Rightarrow> if s = StatusDict [] then StatusObject evaluated else s)"

definition build_caps_authority_binding :: "caps_status option \<Rightarrow> caps_authority_status \<Rightarrow> (string \<times> json) list" where
  "build_caps_authority_binding status evaluated =
     (let st = caps_status_or status evaluated; h = caps_status_value st ''current_caps_sha256'' in
      [(''caps_schema_version'', caps_status_value st ''schema_version''),
       (''caps_authority_epoch'', caps_status_value st ''authority_epoch''),
       (''caps_authority_registration_required'', JBool True),
       (''caps_authority_registration_sha256'', caps_status_value st ''authority_registration_sha256''),
       (''caps_hashes'', JArr (if as_str h \<noteq> None \<and> truthy h then [h] else []))])"

section \<open>Validation of the configuration\<close>

definition is_iso_timestamp :: "codec \<Rightarrow> json \<Rightarrow> bool" where
  "is_iso_timestamp c v =
     (case as_str v of
        None \<Rightarrow> False
      | Some s \<Rightarrow> strip s \<noteq> [] \<and> from_iso c (z_to_offset s) \<noteq> None)"

text \<open>A naive time cannot be compared with the current one: the exception counts as stale.\<close>

definition is_stale :: "codec \<Rightarrow> int \<Rightarrow> string \<Rightarrow> bool" where
  "is_stale c now s = (case from_iso c (z_to_offset s) of Some (Aware t) \<Rightarrow> t < now | _ \<Rightarrow> True)"

definition load_live_submit_config :: "json_file \<Rightarrow> (string \<times> json) list" where
  "load_live_submit_config f =
     (case f of
        Absent \<Rightarrow> [(''enabled'', JBool False), (''note'', JStr ''config absent'')]
      | Unreadable e \<Rightarrow> [(''enabled'', JBool False), (''note'', JStr ''invalid JSON'')]
      | Holds v \<Rightarrow> (case as_obj v of
            None \<Rightarrow> [(''enabled'', JBool False), (''note'', JStr ''not a JSON object'')]
          | Some d \<Rightarrow> d))"

definition validate_default_disabled :: "(string \<times> json) list \<Rightarrow> validation_result" where
  "validate_default_disabled config =
     (let enabled = jget ''enabled'' config in
      if enabled \<noteq> JBool False \<and> enabled \<noteq> JNull
      then \<lparr>vr_ok = False, vr_state = INVALID,
            vr_errors = [''enabled is not false; default disabled state requires enabled=false''], vr_config = JObj config\<rparr>
      else \<lparr>vr_ok = True, vr_state = DEFAULT_DISABLED_VALID, vr_errors = [], vr_config = JObj config\<rparr>)"

definition quoted :: "string \<Rightarrow> string" where
  "quoted s = [CHR 0x27] @ s @ [CHR 0x27]"

definition err :: "bool \<Rightarrow> string \<Rightarrow> string list" where
  "err b e = (if b then [e] else [])"

text \<open>The predicates on the configuration alone.\<close>

definition max_order_count_bad :: "json \<Rightarrow> bool" where
  "max_order_count_bad v =
     (case v of JNull \<Rightarrow> False | JInt n \<Rightarrow> n > 1 \<or> n < 1 | JBool b \<Rightarrow> \<not> b | _ \<Rightarrow> True)"

definition config_errors :: "codec \<Rightarrow> int \<Rightarrow> (string \<times> json) list \<Rightarrow> string list" where
  "config_errors c now config =
     err (jget ''enabled'' config \<noteq> JBool True) ''enabled must be true'' @
     err (jget ''proof_scope'' config \<noteq> JStr ''one_controlled_proof'') (''proof_scope must be '' @ quoted ''one_controlled_proof'') @
     err (jget ''auto_run'' config \<noteq> JBool False) ''auto_run must be false'' @
     err (jget ''weaken_gates'' config \<noteq> JBool False) ''weaken_gates must be false'' @
     err (jget ''requires_command_seal'' config \<noteq> JBool True) ''requires_command_seal must be true'' @
     err (jget ''requires_livebrokerfirewall'' config \<noteq> JBool True) ''requires_livebrokerfirewall must be true'' @
     err (jget ''requires_limit_order'' config \<noteq> JBool True) ''requires_limit_order must be true'' @
     err (jget ''market_orders_allowed'' config \<noteq> JBool False) ''market_orders_allowed must be false'' @
     err (jget ''order_type_policy'' config \<noteq> JNull \<and> jget ''order_type_policy'' config \<noteq> JStr ''LIMIT_ONLY'')
       (''order_type_policy must be '' @ quoted ''LIMIT_ONLY'' @ '' if present'') @
     err (max_order_count_bad (jget ''max_order_count'' config)) ''max_order_count must be 1 if present'' @
     (case jget ''expiry'' config of
        JStr s \<Rightarrow> if \<not> is_iso_timestamp c (JStr s) then [''expiry must be a valid ISO-8601 timestamp'']
                  else err (is_stale c now s) ''expiry is stale''
      | _ \<Rightarrow> [''expiry must be a valid ISO-8601 timestamp'']) @
     map (\<lambda>k. k @ '' must be a non-empty string'')
       (filter (\<lambda>k. \<not> nonblank_str (jget k config)) [''operator'', ''reason'', ''timestamp'']) @
     err (jget ''explicit_acknowledgement'' config \<noteq> JStr LIVE_SUBMIT_REQUIRED_ACK)
       ''explicit_acknowledgement does not match the required LiveBrokerFirewall ack'' @
     err (jget ''scale_enabled'' config = JBool True) ''scale must not be enabled'' @
     err (jget ''autonomy_enabled'' config = JBool True) ''autonomy must not be enabled'' @
     err (jget ''descriptor_hashes'' config \<noteq> JNull \<and> as_arr (jget ''descriptor_hashes'' config) = None)
       ''descriptor_hashes must be a list if present''"

text \<open>The predicates that bind the configuration to the current caps authority.\<close>

definition binding_errors :: "caps_status \<Rightarrow> (string \<times> json) list \<Rightarrow> string list" where
  "binding_errors st config =
     (let cur = caps_status_value st ''current_caps_sha256'';
          reg = caps_status_value st ''authority_registration_sha256''
      in err (caps_status_value st ''config_integrity_valid'' \<noteq> JBool True)
           ''current caps-v2 configuration integrity is not valid'' @
         err (caps_status_value st ''authority_registration_valid'' \<noteq> JBool True)
           ''fresh caps-v2 authority registration is not valid'' @
         err (caps_status_value st ''state'' \<noteq> JStr STATE_REGISTERED)
           ''caps-v2 authority is not registered for separate live-gate evaluation'' @
         err (\<not> json_eq_int (jget ''caps_schema_version'' config) CURRENT_CAPS_SCHEMA_VERSION)
           (''caps_schema_version must be '' @ show_int CURRENT_CAPS_SCHEMA_VERSION) @
         err (jget ''caps_authority_epoch'' config \<noteq> JStr CURRENT_CAPS_AUTHORITY_EPOCH)
           ''caps_authority_epoch does not match the current protected epoch'' @
         err (jget ''caps_authority_registration_required'' config \<noteq> JBool True)
           ''caps_authority_registration_required must be true'' @
         err (as_str cur = None \<or> jget ''caps_hashes'' config \<noteq> JArr [cur])
           ''caps_hashes must bind exactly the current protected caps-v2 hash'' @
         err (as_str reg = None \<or> \<not> truthy reg \<or> jget ''caps_authority_registration_sha256'' config \<noteq> reg)
           ''caps_authority_registration_sha256 must bind the current valid registration'')"

text \<open>
  The runtime approval, when an authority context is passed. \<open>None\<close>: the approval is neither
  empty nor a dictionary, and reading its scope raises an AttributeError.
\<close>

definition approval_errors :: "codec \<Rightarrow> int \<Rightarrow> (string \<times> json) list option \<Rightarrow> string list option" where
  "approval_errors c now context =
     (case context of
        None \<Rightarrow> Some []
      | Some ctx \<Rightarrow>
          (let approval = jget ''approval'' ctx in
           if \<not> truthy approval then Some [''runtime approval missing in authority_context'']
           else (case as_obj approval of
               None \<Rightarrow> None
             | Some a \<Rightarrow>
                 if jget ''scope'' a \<noteq> JStr ''one_controlled_production_pilot_via_firewall_only''
                 then Some [''runtime approval scope mismatch'']
                 else if \<not> is_iso_timestamp c (jget_default ''expiration'' (JStr []) a)
                 then Some [''runtime approval has no valid expiry'']
                 else Some (err (is_stale c now (the (as_str (jget_default ''expiration'' (JStr []) a))))
                              ''runtime approval is expired''))))"

text \<open>
  \<open>validate_operator_one_proof_enabled\<close> of a loaded configuration. \<open>evaluated\<close> is what
  \<open>evaluate_caps_authority()\<close> returns at this moment.
\<close>

definition validate_operator_one_proof_enabled ::
  "codec \<Rightarrow> int \<Rightarrow> caps_authority_status \<Rightarrow> (string \<times> json) list option \<Rightarrow> caps_status option \<Rightarrow> json \<Rightarrow>
   validation_result option" where
  "validate_operator_one_proof_enabled c now evaluated context status config =
     (case as_obj config of
        None \<Rightarrow> Some \<lparr>vr_ok = False, vr_state = INVALID, vr_errors = [''config must be a JSON object''], vr_config = config\<rparr>
      | Some d \<Rightarrow>
          (case approval_errors c now context of
             None \<Rightarrow> None
           | Some extra \<Rightarrow>
               (let errors = config_errors c now d @ binding_errors (caps_status_or status evaluated) d @ extra
                in Some \<lparr>vr_ok = (errors = []),
                         vr_state = (if errors = [] then OPERATOR_ONE_PROOF_ENABLED_VALID else INVALID),
                         vr_errors = errors, vr_config = config\<rparr>)))"

text \<open>\<open>classify_live_submit_state\<close> and \<open>is_live_submit_armed\<close>, which pass no context.\<close>

definition armed :: "codec \<Rightarrow> int \<Rightarrow> caps_status \<Rightarrow> (string \<times> json) list \<Rightarrow> bool" where
  "armed c now st config \<longleftrightarrow> config_errors c now config = [] \<and> binding_errors st config = []"

definition classify_live_submit_state ::
  "codec \<Rightarrow> int \<Rightarrow> caps_authority_status \<Rightarrow> caps_status option \<Rightarrow> (string \<times> json) list \<Rightarrow> live_submit_state" where
  "classify_live_submit_state c now evaluated status config =
     (case validate_operator_one_proof_enabled c now evaluated None status (JObj config) of
        Some r \<Rightarrow>
          if vr_ok r then OPERATOR_ONE_PROOF_ENABLED_VALID
          else if vr_ok (validate_default_disabled config) then DEFAULT_DISABLED_VALID else INVALID
      | None \<Rightarrow> INVALID)"

definition is_live_submit_armed ::
  "codec \<Rightarrow> int \<Rightarrow> caps_authority_status \<Rightarrow> caps_status option \<Rightarrow> (string \<times> json) list \<Rightarrow> bool" where
  "is_live_submit_armed c now evaluated status config =
     (case validate_operator_one_proof_enabled c now evaluated None status (JObj config) of
        Some r \<Rightarrow> vr_ok r | None \<Rightarrow> False)"

section \<open>The proof lock\<close>

definition load_registry_object :: "json_file \<Rightarrow> (string \<times> json) list option" where
  "load_registry_object f = (case f of Holds v \<Rightarrow> as_obj v | _ \<Rightarrow> None)"

text \<open>\<open>None\<close>: \<open>int\<close> raises on the submitted count.\<close>

definition v298_indicates_real_attempt :: "codec \<Rightarrow> (string \<times> json) list \<Rightarrow> bool option" where
  "v298_indicates_real_attempt c d =
     (if str_of_json (repr_text c) (jget_default ''execute_once_final_proof_runner_v7_controller_status'' (JStr []) d)
           \<noteq> ''PASS_EXECUTE_ONCE_FINAL_PROOF_RUNNER_SUBMITTED_AUTOLOCKED'' then Some False
      else if jget ''real_broker_contacted'' d = JBool True then Some True
      else (case int_of_json (por (jget_default ''real_live_orders_submitted_count'' (JInt 0) d) (JInt 0)) of
              None \<Rightarrow> None
            | Some n \<Rightarrow> Some (0 < n \<or> jget ''broker_rejection_captured'' d = JBool True)))"

definition real_proof_attempt_exists :: "codec \<Rightarrow> json_file \<Rightarrow> json_file \<Rightarrow> bool option" where
  "real_proof_attempt_exists c registry v298 =
     (if (case load_registry_object registry of
            None \<Rightarrow> False | Some r \<Rightarrow> jget ''latest_real_broker_contacted'' r = JBool True) then Some True
      else (case load_registry_object v298 of
              None \<Rightarrow> Some False
            | Some d \<Rightarrow>
                if jget ''arm_state'' d = JStr ''NOT_ARMED_DRY_DEFAULT'' then Some False
                else if jget ''non_broker_double_used'' d = JBool True then Some False
                else v298_indicates_real_attempt c d))"

definition proof_lock_clear :: "codec \<Rightarrow> json_file \<Rightarrow> json_file \<Rightarrow> bool option" where
  "proof_lock_clear c registry v298 = map_option Not (real_proof_attempt_exists c registry v298)"

definition preserved_evidence_dir :: "json_file \<Rightarrow> json" where
  "preserved_evidence_dir registry =
     (case load_registry_object registry of
        None \<Rightarrow> JNull | Some r \<Rightarrow> jget ''latest_real_broker_proof_evidence_dir'' r)"

section \<open>The execution mode\<close>

definition LIVE_PROOF_ENV_ACK :: string where
  "LIVE_PROOF_ENV_ACK = ''FULL_AUTHORITY_OPERATOR_APPROVED_LIVE_PROOF_ONLY''"

definition SEAL_READY :: string where
  "SEAL_READY = ''PASS_EXECUTE_ONCE_COMMAND_SEAL_READY_NO_SUBMIT''"

datatype live_execution_mode = DEFAULT_DISABLED | REHEARSAL_OR_TEST_DOUBLE | OPERATOR_ONE_PROOF_LIVE_READY | INVALID_OR_BLOCKED

record mode_context =
  mc_config :: "(string \<times> json) list"
  mc_env_mode :: bool
  mc_env_ack :: bool
  mc_seal_status :: string
  mc_caps_strict :: bool
  mc_descriptor_staged :: bool
  mc_credentials_ready :: bool
  mc_proof_lock_clear :: bool
  mc_errors :: "string list option"

text \<open>Mode, blocker and context; \<open>None\<close> when validating the approval raises.\<close>

definition classify_live_execution_mode ::
  "codec \<Rightarrow> int \<Rightarrow> caps_authority_status \<Rightarrow> (string \<times> json) list option \<Rightarrow> caps_status option \<Rightarrow>
   (string \<times> json) list \<Rightarrow> environ \<Rightarrow> string \<Rightarrow> bool \<Rightarrow> bool \<Rightarrow> bool \<Rightarrow> bool \<Rightarrow>
   (live_execution_mode \<times> string \<times> mode_context) option" where
  "classify_live_execution_mode c now evaluated authority_context status config env seal_status caps_strict
     descriptor_staged credentials_ready lock_clear =
     (let context = \<lparr>mc_config = config, mc_env_mode = (map_of env ''DUMMY_LIVE_PROOF_MODE'' = Some ''1''),
            mc_env_ack = (map_of env ''DUMMY_LIVE_PROOF_ACK'' = Some LIVE_PROOF_ENV_ACK), mc_seal_status = seal_status,
            mc_caps_strict = caps_strict, mc_descriptor_staged = descriptor_staged,
            mc_credentials_ready = credentials_ready, mc_proof_lock_clear = lock_clear, mc_errors = None\<rparr>;
          blocked = (\<lambda>b. Some (INVALID_OR_BLOCKED, b, context))
      in if vr_ok (validate_default_disabled config) then Some (DEFAULT_DISABLED, ''DEFAULT_DISABLED'', context)
         else (case validate_operator_one_proof_enabled c now evaluated authority_context status (JObj config) of
             None \<Rightarrow> None
           | Some enabled \<Rightarrow>
               if \<not> vr_ok enabled
               then Some (INVALID_OR_BLOCKED, ''LIVE_SUBMIT_INVALID'', context\<lparr>mc_errors := Some (vr_errors enabled)\<rparr>)
               else if \<not> mc_env_mode context \<or> \<not> mc_env_ack context then blocked ''ENV_GATE_MISSING''
               else if seal_status \<noteq> SEAL_READY then blocked ''COMMAND_SEAL_NOT_READY''
               else if \<not> caps_strict then blocked ''CAPS_NOT_STRICT''
               else if \<not> descriptor_staged then blocked ''ADAPTER_DESCRIPTOR_NOT_STAGED''
               else if \<not> credentials_ready then blocked ''CREDENTIALS_NOT_READY''
               else if \<not> lock_clear then blocked ''PROOF_LOCK_USED''
               else Some (OPERATOR_ONE_PROOF_LIVE_READY, '''', context)))"

section \<open>Properties\<close>

lemma err_Nil [simp]: "err b e = [] \<longleftrightarrow> \<not> b"
  by (simp add: err_def)

lemma err_singleton [simp]: "[] \<noteq> err b e \<longleftrightarrow> b"
  by (simp add: err_def)

lemma validate_no_context:
  "validate_operator_one_proof_enabled c now evaluated None status (JObj config) =
     (let errors = config_errors c now config @ binding_errors (caps_status_or status evaluated) config
      in Some \<lparr>vr_ok = (errors = []), vr_state = (if errors = [] then OPERATOR_ONE_PROOF_ENABLED_VALID else INVALID),
           vr_errors = errors, vr_config = JObj config\<rparr>)"
  by (simp add: validate_operator_one_proof_enabled_def approval_errors_def)

lemma is_live_submit_armed_iff:
  "is_live_submit_armed c now evaluated status config \<longleftrightarrow>
     config_errors c now config = [] \<and> binding_errors (caps_status_or status evaluated) config = []"
  by (simp add: is_live_submit_armed_def validate_no_context Let_def)

lemma default_disabled_iff:
  "vr_ok (validate_default_disabled config) \<longleftrightarrow> jget ''enabled'' config \<in> {JBool False, JNull}"
  by (auto simp: validate_default_disabled_def Let_def)

lemma config_errors_fields:
  assumes "config_errors c now config = []"
  shows "jget ''enabled'' config = JBool True" "jget ''proof_scope'' config = JStr ''one_controlled_proof''"
    "jget ''requires_command_seal'' config = JBool True" "jget ''requires_livebrokerfirewall'' config = JBool True"
    "jget ''requires_limit_order'' config = JBool True" "jget ''market_orders_allowed'' config = JBool False"
    "jget ''explicit_acknowledgement'' config = JStr LIVE_SUBMIT_REQUIRED_ACK"
    "jget ''scale_enabled'' config \<noteq> JBool True" "jget ''autonomy_enabled'' config \<noteq> JBool True"
  using assms by (simp_all add: config_errors_def)

lemma config_errors_expiry:
  assumes "config_errors c now config = []"
  shows "\<exists>s t. jget ''expiry'' config = JStr s \<and> from_iso c (z_to_offset s) = Some (Aware t) \<and> now \<le> t"
  using assms
  by (auto simp: config_errors_def is_stale_def split: json.splits option.splits stamp.splits if_splits)

lemma config_errors_earlier:
  assumes "config_errors c now config = []" and "now' \<le> now"
  shows "config_errors c now' config = []"
proof -
  have "is_stale c now' s \<Longrightarrow> is_stale c now s" for s
    using assms(2) by (auto simp: is_stale_def split: option.splits stamp.splits)
  then show ?thesis using assms(1)
    by (auto simp: config_errors_def split: json.split json.split_asm if_splits)
qed

lemma config_errors_max_order_count:
  "config_errors c now config = [] \<Longrightarrow> \<not> max_order_count_bad (jget ''max_order_count'' config)"
  by (simp add: config_errors_def)

lemma binding_errors_evaluated:
  "binding_errors (StatusObject (evaluate_caps_authority c now caps reg)) config = [] \<longleftrightarrow>
     caps_config_errors caps = [] \<and> registration_errors c now (hf_json reg) = [] \<and>
     json_eq_int (jget ''caps_schema_version'' config) 2 \<and>
     jget ''caps_authority_epoch'' config = JStr CURRENT_CAPS_AUTHORITY_EPOCH \<and>
     jget ''caps_authority_registration_required'' config = JBool True \<and>
     jget ''caps_hashes'' config = JArr [JStr PROTECTED_CAPS_SHA256] \<and>
     (\<exists>h. hf_sha256 reg = Some h \<and> h \<noteq> [] \<and> jget ''caps_authority_registration_sha256'' config = JStr h)"
  by (cases "hf_sha256 caps"; cases "hf_sha256 reg")
    (auto simp: binding_errors_def status_fields_def Let_def jopt_str_def CURRENT_CAPS_SCHEMA_VERSION_def caps_config_errors_Nil)

text \<open>The live mode needs every gate. The classifier answers ready exactly when the configuration
  and its binding to the caps authority have no error, the runtime approval (when a context
  is passed) has none, both environment acknowledgements are exact, the command seal is
  ready, the caps are strict, the adapter descriptor is staged, the credentials resolve and
  the proof lock is clear; and it never answers ready for a configuration that the
  default-disabled validator accepts.\<close>

theorem live_ready_exact:
  "(\<exists>ctx. classify_live_execution_mode c now evaluated authority_context status config env seal caps_strict
       staged credentials lock_clear = Some (OPERATOR_ONE_PROOF_LIVE_READY, b, ctx)) \<longleftrightarrow>
     b = [] \<and> config_errors c now config = [] \<and> binding_errors (caps_status_or status evaluated) config = [] \<and>
     approval_errors c now authority_context = Some [] \<and>
     map_of env ''DUMMY_LIVE_PROOF_MODE'' = Some ''1'' \<and> map_of env ''DUMMY_LIVE_PROOF_ACK'' = Some LIVE_PROOF_ENV_ACK \<and>
     seal = SEAL_READY \<and> caps_strict \<and> staged \<and> credentials \<and> lock_clear \<and>
     \<not> vr_ok (validate_default_disabled config)"
proof (cases "approval_errors c now authority_context")
  case None
  then show ?thesis
    by (simp add: classify_live_execution_mode_def validate_operator_one_proof_enabled_def Let_def)
next
  case (Some extra)
  then show ?thesis
    by (auto simp: classify_live_execution_mode_def validate_operator_one_proof_enabled_def Let_def)
qed

text \<open>What an armed configuration has promised. Whenever live submission counts as armed, the
  configuration is enabled for one controlled proof with limit orders only and market
  orders, scale and autonomy off, carries the exact acknowledgement, has not expired, and
  binds the sealed caps hash and a registration that is inside its window.\<close>

theorem armed_promises:
  assumes "is_live_submit_armed c now (evaluate_caps_authority c now caps reg) None config"
  shows "jget ''enabled'' config = JBool True \<and> jget ''proof_scope'' config = JStr ''one_controlled_proof'' \<and>
    jget ''requires_limit_order'' config = JBool True \<and> jget ''market_orders_allowed'' config = JBool False \<and>
    jget ''scale_enabled'' config \<noteq> JBool True \<and> jget ''autonomy_enabled'' config \<noteq> JBool True \<and>
    jget ''explicit_acknowledgement'' config = JStr LIVE_SUBMIT_REQUIRED_ACK \<and>
    (\<exists>s t. jget ''expiry'' config = JStr s \<and> from_iso c (z_to_offset s) = Some (Aware t) \<and> now \<le> t) \<and>
    hf_sha256 caps = Some PROTECTED_CAPS_SHA256 \<and> jget ''caps_hashes'' config = JArr [JStr PROTECTED_CAPS_SHA256] \<and>
    (\<exists>i e. reg_time c ''issued_at'' (hf_json reg) = Some i \<and> reg_time c ''expires_at'' (hf_json reg) = Some e \<and> i \<le> now \<and> now < e)"
proof -
  have e: "config_errors c now config = []"
    and b: "binding_errors (StatusObject (evaluate_caps_authority c now caps reg)) config = []"
    using assms by (simp_all add: is_live_submit_armed_iff caps_status_or_def)
  show ?thesis
    using config_errors_fields [OF e] config_errors_expiry [OF e] b [unfolded binding_errors_evaluated]
      registration_errors_window [of c now "hf_json reg"] caps_config_errors_Nil [of caps]
    by blast
qed

text \<open>Authority lost is not regained by waiting. With the files left alone, the moments at which
  live submission is armed form one interval: armed at two moments, it is armed at every
  moment between, so a configuration that has expired stays expired.\<close>

theorem armed_interval:
  assumes "is_live_submit_armed c t1 (evaluate_caps_authority c t1 caps reg) None config"
    and "is_live_submit_armed c t3 (evaluate_caps_authority c t3 caps reg) None config"
    and "t1 \<le> t2" and "t2 \<le> t3"
  shows "is_live_submit_armed c t2 (evaluate_caps_authority c t2 caps reg) None config"
proof -
  have e3: "config_errors c t3 config = []"
    and b1: "binding_errors (StatusObject (evaluate_caps_authority c t1 caps reg)) config = []"
    and b3: "binding_errors (StatusObject (evaluate_caps_authority c t3 caps reg)) config = []"
    using assms(1,2) by (simp_all add: is_live_submit_armed_iff caps_status_or_def)
  have r1: "registration_errors c t1 (hf_json reg) = []" and r3: "registration_errors c t3 (hf_json reg) = []"
    using b1 b3 by (simp_all add: binding_errors_evaluated)
  obtain i e where t: "reg_time c ''issued_at'' (hf_json reg) = Some i" "reg_time c ''expires_at'' (hf_json reg) = Some e"
    and w: "i \<le> t1" "t3 < e"
    using registration_errors_window [OF r1] registration_errors_window [OF r3] by auto
  have "registration_errors c t2 (hf_json reg) = []"
    using registration_errors_later [OF r1 t, of t2] w assms(3,4) by simp
  then show ?thesis
    using b3 config_errors_earlier [OF e3 assms(4)]
    by (simp add: is_live_submit_armed_iff caps_status_or_def binding_errors_evaluated)
qed

text \<open>The three states of the configuration. It counts as default-disabled exactly when
  \<open>enabled\<close> is false, null or missing, although the validator's contract asks for an
  explicit false; such a configuration is never armed, and any other one that is not armed
  is invalid.\<close>

theorem live_submit_states:
  "(classify_live_submit_state c now evaluated status config = DEFAULT_DISABLED_VALID \<longleftrightarrow>
      jget ''enabled'' config = JBool False \<or> jget ''enabled'' config = JNull) \<and>
   (classify_live_submit_state c now evaluated status config = OPERATOR_ONE_PROOF_ENABLED_VALID \<longleftrightarrow>
      is_live_submit_armed c now evaluated status config) \<and>
   classify_live_submit_state c now evaluated status [] = DEFAULT_DISABLED_VALID"
proof -
  have "jget ''enabled'' config = JBool True" if "config_errors c now config = []" for config
    using config_errors_fields(1) [OF that] .
  from this [of config] this [of "[]"] show ?thesis
    by (auto simp: classify_live_submit_state_def is_live_submit_armed_iff validate_no_context default_disabled_iff Let_def)
qed

text \<open>A registry that records broker contact keeps the proof lock closed whatever the final report
  says, but a registry that cannot be read counts as no attempt: with no final report the
  lock is clear, the same as when nothing was ever submitted.\<close>

theorem proof_lock_fails_open:
  "proof_lock_clear c (Holds (JObj ((''latest_real_broker_contacted'', JBool True) # r))) v298 = Some False \<and>
   proof_lock_clear c (Unreadable e) Absent = Some True \<and>
   proof_lock_clear c (Unreadable e) v298 = proof_lock_clear c Absent v298"
  by (simp add: proof_lock_clear_def real_proof_attempt_exists_def load_registry_object_def)

section \<open>A concrete armed configuration\<close>

definition armed_config :: "(string \<times> json) list" where
  "armed_config =
     [(''enabled'', JBool True), (''proof_scope'', JStr ''one_controlled_proof''), (''auto_run'', JBool False),
      (''weaken_gates'', JBool False), (''requires_command_seal'', JBool True),
      (''requires_livebrokerfirewall'', JBool True), (''requires_limit_order'', JBool True),
      (''market_orders_allowed'', JBool False), (''expiry'', JStr ''FUTURE''), (''operator'', JStr ''op''),
      (''reason'', JStr ''pilot''), (''timestamp'', JStr ''PAST''),
      (''explicit_acknowledgement'', JStr LIVE_SUBMIT_REQUIRED_ACK), (''caps_schema_version'', JInt 2),
      (''caps_authority_epoch'', JStr CURRENT_CAPS_AUTHORITY_EPOCH),
      (''caps_authority_registration_required'', JBool True), (''caps_hashes'', JArr [JStr PROTECTED_CAPS_SHA256]),
      (''caps_authority_registration_sha256'', JStr ''AB12'')]"

lemma armed_config_ok: "config_errors label_codec 43200000000 armed_config = []"
  by code_simp

lemma armed_config_bound:
  "binding_errors (StatusObject (evaluate_caps_authority label_codec 43200000000 sealed_caps sample_registration)) armed_config = []"
  unfolding binding_errors_evaluated
  using sealed_caps_ok sample_registration_ok by (simp add: armed_config_def sample_registration_def)

lemma sample_armed:
  "is_live_submit_armed label_codec 43200000000
     (evaluate_caps_authority label_codec 43200000000 sealed_caps sample_registration) None armed_config"
  by (simp add: is_live_submit_armed_iff caps_status_or_def armed_config_ok armed_config_bound)

lemma armed_promises_witness:
  "jget ''market_orders_allowed'' armed_config = JBool False \<and> hf_sha256 sealed_caps = Some PROTECTED_CAPS_SHA256"
  using armed_promises [OF sample_armed] by blast

lemma armed_interval_witness:
  "is_live_submit_armed label_codec 43200000000
     (evaluate_caps_authority label_codec 43200000000 sealed_caps sample_registration) None armed_config"
  by (rule armed_interval [OF sample_armed sample_armed order_refl order_refl])

end
