(* ===== verification/TargetPolicy.thy ===== *)
theory TargetPolicy
  imports PyJson
begin

text \<open>
  \<open>autonomy/target_policy.py\<close>: which contracts may be predicted and traded at all. A category
  or tag is what the caller passes (\<open>JNull\<close> for none); a vertical is nothing, a typed
  \<open>Vertical\<close> or any other value by its text.
\<close>

datatype vertical = WEATHER | CRYPTO | SPORTS | COMMODITIES | ECON | OTHER

datatype vertical_arg = NoVertical | Typed vertical | Named string

definition vertical_of_text :: "string \<Rightarrow> vertical option" where
  "vertical_of_text s = map_of
     [(''WEATHER'', WEATHER), (''CRYPTO'', CRYPTO), (''SPORTS'', SPORTS), (''COMMODITIES'', COMMODITIES),
      (''ECON'', ECON), (''OTHER'', OTHER)] s"

definition TARGET_POLICY_VERSION :: string where
  "TARGET_POLICY_VERSION = ''prediction_target_v4_crypto_sports_only''"

definition DATA_ONLY_VERTICALS :: "vertical list" where
  "DATA_ONLY_VERTICALS = [WEATHER, COMMODITIES]"

definition DATA_ONLY_TICKER_PREFIXES :: "string list" where
  "DATA_ONLY_TICKER_PREFIXES =
     [''WEATHER'', ''KXHIGH'', ''KXLOW'', ''KXRAIN'', ''KXSNOW'', ''COMMODITY'', ''KXOIL'', ''KXWTI'', ''KXNATGAS'',
      ''KXNGAS'', ''KXGAS'', ''KXGOLD'']"

definition EQUITY_INDEX_TICKER_PREFIXES :: "string list" where
  "EQUITY_INDEX_TICKER_PREFIXES =
     [''KXINXY'', ''KXINX'', ''KXSPX'', ''KXSP500'', ''KXNASDAQ100Y'', ''KXNASDAQ100'', ''KXNASDAQ'', ''KXNDX'',
      ''KXDJI'', ''KXDOW'', ''KXRUT'', ''KXIPO'', ''KXTSLAA'', ''KXTSLA'', ''KXAAPLA'', ''KXAAPL'', ''KXNVDAA'',
      ''KXNVDA'', ''KXAMZNA'', ''KXAMZN'', ''KXBAA'', ''KXEBAYA'', ''KXCVNAA'', ''KXFA'', ''KXUALA'', ''KXMETA'',
      ''KXMSFT'', ''KXGOOGL'', ''KXGOOG'', ''KXCOIN'', ''KXMSTR'', ''SPX'', ''INX'', ''SP500'', ''NDX'',
      ''NASDAQ100'', ''NASDAQ'', ''QQQ'', ''DJI'', ''DOW'', ''RUT'', ''SPY'', ''TSLA'', ''AAPL'', ''NVDA'', ''AMZN'',
      ''META'', ''MSFT'', ''GOOGL'', ''GOOG'', ''COIN'', ''MSTR'']"

definition EQUITY_INDEX_CATEGORIES :: "string list" where
  "EQUITY_INDEX_CATEGORIES =
     [''equity'', ''equities'', ''company'', ''companies'', ''stock'', ''stocks'', ''index'', ''indices'']"

definition EQUITY_INDEX_SERIES_TAGS :: "string list" where
  "EQUITY_INDEX_SERIES_TAGS =
     [''company'', ''companies'', ''index'', ''indices'', ''ipo'', ''ipos'', ''kpi'', ''kpis'', ''single company'',
      ''stock'', ''stocks'']"

definition PREDICTION_TARGET_CATEGORIES :: "string list" where
  "PREDICTION_TARGET_CATEGORIES = [''crypto'', ''cryptocurrency'', ''cryptocurrencies'', ''sports'']"

definition PREDICTION_TARGET_VERTICALS :: "vertical list" where
  "PREDICTION_TARGET_VERTICALS = [CRYPTO, SPORTS]"

section \<open>Normalisation\<close>

text \<open>\<open>str(v or "")\<close>.\<close>

definition text_or_empty :: "codec \<Rightarrow> json \<Rightarrow> string" where
  "text_or_empty c v = str_of_json (repr_text c) (por v (JStr []))"

text \<open>\<open>s.split()\<close>: the maximal runs of characters that are not white space.\<close>

fun split_ws :: "string \<Rightarrow> string \<Rightarrow> string list" where
  "split_ws acc [] = (if acc = [] then [] else [rev acc])"
| "split_ws acc (c # cs) =
     (if is_space c then (if acc = [] then split_ws [] cs else rev acc # split_ws [] cs)
      else split_ws (c # acc) cs)"

fun join_space :: "string list \<Rightarrow> string" where
  "join_space [] = []"
| "join_space [w] = w"
| "join_space (w # v # ws) = w @ '' '' @ join_space (v # ws)"

definition underscore_to_space :: "char \<Rightarrow> char" where
  "underscore_to_space c = (if c = CHR ''_'' then CHR '' '' else c)"

definition normalise_category :: "codec \<Rightarrow> json \<Rightarrow> string" where
  "normalise_category c v =
     join_space (split_ws [] (map underscore_to_space (casefold (strip (text_or_empty c v)))))"

text \<open>Anything that is not a collection has no tags.\<close>

definition normalise_tags :: "codec \<Rightarrow> json \<Rightarrow> string list" where
  "normalise_tags c v =
     (case as_arr v of
        None \<Rightarrow> []
      | Some xs \<Rightarrow> filter (\<lambda>t. t \<noteq> []) (map (normalise_category c) xs))"

definition boundary_char :: "char \<Rightarrow> bool" where
  "boundary_char c \<longleftrightarrow> digit_val c \<noteq> None \<or> c \<in> {CHR ''-'', CHR ''_'', CHR '':''}"

definition matches_one_prefix :: "string \<Rightarrow> string \<Rightarrow> bool" where
  "matches_one_prefix up p \<longleftrightarrow>
     up = p \<or> startswith up p \<and> (case drop (length p) up of [] \<Rightarrow> False | c # _ \<Rightarrow> boundary_char c)"

definition matches_ticker_prefix :: "string \<Rightarrow> string list \<Rightarrow> bool" where
  "matches_ticker_prefix ticker prefixes = list_ex (matches_one_prefix (upper (strip ticker))) prefixes"

section \<open>Classification\<close>

definition is_data_only_vertical :: "vertical_arg \<Rightarrow> bool" where
  "is_data_only_vertical v =
     (case v of
        NoVertical \<Rightarrow> False
      | Typed x \<Rightarrow> x \<in> set DATA_ONLY_VERTICALS
      | Named s \<Rightarrow> (case vertical_of_text (upper s) of None \<Rightarrow> False | Some x \<Rightarrow> x \<in> set DATA_ONLY_VERTICALS))"

definition is_data_only_target :: "codec \<Rightarrow> string \<Rightarrow> json \<Rightarrow> vertical_arg \<Rightarrow> bool" where
  "is_data_only_target c ticker category v \<longleftrightarrow>
     v \<noteq> NoVertical \<and> is_data_only_vertical v \<or>
     normalise_category c category \<in> {''weather'', ''commodity'', ''commodities''} \<or>
     list_ex (startswith (upper (strip ticker))) DATA_ONLY_TICKER_PREFIXES"

definition is_equity_index_target :: "codec \<Rightarrow> string \<Rightarrow> json \<Rightarrow> json \<Rightarrow> bool" where
  "is_equity_index_target c ticker category tags \<longleftrightarrow>
     normalise_category c category \<in> set EQUITY_INDEX_CATEGORIES \<or>
     list_ex (\<lambda>t. t \<in> set EQUITY_INDEX_SERIES_TAGS) (normalise_tags c tags) \<or>
     matches_ticker_prefix ticker EQUITY_INDEX_TICKER_PREFIXES"

definition is_prediction_quarantined_target :: "codec \<Rightarrow> string \<Rightarrow> json \<Rightarrow> vertical_arg \<Rightarrow> json \<Rightarrow> bool" where
  "is_prediction_quarantined_target c ticker category v tags \<longleftrightarrow>
     is_data_only_target c ticker category v \<or> is_equity_index_target c ticker category tags"

definition target_vertical :: "vertical_arg \<Rightarrow> vertical option" where
  "target_vertical v =
     (case v of
        NoVertical \<Rightarrow> vertical_of_text (upper (strip ''None''))
      | Typed x \<Rightarrow> Some x
      | Named s \<Rightarrow> vertical_of_text (upper (strip s)))"

definition has_prediction_target_authority :: "codec \<Rightarrow> string \<Rightarrow> json \<Rightarrow> vertical_arg \<Rightarrow> json \<Rightarrow> bool" where
  "has_prediction_target_authority c ticker category v tags =
     (if is_prediction_quarantined_target c ticker category v tags then False
      else if normalise_category c category \<in> set PREDICTION_TARGET_CATEGORIES then True
      else (case target_vertical v of None \<Rightarrow> False | Some x \<Rightarrow> x \<in> set PREDICTION_TARGET_VERTICALS))"

record target_policy =
  tp_policy_version :: string
  tp_classification :: string
  tp_role :: string
  tp_prediction_target :: "bool option"
  tp_trade_proposal_authority :: "bool option"
  tp_execution_target :: "bool option"
  tp_reason :: string

definition policy_answer :: "string \<Rightarrow> string \<Rightarrow> bool option \<Rightarrow> string \<Rightarrow> target_policy" where
  "policy_answer classification role b reason =
     \<lparr>tp_policy_version = TARGET_POLICY_VERSION, tp_classification = classification, tp_role = role,
      tp_prediction_target = b, tp_trade_proposal_authority = b, tp_execution_target = b, tp_reason = reason\<rparr>"

definition target_policy_payload :: "codec \<Rightarrow> string \<Rightarrow> json \<Rightarrow> vertical_arg \<Rightarrow> json \<Rightarrow> target_policy" where
  "target_policy_payload c ticker category v tags =
     (if is_data_only_target c ticker category v
      then policy_answer ''data_only'' ''data_only'' (Some False) ''weather_and_commodities_are_context_only''
      else if is_equity_index_target c ticker category tags
      then policy_answer ''unsupported_target'' ''excluded'' (Some False) ''outside_supported_prediction_targets''
      else if has_prediction_target_authority c ticker category v tags
      then policy_answer ''prediction_target_authorized'' ''prediction_target'' (Some True) ''structured_target_context_authorized''
      else policy_answer ''eligibility_unverified'' ''eligibility_unverified'' None ''target_not_classified_by_this_policy'')"

section \<open>Properties\<close>

lemma upper_char_idem: "upper_char (upper_char x) = upper_char x"
proof (cases "97 \<le> (of_char x :: nat) \<and> (of_char x :: nat) \<le> 122")
  case True
  then have "(of_char x - 32 :: nat) mod 256 = of_char x - 32" by (intro mod_less) linarith
  with True have "(of_char (upper_char x) :: nat) = of_char x - 32"
    by (simp add: upper_char_def)
  with True show ?thesis by (auto simp: upper_char_def Let_def)
qed (auto simp: upper_char_def Let_def)

lemma is_space_upper_char [simp]: "is_space (upper_char x) = is_space x"
proof (cases "97 \<le> (of_char x :: nat) \<and> (of_char x :: nat) \<le> 122")
  case True
  then have "(of_char x - 32 :: nat) mod 256 = of_char x - 32" by (intro mod_less) linarith
  with True have "(of_char (upper_char x) :: nat) = of_char x - 32"
    by (simp add: upper_char_def)
  with True show ?thesis by (auto simp: is_space_def Let_def)
qed (auto simp: upper_char_def Let_def)

lemma is_space_lower_char [simp]: "is_space (lower_char x) = is_space x"
proof (cases "65 \<le> (of_char x :: nat) \<and> (of_char x :: nat) \<le> 90")
  case True
  then have "(of_char (lower_char x) :: nat) = of_char x + 32"
    by (simp add: lower_char_def)
  with True show ?thesis by (auto simp: is_space_def Let_def)
qed (auto simp: lower_char_def Let_def)

lemma dropWhile_space_map: "(\<And>x. is_space (f x) = is_space x) \<Longrightarrow> dropWhile is_space (map f s) = map f (dropWhile is_space s)"
  by (simp add: dropWhile_map comp_def)

lemma strip_map: "(\<And>x. is_space (f x) = is_space x) \<Longrightarrow> strip (map f s) = map f (strip s)"
  by (simp add: strip_def dropWhile_space_map rev_map)

lemma strip_strip [simp]: "strip (strip s) = strip s"
proof -
  have d: "dropWhile is_space (rev (dropWhile is_space (rev t))) = rev (dropWhile is_space (rev t))"
    if "dropWhile is_space t = t" for t
  proof (cases t)
    case (Cons a u)
    with that have a: "\<not> is_space a" by (metis dropWhile.simps(2) dropWhile_eq_Cons_conv)
    have "\<exists>w. rev (dropWhile is_space (rev t)) = a # w"
      using a unfolding Cons by (simp add: dropWhile_append3)
    then show ?thesis using a by auto
  qed simp
  have "dropWhile is_space (dropWhile is_space s) = dropWhile is_space s" by simp
  from d [OF this] show ?thesis by (simp add: strip_def)
qed

lemma upper_strip_upper [simp]: "upper (strip (upper t)) = upper (strip t)"
  by (simp add: upper_def strip_map upper_char_idem comp_def)

lemma matches_one_prefix_iff:
  "matches_one_prefix up p \<longleftrightarrow> up = p \<or> (\<exists>x rest. up = p @ x # rest \<and> boundary_char x)"
proof -
  have "startswith up p \<and> (case drop (length p) up of [] \<Rightarrow> False | x # _ \<Rightarrow> boundary_char x) \<longleftrightarrow>
      (\<exists>x rest. up = p @ x # rest \<and> boundary_char x)" (is "?L \<longleftrightarrow> ?R")
  proof
    assume ?L
    then obtain x rest where "drop (length p) up = x # rest" "boundary_char x" "take (length p) up = p"
      by (auto simp: startswith_def split: list.splits)
    then show ?R by (metis append_take_drop_id)
  qed (auto simp: startswith_def)
  then show ?thesis by (auto simp: matches_one_prefix_def)
qed

text \<open>Denying a series does not deny a longer one. A ticker matches a denied prefix exactly when,
  stripped and upper-cased, it is the prefix or continues it with a digit, a dash, an
  underscore or a colon; so the answer does not depend on case or surrounding space.\<close>

theorem prefix_match_is_boundary_aware:
  "matches_ticker_prefix ticker prefixes \<longleftrightarrow>
     (\<exists>p \<in> set prefixes. upper (strip ticker) = p \<or>
        (\<exists>x rest. upper (strip ticker) = p @ x # rest \<and> boundary_char x))"
  by (simp add: matches_ticker_prefix_def matches_one_prefix_iff list_ex_iff)

text \<open>The target verdict does not depend on how a ticker is written: upper-casing it or trimming
  it changes none of the three classifications.\<close>

theorem target_verdict_ignores_case_and_space:
  "t' \<in> {upper ticker, strip ticker, upper (strip ticker), strip (upper ticker)} \<Longrightarrow>
     is_prediction_quarantined_target c t' category v tags = is_prediction_quarantined_target c ticker category v tags \<and>
     has_prediction_target_authority c t' category v tags = has_prediction_target_authority c ticker category v tags \<and>
     target_policy_payload c t' category v tags = target_policy_payload c ticker category v tags"
proof -
  assume "t' \<in> {upper ticker, strip ticker, upper (strip ticker), strip (upper ticker)}"
  moreover have "upper (strip (upper (strip ticker))) = upper (strip ticker)"
    by (metis strip_strip upper_strip_upper)
  moreover have "upper (strip (strip (upper ticker))) = upper (strip ticker)" by simp
  ultimately have u: "upper (strip t') = upper (strip ticker)" by auto
  have d: "is_data_only_target c t' category v = is_data_only_target c ticker category v"
    and e: "is_equity_index_target c t' category tags = is_equity_index_target c ticker category tags"
    by (simp_all add: is_data_only_target_def is_equity_index_target_def matches_ticker_prefix_def u)
  have q: "is_prediction_quarantined_target c t' category v tags = is_prediction_quarantined_target c ticker category v tags"
    by (simp add: is_prediction_quarantined_target_def d e)
  show ?thesis
    by (simp add: q d e has_prediction_target_authority_def target_policy_payload_def)
qed

lemma target_verdict_ignores_case_and_space_witness:
  "is_prediction_quarantined_target plain_codec (upper '' kxinx-26 '') JNull NoVertical JNull"
proof -
  have q: "is_prediction_quarantined_target plain_codec '' kxinx-26 '' JNull NoVertical JNull" by code_simp
  show ?thesis
    using q target_verdict_ignores_case_and_space [of "upper '' kxinx-26 ''" "'' kxinx-26 ''" plain_codec JNull NoVertical JNull]
    by simp
qed

text \<open>Deny beats grant. A target gets a positive execution answer exactly when it is authorised,
  which no quarantined target is; a quarantined one gets a negative answer; and with
  neither a listed category nor a listed vertical the answer stays open.\<close>

theorem deny_beats_grant:
  "(tp_execution_target (target_policy_payload c ticker category v tags) = Some True \<longleftrightarrow>
      has_prediction_target_authority c ticker category v tags) \<and>
   (tp_execution_target (target_policy_payload c ticker category v tags) = Some False \<longleftrightarrow>
      is_prediction_quarantined_target c ticker category v tags) \<and>
   (has_prediction_target_authority c ticker category v tags \<longleftrightarrow>
      \<not> is_prediction_quarantined_target c ticker category v tags \<and>
      (normalise_category c category \<in> set PREDICTION_TARGET_CATEGORIES \<or>
       v \<in> {Typed CRYPTO, Typed SPORTS} \<or> (\<exists>s. v = Named s \<and> upper (strip s) \<in> {''CRYPTO'', ''SPORTS''})))"
proof -
  have none: "target_vertical NoVertical = None" by code_simp
  have named: "(case vertical_of_text s of None \<Rightarrow> False | Some x \<Rightarrow> x \<in> set PREDICTION_TARGET_VERTICALS) \<longleftrightarrow>
      s \<in> {''CRYPTO'', ''SPORTS''}" for s
    by (auto simp: vertical_of_text_def PREDICTION_TARGET_VERTICALS_def)
  have "(case target_vertical v of None \<Rightarrow> False | Some x \<Rightarrow> x \<in> set PREDICTION_TARGET_VERTICALS) \<longleftrightarrow>
      v \<in> {Typed CRYPTO, Typed SPORTS} \<or> (\<exists>s. v = Named s \<and> upper (strip s) \<in> {''CRYPTO'', ''SPORTS''})"
    using none named by (cases v) (auto simp: target_vertical_def PREDICTION_TARGET_VERTICALS_def)
  then show ?thesis
    unfolding has_prediction_target_authority_def target_policy_payload_def is_prediction_quarantined_target_def policy_answer_def
    by simp
qed

end
