(* ===== verification/Ontology.thy ===== *)
theory Ontology
  imports PyJson
begin

text \<open>
  The records of \<open>core/ontology.py\<close> that cross component boundaries on the way to an order:
  request, order book, forecast, caps, verdicts and results. A datetime field is a \<open>stamp\<close>
  (with offset or naive), a Decimal field a \<open>decimal\<close>. The broker is the set of answers its
  client gives, \<open>None\<close> for a call that raises, and every call the program makes is recorded.
\<close>

section \<open>Model influence\<close>

datatype influence_kind = QUANT_ONLY | MODEL_WEIGHTED

record influence_attestation =
  ia_influence_kind :: influence_kind
  ia_model_probability_authority :: rat
  ia_authority_scope :: "string option"
  ia_authority_evidence_ref :: "string option"
  ia_market_category :: "string option"
  ia_live_phase :: "bool option"
  ia_supporting_model_output_reference :: "string option"
  ia_issued_at :: stamp
  ia_forecast_binding_sha256 :: string
  ia_proposal_binding_sha256 :: string
  ia_attestation_sha256 :: string

text \<open>The validator of the attestation record.\<close>

definition given_text :: "string option \<Rightarrow> bool" where
  "given_text s = (case s of None \<Rightarrow> False | Some t \<Rightarrow> strip t \<noteq> [])"

definition attestation_shape_ok :: "influence_attestation \<Rightarrow> bool" where
  "attestation_shape_ok a =
     (if ia_influence_kind a = QUANT_ONLY then ia_model_probability_authority a = 0
      else 0 < ia_model_probability_authority a \<and> given_text (ia_authority_scope a) \<and>
        given_text (ia_authority_evidence_ref a) \<and> given_text (ia_market_category a) \<and>
        given_text (ia_supporting_model_output_reference a))"

section \<open>Orders, books and forecasts\<close>

record live_order_request =
  rq_proposal_id :: string
  rq_market_ticker :: string
  rq_contract_ticker :: string
  rq_side :: string
  rq_price_cents :: int
  rq_size :: int
  rq_strategy_proof_reference :: string
  rq_forecast_proof_reference :: string
  rq_adapter_name :: string
  rq_liquidity_role :: string
  rq_risk_state_sha256 :: "string option"
  rq_risk_snapshot :: "(string \<times> json) list"
  rq_expiration_ts :: "int option"
  rq_attestation :: "influence_attestation option"

record order_book =
  ob_market_ticker :: string
  ob_contract_ticker :: string
  ob_bids :: "(int \<times> int) list"
  ob_asks :: "(int \<times> int) list"
  ob_timestamp :: stamp
  ob_received_at :: "stamp option"
  ob_source_ts :: "stamp option"

record forecast =
  fc_market_ticker :: string
  fc_contract_ticker :: string
  fc_event_title :: string
  fc_contract_title :: string
  fc_market_implied_probability :: decimal
  fc_dummy_probability :: decimal
  fc_probability_delta :: decimal
  fc_confidence_score :: decimal
  fc_uncertainty_band :: "decimal \<times> decimal"
  fc_expected_edge :: decimal
  fc_edge_after_fees :: decimal
  fc_settlement_risk_score :: rat
  fc_source_summary :: string
  fc_model_summary :: string
  fc_calibration_notes :: string
  fc_timestamp :: stamp
  fc_expiration :: stamp
  fc_proof_reference :: string

record cap_config =
  cc_max_single_order_cents :: int
  cc_max_market_exposure_cents :: int
  cc_max_correlated_exposure_cents :: int
  cc_max_daily_loss_cents :: int
  cc_max_total_live_exposure_cents :: int
  cc_max_open_markets :: int
  cc_max_orders_per_hour :: int
  cc_allowed_markets :: "string list"
  cc_allowed_series :: "string list"
  cc_blocked_categories :: "string list"
  cc_max_spread_cents :: int
  cc_min_liquidity :: int
  cc_min_edge_bps :: int

record firewall_verdict =
  fv_allow :: bool
  fv_reason :: string
  fv_rejected_by :: "string option"

record live_order_result =
  lr_success :: bool
  lr_order_id :: "string option"
  lr_error :: "string option"
  lr_proof_reference :: string
  lr_broker_contacted :: bool

record compliance_verdict =
  cv_passed :: bool
  cv_blocked_categories :: "string list"
  cv_reason :: string

record market_metadata =
  mm_source :: string
  mm_received_at :: int
  mm_market_ticker :: string
  mm_event_ticker :: string
  mm_series_ticker :: string
  mm_series_category :: string
  mm_event_category :: "string option"
  mm_series_tags :: "string list"
  mm_verified :: bool

definition allowed :: "string \<Rightarrow> firewall_verdict" where
  "allowed reason = \<lparr>fv_allow = True, fv_reason = reason, fv_rejected_by = None\<rparr>"

definition rejected :: "string \<Rightarrow> string \<Rightarrow> firewall_verdict" where
  "rejected by_gate reason = \<lparr>fv_allow = False, fv_reason = reason, fv_rejected_by = Some by_gate\<rparr>"

lemma verdict_simps [simp]:
  "fv_allow (allowed r)" "\<not> fv_allow (rejected g r)" "fv_reason (allowed r) = r" "fv_reason (rejected g r) = r"
  by (simp_all add: allowed_def rejected_def)

section \<open>The broker\<close>

datatype broker_call =
    GetMarket string
  | GetEvent string
  | GetSeries string
  | GetOrderbook string nat
  | CreateOrder json

text \<open>
  What the client's methods return. A response that is not an \<open>OrderBook\<close> is \<open>Some None\<close>;
  \<open>create_order\<close> raises with the name of the exception's type.
\<close>

record broker =
  br_market :: "string \<Rightarrow> json option"
  br_event :: "string \<Rightarrow> json option"
  br_series :: "string \<Rightarrow> json option"
  br_orderbook :: "string \<Rightarrow> nat \<Rightarrow> order_book option option"
  br_create :: "json \<Rightarrow> string + json"

end
