(* ===== verification/Compliance.thy ===== *)
theory Compliance
  imports TargetPolicy Ontology
begin

text \<open>
  \<open>compliance/kalshi_metadata.py\<close> and \<open>compliance/governor.py\<close>: fetching the market, event and
  series records of a ticker and checking that they belong together, and applying the blocked
  selectors of the caps to them.
\<close>

text \<open>\<open>_normalise\<close>: white space collapsed and trimmed, case folded (NFKC is the identity on ASCII).\<close>

definition normalise_text :: "string \<Rightarrow> string" where
  "normalise_text s = casefold (join_space (split_ws [] s))"

section \<open>Fetching the hierarchy\<close>

definition METADATA_SOURCE :: string where
  "METADATA_SOURCE = ''kalshi_read_only_market_event_series_v1''"

text \<open>A \<open>ComplianceMetadataError\<close> is its code.\<close>

definition envelope_object :: "json \<Rightarrow> string \<Rightarrow> string \<Rightarrow> string + (string \<times> json) list" where
  "envelope_object raw envelope code =
     (case as_obj raw of
        None \<Rightarrow> Inl code
      | Some d \<Rightarrow>
          if jget envelope d = JNull then Inr d
          else (case as_obj (jget envelope d) of None \<Rightarrow> Inl code | Some n \<Rightarrow> Inr n))"

definition required_text :: "(string \<times> json) list \<Rightarrow> string \<Rightarrow> string \<Rightarrow> string + string" where
  "required_text d key code =
     (case as_str (jget key d) of
        None \<Rightarrow> Inl code
      | Some s \<Rightarrow> if strip s = [] then Inl code else Inr (strip s))"

definition optional_text :: "(string \<times> json) list \<Rightarrow> string \<Rightarrow> string + string option" where
  "optional_text d key =
     (case jget key d of
        JNull \<Rightarrow> Inr None
      | JStr s \<Rightarrow> Inr (if strip s = [] then None else Some (strip s))
      | _ \<Rightarrow> Inl ''INVALID_EVENT_CATEGORY'')"

definition series_tags :: "json \<Rightarrow> string + string list" where
  "series_tags v =
     (case v of
        JNull \<Rightarrow> Inr []
      | JArr xs \<Rightarrow>
          (case option_all as_str xs of
             None \<Rightarrow> Inl ''INVALID_SERIES_TAGS''
           | Some ts \<Rightarrow> Inr (filter (\<lambda>t. t \<noteq> []) (map strip ts)))
      | _ \<Rightarrow> Inl ''INVALID_SERIES_TAGS'')"

text \<open>\<open>and_then\<close> is the sequence of steps each of which may raise.\<close>

fun and_then :: "'e + 'a \<Rightarrow> ('a \<Rightarrow> 'e + 'b) \<Rightarrow> 'e + 'b" where
  "and_then (Inl e) f = Inl e"
| "and_then (Inr x) f = f x"

fun require :: "bool \<Rightarrow> 'e \<Rightarrow> 'e + unit" where
  "require True e = Inr ()"
| "require False e = Inl e"

fun answer :: "json option \<Rightarrow> string \<Rightarrow> string + json" where
  "answer None code = Inl code"
| "answer (Some v) code = Inr v"

definition resolve_market :: "string \<Rightarrow> json \<Rightarrow> string + string \<times> string" where
  "resolve_market requested market_raw =
     and_then (envelope_object market_raw ''market'' ''INVALID_MARKET_RESPONSE'') (\<lambda>market.
     and_then (required_text market ''ticker'' ''INVALID_MARKET_RESPONSE'') (\<lambda>actual.
     and_then (require (normalise_text actual = normalise_text requested) ''MARKET_TICKER_MISMATCH'') (\<lambda>_.
     and_then (required_text market ''event_ticker'' ''INVALID_MARKET_RESPONSE'') (\<lambda>ev.
     Inr (actual, ev)))))"

definition resolve_event :: "string \<Rightarrow> json \<Rightarrow> string + string \<times> string \<times> string option" where
  "resolve_event event_ticker event_raw =
     and_then (envelope_object event_raw ''event'' ''INVALID_EVENT_RESPONSE'') (\<lambda>event.
     and_then (required_text event ''event_ticker'' ''INVALID_EVENT_RESPONSE'') (\<lambda>actual.
     and_then (require (normalise_text actual = normalise_text event_ticker) ''EVENT_TICKER_MISMATCH'') (\<lambda>_.
     and_then (required_text event ''series_ticker'' ''INVALID_EVENT_RESPONSE'') (\<lambda>series.
     and_then (optional_text event ''category'') (\<lambda>category.
     Inr (actual, series, category))))))"

definition resolve_series :: "string \<Rightarrow> string option \<Rightarrow> json \<Rightarrow> string + string \<times> string \<times> string list" where
  "resolve_series series_ticker event_category series_raw =
     and_then (envelope_object series_raw ''series'' ''INVALID_SERIES_RESPONSE'') (\<lambda>series.
     and_then (required_text series ''ticker'' ''INVALID_SERIES_RESPONSE'') (\<lambda>actual.
     and_then (require (normalise_text actual = normalise_text series_ticker) ''SERIES_TICKER_MISMATCH'') (\<lambda>_.
     and_then (required_text series ''category'' ''INVALID_SERIES_RESPONSE'') (\<lambda>category.
     and_then (require (case event_category of None \<Rightarrow> True | Some e \<Rightarrow> normalise_text e = normalise_text category)
                 ''CATEGORY_MISMATCH'') (\<lambda>_.
     and_then (series_tags (jget ''tags'' series)) (\<lambda>tags.
     Inr (actual, category, tags)))))))"

text \<open>The calls made, and the metadata or the code of the error raised.\<close>

definition fetch_verified_metadata ::
  "int \<Rightarrow> broker \<Rightarrow> string \<Rightarrow> json option \<Rightarrow> broker_call list \<times> (string + market_metadata)" where
  "fetch_verified_metadata now b market_ticker market_raw =
     (let requested = strip market_ticker in
      if requested = [] then ([], Inl ''INVALID_MARKET_TICKER'')
      else
        (let (calls0, raw) = (case market_raw of
                 Some v \<Rightarrow> ([], Inr v)
               | None \<Rightarrow> ([GetMarket requested], answer (br_market b requested) ''MARKET_METADATA_UNAVAILABLE''))
         in case and_then raw (resolve_market requested) of
              Inl e \<Rightarrow> (calls0, Inl e)
            | Inr (actual_market, event_ticker) \<Rightarrow>
                (let calls1 = calls0 @ [GetEvent event_ticker] in
                 case and_then (answer (br_event b event_ticker) ''EVENT_METADATA_UNAVAILABLE'') (resolve_event event_ticker) of
                   Inl e \<Rightarrow> (calls1, Inl e)
                 | Inr (actual_event, series_ticker, event_category) \<Rightarrow>
                     (calls1 @ [GetSeries series_ticker],
                      and_then (and_then (answer (br_series b series_ticker) ''SERIES_METADATA_UNAVAILABLE'')
                                  (resolve_series series_ticker event_category))
                        (\<lambda>(actual_series, series_category, tags). Inr
                          \<lparr>mm_source = METADATA_SOURCE, mm_received_at = now, mm_market_ticker = actual_market,
                           mm_event_ticker = actual_event, mm_series_ticker = actual_series,
                           mm_series_category = series_category, mm_event_category = event_category,
                           mm_series_tags = tags, mm_verified = True\<rparr>)))))"

section \<open>The compliance policy\<close>

definition SELECTOR_FIELDS :: "string list" where
  "SELECTOR_FIELDS = [''category'', ''tag'', ''series'', ''event'']"

definition parse_selector :: "string \<Rightarrow> (string \<times> string) option" where
  "parse_selector policy =
     (let raw = strip policy in
      if raw = [] then None
      else if CHR '':'' \<notin> set raw then Some (''category'', normalise_text raw)
      else
        (let key = normalise_text (split_head CHR '':'' raw);
             v = normalise_text (tl (dropWhile (\<lambda>c. c \<noteq> CHR '':'') raw))
         in if key \<notin> set SELECTOR_FIELDS \<or> v = [] then None else Some (key, v)))"

definition nonempty :: "string list \<Rightarrow> string list" where
  "nonempty xs = filter (\<lambda>s. s \<noteq> []) xs"

definition opt_list :: "'a option \<Rightarrow> 'a list" where
  "opt_list x = (case x of None \<Rightarrow> [] | Some y \<Rightarrow> [y])"

definition metadata_values :: "market_metadata \<Rightarrow> string \<Rightarrow> string list" where
  "metadata_values m key =
     (if key = ''category''
      then nonempty (normalise_text (mm_series_category m) # map normalise_text (nonempty (opt_list (mm_event_category m))))
      else if key = ''tag'' then nonempty (map normalise_text (mm_series_tags m))
      else if key = ''series'' then [normalise_text (mm_series_ticker m)]
      else if key = ''event'' then [normalise_text (mm_event_ticker m)]
      else [])"

text \<open>
  Metadata as the caller passes it: none, the record, or a mapping that pydantic validates
  (\<open>validate\<close>; \<open>None\<close>: it does not).
\<close>

datatype metadata_arg = NoMetadata | Metadata market_metadata | MetadataMap "(string \<times> json) list"

definition coerce_metadata :: "((string \<times> json) list \<Rightarrow> market_metadata option) \<Rightarrow> metadata_arg \<Rightarrow> market_metadata option" where
  "coerce_metadata validate arg =
     (case arg of NoMetadata \<Rightarrow> None | Metadata m \<Rightarrow> Some m | MetadataMap d \<Rightarrow> validate d)"

definition verdict_of :: "bool \<Rightarrow> string list \<Rightarrow> string \<Rightarrow> compliance_verdict" where
  "verdict_of ok blocked reason = \<lparr>cv_passed = ok, cv_blocked_categories = blocked, cv_reason = reason\<rparr>"

definition list_text :: "codec \<Rightarrow> string list \<Rightarrow> string" where
  "list_text c xs = repr_text c (JArr (map JStr xs))"

definition selector_hits :: "market_metadata \<Rightarrow> string \<Rightarrow> bool" where
  "selector_hits m policy =
     (case parse_selector policy of None \<Rightarrow> False | Some (key, v) \<Rightarrow> v \<in> set (metadata_values m key))"

definition assess_metadata :: "codec \<Rightarrow> string list \<Rightarrow> string \<Rightarrow> market_metadata \<Rightarrow> compliance_verdict" where
  "assess_metadata c policies market_ticker m =
     (if \<not> mm_verified m then verdict_of False [] ''Compliance metadata is not verified''
      else if normalise_text (mm_market_ticker m) \<noteq> normalise_text market_ticker
      then verdict_of False [] ''Compliance metadata market ticker mismatch''
      else if normalise_text (mm_event_ticker m) = [] \<or> normalise_text (mm_series_ticker m) = [] \<or>
              normalise_text (mm_series_category m) = [] \<or> normalise_text (mm_source m) = []
      then verdict_of False [] ''Compliance metadata incomplete''
      else
        (let invalid = filter (\<lambda>p. parse_selector p = None) policies; blocked = filter (selector_hits m) policies
         in if invalid \<noteq> [] then verdict_of False invalid (''Invalid compliance selectors: '' @ list_text c invalid)
            else if blocked \<noteq> [] then verdict_of False blocked (''Blocked Kalshi metadata selectors: '' @ list_text c blocked)
            else verdict_of True [] ''Compliant''))"

definition assess_compliance ::
  "codec \<Rightarrow> ((string \<times> json) list \<Rightarrow> market_metadata option) \<Rightarrow> string list \<Rightarrow> string \<Rightarrow> string \<Rightarrow>
   metadata_arg \<Rightarrow> bool \<Rightarrow> compliance_verdict" where
  "assess_compliance c validate blocked_categories market_ticker contract_ticker arg require_verified =
     (let policies = filter (\<lambda>p. strip p \<noteq> []) blocked_categories; resolved = coerce_metadata validate arg in
      if policies = [] then verdict_of True [] ''Compliant''
      else if arg \<noteq> NoMetadata \<and> resolved = None
      then verdict_of False [] ''Compliance metadata malformed; verified Kalshi metadata required''
      else (case resolved of
          Some m \<Rightarrow> assess_metadata c policies market_ticker m
        | None \<Rightarrow>
            if require_verified then verdict_of False [] ''Verified Kalshi compliance metadata required''
            else
              (let market = lower (strip market_ticker); contract = lower (strip contract_ticker);
                   blocked = filter (\<lambda>p. startswith market (lower (strip p)) \<or> startswith contract (lower (strip p))) policies
               in if blocked \<noteq> [] then verdict_of False blocked (''Blocked legacy ticker prefixes: '' @ list_text c blocked)
                  else verdict_of True [] ''Compliant (legacy non-live metadata fallback)'')))"

section \<open>Properties\<close>

lemma and_then_Inr: "and_then x f = Inr z \<longleftrightarrow> (\<exists>y. x = Inr y \<and> f y = Inr z)"
  by (cases x) auto

lemma require_Inr [simp]: "require b e = Inr u \<longleftrightarrow> b"
  by (cases b) auto

lemma required_text_Inr: "required_text d key code = Inr t \<Longrightarrow> t \<noteq> [] \<and> strip t = t"
  by (auto simp: required_text_def split: option.splits if_splits)

lemma resolve_market_Inr:
  "resolve_market requested raw = Inr (actual, ev) \<Longrightarrow> normalise_text actual = normalise_text requested \<and> actual \<noteq> []"
  by (auto simp: resolve_market_def and_then_Inr dest: required_text_Inr)

lemma resolve_series_Inr:
  "resolve_series st ec raw = Inr (actual, category, tags) \<Longrightarrow>
     normalise_text actual = normalise_text st \<and> category \<noteq> [] \<and>
     (\<forall>e. ec = Some e \<longrightarrow> normalise_text e = normalise_text category)"
  by (auto simp: resolve_series_def and_then_Inr dest: required_text_Inr split: option.splits)

definition read_only :: "broker_call \<Rightarrow> bool" where
  "read_only x = (case x of CreateOrder ord \<Rightarrow> False | _ \<Rightarrow> True)"

lemma fetch_read_only: "x \<in> set (fst (fetch_verified_metadata now b ticker raw)) \<Longrightarrow> read_only x"
  by (auto simp: fetch_verified_metadata_def Let_def read_only_def split: option.splits sum.splits if_splits)

lemma fetch_Inr:
  assumes "snd (fetch_verified_metadata now b ticker raw) = Inr m"
  shows "mm_verified m \<and> normalise_text (mm_market_ticker m) = normalise_text (strip ticker) \<and> mm_series_category m \<noteq> [] \<and>
    (\<forall>e. mm_event_category m = Some e \<longrightarrow> normalise_text e = normalise_text (mm_series_category m))"
  using assms
  by (auto simp: fetch_verified_metadata_def Let_def and_then_Inr split: option.splits sum.splits if_splits
      dest!: resolve_market_Inr resolve_series_Inr)

text \<open>The metadata the live sink trusts is about the market asked for. Whatever the broker
  answers, the resolver makes only read calls, and when it succeeds the market ticker is the
  requested one up to case and spacing, the series category is given, and an event category
  agrees with it.\<close>

theorem fetched_metadata_bound:
  assumes "fetch_verified_metadata now b ticker raw = (calls, Inr m)"
  shows "(\<forall>x \<in> set calls. read_only x) \<and> mm_verified m \<and>
    normalise_text (mm_market_ticker m) = normalise_text (strip ticker) \<and> mm_series_category m \<noteq> [] \<and>
    (\<forall>e. mm_event_category m = Some e \<longrightarrow> normalise_text e = normalise_text (mm_series_category m))"
proof -
  have "x \<in> set calls \<Longrightarrow> read_only x" for x using fetch_read_only [of x now b ticker raw] assms by simp
  moreover have "snd (fetch_verified_metadata now b ticker raw) = Inr m" using assms by simp
  ultimately show ?thesis using fetch_Inr by blast
qed

definition sample_broker :: broker where
  "sample_broker = \<lparr>
     br_market = (\<lambda>t. Some (JObj [(''market'', JObj [(''ticker'', JStr ''KXSOL15M-26''), (''event_ticker'', JStr ''KXSOL15M''),
       (''status'', JStr ''active''), (''close_time'', JStr ''FUTURE'')])])),
     br_event = (\<lambda>t. Some (JObj [(''event_ticker'', JStr ''KXSOL15M''), (''series_ticker'', JStr ''KXSOL15M''), (''category'', JStr ''Crypto'')])),
     br_series = (\<lambda>t. Some (JObj [(''series'', JObj [(''ticker'', JStr ''KXSOL15M''), (''category'', JStr ''crypto''), (''tags'', JArr [JStr ''SOL''])])])),
     br_orderbook = (\<lambda>t d. None),
     br_create = (\<lambda>ord. Inr (JObj [(''order'', JObj [(''order_id'', JStr ''X1'')])]))\<rparr>"

definition sample_metadata :: market_metadata where
  "sample_metadata = \<lparr>mm_source = METADATA_SOURCE, mm_received_at = 5, mm_market_ticker = ''KXSOL15M-26'',
     mm_event_ticker = ''KXSOL15M'', mm_series_ticker = ''KXSOL15M'', mm_series_category = ''crypto'',
     mm_event_category = Some ''Crypto'', mm_series_tags = [''SOL''], mm_verified = True\<rparr>"

lemma sample_fetch:
  "fetch_verified_metadata 5 sample_broker ''KXSOL15M-26'' None =
     ([GetMarket ''KXSOL15M-26'', GetEvent ''KXSOL15M'', GetSeries ''KXSOL15M''], Inr sample_metadata)"
  by code_simp

lemma fetched_metadata_bound_witness:
  "normalise_text (mm_market_ticker sample_metadata) = normalise_text (strip ''KXSOL15M-26'')"
  using fetched_metadata_bound [OF sample_fetch] by blast

text \<open>No blocked category is traded. When the compliance gate passes metadata at the live sink,
  every selector of the caps parses, and none of them names the metadata's series, event, a
  tag, or the series or event category, however either is capitalised or spaced.\<close>

theorem compliance_blocks_listed_selectors:
  assumes "cv_passed (assess_compliance c validate blocked market contract (Metadata m) True)"
    and "p \<in> set blocked" and "strip p \<noteq> []"
  shows "mm_verified m \<and> normalise_text (mm_market_ticker m) = normalise_text market \<and>
    (\<exists>key v. parse_selector p = Some (key, v) \<and> v \<notin> set (metadata_values m key))"
proof -
  let ?ps = "filter (\<lambda>p. strip p \<noteq> []) blocked"
  have p: "p \<in> set ?ps" using assms(2,3) by simp
  then have "?ps \<noteq> []" by (metis empty_iff list.set(1))
  then have a: "cv_passed (assess_metadata c ?ps market m)"
    using assms(1) by (simp add: assess_compliance_def coerce_metadata_def)
  then have none: "filter (\<lambda>p. parse_selector p = None) ?ps = []" "filter (selector_hits m) ?ps = []"
    and ok: "mm_verified m" "normalise_text (mm_market_ticker m) = normalise_text market"
    by (simp_all add: assess_metadata_def Let_def verdict_of_def split: if_splits)
  then have "parse_selector p \<noteq> None" "\<not> selector_hits m p" using p by (auto simp: filter_empty_conv)
  with ok show ?thesis by (auto simp: selector_hits_def)
qed

lemma compliance_blocks_listed_selectors_witness:
  "mm_verified sample_metadata"
proof -
  have ok: "cv_passed (assess_compliance plain_codec (\<lambda>_. None) [''Elections'', ''Politics''] ''KXSOL15M-26'' ''KXSOL15M-26''
      (Metadata sample_metadata) True)" by code_simp
  have p: "''Politics'' \<in> set [''Elections'', ''Politics'']" by simp
  have st: "strip ''Politics'' \<noteq> []" by code_simp
  show ?thesis using compliance_blocks_listed_selectors [OF ok p st] by blast
qed

end
