(* ===== verification/ModelAuthority.thy ===== *)
theory ModelAuthority
  imports Ontology
begin

text \<open>
  \<open>forecasting/model_probability_authority.py\<close>: the scope a model probability is used in, and
  the registry that grants it a bounded weight only on a promotion dossier backed by a fresh,
  canonical evidence artifact. The subject of a ticker and the family of a crypto contract
  come from \<open>autonomy/taxonomy.py\<close> and are arguments.
\<close>

record taxonomy =
  tx_subject :: "string \<Rightarrow> string"
  tx_crypto_family :: "string \<Rightarrow> string"

text \<open>\<open>Decimal(text)\<close> (\<open>None\<close>: InvalidOperation), \<open>str\<close> of a float and of a Decimal in fixed notation.\<close>

record decimal_codec =
  dec_of_text :: "string \<Rightarrow> decimal option"
  text_of_float :: "pyfloat \<Rightarrow> string"
  text_of_dec :: "rat \<Rightarrow> string"

definition MODEL_PANEL_SOURCE :: string where
  "MODEL_PANEL_SOURCE = ''openrouter_gemini36flash_gpt56luna_claudesonnet5_glm52_v1''"

definition MODEL_AUTHORITY_SCHEMA :: string where
  "MODEL_AUTHORITY_SCHEMA = ''model_probability_authority_v1''"

definition MODEL_EVIDENCE_SCHEMA :: string where
  "MODEL_EVIDENCE_SCHEMA = ''model_probability_forward_calibration_v1''"

definition MODEL_EVIDENCE_MODE :: string where
  "MODEL_EVIDENCE_MODE = ''live_only_receipt_bounded_forward_v1''"

definition EXPECTED_PROVIDER_MODELS :: "string list" where
  "EXPECTED_PROVIDER_MODELS =
     [''google/gemini-3.6-flash'', ''anthropic/claude-sonnet-5'', ''openai/gpt-5.6-luna'', ''z-ai/glm-5.2'']"

definition MIN_INDEPENDENT_EVENT_CLUSTERS :: int where
  "MIN_INDEPENDENT_EVENT_CLUSTERS = 300"

definition MAX_MODEL_PROBABILITY_WEIGHT :: rat where
  "MAX_MODEL_PROBABILITY_WEIGHT = 35 / 100"

text \<open>Seven days in microseconds.\<close>

definition MAX_MODEL_EVIDENCE_AGE :: int where
  "MAX_MODEL_EVIDENCE_AGE = 604800000000"

definition SPORTS_TICKER_TOKENS :: "string list" where
  "SPORTS_TICKER_TOKENS = [''KXMLB'', ''KXNFL'', ''KXNBA'', ''KXWNBA'', ''KXNHL'', ''KXNCAA'']"

section \<open>Text helpers\<close>

text \<open>\<open>p in s\<close>.\<close>

fun contains :: "string \<Rightarrow> string \<Rightarrow> bool" where
  "contains p [] = (p = [])"
| "contains p (c # s) = (startswith (c # s) p \<or> contains p s)"

definition finite_decimal :: "decimal_codec \<Rightarrow> json \<Rightarrow> rat option" where
  "finite_decimal dc v =
     (let parse = (\<lambda>s. case dec_of_text dc s of Some (DFin x) \<Rightarrow> Some x | _ \<Rightarrow> None) in
      case v of
        JInt n \<Rightarrow> Some (of_int n)
      | JFloat x \<Rightarrow> parse (text_of_float dc x)
      | JStr s \<Rightarrow> parse s
      | _ \<Rightarrow> None)"

definition utc_timestamp :: "codec \<Rightarrow> json \<Rightarrow> int option" where
  "utc_timestamp c v =
     (case as_str v of
        None \<Rightarrow> None
      | Some s \<Rightarrow>
          if strip s = [] then None
          else (case from_iso c (z_to_offset (strip s)) of Some (Aware t) \<Rightarrow> Some t | _ \<Rightarrow> None))"

text \<open>\<open>s.rsplit("|", 1)[-1]\<close>.\<close>

definition last_axis :: "string \<Rightarrow> string" where
  "last_axis s = rev (takeWhile (\<lambda>c. c \<noteq> CHR ''|'') (rev s))"

text \<open>\<open>v == w\<close> of Python between JSON values: numbers by value (True is 1), the rest by structure.\<close>

fun number_of :: "json \<Rightarrow> pyfloat option" where
  "number_of (JInt n) = Some (Fin (of_int n))"
| "number_of (JBool b) = Some (Fin (if b then 1 else 0))"
| "number_of (JFloat x) = Some x"
| "number_of _ = None"

fun py_eq :: "json \<Rightarrow> json \<Rightarrow> bool"
  and py_eq_list :: "json list \<Rightarrow> json list \<Rightarrow> bool"
  and py_eq_obj :: "(string \<times> json) list \<Rightarrow> (string \<times> json) list \<Rightarrow> bool"
where
  "py_eq JNull w = (w = JNull)"
| "py_eq (JStr s) w = (w = JStr s)"
| "py_eq (JArr xs) w = (case w of JArr ys \<Rightarrow> length xs = length ys \<and> py_eq_list xs ys | _ \<Rightarrow> False)"
| "py_eq (JObj d) w = (case w of JObj e \<Rightarrow> length d = length e \<and> py_eq_obj d e | _ \<Rightarrow> False)"
| "py_eq (JInt n) w = (number_of w = Some (Fin (of_int n)))"
| "py_eq (JBool b) w = (number_of w = Some (Fin (if b then 1 else 0)))"
| "py_eq (JFloat x) w = (x \<noteq> NaN \<and> number_of w = Some x)"
| "py_eq_list [] ys = True"
| "py_eq_list (x # xs) ys = (case ys of [] \<Rightarrow> False | y # ys' \<Rightarrow> py_eq x y \<and> py_eq_list xs ys')"
| "py_eq_obj [] e = True"
| "py_eq_obj ((k, v) # d) e = ((case map_of e k of None \<Rightarrow> False | Some w \<Rightarrow> py_eq v w) \<and> py_eq_obj d e)"

section \<open>The scope\<close>

definition is_sports_model_market :: "string \<Rightarrow> string \<Rightarrow> bool" where
  "is_sports_model_market ticker category \<longleftrightarrow>
     contains ''sport'' (lower category) \<or> list_ex (\<lambda>t. contains t (upper ticker)) SPORTS_TICKER_TOKENS"

definition PLAYER_PROP_TOKENS :: "string list" where
  "PLAYER_PROP_TOKENS =
     [''player prop'', ''points scored'', ''rebounds'', ''assists'', ''strikeouts'', ''home runs'', ''touchdowns'',
      ''passing yards'', ''rushing yards'', ''receiving yards'']"

definition crypto_subject :: "taxonomy \<Rightarrow> string \<Rightarrow> string \<Rightarrow> bool" where
  "crypto_subject tx ticker category \<longleftrightarrow>
     upper category = ''CRYPTO'' \<or> tx_subject tx ticker \<in> {''btc'', ''eth'', ''sol''}"

definition market_family :: "taxonomy \<Rightarrow> string \<Rightarrow> string \<Rightarrow> string \<Rightarrow> string" where
  "market_family tx ticker title category =
     (let text = lower (ticker @ '' '' @ title) in
      if crypto_subject tx ticker category
      then (if tx_crypto_family tx ticker \<noteq> ''na'' then tx_crypto_family tx ticker else ''binary'')
      else if list_ex (\<lambda>t. contains t text) PLAYER_PROP_TOKENS then ''player_prop''
      else if contains ''spread'' text then ''spread''
      else if list_ex (\<lambda>t. contains t text) ['' total'', ''over '', ''under '', ''o/u''] then ''total''
      else if is_sports_model_market ticker category then ''winner''
      else ''binary'')"

definition crypto_authority_horizon :: "string \<Rightarrow> pyfloat option \<Rightarrow> string" where
  "crypto_authority_horizon ticker hours =
     (if contains ''15M'' (upper (split_head CHR ''-'' ticker)) then ''15m''
      else (case hours of
          None \<Rightarrow> ''unknown''
        | Some h \<Rightarrow>
            if \<not> fisfinite h \<or> flt h (Fin 0) then ''unknown''
            else if fle h (Fin 6) then ''1h''
            else if flt h (Fin 120) then ''1d''
            else ''1w''))"

text \<open>A naive time is read as UTC.\<close>

fun as_utc :: "stamp \<Rightarrow> int" where
  "as_utc (Aware t) = t"
| "as_utc (Naive t) = t"

definition hours_between :: "stamp \<Rightarrow> stamp \<Rightarrow> pyfloat option" where
  "hours_between decision close =
     map_option (fmax (Fin 0)) (fdiv (int_truediv (as_utc close - as_utc decision) 1000000) (Fin 3600))"

definition model_probability_scope ::
  "taxonomy \<Rightarrow> string \<Rightarrow> string \<Rightarrow> string \<Rightarrow> stamp \<Rightarrow> stamp option \<Rightarrow> bool option \<Rightarrow> string" where
  "model_probability_scope tx ticker title category decision_at expiration live_phase =
     (let axis =
        (if crypto_subject tx ticker category
         then crypto_authority_horizon ticker (case expiration of None \<Rightarrow> None | Some x \<Rightarrow> hours_between decision_at x)
         else if is_sports_model_market ticker category
         then (case live_phase of Some True \<Rightarrow> ''live'' | Some False \<Rightarrow> ''pre'' | None \<Rightarrow> ''unknown'')
         else (if live_phase = Some True then ''live'' else ''pre''))
      in MODEL_PANEL_SOURCE @ ''|'' @ tx_subject tx ticker @ ''|'' @ market_family tx ticker title category @ ''|'' @ axis)"

section \<open>The registry\<close>

record authority_decision =
  ad_scope :: string
  ad_weight :: rat
  ad_authorized :: bool
  ad_blockers :: "string list"
  ad_evidence_ref :: "string option"
  ad_clusters :: int
  ad_computed_at :: "string option"

definition blocked_decision :: "string \<Rightarrow> string list \<Rightarrow> authority_decision" where
  "blocked_decision scope reasons =
     \<lparr>ad_scope = scope, ad_weight = 0, ad_authorized = False,
      ad_blockers = (if reasons = [] then [''authority_not_earned''] else sort (remdups reasons)),
      ad_evidence_ref = None, ad_clusters = 0, ad_computed_at = None\<rparr>"

text \<open>
  What looking for the artifact of an evidence reference under the approved roots gives; the
  bytes of a file by their length, lower-case SHA-256 and JSON (\<open>None\<close>: invalid).
\<close>

datatype artifact =
    ArtifactMissing
  | ArtifactOutsideRoots
  | ArtifactNotJsonFile
  | ArtifactUnreadable
  | ArtifactBytes int string "json option"

record registry_files =
  rg_registry :: json_file
  rg_artifact :: "string \<Rightarrow> artifact"

definition load_registry :: "json_file \<Rightarrow> string + (string \<times> json) list" where
  "load_registry f =
     (case f of
        Absent \<Rightarrow> Inl ''authority_registry_missing''
      | Unreadable e \<Rightarrow> Inl ''authority_registry_unreadable_or_invalid''
      | Holds v \<Rightarrow>
          (case as_obj v of
             None \<Rightarrow> Inl ''authority_registry_not_mapping''
           | Some d \<Rightarrow>
               if jget ''schema_version'' d \<noteq> JStr MODEL_AUTHORITY_SCHEMA then Inl ''authority_registry_schema_mismatch''
               else if as_arr (jget ''promotions'' d) = None then Inl ''authority_promotions_not_list''
               else Inr d))"

fun unhashable :: "json \<Rightarrow> bool" where
  "unhashable (JArr xs) = True"
| "unhashable (JObj d) = True"
| "unhashable _ = False"

text \<open>The provider set; \<open>None\<close>: building the Python set raises a TypeError.\<close>

definition provider_set_ok :: "json \<Rightarrow> bool option" where
  "provider_set_ok v =
     (case as_arr v of
        None \<Rightarrow> Some False
      | Some xs \<Rightarrow>
          if length xs \<noteq> length EXPECTED_PROVIDER_MODELS then Some False
          else if list_ex unhashable xs then None
          else Some (set xs = set (map JStr EXPECTED_PROVIDER_MODELS)))"

definition flag :: "bool \<Rightarrow> string \<Rightarrow> string list" where
  "flag b name = (if b then [name] else [])"

definition hex_digest :: "string \<Rightarrow> bool" where
  "hex_digest s \<longleftrightarrow> length s = 64 \<and> list_all (\<lambda>c. c \<in> set ''0123456789abcdef'') (lower s)"

definition cluster_id_blockers :: "json \<Rightarrow> json \<Rightarrow> string list" where
  "cluster_id_blockers ids clusters =
     (case as_arr ids of
        None \<Rightarrow> [''canonical_independent_cluster_ids_invalid'']
      | Some xs \<Rightarrow>
          if list_ex (\<lambda>x. case as_str x of None \<Rightarrow> True | Some s \<Rightarrow> strip s = []) xs
          then [''canonical_independent_cluster_ids_invalid'']
          else if \<not> distinct xs then [''canonical_independent_cluster_ids_not_unique'']
          else flag (\<not> json_eq_int clusters (int (length xs))) ''canonical_independent_cluster_count_mismatch'')"

definition ci_bound :: "decimal_codec \<Rightarrow> json \<Rightarrow> string \<Rightarrow> rat option" where
  "ci_bound dc ci bound = (case as_obj ci of None \<Rightarrow> None | Some d \<Rightarrow> finite_decimal dc (jget bound d))"

definition scope_row_blockers :: "decimal_codec \<Rightarrow> (string \<times> json) list \<Rightarrow> (string \<times> json) list \<Rightarrow> string list" where
  "scope_row_blockers dc row evidence =
     cluster_id_blockers (jget ''independent_event_cluster_ids'' row) (jget ''independent_event_clusters'' evidence) @
     map (\<lambda>k. ''canonical_scope_'' @ k @ ''_mismatch'')
       (filter (\<lambda>k. \<not> py_eq (jget k row) (jget k evidence))
         [''forward_calibrated'', ''receipt_bounded'', ''point_in_time'', ''retro_rows_included'',
          ''independent_event_clusters'', ''computed_at'', ''received_through'']) @
     map (\<lambda>k. ''canonical_scope_brier_ci95_'' @ k @ ''_mismatch'')
       (filter (\<lambda>k. ci_bound dc (jget ''brier_edge_ci95'' row) k = None \<or>
                    ci_bound dc (jget ''brier_edge_ci95'' row) k \<noteq> ci_bound dc (jget ''brier_edge_ci95'' evidence) k)
         [''lower'', ''upper'']) @
     flag (finite_decimal dc (jget ''earned_weight'' row) \<noteq> finite_decimal dc (jget ''earned_weight'' evidence))
       ''canonical_scope_earned_weight_mismatch''"

definition generated_blockers :: "codec \<Rightarrow> int \<Rightarrow> json \<Rightarrow> json \<Rightarrow> string list" where
  "generated_blockers c now generated computed =
     (case utc_timestamp c generated of
        None \<Rightarrow> [''canonical_evidence_generated_at_invalid'']
      | Some g \<Rightarrow>
          (if now < g then [''canonical_evidence_generated_in_future'']
           else flag (MAX_MODEL_EVIDENCE_AGE < now - g) ''canonical_evidence_artifact_stale'') @
          flag (utc_timestamp c computed \<noteq> Some g) ''canonical_evidence_generated_at_mismatch'')"

definition artifact_blockers ::
  "codec \<Rightarrow> decimal_codec \<Rightarrow> int \<Rightarrow> string \<Rightarrow> (string \<times> json) list \<Rightarrow> string list \<Rightarrow> (string \<times> json) list \<Rightarrow> string list option" where
  "artifact_blockers c dc now scope evidence before art =
     (case provider_set_ok (jget ''provider_models'' art) of
        None \<Rightarrow> None
      | Some providers \<Rightarrow>
          (let head = before @
                 flag (jget ''schema_version'' art \<noteq> JStr MODEL_EVIDENCE_SCHEMA) ''canonical_evidence_schema_mismatch'' @
                 flag (jget ''artifact_type'' art \<noteq> JStr MODEL_EVIDENCE_SCHEMA) ''canonical_evidence_type_mismatch'' @
                 flag (jget ''evidence_mode'' art \<noteq> JStr MODEL_EVIDENCE_MODE) ''canonical_evidence_mode_mismatch'' @
                 flag (\<not> providers) ''canonical_evidence_provider_set_mismatch'' @
                 flag (jget ''promotion_authority'' art \<noteq> JBool False) ''canonical_artifact_must_not_self_promote'' @
                 generated_blockers c now (jget ''generated_at'' art) (jget ''computed_at'' evidence)
           in case as_obj (jget ''scopes'' art) of
                None \<Rightarrow> Some (head @ [''canonical_evidence_scopes_not_mapping''])
              | Some scopes \<Rightarrow>
                  (case as_obj (jget scope scopes) of
                     None \<Rightarrow> Some (head @ [''canonical_exact_scope_row_missing''])
                   | Some row \<Rightarrow> Some (head @ scope_row_blockers dc row evidence))))"

definition canonical_evidence_blockers ::
  "codec \<Rightarrow> decimal_codec \<Rightarrow> int \<Rightarrow> (string \<Rightarrow> artifact) \<Rightarrow> string \<Rightarrow> (string \<times> json) list \<Rightarrow> string list option" where
  "canonical_evidence_blockers c dc now lookup scope evidence =
     (case as_str (jget ''evidence_ref'' evidence) of
        None \<Rightarrow> Some [''evidence_ref_missing'']
      | Some ref \<Rightarrow>
          if strip ref = [] then Some [''evidence_ref_missing'']
          else (case as_str (jget ''evidence_sha256'' evidence) of
              None \<Rightarrow> Some [''evidence_sha256_invalid'']
            | Some digest \<Rightarrow>
                if \<not> hex_digest digest then Some [''evidence_sha256_invalid'']
                else (case lookup ref of
                    ArtifactMissing \<Rightarrow> Some [''canonical_evidence_artifact_missing'']
                  | ArtifactOutsideRoots \<Rightarrow> Some [''canonical_evidence_artifact_outside_approved_roots'']
                  | ArtifactNotJsonFile \<Rightarrow> Some [''canonical_evidence_artifact_not_json_file'']
                  | ArtifactUnreadable \<Rightarrow> Some [''canonical_evidence_artifact_unreadable'']
                  | ArtifactBytes len sha content \<Rightarrow>
                      if 8 * 1024 * 1024 < len then Some [''canonical_evidence_artifact_too_large'']
                      else
                        (let mismatch = flag (sha \<noteq> lower digest) ''canonical_evidence_sha256_mismatch'' in
                         case content of
                           None \<Rightarrow> Some (mismatch @ [''canonical_evidence_artifact_invalid_json''])
                         | Some v \<Rightarrow>
                             (case as_obj v of
                                None \<Rightarrow> Some (mismatch @ [''canonical_evidence_artifact_not_mapping''])
                              | Some art \<Rightarrow> artifact_blockers c dc now scope evidence mismatch art)))))"

text \<open>The scopes of the demotion list; \<open>None\<close>: iterating over it raises a TypeError.\<close>

definition demoted_scopes :: "json \<Rightarrow> string list option" where
  "demoted_scopes v =
     (if \<not> truthy v then Some []
      else (case v of
          JArr xs \<Rightarrow> Some (concat (map (\<lambda>x. case x of
              JStr s \<Rightarrow> [s]
            | JObj d \<Rightarrow> (case as_str (jget ''scope'' d) of None \<Rightarrow> [] | Some s \<Rightarrow> [s])
            | _ \<Rightarrow> []) xs))
        | JStr s \<Rightarrow> Some (map (\<lambda>c. [c]) s)
        | JObj d \<Rightarrow> Some (map fst d)
        | _ \<Rightarrow> None))"

definition promotions_of :: "string \<Rightarrow> (string \<times> json) list \<Rightarrow> (string \<times> json) list list" where
  "promotions_of scope reg =
     (case as_arr (jget ''promotions'' reg) of
        None \<Rightarrow> []
      | Some xs \<Rightarrow> concat (map (\<lambda>x. case as_obj x of None \<Rightarrow> [] | Some d \<Rightarrow> if jget ''scope'' d = JStr scope then [d] else []) xs))"

definition cluster_count :: "json \<Rightarrow> int option" where
  "cluster_count v = (case v of JInt n \<Rightarrow> Some n | _ \<Rightarrow> None)"

definition evidence_blockers :: "decimal_codec \<Rightarrow> (string \<times> json) list \<Rightarrow> string list" where
  "evidence_blockers dc e =
     flag (jget ''evidence_mode'' e \<noteq> JStr MODEL_EVIDENCE_MODE) ''evidence_mode_not_forward_receipt_bounded'' @
     flag (jget ''forward_calibrated'' e \<noteq> JBool True) ''forward_calibration_not_proven'' @
     flag (jget ''receipt_bounded'' e \<noteq> JBool True) ''receipt_bounded_not_proven'' @
     flag (jget ''point_in_time'' e \<noteq> JBool True) ''point_in_time_not_proven'' @
     flag (\<not> json_eq_int (jget ''retro_rows_included'' e) 0) ''retro_rows_not_zero'' @
     (case cluster_count (jget ''independent_event_clusters'' e) of
        None \<Rightarrow> [''independent_event_clusters_invalid'']
      | Some n \<Rightarrow> flag (n < MIN_INDEPENDENT_EVENT_CLUSTERS) ''independent_event_clusters_below_300'') @
     (case (ci_bound dc (jget ''brier_edge_ci95'' e) ''lower'', ci_bound dc (jget ''brier_edge_ci95'' e) ''upper'') of
        (Some lo, Some hi) \<Rightarrow> flag (lo \<le> 0 \<or> hi < lo) ''brier_edge_ci95_lower_not_positive''
      | _ \<Rightarrow> [''brier_edge_ci95_lower_not_positive'']) @
     (case finite_decimal dc (jget ''earned_weight'' e) of
        None \<Rightarrow> [''earned_weight_invalid_or_out_of_bounds'']
      | Some w \<Rightarrow> flag (w \<le> 0 \<or> MAX_MODEL_PROBABILITY_WEIGHT < w) ''earned_weight_invalid_or_out_of_bounds'')"

definition time_blockers :: "int \<Rightarrow> int option \<Rightarrow> int option \<Rightarrow> int option \<Rightarrow> string list" where
  "time_blockers now computed received promoted =
     flag (computed = None) ''evidence_computed_at_invalid'' @
     flag (received = None) ''evidence_received_through_invalid'' @
     flag (promoted = None) ''promoted_at_invalid'' @
     (case computed of
        None \<Rightarrow> []
      | Some t \<Rightarrow> if now < t then [''evidence_computed_in_future'']
                  else flag (MAX_MODEL_EVIDENCE_AGE < now - t) ''model_evidence_stale'') @
     (case (received, computed) of
        (Some r, Some t) \<Rightarrow> flag (t < r) ''receipt_boundary_after_evidence_computation''
      | _ \<Rightarrow> []) @
     (case promoted of
        None \<Rightarrow> []
      | Some p \<Rightarrow> flag (now < p) ''promotion_in_future'' @
          (case computed of None \<Rightarrow> [] | Some t \<Rightarrow> flag (p < t) ''promotion_precedes_evidence''))"

definition evaluate_entry ::
  "codec \<Rightarrow> decimal_codec \<Rightarrow> int \<Rightarrow> (string \<Rightarrow> artifact) \<Rightarrow> string \<Rightarrow> (string \<times> json) list \<Rightarrow> authority_decision option" where
  "evaluate_entry c dc now lookup scope entry =
     (case provider_set_ok (jget ''provider_models'' entry) of
        None \<Rightarrow> None
      | Some providers \<Rightarrow>
          (let head = flag (jget ''status'' entry \<noteq> JStr ''PROMOTED'') ''promotion_status_not_promoted'' @
                 flag (\<not> providers) ''promotion_provider_model_set_mismatch''
           in case as_obj (jget ''evidence'' entry) of
                None \<Rightarrow> Some (blocked_decision scope (head @ [''promotion_evidence_missing'']))
              | Some e \<Rightarrow>
                  (let computed = utc_timestamp c (jget ''computed_at'' e);
                       n = (case cluster_count (jget ''independent_event_clusters'' e) of None \<Rightarrow> 0 | Some n \<Rightarrow> n);
                       w = finite_decimal dc (jget ''earned_weight'' e)
                   in case canonical_evidence_blockers c dc now lookup scope e of
                        None \<Rightarrow> None
                      | Some canonical \<Rightarrow>
                          (let blockers = head @ evidence_blockers dc e @
                                 time_blockers now computed (utc_timestamp c (jget ''received_through'' e))
                                   (utc_timestamp c (jget ''promoted_at'' entry)) @ canonical
                           in Some \<lparr>ad_scope = scope,
                                    ad_weight = (if blockers \<noteq> [] then 0 else case w of None \<Rightarrow> 0 | Some x \<Rightarrow> x),
                                    ad_authorized = (blockers = [] \<and> w \<noteq> None),
                                    ad_blockers = sort (remdups blockers),
                                    ad_evidence_ref = as_str (jget ''evidence_ref'' e),
                                    ad_clusters = n,
                                    ad_computed_at = map_option (to_iso c) computed\<rparr>))))"

definition registry_evaluate :: "codec \<Rightarrow> decimal_codec \<Rightarrow> registry_files \<Rightarrow> int \<Rightarrow> string \<Rightarrow> authority_decision option" where
  "registry_evaluate c dc files now scope =
     (if last_axis scope = ''unknown'' then Some (blocked_decision scope [''authority_scope_axis_unknown''])
      else (case load_registry (rg_registry files) of
          Inl e \<Rightarrow> Some (blocked_decision scope [e])
        | Inr reg \<Rightarrow>
            (case demoted_scopes (jget ''demotions'' reg) of
               None \<Rightarrow> None
             | Some demoted \<Rightarrow>
                 if scope \<in> set demoted then Some (blocked_decision scope [''scope_explicitly_demoted''])
                 else (case promotions_of scope reg of
                     [] \<Rightarrow> Some (blocked_decision scope [''exact_scope_promotion_missing''])
                   | [entry] \<Rightarrow> evaluate_entry c dc now (rg_artifact files) scope entry
                   | _ \<Rightarrow> Some (blocked_decision scope [''duplicate_exact_scope_promotions''])))))"

section \<open>Properties\<close>

lemma flag_Nil [simp]: "flag b n = [] \<longleftrightarrow> \<not> b"
  by (simp add: flag_def)

lemma blocked_not_authorized [simp]: "\<not> ad_authorized (blocked_decision scope reasons)"
  by (simp add: blocked_decision_def)

text \<open>What an authorised entry has proven.\<close>

definition earned :: "codec \<Rightarrow> decimal_codec \<Rightarrow> int \<Rightarrow> (string \<Rightarrow> artifact) \<Rightarrow> (string \<times> json) list \<Rightarrow> rat \<Rightarrow> bool" where
  "earned c dc now lookup entry w \<longleftrightarrow>
     jget ''status'' entry = JStr ''PROMOTED'' \<and>
     (\<exists>e n t ref digest len art lo.
        jget ''evidence'' entry = JObj e \<and>
        finite_decimal dc (jget ''earned_weight'' e) = Some w \<and> 0 < w \<and> w \<le> MAX_MODEL_PROBABILITY_WEIGHT \<and>
        jget ''independent_event_clusters'' e = JInt n \<and> MIN_INDEPENDENT_EVENT_CLUSTERS \<le> n \<and>
        ci_bound dc (jget ''brier_edge_ci95'' e) ''lower'' = Some lo \<and> 0 < lo \<and>
        utc_timestamp c (jget ''computed_at'' e) = Some t \<and> t \<le> now \<and> now \<le> t + MAX_MODEL_EVIDENCE_AGE \<and>
        jget ''evidence_ref'' e = JStr ref \<and> jget ''evidence_sha256'' e = JStr digest \<and>
        lookup ref = ArtifactBytes len (lower digest) (Some (JObj art)) \<and>
        jget ''promotion_authority'' art = JBool False)"

lemma earned_weight: "earned c dc now lookup entry w \<Longrightarrow> 0 < w \<and> w \<le> 35 / 100"
  by (auto simp: earned_def MAX_MODEL_PROBABILITY_WEIGHT_def)

lemma as_obj_Some [simp]: "as_obj v = Some d \<longleftrightarrow> v = JObj d"
  by (cases v) auto

lemma as_str_Some [simp]: "as_str v = Some s \<longleftrightarrow> v = JStr s"
  by (cases v) auto

lemma cluster_count_Some [simp]: "cluster_count v = Some n \<longleftrightarrow> v = JInt n"
  by (cases v) (auto simp: cluster_count_def)

lemma evidence_blockers_Nil:
  assumes "evidence_blockers dc e = []"
  shows "\<exists>n lo w. jget ''independent_event_clusters'' e = JInt n \<and> MIN_INDEPENDENT_EVENT_CLUSTERS \<le> n \<and>
     ci_bound dc (jget ''brier_edge_ci95'' e) ''lower'' = Some lo \<and> 0 < lo \<and>
     finite_decimal dc (jget ''earned_weight'' e) = Some w \<and> 0 < w \<and> w \<le> MAX_MODEL_PROBABILITY_WEIGHT"
  using assms by (auto simp: evidence_blockers_def split: option.splits)

lemma time_blockers_Nil:
  "time_blockers now computed received promoted = [] \<Longrightarrow>
     \<exists>t. computed = Some t \<and> t \<le> now \<and> now \<le> t + MAX_MODEL_EVIDENCE_AGE"
  by (auto simp: time_blockers_def split: option.splits if_splits)

lemma artifact_blockers_Nil:
  "artifact_blockers c dc now scope e before art = Some [] \<Longrightarrow> before = [] \<and> jget ''promotion_authority'' art = JBool False"
  by (auto simp: artifact_blockers_def Let_def split: option.splits)

lemma canonical_evidence_blockers_Nil:
  assumes "canonical_evidence_blockers c dc now lookup scope e = Some []"
  shows "\<exists>ref digest len art. jget ''evidence_ref'' e = JStr ref \<and> jget ''evidence_sha256'' e = JStr digest \<and>
     lookup ref = ArtifactBytes len (lower digest) (Some (JObj art)) \<and> jget ''promotion_authority'' art = JBool False"
  using assms
  by (auto simp: canonical_evidence_blockers_def Let_def split: option.splits if_splits artifact.splits
      dest!: artifact_blockers_Nil)

lemma evaluate_entry_authorized:
  assumes "evaluate_entry c dc now lookup scope entry = Some d" and "ad_authorized d"
  shows "earned c dc now lookup entry (ad_weight d) \<and> ad_scope d = scope"
proof -
  obtain providers where p: "provider_set_ok (jget ''provider_models'' entry) = Some providers"
    using assms(1) by (auto simp: evaluate_entry_def split: option.splits)
  obtain e where e: "jget ''evidence'' entry = JObj e"
    using assms p by (cases "as_obj (jget ''evidence'' entry)") (auto simp: evaluate_entry_def Let_def)
  obtain canonical where cb: "canonical_evidence_blockers c dc now lookup scope e = Some canonical"
    using assms(1) p e by (auto simp: evaluate_entry_def Let_def split: option.splits)
  let ?head = "flag (jget ''status'' entry \<noteq> JStr ''PROMOTED'') ''promotion_status_not_promoted'' @
     flag (\<not> providers) ''promotion_provider_model_set_mismatch''"
  let ?times = "time_blockers now (utc_timestamp c (jget ''computed_at'' e)) (utc_timestamp c (jget ''received_through'' e))
     (utc_timestamp c (jget ''promoted_at'' entry))"
  let ?b = "?head @ evidence_blockers dc e @ ?times @ canonical"
  have d: "ad_authorized d \<longleftrightarrow> ?b = [] \<and> finite_decimal dc (jget ''earned_weight'' e) \<noteq> None"
    "ad_weight d = (if ?b \<noteq> [] then 0 else case finite_decimal dc (jget ''earned_weight'' e) of None \<Rightarrow> 0 | Some x \<Rightarrow> x)"
    "ad_scope d = scope"
    using assms(1) p e cb by (auto simp: evaluate_entry_def Let_def)
  then have nil: "?head = []" "evidence_blockers dc e = []" "?times = []" "canonical = []"
    using assms(2) by simp_all
  then have st: "jget ''status'' entry = JStr ''PROMOTED''" by simp
  from evidence_blockers_Nil [OF nil(2)] time_blockers_Nil [OF nil(3)]
    canonical_evidence_blockers_Nil [OF cb [unfolded nil(4)]] d nil st e
  show ?thesis by (auto simp: earned_def)
qed

lemma registry_evaluate_authorized:
  assumes "registry_evaluate c dc files now scope = Some d" and "ad_authorized d"
  shows "\<exists>reg demoted entry. rg_registry files = Holds (JObj reg) \<and> demoted_scopes (jget ''demotions'' reg) = Some demoted \<and>
    scope \<notin> set demoted \<and> promotions_of scope reg = [entry] \<and> last_axis scope \<noteq> ''unknown'' \<and>
    evaluate_entry c dc now (rg_artifact files) scope entry = Some d"
  using assms
  by (auto simp: registry_evaluate_def load_registry_def split: if_splits sum.splits option.splits list.splits json_file.splits)

text \<open>C18: Model probability is earned, never assumed. A decision that authorises a scope comes from
  the one promotion of exactly that scope in a readable registry, the scope is not demoted
  and its phase is known; the dossier is promoted with a weight above zero and at most 0.35,
  at least 300 independent clusters and a positive lower bound of the edge, evidence at most
  seven days old, and an artifact whose bytes hash to the recorded digest and which does
  not promote itself.\<close>

theorem model_authority_is_earned:
  assumes "registry_evaluate c dc files now scope = Some d" and "ad_authorized d"
  shows "\<exists>reg demoted entry. rg_registry files = Holds (JObj reg) \<and>
    demoted_scopes (jget ''demotions'' reg) = Some demoted \<and> scope \<notin> set demoted \<and>
    promotions_of scope reg = [entry] \<and> last_axis scope \<noteq> ''unknown'' \<and>
    earned c dc now (rg_artifact files) entry (ad_weight d) \<and>
    0 < ad_weight d \<and> ad_weight d \<le> 35 / 100"
  using registry_evaluate_authorized [OF assms] evaluate_entry_authorized [OF _ assms(2)] earned_weight by meson

text \<open>Earned authority decays. With the registry and its artifacts left alone, two moments at
  which a scope is authorised are at most seven days apart, and the weight is the same.\<close>

theorem model_authority_decays:
  assumes "registry_evaluate c dc files t1 scope = Some d1" and "ad_authorized d1"
    and "registry_evaluate c dc files t2 scope = Some d2" and "ad_authorized d2"
  shows "t2 \<le> t1 + MAX_MODEL_EVIDENCE_AGE \<and> ad_weight d1 = ad_weight d2"
proof -
  obtain reg entry where r: "rg_registry files = Holds (JObj reg)" "promotions_of scope reg = [entry]"
    "evaluate_entry c dc t1 (rg_artifact files) scope entry = Some d1"
    using registry_evaluate_authorized [OF assms(1,2)] by auto
  moreover have "evaluate_entry c dc t2 (rg_artifact files) scope entry = Some d2"
    using registry_evaluate_authorized [OF assms(3,4)] r(1,2) by auto
  ultimately have e: "earned c dc t1 (rg_artifact files) entry (ad_weight d1)" "earned c dc t2 (rg_artifact files) entry (ad_weight d2)"
    using evaluate_entry_authorized assms(2,4) by blast+
  then show ?thesis by (auto simp: earned_def)
qed

section \<open>A concrete dossier\<close>

definition sample_dec :: decimal_codec where
  "sample_dec = \<lparr>dec_of_text = map_of [(''0.2'', DFin (1 / 5)), (''0.01'', DFin (1 / 100)), (''0.05'', DFin (1 / 20)),
       (''0.5'', DFin (1 / 2)), (''0.625'', DFin (5 / 8)), (''0.75'', DFin (3 / 4))],
     text_of_float = (\<lambda>x. if x = Fin (1 / 2) then ''0.5'' else if x = Fin (5 / 8) then ''0.625'' else if x = Fin (3 / 4) then ''0.75''
       else ''0.05''), text_of_dec = (\<lambda>_. ''0'')\<rparr>"

definition sample_scope :: string where
  "sample_scope = ''s|sol|binary|15m''"

definition sample_digest :: string where
  "sample_digest = replicate 64 CHR ''a''"

definition sample_evidence :: "(string \<times> json) list" where
  "sample_evidence =
     [(''evidence_mode'', JStr MODEL_EVIDENCE_MODE), (''forward_calibrated'', JBool True), (''receipt_bounded'', JBool True),
      (''point_in_time'', JBool True), (''retro_rows_included'', JInt 0), (''independent_event_clusters'', JInt 300),
      (''brier_edge_ci95'', JObj [(''lower'', JStr ''0.01''), (''upper'', JStr ''0.05'')]), (''earned_weight'', JStr ''0.2''),
      (''computed_at'', JStr ''RECENT''), (''received_through'', JStr ''RECENT''), (''evidence_ref'', JStr ''e.json''),
      (''evidence_sha256'', JStr sample_digest)]"

definition sample_registry :: "(string \<times> json) list" where
  "sample_registry =
     [(''schema_version'', JStr MODEL_AUTHORITY_SCHEMA), (''demotions'', JArr []),
      (''promotions'', JArr [JObj [(''scope'', JStr sample_scope), (''status'', JStr ''PROMOTED''), (''promoted_at'', JStr ''RECENT''),
         (''provider_models'', JArr (map JStr EXPECTED_PROVIDER_MODELS)), (''evidence'', JObj sample_evidence)]])]"

text \<open>300 distinct cluster ids.\<close>

definition sample_clusters :: "json list" where
  "sample_clusters = map (\<lambda>n. JStr (replicate n CHR ''x'')) [1..<301]"

definition sample_artifact :: "(string \<times> json) list" where
  "sample_artifact =
     [(''schema_version'', JStr MODEL_EVIDENCE_SCHEMA), (''artifact_type'', JStr MODEL_EVIDENCE_SCHEMA),
      (''evidence_mode'', JStr MODEL_EVIDENCE_MODE), (''provider_models'', JArr (map JStr EXPECTED_PROVIDER_MODELS)),
      (''promotion_authority'', JBool False), (''generated_at'', JStr ''RECENT''),
      (''scopes'', JObj [(sample_scope, JObj ((''independent_event_cluster_ids'', JArr sample_clusters) # sample_evidence))])]"


lemma sample_clusters_ok: "cluster_id_blockers (JArr sample_clusters) (JInt 300) = []"
proof -
  have d: "distinct sample_clusters"
    by (auto simp: sample_clusters_def distinct_map inj_on_def replicate_eq_replicate)
  have n: "\<not> list_ex (\<lambda>x. case as_str x of None \<Rightarrow> True | Some s \<Rightarrow> strip s = []) sample_clusters"
    by (auto simp: sample_clusters_def list_ex_iff strip_eq_Nil is_space_def)
  show ?thesis using d n by (simp add: cluster_id_blockers_def sample_clusters_def)
qed

definition sample_files :: registry_files where
  "sample_files = \<lparr>rg_registry = Holds (JObj sample_registry),
     rg_artifact = (\<lambda>r. ArtifactBytes 100 sample_digest (Some (JObj sample_artifact)))\<rparr>"

lemma sample_scope_row: "scope_row_blockers sample_dec ((''independent_event_cluster_ids'', JArr sample_clusters) # sample_evidence) sample_evidence = []"
proof -
  let ?row = "(''independent_event_cluster_ids'', JArr sample_clusters) # sample_evidence"
  have c: "jget ''independent_event_cluster_ids'' ?row = JArr sample_clusters" by simp
  have n: "jget ''independent_event_clusters'' sample_evidence = JInt 300" by code_simp
  have r: "k \<noteq> ''independent_event_cluster_ids'' \<Longrightarrow> jget k ?row = jget k sample_evidence" for k by simp
  have ci: "ci_bound sample_dec (jget ''brier_edge_ci95'' sample_evidence) ''lower'' = Some (1 / 100)"
    "ci_bound sample_dec (jget ''brier_edge_ci95'' sample_evidence) ''upper'' = Some (1 / 20)"
    by code_simp+
  have eq: "\<forall>k \<in> set [''forward_calibrated'', ''receipt_bounded'', ''point_in_time'', ''retro_rows_included'',
          ''independent_event_clusters'', ''computed_at'', ''received_through'']. py_eq (jget k sample_evidence) (jget k sample_evidence)"
    by code_simp
  show ?thesis
    unfolding scope_row_blockers_def c n sample_clusters_ok
    using eq ci by (simp add: r)
qed

lemma sample_canonical: "canonical_evidence_blockers label_codec sample_dec 43200000000 (rg_artifact sample_files) sample_scope sample_evidence = Some []"
proof -
  have e: "jget ''evidence_ref'' sample_evidence = JStr ''e.json''"
    "jget ''evidence_sha256'' sample_evidence = JStr sample_digest" "jget ''computed_at'' sample_evidence = JStr ''RECENT''"
    by (simp_all add: sample_evidence_def)
  have h: "hex_digest sample_digest" "lower sample_digest = sample_digest" "strip ''e.json'' \<noteq> []"
    by code_simp+
  have a: "jget ''provider_models'' sample_artifact = JArr (map JStr EXPECTED_PROVIDER_MODELS)"
    "jget ''schema_version'' sample_artifact = JStr MODEL_EVIDENCE_SCHEMA" "jget ''artifact_type'' sample_artifact = JStr MODEL_EVIDENCE_SCHEMA"
    "jget ''evidence_mode'' sample_artifact = JStr MODEL_EVIDENCE_MODE" "jget ''promotion_authority'' sample_artifact = JBool False"
    "jget ''generated_at'' sample_artifact = JStr ''RECENT''"
    "jget ''scopes'' sample_artifact = JObj [(sample_scope, JObj ((''independent_event_cluster_ids'', JArr sample_clusters) # sample_evidence))]"
    by (simp_all add: sample_artifact_def)
  have g: "generated_blockers label_codec 43200000000 (JStr ''RECENT'') (JStr ''RECENT'') = []" by code_simp
  have p: "provider_set_ok (JArr (map JStr EXPECTED_PROVIDER_MODELS)) = Some True" by code_simp
  have "artifact_blockers label_codec sample_dec 43200000000 sample_scope sample_evidence [] sample_artifact = Some []"
    unfolding artifact_blockers_def a p e(3) using g by (simp add: sample_scope_row)
  then show ?thesis
    using h by (simp add: canonical_evidence_blockers_def e sample_files_def flag_def)
qed

definition sample_entry :: "(string \<times> json) list" where
  "sample_entry = [(''scope'', JStr sample_scope), (''status'', JStr ''PROMOTED''), (''promoted_at'', JStr ''RECENT''),
     (''provider_models'', JArr (map JStr EXPECTED_PROVIDER_MODELS)), (''evidence'', JObj sample_evidence)]"

lemma sample_decision:
  "\<exists>d. registry_evaluate label_codec sample_dec sample_files 43200000000 sample_scope = Some d \<and> ad_authorized d"
proof -
  have l: "load_registry (rg_registry sample_files) = Inr sample_registry"
    by (simp add: sample_files_def load_registry_def sample_registry_def)
  have pr: "promotions_of sample_scope sample_registry = [sample_entry]"
    by (simp add: promotions_of_def sample_registry_def sample_entry_def)
  have dm: "demoted_scopes (jget ''demotions'' sample_registry) = Some []"
    by (simp add: demoted_scopes_def sample_registry_def)
  have ax: "last_axis sample_scope \<noteq> ''unknown''" by code_simp
  have f: "jget ''provider_models'' sample_entry = JArr (map JStr EXPECTED_PROVIDER_MODELS)" "jget ''status'' sample_entry = JStr ''PROMOTED''"
    "jget ''evidence'' sample_entry = JObj sample_evidence" "jget ''promoted_at'' sample_entry = JStr ''RECENT''"
    by (simp_all add: sample_entry_def)
  have p: "provider_set_ok (JArr (map JStr EXPECTED_PROVIDER_MODELS)) = Some True" by code_simp
  have b: "evidence_blockers sample_dec sample_evidence = []" by code_simp
  have t: "time_blockers 43200000000 (utc_timestamp label_codec (jget ''computed_at'' sample_evidence))
      (utc_timestamp label_codec (jget ''received_through'' sample_evidence)) (utc_timestamp label_codec (JStr ''RECENT'')) = []"
    by code_simp
  have w: "finite_decimal sample_dec (jget ''earned_weight'' sample_evidence) = Some (1 / 5)" by code_simp
  have "\<exists>d. evaluate_entry label_codec sample_dec 43200000000 (rg_artifact sample_files) sample_scope sample_entry = Some d \<and> ad_authorized d"
    unfolding evaluate_entry_def f p using sample_canonical b t w by (simp add: flag_def) (rule exI [of _ "1 / 5"], simp)
  then show ?thesis
    using ax by (simp add: registry_evaluate_def l dm pr)
qed

lemma model_authority_is_earned_witness:
  "\<exists>d. registry_evaluate label_codec sample_dec sample_files 43200000000 sample_scope = Some d \<and> 0 < ad_weight d \<and> ad_weight d \<le> 35 / 100"
  using sample_decision model_authority_is_earned by blast

lemma model_authority_decays_witness:
  "\<exists>d. registry_evaluate label_codec sample_dec sample_files 43200000000 sample_scope = Some d \<and>
     (43200000000 :: int) \<le> 43200000000 + MAX_MODEL_EVIDENCE_AGE \<and> ad_weight d = ad_weight d"
  using sample_decision model_authority_decays by blast

end
