(* ===== verification/ModelInfluence.thy ===== *)
theory ModelInfluence
  imports ModelAuthority
begin

text \<open>
  \<open>forecasting/model_influence_attestation.py\<close>: the attestation that binds a forecast and a
  proposal to the model authority they used, its construction and its verification at the
  sink. The digest of a canonical JSON value (SHA-256 of its sorted dump) is an argument.
\<close>

definition ATTESTATION_TTL :: int where
  "ATTESTATION_TTL = 30000000"

definition MAX_FUTURE_SKEW :: int where
  "MAX_FUTURE_SKEW = 5000000"

section \<open>Canonical values\<close>

definition decimal_text :: "decimal_codec \<Rightarrow> decimal \<Rightarrow> string option" where
  "decimal_text dc d =
     (case d of
        DNonFinite \<Rightarrow> None
      | DFin x \<Rightarrow> Some (if x = 0 then ''0'' else text_of_dec dc (d28 x)))"

fun canonical_json :: "decimal_codec \<Rightarrow> json \<Rightarrow> json option"
  and canonical_list :: "decimal_codec \<Rightarrow> json list \<Rightarrow> json list option"
  and canonical_obj :: "decimal_codec \<Rightarrow> (string \<times> json) list \<Rightarrow> (string \<times> json) list option"
where
  "canonical_json dc (JFloat x) =
     (case dec_of_text dc (text_of_float dc x) of None \<Rightarrow> None | Some d \<Rightarrow> map_option JStr (decimal_text dc d))"
| "canonical_json dc (JArr xs) = map_option JArr (canonical_list dc xs)"
| "canonical_json dc (JObj d) = map_option (\<lambda>e. JObj (sort_key fst e)) (canonical_obj dc d)"
| "canonical_json dc JNull = Some JNull"
| "canonical_json dc (JBool b) = Some (JBool b)"
| "canonical_json dc (JInt n) = Some (JInt n)"
| "canonical_json dc (JStr s) = Some (JStr s)"
| "canonical_list dc [] = Some []"
| "canonical_list dc (x # xs) =
     (case (canonical_json dc x, canonical_list dc xs) of (Some y, Some ys) \<Rightarrow> Some (y # ys) | _ \<Rightarrow> None)"
| "canonical_obj dc [] = Some []"
| "canonical_obj dc ((k, v) # d) =
     (case (canonical_json dc v, canonical_obj dc d) of (Some y, Some ys) \<Rightarrow> Some ((k, y) # ys) | _ \<Rightarrow> None)"

text \<open>A value of a payload: a Decimal, a time, a tuple of Decimals or a plain value.\<close>

datatype pyval = PDec decimal | PTime stamp | PPair decimal decimal | PJson json

definition utc_text :: "codec \<Rightarrow> stamp \<Rightarrow> string option" where
  "utc_text c t = (case t of Aware u \<Rightarrow> Some (to_iso c u) | Naive _ \<Rightarrow> None)"

definition canonical_value :: "codec \<Rightarrow> decimal_codec \<Rightarrow> pyval \<Rightarrow> json option" where
  "canonical_value c dc v =
     (case v of
        PDec d \<Rightarrow> map_option JStr (decimal_text dc d)
      | PTime t \<Rightarrow> map_option JStr (utc_text c t)
      | PPair a b \<Rightarrow> (case (decimal_text dc a, decimal_text dc b) of
            (Some x, Some y) \<Rightarrow> Some (JArr [JStr x, JStr y]) | _ \<Rightarrow> None)
      | PJson j \<Rightarrow> canonical_json dc j)"

text \<open>\<open>_sha256(payload)\<close>; \<open>None\<close>: a value cannot be attested.\<close>

definition payload_sha256 :: "codec \<Rightarrow> decimal_codec \<Rightarrow> (json \<Rightarrow> string) \<Rightarrow> (string \<times> pyval) list \<Rightarrow> string option" where
  "payload_sha256 c dc digest payload =
     map_option (\<lambda>vs. digest (JObj (sort_key fst (zip (map fst payload) vs))))
       (option_all (canonical_value c dc) (map snd payload))"

definition forecast_binding_sha256 :: "codec \<Rightarrow> decimal_codec \<Rightarrow> (json \<Rightarrow> string) \<Rightarrow> forecast \<Rightarrow> string option" where
  "forecast_binding_sha256 c dc digest f = payload_sha256 c dc digest
     [(''schema_version'', PJson (JStr ''operational_forecast_binding_v1'')),
      (''market_ticker'', PJson (JStr (fc_market_ticker f))),
      (''contract_ticker'', PJson (JStr (fc_contract_ticker f))),
      (''event_title'', PJson (JStr (fc_event_title f))),
      (''contract_title'', PJson (JStr (fc_contract_title f))),
      (''market_implied_probability'', PDec (fc_market_implied_probability f)),
      (''dummy_probability'', PDec (fc_dummy_probability f)),
      (''probability_delta'', PDec (fc_probability_delta f)),
      (''confidence_score'', PDec (fc_confidence_score f)),
      (''uncertainty_band'', PPair (fst (fc_uncertainty_band f)) (snd (fc_uncertainty_band f))),
      (''expected_edge'', PDec (fc_expected_edge f)),
      (''edge_after_fees'', PDec (fc_edge_after_fees f)),
      (''source_summary'', PJson (JStr (fc_source_summary f))),
      (''model_summary'', PJson (JStr (fc_model_summary f))),
      (''calibration_notes'', PJson (JStr (fc_calibration_notes f))),
      (''timestamp'', PTime (fc_timestamp f)),
      (''expiration'', PTime (fc_expiration f)),
      (''proof_reference'', PJson (JStr (fc_proof_reference f)))]"

definition jopt_int :: "int option \<Rightarrow> json" where
  "jopt_int x = (case x of None \<Rightarrow> JNull | Some n \<Rightarrow> JInt n)"

definition proposal_payload :: "live_order_request \<Rightarrow> (string \<times> json) list" where
  "proposal_payload r =
     [(''schema_version'', JStr ''operational_proposal_binding_v1''),
      (''proposal_id'', JStr (rq_proposal_id r)),
      (''market_ticker'', JStr (rq_market_ticker r)),
      (''contract_ticker'', JStr (rq_contract_ticker r)),
      (''side'', JStr (rq_side r)),
      (''price_cents'', JInt (rq_price_cents r)),
      (''size'', JInt (rq_size r)),
      (''strategy_proof_reference'', JStr (rq_strategy_proof_reference r)),
      (''forecast_proof_reference'', JStr (rq_forecast_proof_reference r)),
      (''adapter_name'', JStr (rq_adapter_name r)),
      (''liquidity_role'', JStr (rq_liquidity_role r)),
      (''risk_state_sha256'', jopt_str (rq_risk_state_sha256 r)),
      (''risk_snapshot'', JObj (rq_risk_snapshot r)),
      (''expiration_ts'', jopt_int (rq_expiration_ts r))]"

definition proposal_binding_sha256 :: "codec \<Rightarrow> decimal_codec \<Rightarrow> (json \<Rightarrow> string) \<Rightarrow> live_order_request \<Rightarrow> string option" where
  "proposal_binding_sha256 c dc digest r =
     payload_sha256 c dc digest (map (\<lambda>(k, v). (k, PJson v)) (proposal_payload r))"

text \<open>The body an attestation signs: its own fields but the last digest.\<close>

definition attestation_body :: "influence_attestation \<Rightarrow> (string \<times> pyval) list" where
  "attestation_body a =
     [(''schema_version'', PJson (JStr ''operational_model_influence_v1'')),
      (''influence_kind'', PJson (JStr (case ia_influence_kind a of QUANT_ONLY \<Rightarrow> ''QUANT_ONLY'' | MODEL_WEIGHTED \<Rightarrow> ''MODEL_WEIGHTED''))),
      (''model_probability_authority'', PDec (DFin (ia_model_probability_authority a))),
      (''authority_scope'', PJson (jopt_str (ia_authority_scope a))),
      (''authority_evidence_ref'', PJson (jopt_str (ia_authority_evidence_ref a))),
      (''market_category'', PJson (jopt_str (ia_market_category a))),
      (''live_phase'', PJson (case ia_live_phase a of None \<Rightarrow> JNull | Some b \<Rightarrow> JBool b)),
      (''supporting_model_output_reference'', PJson (jopt_str (ia_supporting_model_output_reference a))),
      (''issued_at'', PTime (ia_issued_at a)),
      (''forecast_binding_sha256'', PJson (JStr (ia_forecast_binding_sha256 a))),
      (''proposal_binding_sha256'', PJson (JStr (ia_proposal_binding_sha256 a)))]"

section \<open>Building\<close>

definition upper_hex64 :: "string \<Rightarrow> bool" where
  "upper_hex64 s \<longleftrightarrow> length s = 64 \<and> list_all (\<lambda>x. x \<in> set ''0123456789ABCDEF'') s"

text \<open>What pydantic requires of the record.\<close>

definition attestation_valid :: "influence_attestation \<Rightarrow> bool" where
  "attestation_valid a \<longleftrightarrow>
     0 \<le> ia_model_probability_authority a \<and> ia_model_probability_authority a \<le> 35 / 100 \<and>
     upper_hex64 (ia_forecast_binding_sha256 a) \<and> upper_hex64 (ia_proposal_binding_sha256 a) \<and>
     upper_hex64 (ia_attestation_sha256 a) \<and> attestation_shape_ok a"

definition text_or :: "string option \<Rightarrow> string" where
  "text_or s = (case s of None \<Rightarrow> [] | Some t \<Rightarrow> t)"

definition attested_scope :: "taxonomy \<Rightarrow> forecast \<Rightarrow> string option \<Rightarrow> bool option \<Rightarrow> string" where
  "attested_scope tx f category live_phase =
     model_probability_scope tx (fc_contract_ticker f) (fc_event_title f @ '' '' @ fc_contract_title f) (text_or category)
       (fc_timestamp f) (Some (fc_expiration f)) live_phase"

text \<open>\<open>None\<close> is the ValueError, ValidationError or TypeError the builder raises.\<close>

definition build_attestation ::
  "codec \<Rightarrow> decimal_codec \<Rightarrow> taxonomy \<Rightarrow> (json \<Rightarrow> string) \<Rightarrow> forecast \<Rightarrow> live_order_request \<Rightarrow> authority_decision option \<Rightarrow>
   string option \<Rightarrow> bool option \<Rightarrow> string option \<Rightarrow> int \<Rightarrow> influence_attestation option" where
  "build_attestation c dc tx digest f r decision category live_phase output_ref now =
     (let weighted = (case decision of None \<Rightarrow> False | Some d \<Rightarrow> ad_authorized d \<and> 0 < ad_weight d) in
      if rq_market_ticker r \<noteq> fc_market_ticker f \<or> rq_contract_ticker r \<noteq> fc_contract_ticker f \<or>
         rq_forecast_proof_reference r \<noteq> fc_proof_reference f then None
      else if weighted \<and> is_sports_model_market (fc_contract_ticker f) (text_or category) \<and> live_phase = None then None
      else if weighted \<and> map_option ad_scope decision \<noteq> Some (attested_scope tx f category live_phase) then None
      else (case (forecast_binding_sha256 c dc digest f, proposal_binding_sha256 c dc digest r) of
          (Some fd, Some pd) \<Rightarrow>
            (let a = \<lparr>ia_influence_kind = (if weighted then MODEL_WEIGHTED else QUANT_ONLY),
                  ia_model_probability_authority = (case decision of Some d \<Rightarrow> if weighted then ad_weight d else 0 | None \<Rightarrow> 0),
                  ia_authority_scope = map_option ad_scope decision,
                  ia_authority_evidence_ref = (case decision of Some d \<Rightarrow> if weighted then ad_evidence_ref d else None | None \<Rightarrow> None),
                  ia_market_category = category, ia_live_phase = live_phase,
                  ia_supporting_model_output_reference = output_ref, ia_issued_at = Aware now,
                  ia_forecast_binding_sha256 = fd, ia_proposal_binding_sha256 = pd, ia_attestation_sha256 = []\<rparr>
             in case payload_sha256 c dc digest (attestation_body a) of
                  None \<Rightarrow> None
                | Some d \<Rightarrow>
                    (let signed = a\<lparr>ia_attestation_sha256 := d\<rparr> in if attestation_valid signed then Some signed else None))
        | _ \<Rightarrow> None))"

section \<open>Verification\<close>

text \<open>\<open>datetime.fromtimestamp\<close> of whole seconds raises outside the years 1 to 9999.\<close>

definition timestamp_us :: "int \<Rightarrow> int option" where
  "timestamp_us s = (if - 62135596800 \<le> s \<and> s \<le> 253402300799 then Some (s * 1000000) else None)"

fun aware_us :: "stamp \<Rightarrow> int option" where
  "aware_us (Aware t) = Some t"
| "aware_us (Naive t) = None"

definition context_expiration :: "live_order_request \<Rightarrow> forecast \<Rightarrow> int option" where
  "context_expiration r f =
     (case aware_us (fc_expiration f) of
        None \<Rightarrow> None
      | Some e \<Rightarrow>
          (case rq_expiration_ts r of
             None \<Rightarrow> Some e
           | Some ts \<Rightarrow> map_option (min e) (timestamp_us ts)))"

text \<open>The three recomputed digests and the three times, or \<open>None\<close> when computing one raises.\<close>

record recomputed =
  rc_forecast :: string
  rc_proposal :: string
  rc_attestation :: string
  rc_issued :: int
  rc_forecast_at :: int
  rc_expiration :: int

definition recompute ::
  "codec \<Rightarrow> decimal_codec \<Rightarrow> (json \<Rightarrow> string) \<Rightarrow> live_order_request \<Rightarrow> forecast \<Rightarrow> influence_attestation \<Rightarrow> recomputed option" where
  "recompute c dc digest r f a =
     (case (forecast_binding_sha256 c dc digest f, proposal_binding_sha256 c dc digest r,
            payload_sha256 c dc digest (attestation_body a), aware_us (ia_issued_at a), aware_us (fc_timestamp f),
            context_expiration r f) of
        (Some fd, Some pd, Some ad, Some i, Some t, Some e) \<Rightarrow>
          Some \<lparr>rc_forecast = fd, rc_proposal = pd, rc_attestation = ad, rc_issued = i, rc_forecast_at = t, rc_expiration = e\<rparr>
      | _ \<Rightarrow> None)"

text \<open>The checks on the bindings and the clocks, in the order of the source.\<close>

definition freshness_reason :: "influence_attestation \<Rightarrow> recomputed \<Rightarrow> int \<Rightarrow> string option" where
  "freshness_reason a x now =
     (if ia_forecast_binding_sha256 a \<noteq> rc_forecast x then Some ''model_influence_forecast_binding_mismatch''
      else if ia_proposal_binding_sha256 a \<noteq> rc_proposal x then Some ''model_influence_proposal_binding_mismatch''
      else if ia_attestation_sha256 a \<noteq> rc_attestation x then Some ''model_influence_attestation_digest_mismatch''
      else if MAX_FUTURE_SKEW < rc_issued x - now then Some ''model_influence_attestation_issued_in_future''
      else if MAX_FUTURE_SKEW < rc_forecast_at x - now then Some ''model_influence_attestation_time_invalid''
      else if MAX_FUTURE_SKEW < rc_forecast_at x - rc_issued x then Some ''model_influence_attestation_time_invalid''
      else if rc_expiration x \<le> max (rc_issued x) (rc_forecast_at x) then Some ''model_influence_attestation_expiry_invalid''
      else if min (rc_issued x + ATTESTATION_TTL) (rc_forecast_at x + ATTESTATION_TTL) \<le> now
      then Some ''model_influence_attestation_stale''
      else if rc_expiration x \<le> now then Some ''model_influence_attestation_expired''
      else None)"

record influence_verification =
  iv_valid :: bool
  iv_reason :: string

definition invalid :: "string \<Rightarrow> influence_verification" where
  "invalid reason = \<lparr>iv_valid = False, iv_reason = reason\<rparr>"

text \<open>The answer; \<open>None\<close> when evaluating the registry raises.\<close>

definition verify_attestation ::
  "codec \<Rightarrow> decimal_codec \<Rightarrow> taxonomy \<Rightarrow> (json \<Rightarrow> string) \<Rightarrow> registry_files \<Rightarrow> int \<Rightarrow> live_order_request \<Rightarrow> forecast \<Rightarrow>
   influence_verification option" where
  "verify_attestation c dc tx digest files now r f =
     (case rq_attestation r of
        None \<Rightarrow> Some (invalid ''model_influence_attestation_missing'')
      | Some a \<Rightarrow>
          (case recompute c dc digest r f a of
             None \<Rightarrow> Some (invalid ''model_influence_attestation_invalid'')
           | Some x \<Rightarrow>
               (case freshness_reason a x now of
                  Some reason \<Rightarrow> Some (invalid reason)
                | None \<Rightarrow>
                    if is_sports_model_market (rq_market_ticker r) (text_or (ia_market_category a)) \<and> ia_live_phase a = None
                    then Some (invalid ''sports_phase_unknown_or_ambiguous'')
                    else if ia_influence_kind a = QUANT_ONLY
                    then Some \<lparr>iv_valid = True, iv_reason = ''quant_only_probability_attested''\<rparr>
                    else
                      (let scope = attested_scope tx f (ia_market_category a) (ia_live_phase a) in
                       if ia_authority_scope a \<noteq> Some scope then Some (invalid ''model_influence_scope_mismatch'')
                       else (case registry_evaluate c dc files now scope of
                           None \<Rightarrow> None
                         | Some d \<Rightarrow>
                             if \<not> ad_authorized d \<or> ad_weight d \<le> 0
                             then Some (invalid ''model_probability_authority_not_current'')
                             else if ad_weight d \<noteq> ia_model_probability_authority a
                             then Some (invalid ''model_probability_authority_weight_mismatch'')
                             else if ad_evidence_ref d \<noteq> ia_authority_evidence_ref a
                             then Some (invalid ''model_probability_authority_evidence_mismatch'')
                             else Some \<lparr>iv_valid = True, iv_reason = ''fresh_model_probability_authority_verified''\<rparr>)))))"

section \<open>Properties\<close>

lemma attestation_body_sha [simp]: "attestation_body (a\<lparr>ia_attestation_sha256 := d\<rparr>) = attestation_body a"
  by (simp add: attestation_body_def)

lemma proposal_payload_attestation [simp]: "proposal_payload (r\<lparr>rq_attestation := x\<rparr>) = proposal_payload r"
  by (simp add: proposal_payload_def)

lemma proposal_binding_attestation [simp]:
  "proposal_binding_sha256 c dc digest (r\<lparr>rq_attestation := x\<rparr>) = proposal_binding_sha256 c dc digest r"
  by (simp add: proposal_binding_sha256_def)

lemma context_expiration_attestation [simp]: "context_expiration (r\<lparr>rq_attestation := x\<rparr>) f = context_expiration r f"
  by (cases "aware_us (fc_expiration f)") (simp_all add: context_expiration_def)

lemma verify_valid_cases:
  assumes "verify_attestation c dc tx digest files now r f = Some v" and "iv_valid v"
  shows "\<exists>a x. rq_attestation r = Some a \<and> recompute c dc digest r f a = Some x \<and> freshness_reason a x now = None \<and>
    (ia_influence_kind a = QUANT_ONLY \<or>
     (\<exists>d. registry_evaluate c dc files now (attested_scope tx f (ia_market_category a) (ia_live_phase a)) = Some d \<and>
        ad_authorized d \<and> ad_weight d = ia_model_probability_authority a \<and> ad_evidence_ref d = ia_authority_evidence_ref a))"
  using assms by (auto simp: verify_attestation_def invalid_def Let_def split: option.splits if_splits)

lemma freshness_None:
  assumes "freshness_reason a x now = None"
  shows "ia_forecast_binding_sha256 a = rc_forecast x" "ia_proposal_binding_sha256 a = rc_proposal x"
    "ia_attestation_sha256 a = rc_attestation x" "rc_issued x \<le> now + MAX_FUTURE_SKEW"
    "now < rc_issued x + ATTESTATION_TTL" "now < rc_forecast_at x + ATTESTATION_TTL" "now < rc_expiration x"
  using assms by (auto simp: freshness_reason_def split: if_splits)

lemma recompute_Some:
  assumes "recompute c dc digest r f a = Some x"
  shows "forecast_binding_sha256 c dc digest f = Some (rc_forecast x)" "proposal_binding_sha256 c dc digest r = Some (rc_proposal x)"
    "payload_sha256 c dc digest (attestation_body a) = Some (rc_attestation x)" "ia_issued_at a = Aware (rc_issued x)"
    "fc_timestamp f = Aware (rc_forecast_at x)" "context_expiration r f = Some (rc_expiration x)"
proof -
  have w: "aware_us t = Some u \<Longrightarrow> t = Aware u" for t u by (cases t) auto
  show "forecast_binding_sha256 c dc digest f = Some (rc_forecast x)" "proposal_binding_sha256 c dc digest r = Some (rc_proposal x)"
    "payload_sha256 c dc digest (attestation_body a) = Some (rc_attestation x)" "ia_issued_at a = Aware (rc_issued x)"
    "fc_timestamp f = Aware (rc_forecast_at x)" "context_expiration r f = Some (rc_expiration x)"
    using assms by (auto simp: recompute_def split: option.splits intro: w)
qed

lemma context_expiration_le:
  assumes "context_expiration r f = Some e"
  shows "\<exists>t. fc_expiration f = Aware t \<and> e \<le> t \<and> (\<forall>ts. rq_expiration_ts r = Some ts \<longrightarrow> e \<le> ts * 1000000)"
proof -
  have w: "aware_us t = Some u \<Longrightarrow> t = Aware u" for t u by (cases t) auto
  show ?thesis using assms
    by (auto simp: context_expiration_def timestamp_us_def split: option.splits if_splits dest!: w)
qed

text \<open>Model influence is fresh and re-earned at the sink. A request whose attestation verifies
  carries one issued less than thirty seconds ago (and at most five seconds ahead), on a
  forecast less than thirty seconds old, neither forecast nor order expired; and unless it
  is quant-only, the registry authorises the exact scope now with the attested weight.\<close>

theorem influence_fresh_and_authorised:
  assumes "verify_attestation c dc tx digest files now r f = Some v" and "iv_valid v"
  shows "\<exists>a i t e. rq_attestation r = Some a \<and> ia_issued_at a = Aware i \<and> fc_timestamp f = Aware t \<and> fc_expiration f = Aware e \<and>
    i - 5000000 \<le> now \<and> now < i + 30000000 \<and> now < t + 30000000 \<and> now < e \<and>
    (\<forall>ts. rq_expiration_ts r = Some ts \<longrightarrow> now < ts * 1000000) \<and>
    (ia_influence_kind a = MODEL_WEIGHTED \<longrightarrow>
       (\<exists>d. registry_evaluate c dc files now (attested_scope tx f (ia_market_category a) (ia_live_phase a)) = Some d \<and>
          ad_authorized d \<and> ad_weight d = ia_model_probability_authority a))"
proof -
  obtain a x where a: "rq_attestation r = Some a" and x: "recompute c dc digest r f a = Some x"
    and fr: "freshness_reason a x now = None"
    and m: "ia_influence_kind a = QUANT_ONLY \<or>
     (\<exists>d. registry_evaluate c dc files now (attested_scope tx f (ia_market_category a) (ia_live_phase a)) = Some d \<and>
        ad_authorized d \<and> ad_weight d = ia_model_probability_authority a \<and> ad_evidence_ref d = ia_authority_evidence_ref a)"
    using verify_valid_cases [OF assms] by blast
  obtain e where e: "fc_expiration f = Aware e" "rc_expiration x \<le> e"
    "\<And>ts. rq_expiration_ts r = Some ts \<Longrightarrow> rc_expiration x \<le> ts * 1000000"
    using context_expiration_le [OF recompute_Some(6) [OF x]] by blast
  have "now < e" using freshness_None(7) [OF fr] e(2) by linarith
  moreover have "now < ts * 1000000" if "rq_expiration_ts r = Some ts" for ts
    using freshness_None(7) [OF fr] e(3) [OF that] by linarith
  moreover have "rc_issued x - 5000000 \<le> now" "now < rc_issued x + 30000000" "now < rc_forecast_at x + 30000000"
    using freshness_None(4,5,6) [OF fr] by (simp_all add: MAX_FUTURE_SKEW_def ATTESTATION_TTL_def)
  ultimately show ?thesis using a m e(1) recompute_Some(4,5) [OF x] by auto
qed

text \<open>A payload with fixed distinct keys is determined by its digest, or the digest collides.\<close>

lemma sort_key_zip_inj:
  assumes "distinct ks" and "length xs = length ks" and "length ys = length ks"
    and "sort_key fst (zip ks xs) = sort_key fst (zip ks ys)"
  shows "xs = ys"
proof -
  have "set (zip ks xs) = set (zip ks ys)" using assms(4) by (metis set_sort)
  moreover have "distinct (map fst (zip ks zs))" if "length zs = length ks" for zs :: "'b list"
    using assms(1) that by simp
  ultimately have "map_of (zip ks xs) = map_of (zip ks ys)"
    using assms(2,3) by (simp add: map_of_inject_set)
  then show ?thesis using assms(1-3) by (metis map_of_zip_inject)
qed

lemma option_all_nth: "option_all f xs = Some ys \<Longrightarrow> i < length xs \<Longrightarrow> f (xs ! i) = Some (ys ! i)"
proof (induction xs arbitrary: ys i)
  case (Cons x xs)
  then show ?case by (cases i) (auto split: option.splits)
qed simp

lemma payload_sha256_inj:
  assumes "payload_sha256 c dc digest p = Some h" and "payload_sha256 c dc digest q = Some h"
    and "map fst p = map fst q" and "distinct (map fst p)" and "\<not> (\<exists>x y. x \<noteq> y \<and> digest x = digest y)"
    and "i < length p"
  shows "canonical_value c dc (snd (p ! i)) = canonical_value c dc (snd (q ! i))"
proof -
  obtain vs ws where v: "option_all (canonical_value c dc) (map snd p) = Some vs" "h = digest (JObj (sort_key fst (zip (map fst p) vs)))"
    and w: "option_all (canonical_value c dc) (map snd q) = Some ws" "h = digest (JObj (sort_key fst (zip (map fst q) ws)))"
    using assms(1,2) by (auto simp: payload_sha256_def)
  have len: "length q = length p" using assms(3) by (metis length_map)
  have "sort_key fst (zip (map fst p) vs) = sort_key fst (zip (map fst p) ws)"
    using v(2) w(2) assms(3,5) by (metis json.inject(6))
  then have "vs = ws"
    using sort_key_zip_inj [OF assms(4)] option_all_length [OF v(1)] option_all_length [OF w(1)] len by simp
  with option_all_nth [OF v(1), of i] option_all_nth [OF w(1), of i] assms(6) len show ?thesis by simp
qed

lemma proposal_binding_fields:
  assumes "proposal_binding_sha256 c dc digest r = Some h" and "proposal_binding_sha256 c dc digest q = Some h"
    and "\<not> (\<exists>x y. x \<noteq> y \<and> digest x = digest y)"
  shows "rq_proposal_id r = rq_proposal_id q" "rq_market_ticker r = rq_market_ticker q"
    "rq_contract_ticker r = rq_contract_ticker q" "rq_side r = rq_side q" "rq_price_cents r = rq_price_cents q"
    "rq_size r = rq_size q" "rq_liquidity_role r = rq_liquidity_role q" "rq_expiration_ts r = rq_expiration_ts q"
proof -
  let ?p = "map (\<lambda>(k, v). (k, PJson v)) (proposal_payload r)" and ?q = "map (\<lambda>(k, v). (k, PJson v)) (proposal_payload q)"
  have k: "map fst ?p = map fst ?q" "distinct (map fst ?p)" and len: "length ?p = 14"
    by (simp_all add: proposal_payload_def)
  have eq: "canonical_value c dc (snd (?p ! i)) = canonical_value c dc (snd (?q ! i))" if "i < 14" for i
    using payload_sha256_inj [OF assms(1) [unfolded proposal_binding_sha256_def] assms(2) [unfolded proposal_binding_sha256_def] k assms(3)]
      that len by simp
  show "rq_proposal_id r = rq_proposal_id q" using eq [of 1] by (simp add: proposal_payload_def canonical_value_def)
  show "rq_market_ticker r = rq_market_ticker q" using eq [of 2] by (simp add: proposal_payload_def canonical_value_def)
  show "rq_contract_ticker r = rq_contract_ticker q" using eq [of 3] by (simp add: proposal_payload_def canonical_value_def)
  show "rq_side r = rq_side q" using eq [of 4] by (simp add: proposal_payload_def canonical_value_def)
  show "rq_price_cents r = rq_price_cents q" using eq [of 5] by (simp add: proposal_payload_def canonical_value_def)
  show "rq_size r = rq_size q" using eq [of 6] by (simp add: proposal_payload_def canonical_value_def)
  show "rq_liquidity_role r = rq_liquidity_role q" using eq [of 10] by (simp add: proposal_payload_def canonical_value_def)
  show "rq_expiration_ts r = rq_expiration_ts q"
    using eq [of 13] by (auto simp: proposal_payload_def canonical_value_def jopt_int_def split: option.splits)
qed

text \<open>An attestation cannot be moved to another order. Two requests that carry the same
  attestation and both verify have the same id, market, contract, side, price, size, role
  and expiry, or two different values with the same digest have been found.\<close>

theorem attestation_binds_the_order:
  assumes "verify_attestation c dc tx digest files t1 r f = Some v" and "iv_valid v"
    and "verify_attestation c dc tx' digest files' t2 q g = Some w" and "iv_valid w"
    and "rq_attestation r = rq_attestation q"
  shows "(rq_proposal_id r = rq_proposal_id q \<and> rq_market_ticker r = rq_market_ticker q \<and>
      rq_contract_ticker r = rq_contract_ticker q \<and> rq_side r = rq_side q \<and> rq_price_cents r = rq_price_cents q \<and>
      rq_size r = rq_size q \<and> rq_liquidity_role r = rq_liquidity_role q \<and> rq_expiration_ts r = rq_expiration_ts q) \<or>
    (\<exists>x y. x \<noteq> y \<and> digest x = digest y)"
proof -
  obtain a x where a: "rq_attestation r = Some a" "recompute c dc digest r f a = Some x" "freshness_reason a x t1 = None"
    using verify_valid_cases [OF assms(1,2)] by blast
  obtain b y where b: "rq_attestation q = Some b" "recompute c dc digest q g b = Some y" "freshness_reason b y t2 = None"
    using verify_valid_cases [OF assms(3,4)] by blast
  have "a = b" using a(1) b(1) assms(5) by simp
  then have "proposal_binding_sha256 c dc digest r = Some (ia_proposal_binding_sha256 a)"
    "proposal_binding_sha256 c dc digest q = Some (ia_proposal_binding_sha256 a)"
    using recompute_Some(2) [OF a(2)] recompute_Some(2) [OF b(2)] freshness_None(2) [OF a(3)] freshness_None(2) [OF b(3)] by simp_all
  from proposal_binding_fields [OF this] show ?thesis by blast
qed

text \<open>What the builder attests, the sink accepts. An attestation built without model authority
  verifies on the request it was built for at every moment of its window: from its issue
  until thirty seconds after it or after the forecast, or until forecast or order expire,
  when the forecast is not dated ahead and, for a sports market, the phase is stated.\<close>

theorem built_attestation_verifies:
  assumes "build_attestation c dc tx digest f r None category live_phase output_ref issued = Some a"
    and "fc_timestamp f = Aware t" and "t \<le> issued + 5000000" and "t \<le> now + 5000000"
    and "context_expiration r f = Some e" and "max issued t < e"
    and "issued \<le> now" and "now < issued + 30000000" and "now < t + 30000000" and "now < e"
    and "\<not> is_sports_model_market (rq_market_ticker r) (text_or category) \<or> live_phase \<noteq> None"
  shows "verify_attestation c dc tx digest files now (r\<lparr>rq_attestation := Some a\<rparr>) f =
    Some \<lparr>iv_valid = True, iv_reason = ''quant_only_probability_attested''\<rparr>"
proof -
  obtain fd pd d a0 where b: "forecast_binding_sha256 c dc digest f = Some fd" "proposal_binding_sha256 c dc digest r = Some pd"
    "payload_sha256 c dc digest (attestation_body a) = Some d"
    and a: "ia_forecast_binding_sha256 a = fd" "ia_proposal_binding_sha256 a = pd" "ia_attestation_sha256 a = d"
      "ia_issued_at a = Aware issued" "ia_influence_kind a = QUANT_ONLY" "ia_market_category a = category" "ia_live_phase a = live_phase"
    using assms(1)
    by (auto simp: build_attestation_def Let_def attestation_body_def split: if_splits option.splits)
  have rc: "recompute c dc digest (r\<lparr>rq_attestation := Some a\<rparr>) f a =
      Some \<lparr>rc_forecast = fd, rc_proposal = pd, rc_attestation = d, rc_issued = issued, rc_forecast_at = t, rc_expiration = e\<rparr>"
    using b a assms(2,5) by (simp add: recompute_def)
  have fr: "freshness_reason a \<lparr>rc_forecast = fd, rc_proposal = pd, rc_attestation = d, rc_issued = issued,
      rc_forecast_at = t, rc_expiration = e\<rparr> now = None"
    using a assms(3,4,6-10) by (auto simp: freshness_reason_def MAX_FUTURE_SKEW_def ATTESTATION_TTL_def min_def max_def)
  show ?thesis
    using assms(11) by (auto simp: verify_attestation_def rc fr a)
qed

section \<open>A concrete request\<close>

definition sample_forecast :: forecast where
  "sample_forecast = \<lparr>fc_market_ticker = ''KXSOL15M-26'', fc_contract_ticker = ''KXSOL15M-26'', fc_event_title = ''SOL'',
     fc_contract_title = ''up'', fc_market_implied_probability = DFin (39 / 100), fc_dummy_probability = DFin (5 / 8),
     fc_probability_delta = DFin (47 / 200), fc_confidence_score = DFin (3 / 4),
     fc_uncertainty_band = (DFin (1 / 2), DFin (3 / 4)), fc_expected_edge = DFin (1 / 20), fc_edge_after_fees = DFin (1 / 20),
     fc_settlement_risk_score = 1 / 100, fc_source_summary = ''s'', fc_model_summary = ''m'',
     fc_calibration_notes = ''uncertainty=0.125000;central_firewall_v2'', fc_timestamp = Aware 43199000000,
     fc_expiration = Aware 90000000000, fc_proof_reference = ''autonomy_forecast:d1''\<rparr>"

definition sample_request :: live_order_request where
  "sample_request = \<lparr>rq_proposal_id = ''o1'', rq_market_ticker = ''KXSOL15M-26'', rq_contract_ticker = ''KXSOL15M-26'',
     rq_side = ''yes'', rq_price_cents = 39, rq_size = 2, rq_strategy_proof_reference = ''autonomy_strategy_v2:d1'',
     rq_forecast_proof_reference = ''autonomy_forecast:d1'', rq_adapter_name = ''kalshi_live_firewall_adapter'', rq_liquidity_role = ''maker'',
     rq_risk_state_sha256 = Some ''CD34'', rq_risk_snapshot = [(''stage'', JInt 1), (''bankroll_cents'', JInt 5000),
       (''open_exposure_cents'', JInt 0), (''open_markets'', JInt 0)], rq_expiration_ts = Some 43259, rq_attestation = None\<rparr>"

definition sample_sha :: "json \<Rightarrow> string" where
  "sample_sha v = replicate 64 CHR ''A''"

definition sample_taxonomy :: taxonomy where
  "sample_taxonomy = \<lparr>tx_subject = (\<lambda>_. ''sol''), tx_crypto_family = (\<lambda>_. ''binary'')\<rparr>"

definition sample_attestation :: influence_attestation where
  "sample_attestation = \<lparr>ia_influence_kind = QUANT_ONLY, ia_model_probability_authority = 0, ia_authority_scope = None,
     ia_authority_evidence_ref = None, ia_market_category = None, ia_live_phase = None,
     ia_supporting_model_output_reference = None, ia_issued_at = Aware 43199500000,
     ia_forecast_binding_sha256 = replicate 64 CHR ''A'', ia_proposal_binding_sha256 = replicate 64 CHR ''A'',
     ia_attestation_sha256 = replicate 64 CHR ''A''\<rparr>"

definition attested_request :: live_order_request where
  "attested_request = sample_request\<lparr>rq_attestation := Some sample_attestation\<rparr>"

lemma payload_sha256_sample:
  "option_all (canonical_value c dc) (map snd p) \<noteq> None \<Longrightarrow> payload_sha256 c dc sample_sha p = Some (replicate 64 CHR ''A'')"
  by (auto simp: payload_sha256_def sample_sha_def)

lemma sample_bindings:
  "forecast_binding_sha256 label_codec sample_dec sample_sha sample_forecast = Some (replicate 64 CHR ''A'')"
  "proposal_binding_sha256 label_codec sample_dec sample_sha sample_request = Some (replicate 64 CHR ''A'')"
  unfolding forecast_binding_sha256_def proposal_binding_sha256_def
  by (rule payload_sha256_sample, simp add: sample_forecast_def sample_request_def proposal_payload_def canonical_value_def
      decimal_text_def utc_text_def jopt_str_def jopt_int_def)+

lemma sample_built:
  "build_attestation label_codec sample_dec sample_taxonomy sample_sha sample_forecast sample_request None None
     None None 43199500000 = Some sample_attestation"
proof -
  have body: "payload_sha256 label_codec sample_dec sample_sha (attestation_body a) = Some (replicate 64 CHR ''A'')"
    if "ia_issued_at a = Aware i" for a i
    by (rule payload_sha256_sample)
      (simp add: attestation_body_def canonical_value_def decimal_text_def utc_text_def jopt_str_def that split: influence_kind.split option.split)
  have v: "attestation_valid sample_attestation" by code_simp
  show ?thesis
    using v by (simp add: build_attestation_def Let_def sample_bindings body sample_attestation_def)
      (simp add: sample_request_def sample_forecast_def)
qed

lemma built_attestation_verifies_witness:
  "verify_attestation label_codec sample_dec sample_taxonomy sample_sha sample_files 43200000000
     (sample_request\<lparr>rq_attestation := Some sample_attestation\<rparr>) sample_forecast =
   Some \<lparr>iv_valid = True, iv_reason = ''quant_only_probability_attested''\<rparr>"
proof -
  have s: "\<not> is_sports_model_market (rq_market_ticker sample_request) (text_or None)" by code_simp
  show ?thesis
    by (rule built_attestation_verifies [OF sample_built, where t = 43199000000 and e = 43259000000])
      (use s in \<open>simp_all add: sample_forecast_def sample_request_def context_expiration_def timestamp_us_def\<close>)
qed

lemma sample_recompute:
  "recompute label_codec sample_dec sample_sha attested_request sample_forecast sample_attestation =
     Some \<lparr>rc_forecast = replicate 64 CHR ''A'', rc_proposal = replicate 64 CHR ''A'', rc_attestation = replicate 64 CHR ''A'',
       rc_issued = 43199500000, rc_forecast_at = 43199000000, rc_expiration = 43259000000\<rparr>"
proof -
  have body: "payload_sha256 label_codec sample_dec sample_sha (attestation_body sample_attestation) = Some (replicate 64 CHR ''A'')"
    by (rule payload_sha256_sample)
      (simp add: attestation_body_def sample_attestation_def canonical_value_def decimal_text_def utc_text_def jopt_str_def)
  have t: "ia_issued_at sample_attestation = Aware 43199500000" "fc_timestamp sample_forecast = Aware 43199000000"
    "context_expiration sample_request sample_forecast = Some 43259000000"
    by (simp_all add: sample_attestation_def sample_forecast_def sample_request_def context_expiration_def timestamp_us_def)
  show ?thesis
    by (simp add: recompute_def attested_request_def sample_bindings body t)
qed

lemma sample_verified:
  "verify_attestation label_codec sample_dec sample_taxonomy sample_sha sample_files 43200000000 attested_request sample_forecast =
     Some \<lparr>iv_valid = True, iv_reason = ''quant_only_probability_attested''\<rparr>"
proof -
  have s: "\<not> is_sports_model_market (rq_market_ticker attested_request) (text_or (ia_market_category sample_attestation))" by code_simp
  have a: "rq_attestation attested_request = Some sample_attestation" by (simp add: attested_request_def)
  have k: "ia_influence_kind sample_attestation = QUANT_ONLY" by (simp add: sample_attestation_def)
  have fr: "freshness_reason sample_attestation \<lparr>rc_forecast = replicate 64 CHR ''A'', rc_proposal = replicate 64 CHR ''A'',
      rc_attestation = replicate 64 CHR ''A'', rc_issued = 43199500000, rc_forecast_at = 43199000000, rc_expiration = 43259000000\<rparr> 43200000000 = None"
    by code_simp
  show ?thesis unfolding verify_attestation_def a option.case sample_recompute fr using s k by simp
qed

lemma influence_fresh_and_authorised_witness:
  "\<exists>i. ia_issued_at sample_attestation = Aware i \<and> (43200000000 :: int) < i + 30000000"
  using influence_fresh_and_authorised [OF sample_verified] by (auto simp: attested_request_def)

lemma attestation_binds_the_order_witness:
  "rq_price_cents attested_request = 39 \<and> iv_valid \<lparr>iv_valid = True, iv_reason = ''quant_only_probability_attested''\<rparr> \<and>
   (rq_price_cents attested_request = rq_price_cents attested_request \<or> (\<exists>x y. x \<noteq> y \<and> sample_sha x = sample_sha y))"
  using attestation_binds_the_order [OF sample_verified _ sample_verified] by (auto simp: attested_request_def sample_request_def)

end
