(* ===== verification/LiveGates.thy ===== *)
theory LiveGates
  imports RiskState Exposure Fees LiveSubmit Compliance ModelInfluence Sentinel
begin

text \<open>
  The first half of \<open>live_firewall/firewall.py\<close>: guards, what the firewall reads from outside,
  the local authority checks and the binding to the durable autonomy risk state.
\<close>

section \<open>Guards\<close>

text \<open>A guard passes, rejects with a verdict, or raises.\<close>

datatype gate = Pass | Reject firewall_verdict | Raise

definition guard :: "bool \<Rightarrow> string \<Rightarrow> string \<Rightarrow> gate" where
  "guard b by_gate reason = (if b then Reject (rejected by_gate reason) else Pass)"

definition or_raise :: "bool option \<Rightarrow> string \<Rightarrow> string \<Rightarrow> gate" where
  "or_raise b by_gate reason = (case b of None \<Rightarrow> Raise | Some x \<Rightarrow> guard x by_gate reason)"

fun first_gate :: "gate list \<Rightarrow> gate" where
  "first_gate [] = Pass"
| "first_gate (Pass # gs) = first_gate gs"
| "first_gate (Reject v # gs) = Reject v"
| "first_gate (Raise # gs) = Raise"

lemma first_gate_Pass: "first_gate gs = Pass \<longleftrightarrow> (\<forall>g \<in> set gs. g = Pass)"
  by (induction gs rule: first_gate.induct) auto

lemma first_gate_Cons: "first_gate (g # gs) = (if g = Pass then first_gate gs else g)"
  by (cases g) auto

lemma guard_Pass [simp]: "guard b g r = Pass \<longleftrightarrow> \<not> b"
  by (simp add: guard_def)

lemma guard_not_Raise [simp]: "guard b g r \<noteq> Raise"
  by (simp add: guard_def)

lemma or_raise_Pass [simp]: "or_raise b g r = Pass \<longleftrightarrow> b = Some False"
  by (auto simp: or_raise_def split: option.splits)

section \<open>What the firewall reads\<close>

text \<open>
  One reading of everything outside the process: the clock and the local date, the caps file
  as \<open>load_caps\<close> validates it (\<open>None\<close>: it raises), the environment, the files of the authority
  checks (the caps file of the working directory and the one beside the code), the durable
  autonomy risk state by bytes, what the repository registry allows as adapters, and whether
  the private key loads with a \<open>sign\<close> method.
\<close>

record firewall_env =
  fe_clock :: clock
  fe_today :: int
  fe_caps :: "cap_config option"
  fe_environ :: environ
  fe_path_exists :: "string \<Rightarrow> bool"
  fe_private_key :: "bool option"
  fe_adapters :: "string list option"
  fe_autonomy_risk :: hashed_file
  fe_live_submit :: json_file
  fe_cwd_caps :: hashed_file
  fe_root_caps :: hashed_file
  fe_registration :: hashed_file
  fe_descriptor :: json_file
  fe_seal_report :: json_file
  fe_proof_registry :: json_file
  fe_v298 :: json_file
  fe_model_files :: registry_files

text \<open>
  The firewall object and the library functions it uses: \<open>fw_dump\<close> is \<open>str(req.model_dump())\<close>,
  \<open>fw_validate\<close> the pydantic validation of a metadata mapping.
\<close>

record firewall =
  fw_codec :: book_codec
  fw_dec :: decimal_codec
  fw_taxonomy :: taxonomy
  fw_sha256 :: "json \<Rightarrow> string"
  fw_dump :: "live_order_request \<Rightarrow> string"
  fw_validate :: "(string \<times> json) list \<Rightarrow> market_metadata option"
  fw_require_risk_state :: bool
  fw_has_client :: bool
  fw_can_create :: bool
  fw_can_read_book :: bool

text \<open>The mutable state of the process: \<open>STATE\<close>, the exposure book, \<open>REJECTED_ADAPTERS\<close>.\<close>

record process =
  ps_state :: dummy_state
  ps_book :: exposure_tracker
  ps_rejected_adapters :: "string list"

definition mark_adapter_rejected :: "string \<Rightarrow> process \<Rightarrow> process" where
  "mark_adapter_rejected name p = p\<lparr>ps_rejected_adapters := List.insert name (ps_rejected_adapters p)\<rparr>"

abbreviation plain_part :: "firewall \<Rightarrow> codec" where
  "plain_part fw \<equiv> codec.truncate (fw_codec fw)"

section \<open>Local authority\<close>

definition market_is_allowlisted :: "string \<Rightarrow> cap_config \<Rightarrow> bool" where
  "market_is_allowlisted ticker caps \<longleftrightarrow>
     ticker \<noteq> [] \<and>
     (ticker \<in> set (cc_allowed_markets caps) \<or>
      cc_allowed_series caps \<noteq> [] \<and> split_head CHR ''-'' ticker \<in> set (cc_allowed_series caps))"

definition kalshi_credentials_ready :: "firewall_env \<Rightarrow> bool" where
  "kalshi_credentials_ready env =
     (let status = kalshi_credential_status (fe_path_exists env) (fe_environ env);
          present = (\<lambda>k. case map_of status k of None \<Rightarrow> False | Some e \<Rightarrow> ce_present e)
      in present ''KALSHI_API_KEY_ID'' \<and>
         list_ex (\<lambda>k. case map_of status k of
             None \<Rightarrow> False
           | Some e \<Rightarrow> ce_present e \<and> (case ce_file_exists e of None \<Rightarrow> True | Some b \<Rightarrow> b))
           [''KALSHI_API_PRIVATE_KEY_PEM'', ''KALSHI_PRIVATE_KEY'', ''KALSHI_API_PRIVATE_KEY_PEM_PATH'', ''KALSHI_PRIVATE_KEY_PATH''])"

definition env_set :: "firewall_env \<Rightarrow> string \<Rightarrow> bool" where
  "env_set env k = (case map_of (fe_environ env) k of None \<Rightarrow> False | Some v \<Rightarrow> v \<noteq> [])"

definition credential_resolver_ready :: "firewall_env \<Rightarrow> bool" where
  "credential_resolver_ready env \<longleftrightarrow>
     kalshi_credentials_ready env \<and> fe_private_key env = Some True \<and> env_set env ''KALSHI_API_KEY_ID''"

definition firewall_live_submit_config :: "json_file \<Rightarrow> (string \<times> json) list" where
  "firewall_live_submit_config f =
     (case f of
        Holds v \<Rightarrow> (case as_obj v of None \<Rightarrow> [(''enabled'', JBool False)] | Some d \<Rightarrow> d)
      | _ \<Rightarrow> [(''enabled'', JBool False)])"

text \<open>
  A JSON file whose object is tested: absent or unreadable is False, a value that is not an
  object has no \<open>get\<close> and raises.
\<close>

definition test_object :: "json_file \<Rightarrow> ((string \<times> json) list \<Rightarrow> bool) \<Rightarrow> bool option" where
  "test_object f P =
     (case f of Holds v \<Rightarrow> (case as_obj v of None \<Rightarrow> None | Some d \<Rightarrow> Some (P d)) | _ \<Rightarrow> Some False)"

definition caps_strict :: "firewall \<Rightarrow> firewall_env \<Rightarrow> bool option" where
  "caps_strict fw env = test_object (hf_json (fe_cwd_caps env)) (\<lambda>d.
     (jget ''order_type_policy'' d = JStr ''LIMIT_ONLY'' \<or> jget ''limit_orders_only'' d = JBool True) \<and>
     (jget ''market_orders_allowed'' d = JBool False \<or> jget ''allow_market_orders'' d = JBool False) \<and>
     (jget ''kill_switch_enabled'' d = JBool True \<or> jget ''kill_switch_required'' d = JBool True) \<and>
     json_eq_int (jget_default ''max_order_count'' (JInt 1) d) 1 \<and>
     ca_authority_registration_valid
       (evaluate_caps_authority (plain_part fw) (now_us (fe_clock env)) (fe_cwd_caps env) (fe_registration env)))"

definition descriptor_staged :: "firewall_env \<Rightarrow> bool option" where
  "descriptor_staged env = test_object (fe_descriptor env) (\<lambda>d.
     jget ''broker'' d = JStr ''KALSHI'' \<and> jget ''adapter_type'' d = JStr ''LiveBrokerFirewall'' \<and>
     jget ''order_type_policy'' d = JStr ''LIMIT_ONLY'' \<and> jget ''market_orders_allowed'' d = JBool False)"

definition command_seal_ready :: "firewall \<Rightarrow> firewall_env \<Rightarrow> bool option" where
  "command_seal_ready fw env = test_object (fe_seal_report env) (\<lambda>d.
     str_of_json (repr_text (fw_codec fw)) (jget_default ''execute_once_command_seal_controller_status'' (JStr []) d) = SEAL_READY)"

text \<open>The mode and blocker of \<open>live_execution_authority_status\<close>; \<open>None\<close>: a check raises.\<close>

definition live_execution_authority_status :: "firewall \<Rightarrow> firewall_env \<Rightarrow> (live_execution_mode \<times> string) option" where
  "live_execution_authority_status fw env =
     (case (command_seal_ready fw env, caps_strict fw env, descriptor_staged env,
            proof_lock_clear (plain_part fw) (fe_proof_registry env) (fe_v298 env)) of
        (Some seal, Some strict, Some staged, Some lock_clear) \<Rightarrow>
          map_option (\<lambda>(mode, blocker, ctx). (mode, blocker))
            (classify_live_execution_mode (plain_part fw) (now_us (fe_clock env))
               (evaluate_caps_authority (plain_part fw) (now_us (fe_clock env)) (fe_root_caps env) (fe_registration env))
               None None (firewall_live_submit_config (fe_live_submit env)) (fe_environ env)
               (if seal then SEAL_READY else ''BLOCKED'') strict staged (credential_resolver_ready env) lock_clear)
      | _ \<Rightarrow> None)"

definition live_authority_gate :: "firewall \<Rightarrow> firewall_env \<Rightarrow> gate" where
  "live_authority_gate fw env =
     (case live_execution_authority_status fw env of
        None \<Rightarrow> Raise
      | Some (mode, blocker) \<Rightarrow>
          if mode = OPERATOR_ONE_PROOF_LIVE_READY then Pass
          else if mode = DEFAULT_DISABLED then Reject (rejected ''live_submit'' ''live_submit_disabled'')
          else Reject (rejected ''live_authority'' (if blocker = [] then ''LIVE_AUTHORITY_BLOCKED'' else blocker)))"

text \<open>
  The binding of the request to the durable autonomy risk state. The age is in microseconds:
  the comparison of \<open>total_seconds()\<close> with 5 and 300 seconds is exact on them.
\<close>

definition risk_age :: "codec \<Rightarrow> int \<Rightarrow> (string \<times> json) list \<Rightarrow> int option" where
  "risk_age c now data =
     (case map_of data ''saved_at'' of
        None \<Rightarrow> None
      | Some v \<Rightarrow>
          (case from_iso c (z_to_offset (str_of_json (repr_text c) v)) of
             Some (Aware t) \<Rightarrow> Some (now - t) | _ \<Rightarrow> None))"

definition snapshot_matches :: "(string \<times> json) list \<Rightarrow> (string \<times> json) list \<Rightarrow> string \<Rightarrow> bool" where
  "snapshot_matches snapshot data k =
     (case (map_of snapshot k, map_of data k) of
        (Some a, Some b) \<Rightarrow> (case (int_of_json a, int_of_json b) of (Some m, Some n) \<Rightarrow> m = n | _ \<Rightarrow> False)
      | _ \<Rightarrow> False)"

definition SNAPSHOT_KEYS :: "string list" where
  "SNAPSHOT_KEYS = [''stage'', ''bankroll_cents'', ''open_exposure_cents'', ''open_markets'']"

definition risk_data_gate :: "codec \<Rightarrow> int \<Rightarrow> live_order_request \<Rightarrow> string option \<Rightarrow> (string \<times> json) list \<Rightarrow> gate" where
  "risk_data_gate c now req digest data =
     (let bad = ''autonomy_risk_state'';
          attested = (case rq_risk_state_sha256 req of None \<Rightarrow> False | Some s \<Rightarrow> s \<noteq> [] \<and> Some (upper s) = digest)
      in first_gate
       ([guard (\<not> attested) bad ''Autonomy risk state attestation mismatch'',
         or_raise (map_option (\<lambda>n. n < 2) (int_of_json (jget_default ''accounting_version'' (JInt 0) data)))
           bad ''Autonomy risk accounting version is stale'',
         guard (case risk_age c now data of None \<Rightarrow> True | Some age \<Rightarrow> age < - 5000000 \<or> 300000000 < age)
           bad ''Autonomy risk state is stale'',
         (if truthy (jget ''hard_stopped'' data) then Reject (rejected bad ''Autonomy risk state has no live authority'')
          else or_raise (map_option (\<lambda>n. n < 1) (int_of_json (jget_default ''stage'' (JInt 0) data)))
                 bad ''Autonomy risk state has no live authority'')] @
        map (\<lambda>k. guard (\<not> snapshot_matches (rq_risk_snapshot req) data k) bad (''Autonomy risk snapshot mismatch: '' @ k))
          SNAPSHOT_KEYS))"

definition autonomy_risk_gate :: "firewall \<Rightarrow> firewall_env \<Rightarrow> bool \<Rightarrow> live_order_request \<Rightarrow> gate" where
  "autonomy_risk_gate fw env required req =
     (if \<not> required \<and> \<not> fw_require_risk_state fw then Pass
      else (case (hf_sha256 (fe_autonomy_risk env), load_object (hf_json (fe_autonomy_risk env))) of
          (Some digest, Inr data) \<Rightarrow>
            risk_data_gate (plain_part fw) (now_us (fe_clock env)) req (Some digest) data
        | _ \<Rightarrow> Reject (rejected ''autonomy_risk_state'' ''Persisted autonomy risk state unavailable'')))"

definition mandatory_submit_gate :: "firewall \<Rightarrow> firewall_env \<Rightarrow> live_order_request \<Rightarrow> gate" where
  "mandatory_submit_gate fw env req =
     first_gate [autonomy_risk_gate fw env True req, live_authority_gate fw env]"

end
