(* ===== verification/Firewall.thy ===== *)
theory Firewall
  imports LiveGates
begin

text \<open>
  The second half of \<open>live_firewall/firewall.py\<close>: the side-specific ladders, the recomputed net
  value, \<open>evaluate\<close> with its guards in the order of the source, the compliance verdict and the
  sink-owned book, the rehearsal and the submission. One evaluation uses one reading of the
  clock and the files; between two awaits another coroutine may change the process.
\<close>

section \<open>Order book and value\<close>

definition side_book_ladders :: "string \<Rightarrow> order_book \<Rightarrow> (int \<times> int) list \<times> (int \<times> int) list" where
  "side_book_ladders side book =
     (let flip_price = map (\<lambda>(p, n). (100 - p, n));
          bids = (if side = ''yes'' then ob_bids book else flip_price (ob_asks book));
          asks = (if side = ''yes'' then ob_asks book else flip_price (ob_bids book))
      in (sort_key (\<lambda>(p, n). - p) bids, sort_key fst asks))"

text \<open>\<open>Decimal\<close> arithmetic rounds every operation to 28 digits.\<close>

definition side_probability :: "string \<Rightarrow> rat \<Rightarrow> rat \<Rightarrow> rat \<Rightarrow> rat" where
  "side_probability side point lo up =
     (if side = ''yes'' then d28 (d28 (point + lo) / 2) else d28 (1 - d28 (d28 (point + up) / 2)))"

definition net_ev_cents :: "live_order_request \<Rightarrow> rat \<Rightarrow> rat \<Rightarrow> rat \<Rightarrow> int \<Rightarrow> rat" where
  "net_ev_cents req point lo up fee =
     d28 (d28 (d28 (side_probability (rq_side req) point lo up * 100) - of_int (rq_price_cents req)) -
          d28 (of_int fee / of_int (rq_size req)))"

definition request_fee_cents :: "int \<Rightarrow> live_order_request \<Rightarrow> int option" where
  "request_fee_cents today req =
     (if rq_liquidity_role req = ''maker''
      then kalshi_maker_fee_cents today (rq_price_cents req) (rq_size req) (Some (rq_market_ticker req)) None
      else kalshi_taker_fee_cents (rq_price_cents req) (rq_size req) (Some (rq_market_ticker req)))"

definition net_ev_gate :: "int \<Rightarrow> live_order_request \<Rightarrow> forecast \<Rightarrow> cap_config \<Rightarrow> gate" where
  "net_ev_gate today req f caps =
     (case (fc_dummy_probability f, fc_uncertainty_band f, fc_expected_edge f, fc_edge_after_fees f) of
        (DFin point, (DFin lo, DFin up), DFin gross, DFin net) \<Rightarrow>
          if \<not> (0 \<le> lo \<and> lo \<le> point \<and> point \<le> up \<and> up \<le> 1) \<or> gross \<le> 0 \<or> net \<le> 0
          then Reject (rejected ''net_ev'' ''Forecast edge evidence is invalid or non-positive'')
          else
            (case request_fee_cents today req of
               None \<Rightarrow> Raise
             | Some fee \<Rightarrow>
                 (let ev = net_ev_cents req point lo up fee in
                  first_gate
                   [guard (gross < d28 (of_int (cc_min_edge_bps caps) / 10000)) ''net_ev'' ''Expected edge below threshold'',
                    guard (ev \<le> 0) ''net_ev'' ''Conservative side-specific net EV is non-positive'',
                    guard (ev < d28 (of_int (cc_min_edge_bps caps) / 100)) ''net_ev''
                      ''Conservative side-specific net EV is below threshold'',
                    guard (d28 (ev + 1 / 100) < d28 (net * 100)) ''net_ev_binding''
                      ''Claimed edge after fees exceeds firewall recomputation'']))
      | _ \<Rightarrow> Reject (rejected ''net_ev'' ''Forecast edge evidence is invalid or non-positive''))"

section \<open>evaluate\<close>

text \<open>The guards on the durable state come first; each may change what is in memory.\<close>

definition preflight ::
  "firewall \<Rightarrow> firewall_env \<Rightarrow> live_order_request \<Rightarrow> process \<Rightarrow> gate \<times> process" where
  "preflight fw env req p =
     (let c = plain_part fw; clk = fe_clock env;
          early = first_gate
            [guard (ds_mode (ps_state p) \<noteq> AUTONOMOUS_LIVE_CAPPED) ''mode'' ''Mode is not AUTONOMOUS_LIVE_CAPPED'',
             guard (is_data_only_target c (rq_market_ticker req) JNull NoVertical) ''data_only_target''
               ''Weather and commodity contracts are contextual data only'',
             guard (is_equity_index_target c (rq_market_ticker req) JNull JNull \<or>
                    is_equity_index_target c (rq_contract_ticker req) JNull JNull) ''equity_index_target_quarantine''
               (''Target is outside Dummy'' @ [CHR 0x27] @ ''s supported prediction surface'')]
      in if early \<noteq> Pass then (early, p)
         else
           (let (refreshed, s1) = refresh_persisted_state c clk (ps_state p);
                p1 = p\<lparr>ps_state := s1\<rparr>;
                controls = first_gate
                  [guard (\<not> refreshed) ''risk_state'' ''Persisted risk/safety state unavailable'',
                   guard (ks_active (ds_kill_switch s1)) ''kill_switch'' ''Kill switch active'',
                   guard (es_active (ds_emergency_stop s1)) ''emergency_stop'' ''Emergency stop active'']
            in if controls \<noteq> Pass then (controls, p1)
               else
                 (let (written, s2) = verify_persistence c clk s1;
                      p2 = p1\<lparr>ps_state := s2\<rparr>
                  in if ds_persistence_error s1 \<noteq> None \<or> \<not> written
                     then (Reject (rejected ''daily_loss_state'' ''Persisted daily-loss state unavailable''), p2)
                     else if \<not> state_healthy (ps_book p2)
                     then (Reject (rejected ''exposure_state'' ''Persisted exposure state unavailable''), p2)
                     else
                       (let (stored, b1) = verify_exposure (fw_codec fw) clk (ps_book p2);
                            p3 = p2\<lparr>ps_book := b1\<rparr>
                        in if \<not> stored
                           then (Reject (rejected ''exposure_state'' ''Persisted exposure state unavailable''), p3)
                           else (Pass, p3)))))"

definition stale_stamp :: "int \<Rightarrow> stamp \<Rightarrow> bool" where
  "stale_stamp now t =
     (case t of Naive u \<Rightarrow> True | Aware u \<Rightarrow> u < now - 30000000 \<or> now + 5000000 < u)"

definition freshness_clocks :: "order_book \<Rightarrow> stamp list" where
  "freshness_clocks book = ob_timestamp book # opt_list (ob_received_at book) @ opt_list (ob_source_ts book)"

definition depth_at :: "int \<Rightarrow> (int \<times> int) list \<Rightarrow> int" where
  "depth_at limit ladder = (\<Sum>(p, n)\<leftarrow>filter (\<lambda>(p, n). p \<le> limit) ladder. n)"

definition book_gates :: "live_order_request \<Rightarrow> order_book \<Rightarrow> cap_config \<Rightarrow> gate list" where
  "book_gates req book caps =
     (let (bids, asks) = side_book_ladders (rq_side req) book;
          best_bid = fst (hd bids); best_ask = fst (hd asks); spread = best_ask - best_bid;
          levels = ob_bids book @ ob_asks book
      in [guard (ob_bids book = [] \<or> ob_asks book = []) ''liquidity'' ''Missing orderbook data'',
          guard (list_ex (\<lambda>(p, n). n \<le> 0 \<or> \<not> (1 \<le> p \<and> p \<le> 99)) levels) ''liquidity'' ''Invalid orderbook level'',
          guard (bids = [] \<or> asks = []) ''liquidity'' ''Missing side-specific orderbook data'',
          guard (spread \<le> 0) ''spread'' ''Crossed or invalid orderbook'',
          guard (cc_max_spread_cents caps < spread) ''spread'' ''Spread too wide'',
          guard (sum_list (map snd levels) < cc_min_liquidity caps) ''liquidity'' ''Liquidity too low''] @
         (if rq_liquidity_role req = ''maker''
          then [guard (best_ask \<le> rq_price_cents req) ''execution_role''
                  ''Passive maker limit became marketable on fresh depth'',
                guard (rq_price_cents req < best_bid) ''execution_role''
                  ''Passive maker limit is behind the current best bid'']
          else [guard (rq_price_cents req < best_ask \<or> depth_at (rq_price_cents req) asks < rq_size req) ''executable_depth''
                  ''Fresh side-specific depth cannot execute the taker request'']))"

definition request_gates ::
  "firewall \<Rightarrow> firewall_env \<Rightarrow> live_order_request \<Rightarrow> order_book \<Rightarrow> forecast \<Rightarrow> cap_config \<Rightarrow> process \<Rightarrow> gate list" where
  "request_gates fw env req book f caps p =
     [guard (rq_market_ticker req \<noteq> ob_market_ticker book \<or> rq_contract_ticker req \<noteq> ob_contract_ticker book)
        ''context_integrity'' ''Orderbook identity does not match request'',
      guard (rq_market_ticker req \<noteq> fc_market_ticker f \<or> rq_contract_ticker req \<noteq> fc_contract_ticker f)
        ''context_integrity'' ''Forecast identity does not match request'',
      autonomy_risk_gate fw env False req,
      guard (rq_side req \<notin> {''yes'', ''no''} \<or> \<not> (1 \<le> rq_price_cents req \<and> rq_price_cents req \<le> 99) \<or> rq_size req < 1)
        ''order_schema'' ''Invalid limit order side, price, or size'',
      guard (case rq_expiration_ts req of None \<Rightarrow> False | Some ts \<Rightarrow> ts \<le> now_us (fe_clock env) div 1000000)
        ''order_expiry'' ''Limit order expiry is not in the future'',
      guard (\<not> env_set env ''KALSHI_API_KEY_ID'') ''secrets'' ''API key missing'',
      or_raise (map_option (\<lambda>_. False) (fe_adapters env)) '''' '''',
      guard (rq_adapter_name req \<in> set (ps_rejected_adapters p)) ''repo_bypass'' ''Adapter rejected by repo harvester'',
      guard (rq_adapter_name req \<notin> set (case fe_adapters env of None \<Rightarrow> [] | Some xs \<Rightarrow> xs)) ''unknown_adapter''
        (''Unknown or untested adapter '' @ rq_adapter_name req),
      guard (\<not> is_clean_risk (scan_text_for_risk (fw_dump fw req))) ''secret_redaction'' ''Secret redaction check failed'',
      guard (rq_forecast_proof_reference req \<noteq> fc_proof_reference f) ''proof'' ''Forecast proof reference mismatch'',
      guard (\<not> market_is_allowlisted (rq_market_ticker req) caps) ''market_allowlist'' ''Market not allowlisted'',
      guard (list_ex (stale_stamp (now_us (fe_clock env))) (freshness_clocks book)) ''stale_data'' ''Stale market data''] @
     book_gates req book caps @
     [net_ev_gate (fe_today env) req f caps,
      guard (rq_strategy_proof_reference req = [] \<or> rq_forecast_proof_reference req = []) ''proof'' ''Missing proof reference'']"

definition exposure_gates :: "live_order_request \<Rightarrow> cap_config \<Rightarrow> exposure_tracker \<Rightarrow> gate list" where
  "exposure_gates req caps b =
     (let value = rq_price_cents req * rq_size req; m = rq_market_ticker req in
      [guard (cc_max_single_order_cents caps < value) ''single_order_cap'' ''Single order cap exceeded'',
       guard (cc_max_market_exposure_cents caps < market_exposure_cents m b + value) ''market_exposure_cap''
         ''Market exposure cap exceeded'',
       guard (cc_max_total_live_exposure_cents caps < total_exposure_cents b + value) ''total_exposure_cap''
         ''Total exposure cap exceeded'',
       guard (cc_max_correlated_exposure_cents caps < correlated_exposure_cents m b + value) ''correlated_exposure_cap''
         ''Correlated exposure cap exceeded''])"

definition influence_gate :: "firewall \<Rightarrow> firewall_env \<Rightarrow> live_order_request \<Rightarrow> forecast \<Rightarrow> gate" where
  "influence_gate fw env req f =
     (case verify_attestation (plain_part fw) (fw_dec fw) (fw_taxonomy fw) (fw_sha256 fw) (fe_model_files env)
             (now_us (fe_clock env)) req f of
        None \<Rightarrow> Raise
      | Some v \<Rightarrow> guard (\<not> iv_valid v) ''model_influence_authority'' (iv_reason v))"

definition activity_gates ::
  "firewall \<Rightarrow> firewall_env \<Rightarrow> live_order_request \<Rightarrow> forecast \<Rightarrow> cap_config \<Rightarrow> int \<Rightarrow> exposure_tracker \<Rightarrow> gate list" where
  "activity_gates fw env req f caps loss b =
     [guard (cc_max_daily_loss_cents caps \<le> loss) ''daily_loss_cap'' ''Daily loss cap exceeded'',
      guard (cc_max_open_markets caps \<le> int (open_markets b)) ''open_markets'' ''Max open markets exceeded'',
      guard (cc_max_orders_per_hour caps \<le> int (orders_last_hour (fe_clock env) b)) ''frequency_cap''
        ''Order frequency cap exceeded'',
      guard (cc_max_orders_per_hour caps \<le> int (open_order_count b)) ''open_order_cap'' ''Open order count exceeded'',
      guard (8 / 10 < fc_settlement_risk_score f) ''settlement_risk'' ''Settlement risk too high'',
      influence_gate fw env req f]"

text \<open>\<open>Pass\<close> is the allowing verdict.\<close>

definition evaluate ::
  "firewall \<Rightarrow> firewall_env \<Rightarrow> live_order_request \<Rightarrow> order_book \<Rightarrow> forecast \<Rightarrow> process \<Rightarrow> gate \<times> process" where
  "evaluate fw env req book f p =
     (case fe_caps env of
        None \<Rightarrow> (Raise, p)
      | Some caps \<Rightarrow>
          (let (g1, p1) = preflight fw env req p in
           if g1 \<noteq> Pass then (g1, p1)
           else
             (let g2 = first_gate (request_gates fw env req book f caps p1 @ exposure_gates req caps (ps_book p1)) in
              if g2 \<noteq> Pass then (g2, p1)
              else
                (let (loss, s2) = daily_loss_cents (plain_part fw) (fe_clock env) (ps_state p1);
                     p2 = p1\<lparr>ps_state := s2\<rparr>
                 in (first_gate (activity_gates fw env req f caps loss (ps_book p2)), p2)))))"

section \<open>Compliance at the sink\<close>

definition EXPIRY_FIELDS :: "string list" where
  "EXPIRY_FIELDS = [''close_time'', ''expiration_time'', ''expected_expiration_time'', ''latest_expiration_time'']"

text \<open>The given expiry times of a market; \<open>None\<close>: one of them does not parse or is naive.\<close>

definition market_expiries :: "codec \<Rightarrow> (string \<times> json) list \<Rightarrow> int list option" where
  "market_expiries c market =
     option_all (\<lambda>v. case from_iso c (z_to_offset (str_of_json (repr_text c) v)) of Some (Aware t) \<Rightarrow> Some t | _ \<Rightarrow> None)
       (filter (\<lambda>v. v \<noteq> JNull \<and> v \<noteq> JStr []) (map (\<lambda>k. jget k market) EXPIRY_FIELDS))"

definition metadata_unavailable :: gate where
  "metadata_unavailable = Reject (rejected ''compliance_metadata'' ''Verified Kalshi compliance metadata unavailable'')"

definition market_gate :: "codec \<Rightarrow> int \<Rightarrow> live_order_request \<Rightarrow> (string \<times> json) list \<Rightarrow> gate" where
  "market_gate c now req market =
     (let actual = strip (text_or_empty c (jget ''ticker'' market));
          status = casefold (strip (text_or_empty c (jget ''status'' market)))
      in first_gate
        [guard (actual = [] \<or> casefold actual \<noteq> casefold (strip (rq_market_ticker req)) \<or>
                casefold actual \<noteq> casefold (strip (rq_contract_ticker req))) ''context_integrity''
           ''Verified Kalshi market identity mismatch'',
         guard (status \<notin> {''active'', ''open''}) ''market_state'' ''Verified Kalshi market is not open'',
         (case market_expiries c market of
            None \<Rightarrow> metadata_unavailable
          | Some ts \<Rightarrow>
              first_gate
                [guard (ts = []) ''market_state'' ''Verified Kalshi close/expiration time unavailable'',
                 guard (list_ex (\<lambda>t. t \<le> now) ts) ''market_state'' ''Verified Kalshi market close/expiration has passed'',
                 (case rq_expiration_ts req of
                    None \<Rightarrow> Pass
                  | Some e \<Rightarrow>
                      (case timestamp_us e of
                         None \<Rightarrow> metadata_unavailable
                       | Some u \<Rightarrow> guard (list_ex (\<lambda>t. t < u) ts) ''order_expiry''
                           ''Order expiration exceeds verified market close''))])])"

text \<open>The market record of a response, which may be wrapped.\<close>

definition market_envelope :: "json \<Rightarrow> (string \<times> json) list option" where
  "market_envelope raw =
     (case as_obj raw of
        None \<Rightarrow> None
      | Some d \<Rightarrow> if jget ''market'' d = JNull then Some d else as_obj (jget ''market'' d))"

definition quarantined_by_venue :: "codec \<Rightarrow> live_order_request \<Rightarrow> market_metadata \<Rightarrow> bool" where
  "quarantined_by_venue c req m =
     (let tags = JArr (map JStr (mm_series_tags m)); series_category = JStr (mm_series_category m) in
      is_prediction_quarantined_target c (rq_market_ticker req) series_category NoVertical tags \<or>
      is_prediction_quarantined_target c (rq_contract_ticker req)
        (case mm_event_category m of None \<Rightarrow> series_category | Some e \<Rightarrow> if e = [] then series_category else JStr e) NoVertical tags \<or>
      is_prediction_quarantined_target c (mm_series_ticker m) series_category NoVertical tags)"

definition compliance_gate ::
  "firewall \<Rightarrow> firewall_env \<Rightarrow> broker \<Rightarrow> live_order_request \<Rightarrow> broker_call list \<times> gate" where
  "compliance_gate fw env b req =
     (let c = plain_part fw; now = now_us (fe_clock env) in
      if \<not> fw_has_client fw then ([], metadata_unavailable)
      else
        (let calls = [GetMarket (rq_market_ticker req)] in
         case br_market b (rq_market_ticker req) of
           None \<Rightarrow> (calls, metadata_unavailable)
         | Some raw \<Rightarrow>
             (case market_envelope raw of
                None \<Rightarrow> (calls, metadata_unavailable)
              | Some market \<Rightarrow>
                  if market_gate c now req market \<noteq> Pass then (calls, market_gate c now req market)
                  else
                    (case fetch_verified_metadata now b (rq_market_ticker req) (Some raw) of
                       (more_calls, Inl e) \<Rightarrow> (calls @ more_calls, metadata_unavailable)
                     | (more_calls, Inr m) \<Rightarrow>
                         (calls @ more_calls,
                          if quarantined_by_venue c req m
                          then Reject (rejected ''prediction_target_quarantine''
                            ''Verified Kalshi target category has zero prediction and execution authority'')
                          else (case fe_caps env of
                              None \<Rightarrow> Raise
                            | Some caps \<Rightarrow>
                                (let v = assess_compliance c (fw_validate fw) (cc_blocked_categories caps) (rq_market_ticker req)
                                       (rq_contract_ticker req) (Metadata m) True
                                 in guard (\<not> cv_passed v) ''compliance'' (cv_reason v))))))))"

section \<open>The sink-owned order book\<close>

definition trusted_sink_orderbook ::
  "firewall \<Rightarrow> firewall_env \<Rightarrow> broker \<Rightarrow> live_order_request \<Rightarrow> broker_call list \<times> (gate + order_book)" where
  "trusted_sink_orderbook fw env b req =
     (let unavailable = Reject (rejected ''trusted_orderbook'' ''Fresh broker orderbook unavailable'');
          fold_ticker = (\<lambda>s. casefold (strip s)); expected = fold_ticker (rq_contract_ticker req)
      in if \<not> fw_has_client fw \<or> \<not> fw_can_read_book fw then ([], Inl unavailable)
         else if fold_ticker (rq_market_ticker req) \<noteq> expected
         then ([], Inl (Reject (rejected ''context_integrity'' ''Kalshi market and contract ticker binding mismatch'')))
         else
           ([GetOrderbook (rq_contract_ticker req) 100],
            (case br_orderbook b (rq_contract_ticker req) 100 of
               None \<Rightarrow> Inl unavailable
             | Some None \<Rightarrow> Inl (Reject (rejected ''trusted_orderbook'' ''Fresh broker orderbook has invalid schema''))
             | Some (Some book) \<Rightarrow>
                 if fold_ticker (ob_market_ticker book) \<noteq> expected \<or> fold_ticker (ob_contract_ticker book) \<noteq> expected
                 then Inl (Reject (rejected ''context_integrity'' ''Fresh broker orderbook identity mismatch''))
                 else Inr (if ob_received_at book = None
                           then book\<lparr>ob_received_at := Some (Aware (now_us (fe_clock env)))\<rparr> else book))))"

section \<open>Rehearsal and submission\<close>

definition build_order :: "live_order_request \<Rightarrow> json" where
  "build_order req = JObj
     ([(''ticker'', JStr (rq_contract_ticker req)), (''side'', JStr (rq_side req)), (''action'', JStr ''buy''),
       (''type'', JStr ''limit''), (''count'', JInt (rq_size req)), (''client_order_id'', JStr (rq_proposal_id req)),
       (if rq_side req = ''no'' then ''no_price'' else ''yes_price'', JInt (rq_price_cents req))] @
      (case rq_expiration_ts req of None \<Rightarrow> [] | Some ts \<Rightarrow> [(''expiration_ts'', JInt ts)]))"

text \<open>
  The moments between two awaits of a submission: before the first await, during the
  metadata reads, during the book read, the final stretch up to the order, and after the
  broker's answer.
\<close>

datatype moment = Start | Metadata_Reads | Book_Read | Final | Answered

record rehearsal =
  rh_would_submit :: bool
  rh_verdict :: gate
  rh_order :: "json option"
  rh_blocked_reason :: "string option"

definition gate_reason :: "gate \<Rightarrow> string option" where
  "gate_reason g = (case g of Reject v \<Rightarrow> Some (fv_reason v) | _ \<Rightarrow> None)"

text \<open>\<open>None\<close>: a guard raised.\<close>

definition submit_rehearsal ::
  "firewall \<Rightarrow> (moment \<Rightarrow> firewall_env) \<Rightarrow> (moment \<Rightarrow> process \<Rightarrow> process) \<Rightarrow> broker \<Rightarrow> live_order_request \<Rightarrow> order_book \<Rightarrow>
   forecast \<Rightarrow> process \<Rightarrow> rehearsal option \<times> broker_call list \<times> process" where
  "submit_rehearsal fw env other b req book f p =
     (let blocked = (\<lambda>g. if g = Raise then None else
            Some \<lparr>rh_would_submit = False, rh_verdict = g, rh_order = None, rh_blocked_reason = gate_reason g\<rparr>);
          (g1, p1) = evaluate fw (env Start) req book f p
      in if g1 \<noteq> Pass then (blocked g1, [], p1)
         else
           (let (calls, g2) = compliance_gate fw (env Metadata_Reads) b req; p2 = other Metadata_Reads p1
            in if g2 \<noteq> Pass then (blocked g2, calls, p2)
               else
                 (let authority = live_authority_gate fw (env Book_Read) in
                  (if authority = Raise then None
                   else Some \<lparr>rh_would_submit = (authority = Pass), rh_verdict = Pass,
                              rh_order = Some (build_order req), rh_blocked_reason = gate_reason authority\<rparr>, calls, p2))))"

definition refused :: "live_order_request \<Rightarrow> string \<Rightarrow> live_order_result" where
  "refused req e = \<lparr>lr_success = False, lr_order_id = None, lr_error = Some e,
     lr_proof_reference = rq_strategy_proof_reference req, lr_broker_contacted = False\<rparr>"

definition refusal :: "live_order_request \<Rightarrow> gate \<Rightarrow> live_order_result option" where
  "refusal req g = map_option (refused req) (gate_reason g)"

definition contacted :: "live_order_request \<Rightarrow> string option \<Rightarrow> string option \<Rightarrow> live_order_result" where
  "contacted req order_id e = \<lparr>lr_success = (order_id \<noteq> None), lr_order_id = order_id, lr_error = e,
     lr_proof_reference = rq_strategy_proof_reference req, lr_broker_contacted = True\<rparr>"

text \<open>The order id in the broker's answer, or the type of the exception reading it raises.\<close>

definition answered_order_id :: "json \<Rightarrow> string + json" where
  "answered_order_id v =
     (case as_obj v of
        None \<Rightarrow> Inl ''AttributeError''
      | Some d \<Rightarrow>
          (case as_obj (jget_default ''order'' (JObj []) d) of
             None \<Rightarrow> Inl ''AttributeError''
           | Some od \<Rightarrow> Inr (por (jget ''order_id'' od) (jget ''order_id'' d))))"

definition settle_answer ::
  "firewall \<Rightarrow> firewall_env \<Rightarrow> live_order_request \<Rightarrow> string + json \<Rightarrow> process \<Rightarrow> live_order_result \<times> process" where
  "settle_answer fw env req reply p =
     (let unknown = p\<lparr>ps_book := snd (mark_order_outcome_unknown (fw_codec fw) (fe_clock env) (rq_proposal_id req) (ps_book p))\<rparr>
      in case reply of
           Inl exn \<Rightarrow> (contacted req None (Some (''broker_submit_failed:'' @ exn)), unknown)
         | Inr v \<Rightarrow>
             (case answered_order_id v of
                Inl exn \<Rightarrow> (contacted req None (Some (''broker_submit_failed:'' @ exn)), unknown)
              | Inr i \<Rightarrow>
                  if \<not> truthy i then (contacted req None (Some ''broker_order_id_missing''), unknown)
                  else
                    (let order_id = str_of_json (repr_text (fw_codec fw)) i;
                         (stored, b1) = confirm_open_order (fw_codec fw) (fe_clock env) (rq_proposal_id req) order_id (ps_book p)
                     in (contacted req (Some order_id) (if stored then None else Some ''accepted_exposure_state_unhealthy''),
                         p\<lparr>ps_book := b1\<rparr>))))"

text \<open>The stretch without an await: the final evaluation, the authority, the reservation.\<close>

definition reserve_final ::
  "firewall \<Rightarrow> firewall_env \<Rightarrow> live_order_request \<Rightarrow> order_book \<Rightarrow> forecast \<Rightarrow> process \<Rightarrow> live_order_result option option \<times> process" where
  "reserve_final fw env req book f p =
     (let (g1, p1) = evaluate fw env req book f p in
      if g1 \<noteq> Pass then (Some (refusal req g1), p1)
      else if mandatory_submit_gate fw env req \<noteq> Pass then (Some (refusal req (mandatory_submit_gate fw env req)), p1)
      else
        (let (stored, b1) = reserve_order_submission (fw_codec fw) (fe_clock env) (rq_proposal_id req) (rq_market_ticker req)
               (rq_size req) (rq_price_cents req) (Some (rq_contract_ticker req)) (Some (rq_side req)) (ps_book p1);
             p2 = p1\<lparr>ps_book := b1\<rparr>
         in if stored then (None, p2) else (Some (Some (refused req ''EXPOSURE_RESERVATION_FAILED'')), p2)))"

text \<open>
  The result (\<open>None\<close>: an exception left the method before transport), the calls on the broker
  in order, and the process afterwards.
\<close>

definition submit ::
  "firewall \<Rightarrow> (moment \<Rightarrow> firewall_env) \<Rightarrow> (moment \<Rightarrow> process \<Rightarrow> process) \<Rightarrow> broker \<Rightarrow> live_order_request \<Rightarrow> order_book \<Rightarrow>
   forecast \<Rightarrow> process \<Rightarrow> live_order_result option \<times> broker_call list \<times> process" where
  "submit fw env other b req book f p =
     (let c = plain_part fw in
      if is_prediction_quarantined_target c (rq_market_ticker req) JNull NoVertical JNull \<or>
         is_prediction_quarantined_target c (rq_contract_ticker req) JNull NoVertical JNull
      then (Some (refused req ''prediction_target_quarantine''), [], p)
      else
        (let (g1, p1) = evaluate fw (env Start) req book f p; g2 = mandatory_submit_gate fw (env Start) req in
         if g1 \<noteq> Pass then (refusal req g1, [], p1)
         else if g2 \<noteq> Pass then (refusal req g2, [], p1)
         else if rq_side req \<notin> {''yes'', ''no''} then (Some (refused req ''Invalid side''), [], p1)
         else if \<not> fw_has_client fw \<or> \<not> fw_can_create fw
         then (Some (refused req ''broker_client_unavailable''), [], p1)
         else
           (let (calls1, g3) = compliance_gate fw (env Metadata_Reads) b req; p2 = other Metadata_Reads p1 in
            if g3 \<noteq> Pass then (refusal req g3, calls1, p2)
            else
              (let (calls2, reply) = trusted_sink_orderbook fw (env Book_Read) b req; p3 = other Book_Read p2 in
               case reply of
                 Inl g \<Rightarrow> (refusal req g, calls1 @ calls2, p3)
               | Inr trusted \<Rightarrow>
                   (case reserve_final fw (env Final) req trusted f p3 of
                      (Some r, p4) \<Rightarrow> (r, calls1 @ calls2, p4)
                    | (None, p4) \<Rightarrow>
                        (let (r, p5) = settle_answer fw (env Answered) req (br_create b (build_order req)) (other Final p4)
                         in (Some r, calls1 @ calls2 @ [CreateOrder (build_order req)], p5)))))))"

text \<open>The retired second surface.\<close>

definition submit_limit_order_adapter :: "string \<Rightarrow> live_order_result \<times> broker_call list" where
  "submit_limit_order_adapter proof_id =
     (\<lparr>lr_success = False, lr_order_id = None, lr_error = Some ''LEGACY_ADAPTER_SUBMIT_RETIRED_USE_CENTRAL_FIREWALL'',
       lr_proof_reference = proof_id, lr_broker_contacted = False\<rparr>, [])"

section \<open>What passing a gate says\<close>

lemma preflight_Pass:
  assumes "preflight fw env req p = (Pass, p')"
  obtains s1 s2 b1 where
    "ds_mode (ps_state p) = AUTONOMOUS_LIVE_CAPPED"
    "refresh_persisted_state (plain_part fw) (fe_clock env) (ps_state p) = (True, s1)"
    "\<not> ks_active (ds_kill_switch s1)" "\<not> es_active (ds_emergency_stop s1)" "ds_persistence_error s1 = None"
    "verify_persistence (plain_part fw) (fe_clock env) s1 = (True, s2)" "et_error (ps_book p) = None"
    "verify_exposure (fw_codec fw) (fe_clock env) (ps_book p) = (True, b1)"
    "p' = p\<lparr>ps_state := s2, ps_book := b1\<rparr>"
proof -
  obtain ok s1 where r: "refresh_persisted_state (plain_part fw) (fe_clock env) (ps_state p) = (ok, s1)" by fastforce
  obtain w s2 where v: "verify_persistence (plain_part fw) (fe_clock env) s1 = (w, s2)" by fastforce
  obtain w2 b1 where x: "verify_exposure (fw_codec fw) (fe_clock env) (ps_book p) = (w2, b1)" by fastforce
  have "ds_mode (ps_state p) = AUTONOMOUS_LIVE_CAPPED \<and> ok \<and> \<not> ks_active (ds_kill_switch s1) \<and>
    \<not> es_active (ds_emergency_stop s1) \<and> ds_persistence_error s1 = None \<and> w \<and> et_error (ps_book p) = None \<and> w2 \<and>
    p' = p\<lparr>ps_state := s2, ps_book := b1\<rparr>"
    using assms unfolding preflight_def Let_def r v x
    by (auto simp: v x state_healthy_def first_gate_Pass split: if_split_asm)
  with r v x that show ?thesis by simp
qed

lemma evaluate_Pass:
  assumes "evaluate fw env req book f p = (Pass, p')"
  obtains caps p1 where
    "fe_caps env = Some caps" "preflight fw env req p = (Pass, p1)"
    "\<forall>g \<in> set (request_gates fw env req book f caps p1). g = Pass"
    "\<forall>g \<in> set (exposure_gates req caps (ps_book p1)). g = Pass"
    "\<forall>g \<in> set (activity_gates fw env req f caps (ds_daily_loss_cents (ps_state p')) (ps_book p1)). g = Pass"
    "p' = p1\<lparr>ps_state := rollover_if_needed (plain_part fw) (fe_clock env) (ps_state p1)\<rparr>"
proof -
  obtain caps where c: "fe_caps env = Some caps" using assms by (cases "fe_caps env") (simp_all add: evaluate_def)
  obtain g p1 where pre: "preflight fw env req p = (g, p1)" by fastforce
  let ?gs = "request_gates fw env req book f caps p1 @ exposure_gates req caps (ps_book p1)"
  have g: "g = Pass" and gs: "first_gate ?gs = Pass"
    using assms by (auto simp: evaluate_def c pre Let_def split: if_split_asm)
  have "p' = p1\<lparr>ps_state := rollover_if_needed (plain_part fw) (fe_clock env) (ps_state p1)\<rparr> \<and>
    first_gate (activity_gates fw env req f caps (ds_daily_loss_cents (ps_state p')) (ps_book p1)) = Pass"
    using assms by (auto simp: evaluate_def c pre Let_def g gs daily_loss_cents_def)
  with c pre gs that show ?thesis by (simp add: g first_gate_Pass)
qed

lemma verify_exposure_totals [frame]:
  "total_exposure_cents (snd (verify_exposure c clk t)) = total_exposure_cents t"
  "market_exposure_cents m (snd (verify_exposure c clk t)) = market_exposure_cents m t"
  "et_open_orders (snd (verify_exposure c clk t)) = et_open_orders t"
  by (simp_all add: verify_exposure_def)

lemma preflight_book:
  "\<exists>b. ps_book (snd (preflight fw env req p)) = b \<and> (b = ps_book p \<or> b = snd (verify_exposure (fw_codec fw) (fe_clock env) (ps_book p)))"
  by (auto simp: preflight_def Let_def split: prod.splits if_splits)

lemma evaluate_book:
  "\<exists>b. ps_book (snd (evaluate fw env req book f p)) = b \<and> (b = ps_book p \<or> b = snd (verify_exposure (fw_codec fw) (fe_clock env) (ps_book p)))"
  using preflight_book [of fw env req p]
  by (cases "fe_caps env"; cases "preflight fw env req p") (auto simp: evaluate_def daily_loss_cents_def Let_def)

text \<open>An evaluation, whatever its verdict, changes nothing that is held or reserved.\<close>

lemma evaluate_keeps_book [frame]:
  "total_exposure_cents (ps_book (snd (evaluate fw env req book f p))) = total_exposure_cents (ps_book p)"
  "market_exposure_cents m (ps_book (snd (evaluate fw env req book f p))) = market_exposure_cents m (ps_book p)"
  "et_open_orders (ps_book (snd (evaluate fw env req book f p))) = et_open_orders (ps_book p)"
  using evaluate_book [of fw env req book f p] verify_exposure_totals by auto

lemma compliance_calls: "list_all read_only (fst (compliance_gate fw env b req))"
proof -
  have "x \<in> set calls \<Longrightarrow> read_only x"
    if "fetch_verified_metadata (now_us (fe_clock env)) b (rq_market_ticker req) raw = (calls, r)" for x raw calls r
    using fetch_read_only [of x "now_us (fe_clock env)" b "rq_market_ticker req" raw] that by simp
  moreover have "read_only (GetMarket t)" for t by (simp add: read_only_def)
  ultimately show ?thesis
    by (auto simp: compliance_gate_def Let_def list_all_iff split: option.splits prod.splits sum.splits)
qed

lemma trusted_calls: "list_all read_only (fst (trusted_sink_orderbook fw env b req))"
  by (simp add: trusted_sink_orderbook_def Let_def read_only_def)

lemma read_only_no_order: "list_all read_only xs \<Longrightarrow> CreateOrder ord \<notin> set xs"
  by (auto simp: list_all_iff read_only_def)

end
