(* ===== verification/Submission.thy ===== *)
theory Submission
  imports Firewall
begin

text \<open>
  What the submission of \<open>live_firewall/firewall.py\<close> promises: when an order leaves the
  process, what was checked and reserved before it, and what stays in the book after it.
\<close>

section \<open>Taking a submission apart\<close>

lemma settle_answer_book:
  obtains x where "ps_book (snd (settle_answer fw env req reply p)) \<in>
    {snd (confirm_open_order (fw_codec fw) (fe_clock env) (rq_proposal_id req) x (ps_book p)),
     snd (mark_order_outcome_unknown (fw_codec fw) (fe_clock env) (rq_proposal_id req) (ps_book p))}"
proof (cases reply)
  case (Inl exn)
  then show thesis using that by (simp add: settle_answer_def)
next
  case (Inr v)
  show thesis
    by (cases "answered_order_id v"; rule that)
      (auto simp: settle_answer_def Inr Let_def split: prod.splits dest: arg_cong [where f = snd])
qed

lemma settle_answer_contacted [simp]: "lr_broker_contacted (fst (settle_answer fw env req reply p))"
  by (cases reply) (auto simp: settle_answer_def Let_def contacted_def split: sum.splits prod.splits)

lemma settle_answer_state [frame]: "ps_state (snd (settle_answer fw env req reply p)) = ps_state p"
  by (cases reply) (auto simp: settle_answer_def Let_def split: sum.splits prod.splits)

lemma refusal_not_contacted: "refusal req g = Some r \<Longrightarrow> \<not> lr_broker_contacted r"
  by (auto simp: refusal_def refused_def)

lemma reserve_final_None:
  assumes "reserve_final fw env req book f p = (None, p')"
  obtains p1 b1 where
    "evaluate fw env req book f p = (Pass, p1)" "mandatory_submit_gate fw env req = Pass"
    "reserve_order_submission (fw_codec fw) (fe_clock env) (rq_proposal_id req) (rq_market_ticker req) (rq_size req)
       (rq_price_cents req) (Some (rq_contract_ticker req)) (Some (rq_side req)) (ps_book p1) = (True, b1)"
    "p' = p1\<lparr>ps_book := b1\<rparr>"
  using assms by (auto simp: reserve_final_def Let_def split: prod.splits if_split_asm)

lemma reserve_final_Some:
  "reserve_final fw env req book f p = (Some r, p') \<Longrightarrow> r = Some res \<Longrightarrow> \<not> lr_broker_contacted res"
  by (auto simp: reserve_final_def Let_def refused_def dest: refusal_not_contacted split: prod.splits if_split_asm)

text \<open>The two ways a submission ends: at a refusal, with read calls only, or with the order sent.\<close>

lemma submit_ends:
  assumes "submit fw env other b req book f p = (r, calls, p')"
  shows "(list_all read_only calls \<and> (\<forall>res. r = Some res \<longrightarrow> \<not> lr_broker_contacted res)) \<or>
    (\<exists>trusted q rr. evaluate fw (env Start) req book f p = (Pass, snd (evaluate fw (env Start) req book f p)) \<and>
       snd (compliance_gate fw (env Metadata_Reads) b req) = Pass \<and>
       snd (trusted_sink_orderbook fw (env Book_Read) b req) = Inr trusted \<and>
       reserve_final fw (env Final) req trusted f
         (other Book_Read (other Metadata_Reads (snd (evaluate fw (env Start) req book f p)))) = (None, q) \<and>
       settle_answer fw (env Answered) req (br_create b (build_order req)) (other Final q) = (rr, p') \<and> r = Some rr \<and>
       calls = fst (compliance_gate fw (env Metadata_Reads) b req) @
         fst (trusted_sink_orderbook fw (env Book_Read) b req) @ [CreateOrder (build_order req)])"
proof -
  obtain g1 p1 where e: "evaluate fw (env Start) req book f p = (g1, p1)" by fastforce
  obtain calls1 g3 where c: "compliance_gate fw (env Metadata_Reads) b req = (calls1, g3)" by fastforce
  obtain calls2 tb where t: "trusted_sink_orderbook fw (env Book_Read) b req = (calls2, tb)" by fastforce
  have ro: "list_all read_only calls1" "list_all read_only calls2"
    using compliance_calls [of fw "env Metadata_Reads" b req] trusted_calls [of fw "env Book_Read" b req]
    by (simp_all add: c t)
  note rc = refusal_not_contacted
  show ?thesis
  proof (cases tb)
    case (Inl g)
    with assms ro show ?thesis
      by (auto simp: submit_def Let_def e c t refused_def dest: rc split: if_split_asm)
  next
    case (Inr trusted)
    obtain fin q where f: "reserve_final fw (env Final) req trusted f (other Book_Read (other Metadata_Reads p1)) = (fin, q)"
      by fastforce
    obtain rr p5 where s: "settle_answer fw (env Answered) req (br_create b (build_order req)) (other Final q) = (rr, p5)"
      by fastforce
    show ?thesis
    proof (cases fin)
      case (Some x)
      with assms ro f show ?thesis
        by (auto simp: submit_def Let_def e c t Inr refused_def dest: rc reserve_final_Some split: if_split_asm)
    next
      case None
      with assms ro f s show ?thesis
        by (auto simp: submit_def Let_def e c t Inr refused_def dest: rc split: if_split_asm)
    qed
  qed
qed

lemma submit_sent:
  assumes "submit fw env other b req book f p = (r, calls, p')" and "CreateOrder ord \<in> set calls"
  obtains trusted q rr where
    "snd (compliance_gate fw (env Metadata_Reads) b req) = Pass"
    "snd (trusted_sink_orderbook fw (env Book_Read) b req) = Inr trusted"
    "reserve_final fw (env Final) req trusted f
       (other Book_Read (other Metadata_Reads (snd (evaluate fw (env Start) req book f p)))) = (None, q)"
    "settle_answer fw (env Answered) req (br_create b (build_order req)) (other Final q) = (rr, p')" "r = Some rr"
    "calls = fst (compliance_gate fw (env Metadata_Reads) b req) @
       fst (trusted_sink_orderbook fw (env Book_Read) b req) @ [CreateOrder (build_order req)]"
  using submit_ends [OF assms(1)] read_only_no_order [of calls ord] assms(2) by blast


section \<open>When an order leaves the process\<close>

text \<open>C1: An order leaves the process only after every gate has passed once more. In the stretch
  without an await before the call, the whole evaluation passes again on the book the broker
  itself returned, the durable authority and the autonomy risk binding hold, the compliance gate
  has passed on fetched metadata; exactly one order is sent, it is the last call, it is the order
  of the request, and every earlier call only reads.\<close>

theorem order_needs_every_gate:
  assumes "submit fw env other b req book f p = (r, calls, p')" and "CreateOrder ord \<in> set calls"
  shows "\<exists>reads trusted blocker q q'. calls = reads @ [CreateOrder ord] \<and> list_all read_only reads \<and>
    ord = build_order req \<and>
    snd (compliance_gate fw (env Metadata_Reads) b req) = Pass \<and>
    snd (trusted_sink_orderbook fw (env Book_Read) b req) = Inr trusted \<and>
    evaluate fw (env Final) req trusted f q = (Pass, q') \<and>
    autonomy_risk_gate fw (env Final) True req = Pass \<and>
    live_execution_authority_status fw (env Final) = Some (OPERATOR_ONE_PROOF_LIVE_READY, blocker)"
proof -
  let ?q = "other Book_Read (other Metadata_Reads (snd (evaluate fw (env Start) req book f p)))"
  let ?reads = "fst (compliance_gate fw (env Metadata_Reads) b req) @ fst (trusted_sink_orderbook fw (env Book_Read) b req)"
  from assms obtain trusted q where c: "snd (compliance_gate fw (env Metadata_Reads) b req) = Pass"
    and t: "snd (trusted_sink_orderbook fw (env Book_Read) b req) = Inr trusted"
    and rf: "reserve_final fw (env Final) req trusted f ?q = (None, q)"
    and calls: "calls = ?reads @ [CreateOrder (build_order req)]"
    by (rule submit_sent) simp
  from rf obtain q' where e: "evaluate fw (env Final) req trusted f ?q = (Pass, q')"
    and m: "mandatory_submit_gate fw (env Final) req = Pass"
    by (rule reserve_final_None)
  from m obtain blocker where a: "autonomy_risk_gate fw (env Final) True req = Pass"
    and l: "live_execution_authority_status fw (env Final) = Some (OPERATOR_ONE_PROOF_LIVE_READY, blocker)"
    by (auto simp: mandatory_submit_gate_def first_gate_Pass live_authority_gate_def split: option.splits if_splits)
  have ro: "list_all read_only ?reads" using compliance_calls trusted_calls by simp
  then have "ord = build_order req" using assms(2) calls read_only_no_order [OF ro] by auto
  with c t e a l calls ro show ?thesis by blast
qed

text \<open>The caller is told the truth about contact. A result says the broker was contacted exactly
  when an order was sent, and a submission that ends in an exception before transport has sent
  none.\<close>

theorem contact_is_reported:
  "(case fst (submit fw env other b req book f p) of None \<Rightarrow> False | Some res \<Rightarrow> lr_broker_contacted res) =
   (\<exists>ord. CreateOrder ord \<in> set (fst (snd (submit fw env other b req book f p))))"
proof -
  obtain r calls p' where s: "submit fw env other b req book f p = (r, calls, p')" using prod_cases3 by blast
  from submit_ends [OF s] show ?thesis
  proof
    assume "list_all read_only calls \<and> (\<forall>res. r = Some res \<longrightarrow> \<not> lr_broker_contacted res)"
    then show ?thesis using read_only_no_order [of calls] by (simp add: s split: option.splits)
  next
    assume "\<exists>trusted q rr. evaluate fw (env Start) req book f p = (Pass, snd (evaluate fw (env Start) req book f p)) \<and>
       snd (compliance_gate fw (env Metadata_Reads) b req) = Pass \<and>
       snd (trusted_sink_orderbook fw (env Book_Read) b req) = Inr trusted \<and>
       reserve_final fw (env Final) req trusted f
         (other Book_Read (other Metadata_Reads (snd (evaluate fw (env Start) req book f p)))) = (None, q) \<and>
       settle_answer fw (env Answered) req (br_create b (build_order req)) (other Final q) = (rr, p') \<and> r = Some rr \<and>
       calls = fst (compliance_gate fw (env Metadata_Reads) b req) @
         fst (trusted_sink_orderbook fw (env Book_Read) b req) @ [CreateOrder (build_order req)]"
    then obtain q rr reads where settled: "settle_answer fw (env Answered) req (br_create b (build_order req)) (other Final q) = (rr, p')"
      and r: "r = Some rr" and calls: "calls = reads @ [CreateOrder (build_order req)]" by fastforce
    have "lr_broker_contacted rr"
      using settle_answer_contacted [of fw "env Answered" req "br_create b (build_order req)" "other Final q"] settled by simp
    then show ?thesis using calls by (auto simp: s r)
  qed
qed

section \<open>Caps and reservations\<close>

lemma confirm_keeps_market [frame]:
  "market_exposure_cents m (snd (confirm_open_order c clk i x t)) = market_exposure_cents m t"
  "market_exposure_cents m (snd (mark_order_outcome_unknown c clk i t)) = market_exposure_cents m t"
  using find_order_Some [of i "et_open_orders t"]
  by (auto simp: confirm_open_order_def mark_order_outcome_unknown_def market_exposure_cents_def sum_list_update_at
      sum_list_map_filter' set_extra_def reservation_value_def split: option.splits)

lemma settle_answer_totals [frame]:
  "total_exposure_cents (ps_book (snd (settle_answer fw env req reply p))) = total_exposure_cents (ps_book p)"
  "market_exposure_cents m (ps_book (snd (settle_answer fw env req reply p))) = market_exposure_cents m (ps_book p)"
  by (rule settle_answer_book [of fw env req reply p]; auto simp: confirm_keeps_totals unknown_keeps_totals confirm_keeps_market)+


text \<open>Every market has one family, and the family of a market is the prefix its exposure is read by.\<close>

lemma upper_char_dash [simp]: "upper_char x = CHR ''-'' \<longleftrightarrow> x = CHR ''-''"
proof
  assume a: "upper_char x = CHR ''-''"
  show "x = CHR ''-''"
  proof (cases "97 \<le> (of_char x :: nat) \<and> (of_char x :: nat) \<le> 122")
    case True
    then have "(of_char (upper_char x) :: nat) = (of_char x - 32) mod 256" by (simp add: upper_char_def Let_def)
    moreover have "((of_char x - 32) mod 256 :: nat) = of_char x - 32" using True by (intro mod_less) linarith
    ultimately have "(of_char (upper_char x) :: nat) = of_char x - 32" by simp
    moreover have "(of_char (upper_char x) :: nat) = 45" by (simp add: a)
    ultimately show ?thesis using True by linarith
  next
    case False
    with a show ?thesis by (auto simp: upper_char_def Let_def split: if_splits)
  qed
qed (simp add: upper_char_def)

lemma family_prefix: "family m = upper (split_head CHR ''-'' m)"
  by (simp add: family_def split_head_def upper_def takeWhile_map comp_def)

lemma correlated_family: "family m = family t \<Longrightarrow> correlated_exposure_cents m b = correlated_exposure_cents t b"
  by (simp add: correlated_exposure_cents_def Let_def family_prefix)

definition within_caps :: "cap_config \<Rightarrow> exposure_tracker \<Rightarrow> bool" where
  "within_caps caps b \<longleftrightarrow> total_exposure_cents b \<le> cc_max_total_live_exposure_cents caps \<and>
     (\<forall>m. market_exposure_cents m b \<le> cc_max_market_exposure_cents caps \<and>
          correlated_exposure_cents m b \<le> cc_max_correlated_exposure_cents caps)"

lemma within_caps_same_holdings:
  assumes "et_positions b = et_positions b'" and "et_open_orders b = et_open_orders b'"
  shows "within_caps caps b = within_caps caps b'"
  using assms by (simp add: within_caps_def total_exposure_cents_def market_exposure_cents_def correlated_exposure_cents_def)

lemma correlated_relabel [frame]:
  "correlated_exposure_cents m (snd (confirm_open_order c clk i x t)) = correlated_exposure_cents m t"
  "correlated_exposure_cents m (snd (mark_order_outcome_unknown c clk i t)) = correlated_exposure_cents m t"
  using find_order_Some [of i "et_open_orders t"]
  by (auto simp: confirm_open_order_def mark_order_outcome_unknown_def correlated_exposure_cents_def Let_def
      sum_list_update_at sum_list_map_filter' set_extra_def reservation_value_def split: option.splits)

lemma within_caps_settle [keeps]:
  "within_caps caps (ps_book (snd (settle_answer fw env req reply p))) = within_caps caps (ps_book p)"
  by (rule settle_answer_book [of fw env req reply p];
      auto simp: within_caps_def confirm_keeps_totals unknown_keeps_totals confirm_keeps_market correlated_relabel)

lemma evaluate_holdings [frame]:
  "et_positions (ps_book (snd (evaluate fw env req book f p))) = et_positions (ps_book p)"
  "et_open_orders (ps_book (snd (evaluate fw env req book f p))) = et_open_orders (ps_book p)"
  "et_history (ps_book (snd (evaluate fw env req book f p))) = et_history (ps_book p)"
  using evaluate_book [of fw env req book f p] by (auto simp: verify_exposure_def)

lemma within_caps_evaluate [keeps]:
  "within_caps caps (ps_book (snd (evaluate fw env req book f p))) = within_caps caps (ps_book p)"
  by (rule within_caps_same_holdings) (simp_all add: frame)

text \<open>A reservation leaves the holdings alone or appends one order to them.\<close>

lemma reserve_holdings:
  fixes c clk i m n p contract side t
  defines "t' \<equiv> snd (reserve_order_submission c clk i m n p contract side t)"
  shows "et_positions t' = et_positions t \<and>
    (et_open_orders t' = et_open_orders t \<and> et_history t' = et_history t \<or>
     et_open_orders t' = et_open_orders t @ [new_order i (Some (JStr i)) m n p contract side ''submitting''
        [(''reserved_at'', JStr (iso_now clk))]] \<and>
     et_history t' = et_history t @ [\<lparr>h_ts = now_us clk, h_rest = [(''market'', JStr m), (''size'', JInt n),
        (''price_cents'', JInt p), (''client_order_id'', JStr i)]\<rparr>])"
proof -
  let ?t1 = "t\<lparr>et_history := et_history t @
           [\<lparr>h_ts = now_us clk,
             h_rest = [(''market'', JStr m), (''size'', JInt n), (''price_cents'', JInt p), (''client_order_id'', JStr i)]\<rparr>],
         et_open_orders := et_open_orders t @
           [new_order i (Some (JStr i)) m n p contract side ''submitting'' [(''reserved_at'', JStr (iso_now clk))]]\<rparr>"
  have "t' = snd (persist_exposure c clk ?t1) \<or> (\<exists>e. t' = t\<lparr>et_error := e\<rparr>) \<or> t' = t"
    unfolding t'_def reserve_order_submission_def by (auto split: if_split)
  then show ?thesis by (elim disjE exE) simp_all
qed

lemma within_caps_append_order:
  assumes "within_caps caps b" and "et_positions b' = et_positions b"
    and "et_open_orders b' = et_open_orders b @ [new_order i (Some (JStr i)) m n p contract side st x]"
    and "total_exposure_cents b + p * n \<le> cc_max_total_live_exposure_cents caps"
    and "market_exposure_cents m b + p * n \<le> cc_max_market_exposure_cents caps"
    and "correlated_exposure_cents m b + p * n \<le> cc_max_correlated_exposure_cents caps"
  shows "within_caps caps b'"
proof -
  have v: "reservation_value (new_order i (Some (JStr i)) m n p contract side st x) = p * n"
    by (simp add: reservation_value_def new_order_def mult.commute)
  have "total_exposure_cents b' = total_exposure_cents b + p * n"
    by (simp add: total_exposure_cents_def assms(2,3) v)
  moreover have "market_exposure_cents t b' = market_exposure_cents t b + (if t = m then p * n else 0)" for t
    by (simp add: market_exposure_cents_def assms(2,3) v) (simp add: new_order_def v)
  moreover have c: "correlated_exposure_cents t b' = correlated_exposure_cents t b + (if family m = family t then p * n else 0)" for t
    by (simp add: correlated_exposure_cents_def Let_def assms(2,3) v family_prefix) (simp add: new_order_def v)
  moreover have "correlated_exposure_cents t b' \<le> cc_max_correlated_exposure_cents caps" for t
  proof (cases "family m = family t")
    case True
    then show ?thesis using assms(6) c [of t] correlated_family [OF True, of b] by simp
  next
    case False
    then show ?thesis using assms(1) c [of t] by (simp add: within_caps_def)
  qed
  ultimately show ?thesis using assms(1,4,5) by (auto simp: within_caps_def)
qed


lemma evaluate_exposure_gates:
  assumes "evaluate fw env req book f p = (Pass, p')" and "fe_caps env = Some caps"
  shows "rq_price_cents req * rq_size req \<le> cc_max_single_order_cents caps \<and>
    total_exposure_cents (ps_book p') + rq_price_cents req * rq_size req \<le> cc_max_total_live_exposure_cents caps \<and>
    market_exposure_cents (rq_market_ticker req) (ps_book p') + rq_price_cents req * rq_size req \<le> cc_max_market_exposure_cents caps \<and>
    correlated_exposure_cents (rq_market_ticker req) (ps_book p') + rq_price_cents req * rq_size req
      \<le> cc_max_correlated_exposure_cents caps \<and>
    int (orders_last_hour (fe_clock env) (ps_book p')) < cc_max_orders_per_hour caps \<and>
    int (open_order_count (ps_book p')) < cc_max_orders_per_hour caps \<and>
    int (open_markets (ps_book p')) < cc_max_open_markets caps \<and>
    ds_daily_loss_cents (ps_state p') < cc_max_daily_loss_cents caps"
proof -
  from assms(1) obtain caps' p1 where "fe_caps env = Some caps'"
    and x: "\<forall>g \<in> set (exposure_gates req caps' (ps_book p1)). g = Pass"
    and y: "\<forall>g \<in> set (activity_gates fw env req f caps' (ds_daily_loss_cents (ps_state p')) (ps_book p1)). g = Pass"
    and p': "p' = p1\<lparr>ps_state := rollover_if_needed (plain_part fw) (fe_clock env) (ps_state p1)\<rparr>"
    by (rule evaluate_Pass)
  then have "caps' = caps" "ps_book p' = ps_book p1" using assms(2) by simp_all
  with x y show ?thesis by (simp add: exposure_gates_def activity_gates_def Let_def)
qed

text \<open>The stretch between the last await and the order keeps the caps, whatever it decides.\<close>

lemma within_caps_reserve_final:
  assumes "fe_caps env = Some caps" and "within_caps caps (ps_book p)"
  shows "within_caps caps (ps_book (snd (reserve_final fw env req book f p)))"
proof -
  obtain g p1 where e: "evaluate fw env req book f p = (g, p1)" by fastforce
  have p1: "within_caps caps (ps_book p1)" using within_caps_evaluate [of caps fw env req book f p] assms(2) e by simp
  show ?thesis
  proof (cases "g = Pass \<and> mandatory_submit_gate fw env req = Pass")
    case False
    with p1 show ?thesis by (auto simp: reserve_final_def e)
  next
    case True
    let ?r = "reserve_order_submission (fw_codec fw) (fe_clock env) (rq_proposal_id req) (rq_market_ticker req)
       (rq_size req) (rq_price_cents req) (Some (rq_contract_ticker req)) (Some (rq_side req)) (ps_book p1)"
    have q: "ps_book (snd (reserve_final fw env req book f p)) = snd ?r"
      using True by (simp add: reserve_final_def e Let_def split: prod.split)
    have "evaluate fw env req book f p = (Pass, p1)" using e True by simp
    note gates = evaluate_exposure_gates [OF this assms(1)]
    show ?thesis
      using reserve_holdings [of "fw_codec fw" "fe_clock env" "rq_proposal_id req" "rq_market_ticker req" "rq_size req"
          "rq_price_cents req" "Some (rq_contract_ticker req)" "Some (rq_side req)" "ps_book p1"]
    proof (elim conjE disjE)
      assume "et_positions (snd ?r) = et_positions (ps_book p1)" and "et_open_orders (snd ?r) = et_open_orders (ps_book p1)"
      then show ?thesis using p1 within_caps_same_holdings [of "snd ?r" "ps_book p1" caps] by (simp add: q)
    next
      assume a: "et_positions (snd ?r) = et_positions (ps_book p1)"
        and b: "et_open_orders (snd ?r) = et_open_orders (ps_book p1) @ [new_order (rq_proposal_id req)
          (Some (JStr (rq_proposal_id req))) (rq_market_ticker req) (rq_size req) (rq_price_cents req)
          (Some (rq_contract_ticker req)) (Some (rq_side req)) ''submitting'' [(''reserved_at'', JStr (iso_now (fe_clock env)))]]"
      show ?thesis unfolding q by (rule within_caps_append_order [OF p1 a b]) (use gates in auto)
    qed
  qed
qed

text \<open>A predicate kept by every stretch between two awaits, and by what others do at an await, is
  kept by the submission.\<close>

lemma submit_keeps:
  assumes "submit fw env other b req book f p = (r, calls, p')"
    and "I p" and "\<And>m q. I q \<Longrightarrow> I (other m q)"
    and "\<And>e bk q. I q \<Longrightarrow> I (snd (evaluate fw e req bk f q))"
    and "\<And>bk q. I q \<Longrightarrow> I (snd (reserve_final fw (env Final) req bk f q))"
    and "\<And>reply q. I q \<Longrightarrow> I (snd (settle_answer fw (env Answered) req reply q))"
  shows "I p'"
proof -
  obtain g1 p1 where e: "evaluate fw (env Start) req book f p = (g1, p1)" by fastforce
  obtain calls1 g3 where c: "compliance_gate fw (env Metadata_Reads) b req = (calls1, g3)" by fastforce
  obtain calls2 tb where t: "trusted_sink_orderbook fw (env Book_Read) b req = (calls2, tb)" by fastforce
  have i1: "I p1" using assms(4) [OF assms(2), of "env Start" book] e by simp
  have i2: "I (other Metadata_Reads p1)" "I (other Book_Read (other Metadata_Reads p1))" using i1 assms(3) by simp_all
  show ?thesis
  proof (cases tb)
    case (Inl g)
    with assms(1,2) i1 i2 show ?thesis by (auto simp: submit_def Let_def e c t split: if_split_asm)
  next
    case (Inr trusted)
    obtain fin q where rf: "reserve_final fw (env Final) req trusted f (other Book_Read (other Metadata_Reads p1)) = (fin, q)"
      by fastforce
    have i3: "I q" using assms(5) [OF i2(2), of trusted] rf by simp
    obtain rr p5 where s: "settle_answer fw (env Answered) req (br_create b (build_order req)) (other Final q) = (rr, p5)"
      by fastforce
    have i4: "I p5" using assms(6) [OF assms(3) [OF i3, of Final], of "br_create b (build_order req)"] s by simp
    show ?thesis
      using assms(1,2) i1 i2 i3 i4 rf s
      by (cases fin) (auto simp: submit_def Let_def e c t Inr split: if_split_asm)
  qed
qed

text \<open>C2: No interleaving breaks the caps. If the other coroutines of the process keep the book within
  the caps at every await, a submission keeps it there too: the total, every market and every
  correlated family stay within their caps, through reservation, an ambiguous answer and an
  acceptance, because check and reservation share the stretch without an await.\<close>

theorem caps_survive_interleaving:
  assumes "submit fw env other b req book f p = (r, calls, p')"
    and "fe_caps (env Final) = Some caps" and "within_caps caps (ps_book p)"
    and "\<And>m q. within_caps caps (ps_book q) \<Longrightarrow> within_caps caps (ps_book (other m q))"
  shows "within_caps caps (ps_book p')"
  using submit_keeps [where I = "\<lambda>q. within_caps caps (ps_book q)", OF assms(1,3,4)]
    within_caps_reserve_final [OF assms(2)]
  by (simp add: within_caps_evaluate within_caps_settle)




section \<open>Proposals, stop controls and outcomes\<close>








lemma refresh_reads_controls:
  assumes "refresh_persisted_state c clk s = (True, s')" and "ds_persist_enabled s"
    and "file_controls c (ds_file s) = Some (k, e)"
  shows "ds_kill_switch s' = k \<and> ds_emergency_stop s' = e"
proof -
  have "load_risk_state c clk True s = (True, s')" using assms(1,2) by (simp add: refresh_persisted_state_def)
  then show ?thesis by (cases rule: load_risk_state_cases) (use assms(3) in simp_all)
qed

text \<open>C5: A late stop is honoured. If, when the broker's order book has arrived, the durable file says
  that the kill switch or the emergency stop is on, no order is sent, even though the first
  evaluation and the compliance gate had passed.\<close>

theorem late_stop_prevents_order:
  assumes "submit fw env other b req book f p = (r, calls, p')"
    and "\<And>q. ds_persist_enabled (ps_state (other Book_Read q)) \<and>
      file_controls (plain_part fw) (ds_file (ps_state (other Book_Read q))) = Some (k, e)"
    and "ks_active k \<or> es_active e"
  shows "CreateOrder ord \<notin> set calls"
proof
  assume "CreateOrder ord \<in> set calls"
  with assms(1) obtain trusted q where rf: "reserve_final fw (env Final) req trusted f
       (other Book_Read (other Metadata_Reads (snd (evaluate fw (env Start) req book f p)))) = (None, q)" (is "reserve_final _ _ _ _ _ ?q = _")
    by (rule submit_sent)
  from rf obtain q' where "evaluate fw (env Final) req trusted f ?q = (Pass, q')" by (rule reserve_final_None)
  then obtain p1 where "preflight fw (env Final) req ?q = (Pass, p1)" by (rule evaluate_Pass)
  then obtain s1 where "refresh_persisted_state (plain_part fw) (fe_clock (env Final)) (ps_state ?q) = (True, s1)"
    and "\<not> ks_active (ds_kill_switch s1)" "\<not> es_active (ds_emergency_stop s1)"
    by (rule preflight_Pass)
  with refresh_reads_controls assms(2,3) show False by blast
qed






text \<open>C8: A clear submission goes out. If the target is not quarantined, both evaluations pass, the
  durable authority holds, the client can be used, the metadata and the broker's book are
  accepted and the reservation is stored, then the order is sent; and when the broker names an
  order id and the confirmation is stored, the caller gets a success with that id.\<close>

theorem clear_submission_succeeds:
  assumes "\<not> is_prediction_quarantined_target (plain_part fw) (rq_market_ticker req) JNull NoVertical JNull"
    and "\<not> is_prediction_quarantined_target (plain_part fw) (rq_contract_ticker req) JNull NoVertical JNull"
    and "evaluate fw (env Start) req book f p = (Pass, p1)" and "mandatory_submit_gate fw (env Start) req = Pass"
    and "rq_side req \<in> {''yes'', ''no''}" and "fw_has_client fw" and "fw_can_create fw"
    and "compliance_gate fw (env Metadata_Reads) b req = (reads, Pass)"
    and "trusted_sink_orderbook fw (env Book_Read) b req = (reads2, Inr trusted)"
    and "evaluate fw (env Final) req trusted f (other Book_Read (other Metadata_Reads p1)) = (Pass, p2)"
    and "mandatory_submit_gate fw (env Final) req = Pass"
    and "reserve_order_submission (fw_codec fw) (fe_clock (env Final)) (rq_proposal_id req) (rq_market_ticker req) (rq_size req)
       (rq_price_cents req) (Some (rq_contract_ticker req)) (Some (rq_side req)) (ps_book p2) = (True, b1)"
    and "br_create b (build_order req) = Inr v" and "answered_order_id v = Inr (JStr broker_id)" and "broker_id \<noteq> []"
    and "confirm_open_order (fw_codec fw) (fe_clock (env Answered)) (rq_proposal_id req) broker_id
       (ps_book (other Final (p2\<lparr>ps_book := b1\<rparr>))) = (True, b2)"
  shows "submit fw env other b req book f p =
    (Some (contacted req (Some broker_id) None), reads @ reads2 @ [CreateOrder (build_order req)],
     (other Final (p2\<lparr>ps_book := b1\<rparr>))\<lparr>ps_book := b2\<rparr>)"
proof -
  have rf: "reserve_final fw (env Final) req trusted f (other Book_Read (other Metadata_Reads p1)) = (None, p2\<lparr>ps_book := b1\<rparr>)"
    using assms(10-12) by (simp add: reserve_final_def)
  have st: "settle_answer fw (env Answered) req (br_create b (build_order req)) (other Final (p2\<lparr>ps_book := b1\<rparr>)) =
      (contacted req (Some broker_id) None, (other Final (p2\<lparr>ps_book := b1\<rparr>))\<lparr>ps_book := b2\<rparr>)"
    using assms(13-16) by (simp add: settle_answer_def)
  show ?thesis using assms(1-9) by (simp add: submit_def rf st)
qed


section \<open>What an allowed request is\<close>

lemma net_ev_gate_Pass:
  assumes "net_ev_gate today req f caps = Pass"
  obtains point lo up gross net fee where
    "fc_dummy_probability f = DFin point" "fc_uncertainty_band f = (DFin lo, DFin up)"
    "fc_expected_edge f = DFin gross" "fc_edge_after_fees f = DFin net"
    "0 \<le> lo" "lo \<le> point" "point \<le> up" "up \<le> 1" "0 < gross" "0 < net"
    "request_fee_cents today req = Some fee" "0 < net_ev_cents req point lo up fee"
    "d28 (of_int (cc_min_edge_bps caps) / 100) \<le> net_ev_cents req point lo up fee"
    "d28 (net * 100) \<le> d28 (net_ev_cents req point lo up fee + 1 / 100)"
proof -
  obtain point lo up gross net where d: "fc_dummy_probability f = DFin point" "fc_uncertainty_band f = (DFin lo, DFin up)"
    "fc_expected_edge f = DFin gross" "fc_edge_after_fees f = DFin net"
    using assms by (auto simp: net_ev_gate_def split: decimal.splits prod.splits)
  show thesis
  proof (cases "request_fee_cents today req")
    case None
    with assms d show thesis by (simp add: net_ev_gate_def split: if_splits)
  next
    case (Some fee)
    with assms d that show thesis
      by (simp add: net_ev_gate_def Let_def first_gate_Pass split: if_splits)
  qed
qed

lemma book_gates_Pass:
  assumes "\<forall>g \<in> set (book_gates req book caps). g = Pass" and "side_book_ladders (rq_side req) book = (bids, asks)"
  shows "bids \<noteq> [] \<and> asks \<noteq> [] \<and> fst (hd bids) < fst (hd asks) \<and>
    fst (hd asks) - fst (hd bids) \<le> cc_max_spread_cents caps \<and>
    list_all (\<lambda>(p, n). 0 < n \<and> 1 \<le> p \<and> p \<le> 99) (ob_bids book @ ob_asks book) \<and>
    (if rq_liquidity_role req = ''maker''
     then fst (hd bids) \<le> rq_price_cents req \<and> rq_price_cents req < fst (hd asks)
     else fst (hd asks) \<le> rq_price_cents req \<and> rq_size req \<le> depth_at (rq_price_cents req) asks)"
proof -
  have "\<not> list_ex (\<lambda>(p, n). n \<le> 0 \<or> \<not> (1 \<le> p \<and> p \<le> 99)) (ob_bids book @ ob_asks book)"
    using assms by (simp add: book_gates_def Let_def)
  moreover have "list_all (\<lambda>(p, n). 0 < n \<and> 1 \<le> p \<and> p \<le> 99) xs \<longleftrightarrow>
      \<not> list_ex (\<lambda>(p, n). n \<le> 0 \<or> \<not> (1 \<le> p \<and> p \<le> (99 :: int))) (xs :: (int \<times> int) list)" for xs
    by (induction xs) auto
  ultimately have "list_all (\<lambda>(p, n). 0 < n \<and> 1 \<le> p \<and> p \<le> 99) (ob_bids book @ ob_asks book)" by blast
  then show ?thesis using assms by (auto simp: book_gates_def Let_def split: if_splits)
qed

text \<open>C6: What an allowed request is. When the firewall allows a request on an order book and a
  forecast, the persisted stop controls were read and are off, the order is a limit order for
  yes or no at 1 to 99 cents for at least one contract on an allow-listed market of this very
  book and forecast, every given clock of the book is at most thirty seconds old, the price is
  executable against the depth for a taker and rests inside the spread for a maker, and the
  value recomputed from the conservative side of the forecast band, after the venue's fee, is
  positive and at least the configured edge.\<close>

theorem allowed_request_is_sound:
  assumes "evaluate fw env req book f p = (Pass, p')" and "side_book_ladders (rq_side req) book = (bids, asks)"
  shows "\<exists>caps s point lo up fee. fe_caps env = Some caps \<and>
    refresh_persisted_state (plain_part fw) (fe_clock env) (ps_state p) = (True, s) \<and>
    \<not> ks_active (ds_kill_switch s) \<and> \<not> es_active (ds_emergency_stop s) \<and>
    rq_side req \<in> {''yes'', ''no''} \<and> 1 \<le> rq_price_cents req \<and> rq_price_cents req \<le> 99 \<and> 1 \<le> rq_size req \<and>
    market_is_allowlisted (rq_market_ticker req) caps \<and>
    ob_market_ticker book = rq_market_ticker req \<and> fc_market_ticker f = rq_market_ticker req \<and>
    list_all (\<lambda>t. \<not> stale_stamp (now_us (fe_clock env)) t) (freshness_clocks book) \<and>
    fst (hd bids) < fst (hd asks) \<and>
    (if rq_liquidity_role req = ''maker''
     then fst (hd bids) \<le> rq_price_cents req \<and> rq_price_cents req < fst (hd asks)
     else fst (hd asks) \<le> rq_price_cents req \<and> rq_size req \<le> depth_at (rq_price_cents req) asks) \<and>
    fc_dummy_probability f = DFin point \<and> fc_uncertainty_band f = (DFin lo, DFin up) \<and>
    request_fee_cents (fe_today env) req = Some fee \<and> 0 < net_ev_cents req point lo up fee \<and>
    d28 (of_int (cc_min_edge_bps caps) / 100) \<le> net_ev_cents req point lo up fee"
proof -
  from assms(1) obtain caps p1 where caps: "fe_caps env = Some caps" and pre: "preflight fw env req p = (Pass, p1)"
    and g: "\<forall>g \<in> set (request_gates fw env req book f caps p1). g = Pass"
    by (rule evaluate_Pass)
  from g have n: "net_ev_gate (fe_today env) req f caps = Pass" and bg: "\<forall>g \<in> set (book_gates req book caps). g = Pass"
    and rest: "rq_side req \<in> {''yes'', ''no''} \<and> 1 \<le> rq_price_cents req \<and> rq_price_cents req \<le> 99 \<and> 1 \<le> rq_size req \<and>
      market_is_allowlisted (rq_market_ticker req) caps \<and>
      ob_market_ticker book = rq_market_ticker req \<and> fc_market_ticker f = rq_market_ticker req \<and>
      list_all (\<lambda>t. \<not> stale_stamp (now_us (fe_clock env)) t) (freshness_clocks book)"
    by (auto simp: request_gates_def list_all_iff list_ex_iff)
  from pre obtain s where "refresh_persisted_state (plain_part fw) (fe_clock env) (ps_state p) = (True, s)"
    "\<not> ks_active (ds_kill_switch s)" "\<not> es_active (ds_emergency_stop s)"
    by (rule preflight_Pass)
  moreover from n obtain point lo up fee where "fc_dummy_probability f = DFin point"
    "fc_uncertainty_band f = (DFin lo, DFin up)" "request_fee_cents (fe_today env) req = Some fee"
    "0 < net_ev_cents req point lo up fee" "d28 (of_int (cc_min_edge_bps caps) / 100) \<le> net_ev_cents req point lo up fee"
    by (rule net_ev_gate_Pass)
  ultimately show ?thesis using caps rest book_gates_Pass [OF bg assms(2)] by blast
qed

text \<open>A rehearsal never orders. It makes only read calls, and when it says it would submit, its
  evaluation, the compliance gate and the durable authority passed and the order it shows is the
  one a submission would send.\<close>

theorem rehearsal_never_orders:
  assumes "submit_rehearsal fw env other b req book f p = (r, calls, p')"
  shows "list_all read_only calls \<and>
    (\<forall>x. r = Some x \<longrightarrow> rh_would_submit x \<longrightarrow> rh_order x = Some (build_order req) \<and>
       fst (evaluate fw (env Start) req book f p) = Pass \<and>
       snd (compliance_gate fw (env Metadata_Reads) b req) = Pass \<and>
       live_authority_gate fw (env Book_Read) = Pass)"
proof -
  obtain g1 p1 where e: "evaluate fw (env Start) req book f p = (g1, p1)" by fastforce
  obtain calls1 g2 where c: "compliance_gate fw (env Metadata_Reads) b req = (calls1, g2)" by fastforce
  have "list_all read_only calls1" using compliance_calls [of fw "env Metadata_Reads" b req] by (simp add: c)
  then show ?thesis using assms by (auto simp: submit_rehearsal_def Let_def e c split: if_splits)
qed

text \<open>A series grant covers exactly its series. A market is allow-listed through a series exactly
  when its ticker is the series name alone or the series name followed by a dash, so no longer
  series name that begins the same way is covered.\<close>

theorem series_grant_is_exact:
  assumes "CHR ''-'' \<notin> set series" and "series \<noteq> []" and "cc_allowed_markets caps = []" and "cc_allowed_series caps = [series]"
  shows "market_is_allowlisted ticker caps \<longleftrightarrow> ticker = series \<or> (\<exists>rest. ticker = series @ CHR ''-'' # rest)"
  using assms split_head_eq_iff [OF assms(1), of ticker] by (auto simp: market_is_allowlisted_def)

end
