(* ===== verification/SubmissionRuns.thy ===== *)
theory SubmissionRuns
  imports Submission
begin

text \<open>
  One submission run through on concrete values: a two-contract maker order on a crypto market,
  with every file, clock and answer it meets. The properties of \<open>Submission\<close> are applied to it.
\<close>

section \<open>The process and its surroundings\<close>

definition run_codec :: book_codec where
  "run_codec = codec.extend label_codec
     \<lparr>validate_position = plain_validate_position, dump_position = plain_dump_position\<rparr>"

lemma run_codec_plain [simp]: "codec.truncate run_codec = label_codec"
  by (simp add: run_codec_def label_codec_def plain_codec_def codec.defs)

definition run_firewall :: firewall where
  "run_firewall = \<lparr>fw_codec = run_codec, fw_dec = sample_dec, fw_taxonomy = sample_taxonomy, fw_sha256 = sample_sha,
     fw_dump = (\<lambda>_. ''order o1''), fw_validate = (\<lambda>_. None), fw_require_risk_state = True, fw_has_client = True,
     fw_can_create = True, fw_can_read_book = True\<rparr>"

definition run_caps :: cap_config where
  "run_caps = \<lparr>cc_max_single_order_cents = 500, cc_max_market_exposure_cents = 1000, cc_max_correlated_exposure_cents = 1500,
     cc_max_daily_loss_cents = 1000, cc_max_total_live_exposure_cents = 3000, cc_max_open_markets = 5,
     cc_max_orders_per_hour = 10, cc_allowed_markets = [], cc_allowed_series = [''KXSOL15M''],
     cc_blocked_categories = [''Elections'', ''Politics''], cc_max_spread_cents = 10, cc_min_liquidity = 1, cc_min_edge_bps = 100\<rparr>"

definition run_environ :: environ where
  "run_environ = [(''KALSHI_API_KEY_ID'', ''key''), (''KALSHI_PRIVATE_KEY'', ''pem''), (''DUMMY_LIVE_PROOF_MODE'', ''1''),
     (''DUMMY_LIVE_PROOF_ACK'', LIVE_PROOF_ENV_ACK)]"

definition run_risk :: "(string \<times> json) list" where
  "run_risk = [(''accounting_version'', JInt 2), (''saved_at'', JStr ''RECENT''), (''stage'', JInt 1),
     (''bankroll_cents'', JInt 5000), (''open_exposure_cents'', JInt 0), (''open_markets'', JInt 0)]"

definition run_descriptor :: "(string \<times> json) list" where
  "run_descriptor = [(''broker'', JStr ''KALSHI''), (''adapter_type'', JStr ''LiveBrokerFirewall''),
     (''order_type_policy'', JStr ''LIMIT_ONLY''), (''market_orders_allowed'', JBool False)]"

definition run_env :: firewall_env where
  "run_env = \<lparr>fe_clock = noon, fe_today = 0, fe_caps = Some run_caps, fe_environ = run_environ, fe_path_exists = (\<lambda>_. False),
     fe_private_key = Some True, fe_adapters = Some [''kalshi_live_firewall_adapter''],
     fe_autonomy_risk = \<lparr>hf_sha256 = Some ''CD34'', hf_json = Holds (JObj run_risk)\<rparr>,
     fe_live_submit = Holds (JObj armed_config), fe_cwd_caps = sealed_caps, fe_root_caps = sealed_caps,
     fe_registration = sample_registration, fe_descriptor = Holds (JObj run_descriptor),
     fe_seal_report = Holds (JObj [(''execute_once_command_seal_controller_status'', JStr SEAL_READY)]),
     fe_proof_registry = Absent, fe_v298 = Absent, fe_model_files = sample_files\<rparr>"

definition run_orderbook :: order_book where
  "run_orderbook = \<lparr>ob_market_ticker = ''KXSOL15M-26'', ob_contract_ticker = ''KXSOL15M-26'', ob_bids = [(38, 10)],
     ob_asks = [(40, 5)], ob_timestamp = Aware 43199000000, ob_received_at = Some (Aware 43199000000), ob_source_ts = None\<rparr>"

definition run_broker :: broker where
  "run_broker = sample_broker\<lparr>br_orderbook := \<lambda>t d. Some (Some run_orderbook)\<rparr>"

definition run_state :: dummy_state where
  "run_state = \<lparr>ds_mode = AUTONOMOUS_LIVE_CAPPED, ds_kill_switch = inactive_kill_switch,
     ds_emergency_stop = inactive_emergency_stop, ds_kalshi_connected = True, ds_balance_cents = 5000,
     ds_persist_enabled = False, ds_daily_loss_cents = 0, ds_daily_loss_date = utc_date noon, ds_settlements = {},
     ds_window_start = 0, ds_persistence_error = None, ds_file = Absent, ds_writes = []\<rparr>"

definition run_book :: exposure_tracker where
  "run_book = \<lparr>et_persist_enabled = True, et_positions = [], et_history = [], et_open_orders = [], et_error = None,
     et_file = Absent, et_writes = []\<rparr>"

definition run_checked :: exposure_tracker where
  "run_checked = snd (verify_exposure run_codec noon run_book)"

lemma run_checked_fields: "et_positions run_checked = []" "et_open_orders run_checked = []" "et_history run_checked = []"
  "et_error run_checked = None" "et_persist_enabled run_checked" "et_writes run_checked = []"
  by (simp_all add: run_checked_def verify_exposure_def persist_exposure_def run_book_def)

text \<open>A second preflight writes the same file.\<close>

lemma run_checked_again: "verify_exposure run_codec noon run_checked = (True, run_checked)"
  by (simp add: run_checked_def verify_exposure_def persist_exposure_def run_book_def exposure_payload_def)

definition run_process :: process where
  "run_process = \<lparr>ps_state = run_state, ps_book = run_checked, ps_rejected_adapters = []\<rparr>"

abbreviation undisturbed :: "moment \<Rightarrow> process \<Rightarrow> process" where
  "undisturbed \<equiv> \<lambda>_ q. q"

abbreviation run_moments :: "moment \<Rightarrow> firewall_env" where
  "run_moments \<equiv> \<lambda>_. run_env"

section \<open>The gates pass\<close>

lemma run_authority: "live_execution_authority_status run_firewall run_env = Some (OPERATOR_ONE_PROOF_LIVE_READY, [])"
proof -
  have 1: "command_seal_ready run_firewall run_env = Some True"
    by (simp add: command_seal_ready_def test_object_def run_env_def)
  have "ca_authority_registration_valid (evaluate_caps_authority label_codec 43200000000 sealed_caps sample_registration)"
    using sealed_caps_ok sample_registration_ok by (simp add: evaluate_caps_authority_def Let_def)
  then have 2: "caps_strict run_firewall run_env = Some True"
    by (simp add: caps_strict_def test_object_def run_env_def run_firewall_def noon_def) (simp add: sealed_caps_def)
  have 3: "descriptor_staged run_env = Some True"
    by (simp add: descriptor_staged_def test_object_def run_env_def run_descriptor_def)
  have 4: "proof_lock_clear label_codec (fe_proof_registry run_env) (fe_v298 run_env) = Some True"
    by (simp add: run_env_def) code_simp
  have 5: "credential_resolver_ready run_env" unfolding run_env_def run_environ_def by code_simp
  have 6: "firewall_live_submit_config (fe_live_submit run_env) = armed_config"
    by (simp add: firewall_live_submit_config_def run_env_def)
  have 7: "vr_ok (validate_default_disabled armed_config) = False" by code_simp
  have 8: "map_of (fe_environ run_env) ''DUMMY_LIVE_PROOF_MODE'' = Some ''1''"
    "map_of (fe_environ run_env) ''DUMMY_LIVE_PROOF_ACK'' = Some LIVE_PROOF_ENV_ACK"
    by (simp_all add: run_env_def run_environ_def)
  have 9: "plain_part run_firewall = label_codec" "now_us (fe_clock run_env) = 43200000000"
    "fe_root_caps run_env = sealed_caps" "fe_registration run_env = sample_registration"
    by (simp_all add: run_firewall_def run_env_def noon_def)
  show ?thesis
    unfolding live_execution_authority_status_def 9 1 2 3 4 6
    by (simp add: classify_live_execution_mode_def validate_no_context armed_config_ok armed_config_bound 5 7 8 caps_status_or_def)
qed

lemma run_risk_binding: "autonomy_risk_gate run_firewall run_env required attested_request = Pass"
proof -
  have g: "risk_data_gate label_codec 43200000000 attested_request (Some ''CD34'') run_risk = Pass" by code_simp
  show ?thesis
    by (simp add: autonomy_risk_gate_def run_env_def load_object_def run_firewall_def noon_def g)
qed

lemma run_mandatory: "mandatory_submit_gate run_firewall run_env attested_request = Pass"
  by (simp add: mandatory_submit_gate_def live_authority_gate_def run_risk_binding run_authority first_gate_Pass)

lemma run_preflight: "preflight run_firewall run_env attested_request run_process = (Pass, run_process)"
proof -
  have t: "\<not> is_data_only_target label_codec (rq_market_ticker attested_request) JNull NoVertical"
    "\<not> is_equity_index_target label_codec (rq_market_ticker attested_request) JNull JNull"
    "\<not> is_equity_index_target label_codec (rq_contract_ticker attested_request) JNull JNull"
    by code_simp+
  have r: "refresh_persisted_state c clk run_state = (True, run_state)" "verify_persistence c clk run_state = (True, run_state)" for c clk
    by (simp_all add: refresh_persisted_state_def verify_persistence_def run_state_def persist_risk_state_def)
  have s: "ds_mode run_state = AUTONOMOUS_LIVE_CAPPED" "\<not> ks_active (ds_kill_switch run_state)"
    "\<not> es_active (ds_emergency_stop run_state)" "ds_persistence_error run_state = None"
    by (simp_all add: run_state_def inactive_kill_switch_def inactive_emergency_stop_def)
  have p: "ps_state run_process = run_state" "ps_book run_process = run_checked"
    "run_process\<lparr>ps_state := run_state\<rparr> = run_process" "run_process\<lparr>ps_book := run_checked\<rparr> = run_process" by (simp_all add: run_process_def)
  have e: "plain_part run_firewall = label_codec" "fw_codec run_firewall = run_codec" "fe_clock run_env = noon"
    by (simp_all add: run_firewall_def run_env_def)
  show ?thesis
    by (simp add: preflight_def e p t r s state_healthy_def first_gate_Pass run_checked_fields run_checked_again)
qed

lemma run_net_ev: "net_ev_gate 0 attested_request sample_forecast run_caps = Pass"
  by code_simp


lemma run_request_gates: "\<forall>g \<in> set (request_gates run_firewall run_env attested_request run_orderbook sample_forecast run_caps
    run_process). g = Pass"
proof -
  have b: "\<forall>g \<in> set (book_gates attested_request run_orderbook run_caps). g = Pass" by code_simp
  have c: "is_clean_risk (scan_text_for_risk ''order o1'')" by code_simp
  have m: "market_is_allowlisted (rq_market_ticker attested_request) run_caps" by code_simp
  have n: "\<not> list_ex (stale_stamp 43200000000) (freshness_clocks run_orderbook)" by code_simp
  have q: "rq_market_ticker attested_request = ''KXSOL15M-26''" "rq_contract_ticker attested_request = ''KXSOL15M-26''"
    "rq_side attested_request = ''yes''" "rq_price_cents attested_request = 39" "rq_size attested_request = 2"
    "rq_expiration_ts attested_request = Some 43259" "rq_adapter_name attested_request = ''kalshi_live_firewall_adapter''"
    "rq_forecast_proof_reference attested_request = ''autonomy_forecast:d1''" "rq_strategy_proof_reference attested_request = ''autonomy_strategy_v2:d1''"
    by (simp_all add: attested_request_def sample_request_def)
  have o: "ob_market_ticker run_orderbook = ''KXSOL15M-26''" "ob_contract_ticker run_orderbook = ''KXSOL15M-26''"
    "fc_market_ticker sample_forecast = ''KXSOL15M-26''" "fc_contract_ticker sample_forecast = ''KXSOL15M-26''"
    "fc_proof_reference sample_forecast = ''autonomy_forecast:d1''"
    by (simp_all add: run_orderbook_def sample_forecast_def)
  have k: "env_set run_env ''KALSHI_API_KEY_ID''" by (simp add: env_set_def run_env_def run_environ_def)
  have e: "fe_adapters run_env = Some [''kalshi_live_firewall_adapter'']" "fe_today run_env = 0" "now_us (fe_clock run_env) = 43200000000"
    "fw_dump run_firewall attested_request = ''order o1''" "ps_rejected_adapters run_process = []"
    by (simp_all add: run_env_def noon_def run_firewall_def run_process_def)
  show ?thesis
    unfolding request_gates_def set_append ball_Un
    using b m by (simp add: c n o k e run_net_ev run_risk_binding or_raise_def q)
qed

lemma run_influence: "influence_gate run_firewall run_env attested_request sample_forecast = Pass"
proof -
  have e: "plain_part run_firewall = label_codec" "fw_dec run_firewall = sample_dec" "fw_taxonomy run_firewall = sample_taxonomy"
    "fw_sha256 run_firewall = sample_sha" "fe_model_files run_env = sample_files" "now_us (fe_clock run_env) = 43200000000"
    by (simp_all add: run_firewall_def run_env_def noon_def)
  show ?thesis unfolding influence_gate_def e sample_verified by simp
qed

lemma run_evaluate: "evaluate run_firewall run_env attested_request run_orderbook sample_forecast run_process =
    (Pass, run_process)"
proof -
  have q: "rq_market_ticker attested_request = ''KXSOL15M-26''" "rq_price_cents attested_request = 39" "rq_size attested_request = 2"
    by (simp_all add: attested_request_def sample_request_def)
  have x: "\<forall>g \<in> set (exposure_gates attested_request run_caps run_checked). g = Pass"
    by (simp add: exposure_gates_def Let_def q total_exposure_cents_def market_exposure_cents_def correlated_exposure_cents_def
        run_checked_fields run_caps_def)
  have y: "\<forall>g \<in> set (activity_gates run_firewall run_env attested_request sample_forecast run_caps 0 run_checked). g = Pass"
    by (simp add: activity_gates_def run_influence open_markets_def orders_last_hour_def open_order_count_def
        run_checked_fields run_caps_def) (simp add: sample_forecast_def)
  have r: "daily_loss_cents label_codec noon run_state = (0, run_state)"
    by (simp add: daily_loss_cents_def run_state_def noon_def)
  have e: "fe_caps run_env = Some run_caps" "plain_part run_firewall = label_codec" "fe_clock run_env = noon"
    by (simp_all add: run_env_def run_firewall_def)
  have s: "ps_state run_process = run_state" "ps_book run_process = run_checked"
    "run_process\<lparr>ps_state := run_state\<rparr> = run_process"
    by (simp_all add: run_process_def)
  have g: "first_gate (request_gates run_firewall run_env attested_request run_orderbook sample_forecast run_caps
      run_process @ exposure_gates attested_request run_caps run_checked) = Pass"
    using run_request_gates x by (auto simp: first_gate_Pass)
  have a: "first_gate (activity_gates run_firewall run_env attested_request sample_forecast run_caps 0 run_checked) = Pass"
    using y by (simp add: first_gate_Pass)
  show ?thesis
    unfolding evaluate_def e option.case run_preflight using g a by (simp add: s r)
qed


lemma run_compliance: "\<exists>reads. compliance_gate run_firewall run_env run_broker attested_request = (reads, Pass)"
proof -
  let ?m = "JObj [(''market'', JObj [(''ticker'', JStr ''KXSOL15M-26''), (''event_ticker'', JStr ''KXSOL15M''),
       (''status'', JStr ''active''), (''close_time'', JStr ''FUTURE'')])]"
  let ?d = "[(''ticker'', JStr ''KXSOL15M-26''), (''event_ticker'', JStr ''KXSOL15M''),
       (''status'', JStr ''active''), (''close_time'', JStr ''FUTURE'')]"
  let ?meta = "sample_metadata\<lparr>mm_received_at := 43200000000\<rparr>"
  have q: "rq_market_ticker attested_request = ''KXSOL15M-26''" "rq_contract_ticker attested_request = ''KXSOL15M-26''"
    by (simp_all add: attested_request_def sample_request_def)
  have e: "plain_part run_firewall = label_codec" "now_us (fe_clock run_env) = 43200000000" "fw_has_client run_firewall"
    "br_market run_broker ''KXSOL15M-26'' = Some ?m" "fe_caps run_env = Some run_caps" "fw_validate run_firewall = (\<lambda>_. None)"
    by (simp_all add: run_firewall_def run_env_def noon_def run_broker_def sample_broker_def)
  have v: "market_envelope ?m = Some ?d" by (simp add: market_envelope_def)
  have m: "market_gate label_codec 43200000000 attested_request ?d = Pass" by code_simp
  have f: "\<exists>reads. fetch_verified_metadata 43200000000 run_broker ''KXSOL15M-26'' (Some ?m) = (reads, Inr ?meta)"
    by (rule exI [of _ "[GetEvent ''KXSOL15M'', GetSeries ''KXSOL15M'']"]) code_simp
  have z: "\<not> quarantined_by_venue label_codec attested_request ?meta" by code_simp
  have a: "cv_passed (assess_compliance label_codec (\<lambda>_. None) (cc_blocked_categories run_caps) ''KXSOL15M-26'' ''KXSOL15M-26''
      (Metadata ?meta) True)" by code_simp
  from f obtain reads where f: "fetch_verified_metadata 43200000000 run_broker ''KXSOL15M-26'' (Some ?m) = (reads, Inr ?meta)" by blast
  show ?thesis
    unfolding compliance_gate_def Let_def e q using m z a by (simp add: e q v f del: market_envelope_def)
qed

lemma run_trusted: "trusted_sink_orderbook run_firewall run_env run_broker attested_request =
    ([GetOrderbook ''KXSOL15M-26'' 100], Inr run_orderbook)"
proof -
  have q: "rq_market_ticker attested_request = ''KXSOL15M-26''" "rq_contract_ticker attested_request = ''KXSOL15M-26''"
    by (simp_all add: attested_request_def sample_request_def)
  have e: "fw_has_client run_firewall" "fw_can_read_book run_firewall" "br_orderbook run_broker t d = Some (Some run_orderbook)" for t d
    by (simp_all add: run_firewall_def run_broker_def)
  have o: "ob_market_ticker run_orderbook = ''KXSOL15M-26''" "ob_contract_ticker run_orderbook = ''KXSOL15M-26''"
    "ob_received_at run_orderbook \<noteq> None"
    by (simp_all add: run_orderbook_def)
  show ?thesis by (simp add: trusted_sink_orderbook_def q e o)
qed

definition run_reserved :: exposure_tracker where
  "run_reserved = snd (reserve_order_submission run_codec noon ''o1'' ''KXSOL15M-26'' 2 39 (Some ''KXSOL15M-26'') (Some ''yes'') run_checked)"

lemma run_reserve:
  "reserve_order_submission run_codec noon ''o1'' ''KXSOL15M-26'' 2 39 (Some ''KXSOL15M-26'') (Some ''yes'') run_checked = (True, run_reserved)"
  by (simp add: run_reserved_def reserve_order_submission_def persist_exposure_def run_checked_fields)

lemma run_reserved_fields: "et_error run_reserved = None" "et_persist_enabled run_reserved" "et_writes run_reserved = []"
  "find_order ''o1'' (et_open_orders run_reserved) = Some 0"
  by (simp_all add: run_reserved_def reserve_order_submission_def persist_exposure_def run_checked_fields new_order_def matches_order_def)

definition run_confirmed :: exposure_tracker where
  "run_confirmed = snd (confirm_open_order run_codec noon ''o1'' ''X1'' run_reserved)"

lemma run_confirm: "confirm_open_order run_codec noon ''o1'' ''X1'' run_reserved = (True, run_confirmed)"
  by (simp add: run_confirmed_def confirm_open_order_def run_reserved_fields persist_exposure_def)


section \<open>The submission\<close>

definition run_settled :: process where
  "run_settled = run_process\<lparr>ps_book := run_confirmed\<rparr>"

lemma run_request_fields: "rq_market_ticker attested_request = ''KXSOL15M-26''" "rq_contract_ticker attested_request = ''KXSOL15M-26''"
  "rq_side attested_request = ''yes''" "rq_price_cents attested_request = 39" "rq_size attested_request = 2"
  "rq_proposal_id attested_request = ''o1''"
  by (simp_all add: attested_request_def sample_request_def)

lemma run_firewall_fields: "fw_codec run_firewall = run_codec" "fw_has_client run_firewall" "fw_can_create run_firewall"
  "fe_clock run_env = noon" "fe_caps run_env = Some run_caps"
  by (simp_all add: run_firewall_def run_env_def)

lemma run_not_quarantined: "\<not> is_prediction_quarantined_target label_codec ''KXSOL15M-26'' JNull NoVertical JNull"
  by code_simp

lemma run_create: "br_create run_broker ord = Inr (JObj [(''order'', JObj [(''order_id'', JStr ''X1'')])])"
  by (simp add: run_broker_def sample_broker_def)

text \<open>The order the request stands for.\<close>

definition run_order :: json where
  "run_order = JObj [(''ticker'', JStr ''KXSOL15M-26''), (''side'', JStr ''yes''), (''action'', JStr ''buy''),
     (''type'', JStr ''limit''), (''count'', JInt 2), (''client_order_id'', JStr ''o1''), (''yes_price'', JInt 39), (''expiration_ts'', JInt 43259)]"

lemma run_build: "build_order attested_request = run_order"
  by (simp add: build_order_def run_order_def attested_request_def sample_request_def)

lemma run_reserve_final: "reserve_final run_firewall run_env attested_request run_orderbook sample_forecast run_process =
    (None, run_process\<lparr>ps_book := run_reserved\<rparr>)"
proof -
  have p: "ps_book run_process = run_checked" by (simp add: run_process_def)
  show ?thesis
    by (simp add: reserve_final_def run_evaluate run_mandatory run_firewall_fields run_request_fields p run_reserve)
qed

text \<open>Nothing else runs: whatever the broker answers, the order is sent and its answer settled.\<close>

lemma run_submit_any:
  fixes reply :: "json \<Rightarrow> string + json"
  defines "b \<equiv> run_broker\<lparr>br_create := reply\<rparr>"
  shows "\<exists>reads. submit run_firewall run_moments undisturbed b attested_request run_orderbook sample_forecast run_process =
    (let (r, q) = settle_answer run_firewall run_env attested_request (reply run_order) (run_process\<lparr>ps_book := run_reserved\<rparr>)
     in (Some r, reads @ [CreateOrder run_order], q))"
proof -
  have same: "br_market b = br_market run_broker" "br_event b = br_event run_broker" "br_series b = br_series run_broker"
    "br_orderbook b = br_orderbook run_broker" by (simp_all add: b_def)
  have reading: "compliance_gate fw env b req = compliance_gate fw env run_broker req" for fw env req
    unfolding compliance_gate_def fetch_verified_metadata_def same ..
  have book: "trusted_sink_orderbook fw env b req = trusted_sink_orderbook fw env run_broker req" for fw env req
    unfolding trusted_sink_orderbook_def same ..
  obtain reads where c: "compliance_gate run_firewall run_env run_broker attested_request = (reads, Pass)"
    using run_compliance by blast
  have pl: "plain_part run_firewall = label_codec" by (simp add: run_firewall_def)
  have cr: "br_create b ord = reply ord" for ord by (simp add: b_def)
  show ?thesis
    by (rule exI [of _ "reads @ [GetOrderbook ''KXSOL15M-26'' 100]"])
      (simp add: submit_def pl run_not_quarantined run_request_fields run_evaluate run_mandatory run_firewall_fields
        reading book c cr run_trusted run_reserve_final run_build)
qed

lemma run_submit:
  "\<exists>reads. submit run_firewall run_moments undisturbed run_broker attested_request run_orderbook sample_forecast run_process =
    (Some (contacted attested_request (Some ''X1'') None), reads @ [CreateOrder run_order], run_settled)"
proof -
  have st: "settle_answer run_firewall run_env attested_request (br_create run_broker run_order)
      (run_process\<lparr>ps_book := run_reserved\<rparr>) = (contacted attested_request (Some ''X1'') None, run_settled)"
    by (simp add: settle_answer_def run_create answered_order_id_def por_def run_firewall_fields run_request_fields run_confirm run_settled_def)
  show ?thesis using run_submit_any [of "br_create run_broker"] by (simp add: st)
qed

section \<open>The properties on this run\<close>

lemma order_needs_every_gate_witness:
  "\<exists>trusted q q'. snd (trusted_sink_orderbook run_firewall run_env run_broker attested_request) = Inr trusted \<and>
     evaluate run_firewall run_env attested_request trusted sample_forecast q = (Pass, q')"
proof -
  from run_submit obtain reads where
    s: "submit run_firewall run_moments undisturbed run_broker attested_request run_orderbook sample_forecast run_process =
      (Some (contacted attested_request (Some ''X1'') None), reads @ [CreateOrder run_order], run_settled)" by blast
  show ?thesis using order_needs_every_gate [OF s, of run_order] by auto
qed


lemma run_within_caps: "within_caps run_caps run_checked"
  by (simp add: within_caps_def total_exposure_cents_def market_exposure_cents_def correlated_exposure_cents_def
      run_checked_fields run_caps_def)

lemma caps_survive_interleaving_witness: "within_caps run_caps run_confirmed"
proof -
  from run_submit obtain reads where
    s: "submit run_firewall run_moments undisturbed run_broker attested_request run_orderbook sample_forecast run_process =
      (Some (contacted attested_request (Some ''X1'') None), reads @ [CreateOrder run_order], run_settled)" by blast
  have w: "within_caps run_caps (ps_book run_process)" using run_within_caps by (simp add: run_process_def)
  show ?thesis
    using caps_survive_interleaving [OF s run_firewall_fields(5) w] by (simp add: run_settled_def)
qed



lemma rehearsal_never_orders_witness:
  "list_all read_only (fst (snd (submit_rehearsal run_firewall run_moments undisturbed run_broker attested_request run_orderbook
     sample_forecast run_process)))"
proof -
  obtain r calls p' where s: "submit_rehearsal run_firewall run_moments undisturbed run_broker attested_request run_orderbook
     sample_forecast run_process = (r, calls, p')" using prod_cases3 by blast
  show ?thesis using rehearsal_never_orders [OF s] by (simp add: s)
qed

lemma allowed_request_is_sound_witness:
  "\<exists>point lo up fee. fc_dummy_probability sample_forecast = DFin point \<and> 0 < net_ev_cents attested_request point lo up fee"
proof -
  have l: "side_book_ladders (rq_side attested_request) run_orderbook = ([(38, 10)], [(40, 5)])" by code_simp
  show ?thesis using allowed_request_is_sound [OF run_evaluate l] by blast
qed

lemma series_grant_is_exact_witness:
  "market_is_allowlisted ''KXSOL15M-26'' run_caps \<and> \<not> market_is_allowlisted ''KXSOL15MEGA-26'' run_caps"
proof -
  have c: "cc_allowed_markets run_caps = []" "cc_allowed_series run_caps = [''KXSOL15M'']" by (simp_all add: run_caps_def)
  show ?thesis
    using series_grant_is_exact [OF _ _ c, of "''KXSOL15M-26''"] series_grant_is_exact [OF _ _ c, of "''KXSOL15MEGA-26''"] by simp
qed

lemma clear_submission_succeeds_witness:
  "\<exists>reads. submit run_firewall run_moments undisturbed run_broker attested_request run_orderbook sample_forecast run_process =
    (Some (contacted attested_request (Some ''X1'') None), reads @ [CreateOrder run_order], run_process\<lparr>ps_book := run_confirmed\<rparr>)"
proof -
  obtain reads where c: "compliance_gate run_firewall run_env run_broker attested_request = (reads, Pass)"
    using run_compliance by blast
  have pl: "plain_part run_firewall = label_codec" by (simp add: run_firewall_def)
  have p: "ps_book run_process = run_checked" by (simp add: run_process_def)
  have a: "answered_order_id (JObj [(''order'', JObj [(''order_id'', JStr ''X1'')])]) = Inr (JStr ''X1'')"
    by (simp add: answered_order_id_def por_def)
  show ?thesis
    using clear_submission_succeeds [of run_firewall attested_request run_moments run_orderbook sample_forecast run_process run_process
        run_broker reads "[GetOrderbook ''KXSOL15M-26'' 100]" run_orderbook undisturbed run_process run_reserved
        "JObj [(''order'', JObj [(''order_id'', JStr ''X1'')])]" "''X1''" run_confirmed]
    by (simp add: pl run_request_fields run_not_quarantined run_evaluate run_mandatory run_firewall_fields c run_trusted p
        run_reserve run_create a run_confirm run_build)
qed


text \<open>Another coroutine has the kill switch written while the broker's book is read.\<close>

definition run_kill :: kill_switch_state where
  "run_kill = \<lparr>ks_active = True, ks_triggered_at = Some 5, ks_reason = Some ''operator''\<rparr>"

definition kill_file :: json_file where
  "kill_file = Holds (JObj [(''kill_switch'', dump_kill_switch label_codec run_kill),
     (''emergency_stop'', dump_emergency_stop label_codec inactive_emergency_stop)])"

definition killer :: "moment \<Rightarrow> process \<Rightarrow> process" where
  "killer m q = (if m = Book_Read
     then q\<lparr>ps_state := (ps_state q)\<lparr>ds_persist_enabled := True, ds_file := kill_file\<rparr>\<rparr> else q)"

lemma late_stop_prevents_order_witness:
  "CreateOrder run_order \<notin> set (fst (snd (submit run_firewall run_moments killer run_broker attested_request run_orderbook
     sample_forecast run_process)))"
proof -
  obtain r calls p' where s: "submit run_firewall run_moments killer run_broker attested_request run_orderbook
     sample_forecast run_process = (r, calls, p')" using prod_cases3 by blast
  have k: "file_controls label_codec kill_file = Some (run_kill, inactive_emergency_stop)" by code_simp
  have a: "\<And>q. ds_persist_enabled (ps_state (killer Book_Read q)) \<and>
      file_controls (plain_part run_firewall) (ds_file (ps_state (killer Book_Read q))) = Some (run_kill, inactive_emergency_stop)"
    by (simp add: killer_def run_firewall_def k)
  have b: "ks_active run_kill \<or> es_active inactive_emergency_stop" by (simp add: run_kill_def)
  show ?thesis unfolding s fst_conv snd_conv by (rule late_stop_prevents_order [OF s a b])
qed

end
