(* ===== verification/RiskBrain.thy ===== *)
theory RiskBrain
  imports Fees PyJson
begin

text \<open>
  The self-managed sizing of \<open>autonomy/risk_brain.py\<close>: Kelly fractions in floats, the drawdown
  ladder, the evidence-gated stages, the budget of one order, and the state file. The one
  operation on the state outside that file, the booking of a closed position, is from
  \<open>autonomy/brain.py\<close>.
\<close>

section \<open>Constants\<close>

datatype stage = SHADOW_ONLY | CANARY | RAMP | CRUISE

definition stage_int :: "stage \<Rightarrow> int" where
  "stage_int s = (case s of SHADOW_ONLY \<Rightarrow> 0 | CANARY \<Rightarrow> 1 | RAMP \<Rightarrow> 2 | CRUISE \<Rightarrow> 3)"

text \<open>\<open>Stage(n)\<close>; \<open>None\<close> is the ValueError.\<close>

definition stage_of_int :: "int \<Rightarrow> stage option" where
  "stage_of_int n = (if n = 0 then Some SHADOW_ONLY else if n = 1 then Some CANARY
     else if n = 2 then Some RAMP else if n = 3 then Some CRUISE else None)"

lemma stage_of_stage_int [simp]: "stage_of_int (stage_int s) = Some s"
  by (cases s) (simp_all add: stage_int_def stage_of_int_def)

text \<open>A float literal.\<close>

abbreviation lit64 :: "rat \<Rightarrow> pyfloat" where
  "lit64 \<equiv> to_float"

record stage_limits =
  sl_total_frac :: pyfloat
  sl_market_frac :: pyfloat
  sl_group_frac :: pyfloat
  sl_order_abs_cents :: int
  sl_max_open_markets :: int
  sl_max_per_group :: int
  sl_max_days_to_close :: int

definition STAGE_LIMITS :: "stage \<Rightarrow> stage_limits" where
  "STAGE_LIMITS s =
     (case s of
        SHADOW_ONLY \<Rightarrow> \<lparr>sl_total_frac = Fin 0, sl_market_frac = Fin 0, sl_group_frac = Fin 0, sl_order_abs_cents = 0,
          sl_max_open_markets = 0, sl_max_per_group = 0, sl_max_days_to_close = 7\<rparr>
      | CANARY \<Rightarrow> \<lparr>sl_total_frac = lit64 (2 / 100), sl_market_frac = lit64 (5 / 1000), sl_group_frac = lit64 (8 / 1000),
          sl_order_abs_cents = 100, sl_max_open_markets = 5, sl_max_per_group = 1, sl_max_days_to_close = 7\<rparr>
      | RAMP \<Rightarrow> \<lparr>sl_total_frac = lit64 (10 / 100), sl_market_frac = lit64 (2 / 100), sl_group_frac = lit64 (3 / 100),
          sl_order_abs_cents = 500, sl_max_open_markets = 12, sl_max_per_group = 2, sl_max_days_to_close = 30\<rparr>
      | CRUISE \<Rightarrow> \<lparr>sl_total_frac = lit64 (30 / 100), sl_market_frac = lit64 (5 / 100), sl_group_frac = lit64 (8 / 100),
          sl_order_abs_cents = 2500, sl_max_open_markets = 25, sl_max_per_group = 3, sl_max_days_to_close = 0\<rparr>)"

definition KELLY_FRACTION :: pyfloat where "KELLY_FRACTION = Fin (1 / 4)"

definition DRAWDOWN_LADDER :: "(pyfloat \<times> pyfloat) list" where
  "DRAWDOWN_LADDER = [(lit64 (1 / 10), Fin (1 / 2)), (lit64 (2 / 10), Fin (1 / 4)), (lit64 (3 / 10), Fin 0)]"

definition PROMOTION_MIN_SETTLED :: int where "PROMOTION_MIN_SETTLED = 20"

definition PROMOTION_MIN_EDGE_CENTS :: pyfloat where "PROMOTION_MIN_EDGE_CENTS = Fin 0"

text \<open>24 hours, in microseconds.\<close>

definition DEMOTION_COOLOFF :: int where "DEMOTION_COOLOFF = 86400000000"

definition ACCOUNTING_VERSION :: int where "ACCOUNTING_VERSION = 2"

section \<open>Kelly fractions\<close>

text \<open>The divisor is at least 1, so the division cannot raise.\<close>

definition kelly_fraction_yes :: "pyfloat \<Rightarrow> int \<Rightarrow> pyfloat" where
  "kelly_fraction_yes probability price_cents =
     (if \<not> (1 \<le> price_cents \<and> price_cents \<le> 99) then Fin 0
      else
        (let edge = fsub (fmul probability (Fin 100)) (float_of_int price_cents) in
         if fle edge (Fin 0) then Fin 0
         else (case fdiv edge (fsub (Fin 100) (float_of_int price_cents)) of
             None \<Rightarrow> Fin 0
           | Some f \<Rightarrow> fmax (Fin 0) (fmin (Fin 1) f))))"

definition uncertainty_adjusted_kelly :: "pyfloat \<Rightarrow> pyfloat \<Rightarrow> int \<Rightarrow> pyfloat \<Rightarrow> pyfloat" where
  "uncertainty_adjusted_kelly p sigma price_cents haircut =
     (if \<not> (fisfinite p \<and> fisfinite sigma \<and> fisfinite haircut) \<or> \<not> (fle (Fin 0) p \<and> fle p (Fin 1)) \<or>
         \<not> (fle (Fin 0) sigma \<and> fle sigma (Fin (1 / 2))) \<or> flt haircut (Fin 0)
      then Fin 0
      else kelly_fraction_yes (fmax (lit64 (5 / 1000)) (fsub p (fmul haircut sigma))) price_cents)"

section \<open>The state and its file\<close>

text \<open>\<open>last_demotion_at\<close> is whatever JSON value the file had.\<close>

record brain_state =
  bs_bankroll_cents :: int
  bs_equity_peak_cents :: int
  bs_stage :: stage
  bs_open_exposure_cents :: int
  bs_open_markets :: int
  bs_daily_pnl_cents :: int
  bs_settled_count_at_stage :: int
  bs_pnl_per_contract_cents :: pyfloat
  bs_last_demotion_at :: json
  bs_hard_stopped :: bool
  bs_stop_reason :: string

text \<open>
  \<open>float_text\<close> is \<open>float\<close> of a text (\<open>None\<close>: ValueError), \<open>load_exception\<close> the name of the type
  of the exception that reading the fields of an object raises.
\<close>

record brain_codec = codec +
  float_text :: "string \<Rightarrow> pyfloat option"
  load_exception :: "json \<Rightarrow> string"

fun float_of_json :: "(string \<Rightarrow> pyfloat option) \<Rightarrow> json \<Rightarrow> pyfloat option" where
  "float_of_json ft (JFloat x) = Some x"
| "float_of_json ft (JInt n) = (if fisfinite (float_of_int n) then Some (float_of_int n) else None)"
| "float_of_json ft (JBool b) = Some (Fin (if b then 1 else 0))"
| "float_of_json ft (JStr s) = ft s"
| "float_of_json ft _ = None"

definition fresh_state :: "int \<Rightarrow> brain_state" where
  "fresh_state bankroll =
     \<lparr>bs_bankroll_cents = bankroll, bs_equity_peak_cents = bankroll, bs_stage = CANARY, bs_open_exposure_cents = 0,
      bs_open_markets = 0, bs_daily_pnl_cents = 0, bs_settled_count_at_stage = 0, bs_pnl_per_contract_cents = Fin 0,
      bs_last_demotion_at = JNull, bs_hard_stopped = False, bs_stop_reason = []\<rparr>"

definition stopped_brain :: "int \<Rightarrow> string \<Rightarrow> brain_state" where
  "stopped_brain bankroll exn =
     (fresh_state bankroll)\<lparr>bs_equity_peak_cents := max 0 bankroll, bs_stage := SHADOW_ONLY, bs_hard_stopped := True,
       bs_stop_reason := ''risk state unavailable: '' @ exn\<rparr>"

text \<open>The fields of an object; \<open>None\<close>: one of the conversions raises. Under an older accounting
  version the counters are not read at all.\<close>

definition int_field :: "string \<Rightarrow> int \<Rightarrow> (string \<times> json) list \<Rightarrow> int option" where
  "int_field k dflt d = int_of_json (jget_default k (JInt dflt) d)"

definition state_of_object :: "brain_codec \<Rightarrow> int \<Rightarrow> (string \<times> json) list \<Rightarrow> brain_state option" where
  "state_of_object c bankroll d =
     (case (int_field ''accounting_version'' 1 d, int_field ''equity_peak_cents'' bankroll d, int_field ''stage'' (stage_int CANARY) d,
            int_field ''open_exposure_cents'' 0 d, int_field ''open_markets'' 0 d) of
        (Some version, Some peak, Some st, Some exposure, Some markets) \<Rightarrow>
          (let current = ACCOUNTING_VERSION \<le> version in
           case (stage_of_int st,
                 if current then int_field ''daily_pnl_cents'' 0 d else Some 0,
                 if current then int_field ''settled_count_at_stage'' 0 d else Some 0,
                 if current then float_of_json (float_text c) (jget_default ''realized_pnl_per_contract_cents'' (JFloat (Fin 0)) d)
                 else Some (Fin 0)) of
             (Some stg, Some pnl, Some settled, Some realized) \<Rightarrow>
               Some \<lparr>bs_bankroll_cents = bankroll, bs_equity_peak_cents = max peak bankroll, bs_stage = stg,
                 bs_open_exposure_cents = exposure, bs_open_markets = markets, bs_daily_pnl_cents = pnl,
                 bs_settled_count_at_stage = settled, bs_pnl_per_contract_cents = realized,
                 bs_last_demotion_at = jget ''last_demotion_at'' d,
                 bs_hard_stopped = truthy (jget_default ''hard_stopped'' (JBool False) d),
                 bs_stop_reason = str_of_json (repr_text c) (jget_default ''stop_reason'' (JStr []) d)\<rparr>
           | _ \<Rightarrow> None)
      | _ \<Rightarrow> None)"

text \<open>The state and the persistence error. \<open>Unreadable\<close> carries the exception's type name.\<close>

definition load_state :: "brain_codec \<Rightarrow> int \<Rightarrow> json_file \<Rightarrow> brain_state \<times> string option" where
  "load_state c bankroll f =
     (let unavailable = (\<lambda>exn. (stopped_brain bankroll exn, Some exn)) in
      case f of
        Absent \<Rightarrow> (fresh_state bankroll, None)
      | Unreadable exn \<Rightarrow> unavailable exn
      | Holds v \<Rightarrow>
          (case as_obj v of
             None \<Rightarrow> unavailable ''ValueError''
           | Some d \<Rightarrow>
               (case state_of_object c bankroll d of
                  None \<Rightarrow> unavailable (load_exception c v)
                | Some s \<Rightarrow> (s, None))))"

definition state_payload :: "clock \<Rightarrow> brain_state \<Rightarrow> json" where
  "state_payload clk s = JObj
     [(''bankroll_cents'', JInt (bs_bankroll_cents s)), (''equity_peak_cents'', JInt (bs_equity_peak_cents s)),
      (''stage'', JInt (stage_int (bs_stage s))), (''open_exposure_cents'', JInt (bs_open_exposure_cents s)),
      (''open_markets'', JInt (bs_open_markets s)), (''daily_pnl_cents'', JInt (bs_daily_pnl_cents s)),
      (''settled_count_at_stage'', JInt (bs_settled_count_at_stage s)),
      (''realized_pnl_per_contract_cents'', JFloat (bs_pnl_per_contract_cents s)),
      (''last_demotion_at'', bs_last_demotion_at s), (''hard_stopped'', JBool (bs_hard_stopped s)),
      (''stop_reason'', JStr (bs_stop_reason s)), (''accounting_version'', JInt ACCOUNTING_VERSION),
      (''saved_at'', JStr (iso_now clk))]"

text \<open>
  A save replaces the file as its last step, or raises \<open>RiskStatePersistenceError\<close> with the
  type name of the cause (the given \<open>failure\<close>) and leaves the file alone.
\<close>

definition save_state :: "clock \<Rightarrow> string option \<Rightarrow> brain_state \<Rightarrow> json_file \<Rightarrow> (string + unit) \<times> json_file" where
  "save_state clk failure s f =
     (case failure of
        None \<Rightarrow> (Inr (), Holds (state_payload clk s))
      | Some exn \<Rightarrow> (Inl (''risk state persistence failed: '' @ exn), f))"

section \<open>Drawdown and stages\<close>

definition drawdown_fraction :: "brain_state \<Rightarrow> pyfloat" where
  "drawdown_fraction s =
     (if bs_equity_peak_cents s \<le> 0 then Fin 0
      else fmax (Fin 0) (fsub (Fin 1) (int_truediv (bs_bankroll_cents s) (bs_equity_peak_cents s))))"

definition ladder_reached :: "pyfloat \<Rightarrow> pyfloat \<Rightarrow> bool" where
  "ladder_reached threshold dd = fle (fsub threshold (lit64 (1 / 1000000000))) dd"

definition sizing_multiplier :: "brain_state \<Rightarrow> pyfloat" where
  "sizing_multiplier s =
     fold (\<lambda>(threshold, mult) m. if ladder_reached threshold (drawdown_fraction s) then mult else m) DRAWDOWN_LADDER (Fin 1)"

text \<open>\<open>f"{x:.1%}"\<close> for a float that is not negative: times 100 in floats, then one decimal.\<close>

definition percent_text :: "pyfloat \<Rightarrow> string" where
  "percent_text x =
     (case fmul x (Fin 100) of
        Fin y \<Rightarrow> (let n = round_half_even (y * 10) in show_int (n div 10) @ ''.'' @ show_int (n mod 10) @ ''%'')
      | PosInf \<Rightarrow> ''inf%'' | NegInf \<Rightarrow> ''-inf%'' | NaN \<Rightarrow> ''nan%'')"

definition apply_drawdown_policy :: "clock \<Rightarrow> brain_state \<Rightarrow> brain_state" where
  "apply_drawdown_policy clk s =
     (let dd = drawdown_fraction s in
      if ladder_reached (fst (DRAWDOWN_LADDER ! 2)) dd
      then s\<lparr>bs_hard_stopped := True, bs_stop_reason := ''drawdown '' @ percent_text dd @ '' breached hard-stop ladder''\<rparr>
      else if ladder_reached (fst (DRAWDOWN_LADDER ! 1)) dd \<and> stage_int CANARY < stage_int (bs_stage s)
      then s\<lparr>bs_stage := (case stage_of_int (stage_int (bs_stage s) - 1) of Some st \<Rightarrow> st | None \<Rightarrow> bs_stage s),
             bs_settled_count_at_stage := 0, bs_last_demotion_at := JStr (iso_now clk)\<rparr>
      else s)"

text \<open>
  Whether a demotion is less than 24 hours old; a value that is no time with an offset counts
  as no demotion, since the exception is swallowed.
\<close>

definition cooling_off :: "codec \<Rightarrow> clock \<Rightarrow> json \<Rightarrow> bool" where
  "cooling_off c clk v \<longleftrightarrow>
     truthy v \<and> (case as_str v of
        None \<Rightarrow> False
      | Some t \<Rightarrow> (case from_iso c t of Some (Aware t0) \<Rightarrow> now_us clk - t0 < DEMOTION_COOLOFF | _ \<Rightarrow> False))"

definition maybe_promote :: "codec \<Rightarrow> clock \<Rightarrow> brain_state \<Rightarrow> brain_state" where
  "maybe_promote c clk s =
     (if stage_int CRUISE \<le> stage_int (bs_stage s) \<or> bs_hard_stopped s then s
      else if cooling_off c clk (bs_last_demotion_at s) then s
      else if PROMOTION_MIN_SETTLED \<le> bs_settled_count_at_stage s \<and>
              flt PROMOTION_MIN_EDGE_CENTS (bs_pnl_per_contract_cents s) \<and>
              flt (drawdown_fraction s) (fst (DRAWDOWN_LADDER ! 0))
      then s\<lparr>bs_stage := (case stage_of_int (stage_int (bs_stage s) + 1) of Some st \<Rightarrow> st | None \<Rightarrow> bs_stage s),
             bs_settled_count_at_stage := 0\<rparr>
      else s)"

text \<open>A closed position: \<open>brain.py\<close> after the settlement of \<open>filled\<close> contracts with result \<open>pnl\<close>.\<close>

definition book_closed_position :: "int \<Rightarrow> int \<Rightarrow> brain_state \<Rightarrow> brain_state" where
  "book_closed_position pnl filled s = s
     \<lparr>bs_daily_pnl_cents := bs_daily_pnl_cents s + pnl, bs_settled_count_at_stage := bs_settled_count_at_stage s + 1,
      bs_pnl_per_contract_cents :=
        fadd (fmul (lit64 (8 / 10)) (bs_pnl_per_contract_cents s)) (fmul (lit64 (2 / 10)) (int_truediv pnl (max 1 filled)))\<rparr>"

section \<open>The budget of one order\<close>

record order_budget_verdict =
  bd_allowed :: bool
  bd_max_notional_cents :: int
  bd_sizing_multiplier :: pyfloat
  bd_reason :: string
  bd_snapshot :: "(string \<times> json) list"

text \<open>\<open>round(x, n)\<close>.\<close>

definition py_round :: "nat \<Rightarrow> pyfloat \<Rightarrow> pyfloat" where
  "py_round n x = (case x of Fin r \<Rightarrow> to_float (of_int (round_half_even (r * 10 ^ n)) / 10 ^ n) | _ \<Rightarrow> x)"

definition budget_snapshot :: "brain_state \<Rightarrow> int \<Rightarrow> (string \<times> json) list" where
  "budget_snapshot s group_open_count =
     [(''stage'', JInt (stage_int (bs_stage s))), (''bankroll_cents'', JInt (bs_bankroll_cents s)),
      (''drawdown'', JFloat (py_round 4 (drawdown_fraction s))), (''open_exposure_cents'', JInt (bs_open_exposure_cents s)),
      (''open_markets'', JInt (bs_open_markets s)), (''group_open_count'', JInt group_open_count)]"

definition refused_budget :: "pyfloat \<Rightarrow> string \<Rightarrow> (string \<times> json) list \<Rightarrow> order_budget_verdict" where
  "refused_budget mult reason snapshot =
     \<lparr>bd_allowed = False, bd_max_notional_cents = 0, bd_sizing_multiplier = mult, bd_reason = reason, bd_snapshot = snapshot\<rparr>"

text \<open>\<open>int(bankroll * fraction * multiplier)\<close>; \<open>None\<close> is the error of \<open>int\<close> on an infinity or a NaN.\<close>

definition scaled_budget :: "int \<Rightarrow> pyfloat \<Rightarrow> pyfloat \<Rightarrow> int option" where
  "scaled_budget bankroll fraction mult = int_of_float (fmul (fmul (float_of_int bankroll) fraction) mult)"

text \<open>The notional that the remaining budgets leave, and the Kelly budget.\<close>

definition budget_notional :: "brain_state \<Rightarrow> int \<Rightarrow> pyfloat \<Rightarrow> int \<Rightarrow> (int \<times> int) option" where
  "budget_notional s market_exposure_cents kelly group_exposure_cents =
     (let limits = STAGE_LIMITS (bs_stage s); multiplier = sizing_multiplier s; bankroll = bs_bankroll_cents s in
      case (scaled_budget bankroll (sl_total_frac limits) multiplier,
            scaled_budget bankroll (sl_market_frac limits) multiplier,
            scaled_budget bankroll (sl_group_frac limits) multiplier,
            int_of_float (fmul (fmul (fmul (float_of_int bankroll) kelly) KELLY_FRACTION) multiplier)) of
        (Some total_budget, Some market_budget, Some group_budget, Some kelly_budget) \<Rightarrow>
          (let remaining_total = max 0 (total_budget - bs_open_exposure_cents s);
               remaining_market = max 0 (market_budget - market_exposure_cents);
               remaining_group = max 0 (group_budget - group_exposure_cents)
           in Some (min (sl_order_abs_cents limits)
                (min remaining_total (min remaining_market (min remaining_group kelly_budget))), kelly_budget))
      | _ \<Rightarrow> None)"

definition order_budget :: "brain_state \<Rightarrow> int \<Rightarrow> pyfloat \<Rightarrow> int \<Rightarrow> int \<Rightarrow> order_budget_verdict option" where
  "order_budget s market_exposure_cents kelly group_exposure_cents group_open_count =
     (let snapshot = budget_snapshot s group_open_count; limits = STAGE_LIMITS (bs_stage s);
          refuse = (\<lambda>reason. Some (refused_budget (Fin 0) reason snapshot))
      in if bs_hard_stopped s then refuse (''hard_stopped: '' @ bs_stop_reason s)
         else if 0 < market_exposure_cents then refuse ''existing open position in market''
         else if sl_order_abs_cents limits = 0 then refuse ''stage is shadow-only''
         else if sl_max_open_markets limits \<le> bs_open_markets s \<and> market_exposure_cents = 0
         then refuse ''max open markets for stage''
         else if sl_max_per_group limits \<le> group_open_count \<and> market_exposure_cents = 0
         then refuse ''max correlated positions per group for stage''
         else
           (case budget_notional s market_exposure_cents kelly group_exposure_cents of
              None \<Rightarrow> None
            | Some (notional, kelly_budget) \<Rightarrow>
                (let snapshot' = snapshot @
                       [(''kelly_full_fraction'', JFloat (py_round 8 (fmax (Fin 0) kelly))),
                        (''kelly_fractional_multiplier'', JFloat KELLY_FRACTION),
                        (''kelly_budget_cents'', JInt (max 0 kelly_budget))]
                 in Some (if notional < 1
                    then refused_budget (sizing_multiplier s) ''no budget after caps (total/market/group/kelly)'' snapshot'
                    else \<lparr>bd_allowed = True, bd_max_notional_cents = notional, bd_sizing_multiplier = sizing_multiplier s,
                           bd_reason = ''within self-set budgets'', bd_snapshot = snapshot'\<rparr>))))"

section \<open>Facts on the float steps\<close>

lemma multiplier_cases: "sizing_multiplier s \<in> {Fin 1, Fin (1 / 2), Fin (1 / 4), Fin 0}"
  by (simp add: sizing_multiplier_def DRAWDOWN_LADDER_def)

lemma multiplier_bounds: "\<exists>m. sizing_multiplier s = Fin m \<and> 0 \<le> m \<and> m \<le> 1"
  using multiplier_cases [of s] by (elim insertE emptyE) (rule exI, rule conjI, assumption, simp)+

lemma stage_fraction: "\<exists>x. sl_total_frac (STAGE_LIMITS st) = Fin x \<and> 0 \<le> x \<and> x \<le> 1 / 2"
proof -
  have "lit64 (2 / 100) = Fin (5764607523034235 / 288230376151711744)" "lit64 (10 / 100) = Fin (3602879701896397 / 36028797018963968)"
    "lit64 (30 / 100) = Fin (5404319552844595 / 18014398509481984)"
    by code_simp+
  then show ?thesis
    by (intro exI [of _ "case st of SHADOW_ONLY \<Rightarrow> 0 | CANARY \<Rightarrow> 5764607523034235 / 288230376151711744
        | RAMP \<Rightarrow> 3602879701896397 / 36028797018963968 | CRUISE \<Rightarrow> 5404319552844595 / 18014398509481984"])
      (cases st; simp add: STAGE_LIMITS_def)
qed

lemma float_of_int_exact: "0 \<le> n \<Longrightarrow> n < 2 ^ 53 \<Longrightarrow> float_of_int n = Fin (of_int n)"
  using r64_of_int [of n] by (simp add: float_of_int_def to_float_def float_limit_def)

text \<open>Truncation of a nonnegative float that is at most an integer.\<close>

lemma int_of_float_le: "fle a (Fin (of_int m)) \<Longrightarrow> fnonneg a \<Longrightarrow> int_of_float a = Some n \<Longrightarrow> n \<le> m \<and> 0 \<le> n"
  by (cases a) (auto simp: int_of_float_def trunc_rat_def floor_le_iff)

lemma to_float_le_int: "0 \<le> m \<Longrightarrow> m < 2 ^ 53 \<Longrightarrow> x \<le> of_int m \<Longrightarrow> fle (to_float x) (Fin (of_int m))"
  using to_float_mono_all [of x "of_int m"] float_of_int_exact [of m] by (simp add: float_of_int_def)

text \<open>Half of a bankroll, rounded up, bounds the budget of every stage.\<close>

lemma scaled_budget_half:
  assumes "scaled_budget b (Fin x) (Fin m) = Some n" and "0 \<le> b" and "b < 2 ^ 53"
    and "0 \<le> x" and "x \<le> 1 / 2" and "0 \<le> m" and "m \<le> 1"
  shows "0 \<le> n \<and> n \<le> (b + 1) div 2"
proof -
  let ?h = "(b + 1) div 2"
  have h: "0 \<le> ?h" "?h < 2 ^ 53" using assms(2,3) by linarith+
  have "of_int b * x \<le> of_int b * (1 / 2)" using assms(2,5) by (intro mult_left_mono) simp_all
  moreover have "(of_int b :: rat) / 2 \<le> of_int ?h"
  proof -
    have "b \<le> 2 * ?h" by linarith
    then have "(of_int b :: rat) \<le> of_int (2 * ?h)" by (rule of_int_le_iff [THEN iffD2])
    then show ?thesis by simp
  qed
  ultimately have "of_int b * x \<le> of_int ?h" by simp
  then have a: "fle (to_float (of_int b * x)) (Fin (of_int ?h))" by (rule to_float_le_int [OF h])
  have nn: "fnonneg (to_float (of_int b * x))" by (rule fnonneg_to_float) (use assms(2,4) in simp)
  from a nn obtain y where y: "to_float (of_int b * x) = Fin y" "0 \<le> y" "y \<le> of_int ?h"
    by (cases "to_float (of_int b * x)") auto
  have "y * m \<le> y * 1" using y(2) assms(7) by (intro mult_left_mono) simp_all
  then have "fle (to_float (y * m)) (Fin (of_int ?h))" by (intro to_float_le_int h) (use y(3) in simp)
  moreover have "fnonneg (to_float (y * m))" by (rule fnonneg_to_float) (use y(2) assms(6) in simp)
  moreover have "int_of_float (to_float (y * m)) = Some n"
    using assms(1) by (simp add: scaled_budget_def float_of_int_exact [OF assms(2,3)] y(1))
  ultimately show ?thesis using int_of_float_le by blast
qed


section \<open>Properties\<close>

lemma budget_notional_Some:
  assumes "budget_notional s me kelly ge = Some (n, kb)" and "1 \<le> n"
  obtains total where
    "scaled_budget (bs_bankroll_cents s) (sl_total_frac (STAGE_LIMITS (bs_stage s))) (sizing_multiplier s) = Some total"
    "n \<le> sl_order_abs_cents (STAGE_LIMITS (bs_stage s))" "bs_open_exposure_cents s + n \<le> total"
proof -
  let ?l = "STAGE_LIMITS (bs_stage s)"
  obtain total where t: "scaled_budget (bs_bankroll_cents s) (sl_total_frac ?l) (sizing_multiplier s) = Some total"
    using assms(1) by (cases "scaled_budget (bs_bankroll_cents s) (sl_total_frac ?l) (sizing_multiplier s)")
      (simp_all add: budget_notional_def Let_def)
  obtain market where m: "scaled_budget (bs_bankroll_cents s) (sl_market_frac ?l) (sizing_multiplier s) = Some market"
    using assms(1) by (cases "scaled_budget (bs_bankroll_cents s) (sl_market_frac ?l) (sizing_multiplier s)")
      (simp_all add: budget_notional_def Let_def t)
  obtain grp where g: "scaled_budget (bs_bankroll_cents s) (sl_group_frac ?l) (sizing_multiplier s) = Some grp"
    using assms(1) by (cases "scaled_budget (bs_bankroll_cents s) (sl_group_frac ?l) (sizing_multiplier s)")
      (simp_all add: budget_notional_def Let_def t m)
  obtain k where k: "int_of_float (fmul (fmul (fmul (float_of_int (bs_bankroll_cents s)) kelly) KELLY_FRACTION) (sizing_multiplier s)) = Some k"
    using assms(1) by (cases "int_of_float (fmul (fmul (fmul (float_of_int (bs_bankroll_cents s)) kelly) KELLY_FRACTION) (sizing_multiplier s))")
      (simp_all add: budget_notional_def Let_def t m g)
  have n: "n = min (sl_order_abs_cents ?l) (min (max 0 (total - bs_open_exposure_cents s)) (min (max 0 (market - me)) (min (max 0 (grp - ge)) k)))"
    using assms(1) unfolding budget_notional_def Let_def t m g k option.case prod.case option.inject prod.inject by (rule conjunct1 [THEN sym])
  have "n \<le> sl_order_abs_cents ?l" unfolding n by (rule min.cobounded1)
  moreover have "n \<le> max 0 (total - bs_open_exposure_cents s)"
    unfolding n by (rule min.coboundedI2) (rule min.cobounded1)
  then have "bs_open_exposure_cents s + n \<le> total" using assms(2) by (simp add: max_def split: if_splits)
  ultimately show ?thesis using t that by blast
qed

lemma order_budget_allowed:
  assumes "order_budget s me kelly ge gc = Some v" and "bd_allowed v"
  obtains kb where
    "\<not> bs_hard_stopped s" "me \<le> 0" "sl_order_abs_cents (STAGE_LIMITS (bs_stage s)) \<noteq> 0"
    "me = 0 \<longrightarrow> bs_open_markets s < sl_max_open_markets (STAGE_LIMITS (bs_stage s)) \<and> gc < sl_max_per_group (STAGE_LIMITS (bs_stage s))"
    "budget_notional s me kelly ge = Some (bd_max_notional_cents v, kb)" "1 \<le> bd_max_notional_cents v"
proof -
  let ?l = "STAGE_LIMITS (bs_stage s)"
  have g: "\<not> bs_hard_stopped s" "me \<le> 0" "sl_order_abs_cents ?l \<noteq> 0"
    "me = 0 \<longrightarrow> bs_open_markets s < sl_max_open_markets ?l \<and> gc < sl_max_per_group ?l"
    using assms by (auto simp: order_budget_def refused_budget_def Let_def split: if_splits)
  obtain n kb where b: "budget_notional s me kelly ge = Some (n, kb)"
    using assms g by (cases "budget_notional s me kelly ge") (auto simp: order_budget_def Let_def split: if_splits)
  have "1 \<le> n \<and> bd_max_notional_cents v = n"
    using assms g by (auto simp: order_budget_def Let_def b refused_budget_def split: if_splits)
  with g b that show ?thesis by simp
qed

lemma allowed_budget_limits:
  assumes "order_budget s market_exposure kelly group_exposure group_count = Some v" and "bd_allowed v"
    and "0 \<le> bs_bankroll_cents s" and "bs_bankroll_cents s < 2 ^ 53" and "0 \<le> market_exposure"
  shows "\<not> bs_hard_stopped s \<and> bs_stage s \<noteq> SHADOW_ONLY \<and> market_exposure = 0 \<and>
    bs_open_markets s < sl_max_open_markets (STAGE_LIMITS (bs_stage s)) \<and>
    group_count < sl_max_per_group (STAGE_LIMITS (bs_stage s)) \<and>
    1 \<le> bd_max_notional_cents v \<and> bd_max_notional_cents v \<le> sl_order_abs_cents (STAGE_LIMITS (bs_stage s)) \<and>
    bs_open_exposure_cents s + bd_max_notional_cents v \<le> (bs_bankroll_cents s + 1) div 2"
proof -
  from assms(1,2) obtain kb where a: "\<not> bs_hard_stopped s" "market_exposure \<le> 0"
    "sl_order_abs_cents (STAGE_LIMITS (bs_stage s)) \<noteq> 0"
    "market_exposure = 0 \<longrightarrow> bs_open_markets s < sl_max_open_markets (STAGE_LIMITS (bs_stage s)) \<and>
       group_count < sl_max_per_group (STAGE_LIMITS (bs_stage s))"
    and nb: "budget_notional s market_exposure kelly group_exposure = Some (bd_max_notional_cents v, kb)"
    and pos: "1 \<le> bd_max_notional_cents v"
    by (rule order_budget_allowed)
  from nb pos obtain total where
    t: "scaled_budget (bs_bankroll_cents s) (sl_total_frac (STAGE_LIMITS (bs_stage s))) (sizing_multiplier s) = Some total"
    and n: "bd_max_notional_cents v \<le> sl_order_abs_cents (STAGE_LIMITS (bs_stage s))"
      "bs_open_exposure_cents s + bd_max_notional_cents v \<le> total"
    by (rule budget_notional_Some)
  obtain x where x: "sl_total_frac (STAGE_LIMITS (bs_stage s)) = Fin x" "0 \<le> x" "x \<le> 1 / 2" using stage_fraction by blast
  obtain m where m: "sizing_multiplier s = Fin m" "0 \<le> m" "m \<le> 1" using multiplier_bounds by blast
  have "total \<le> (bs_bankroll_cents s + 1) div 2"
    using scaled_budget_half [of "bs_bankroll_cents s" x m total] t x m assms(3,4) by simp
  moreover have "bs_stage s \<noteq> SHADOW_ONLY" using a(3) by (auto simp: STAGE_LIMITS_def)
  ultimately show ?thesis using a n pos assms(5) by simp
qed

text \<open>An order budget stays inside the self-set limits. When the risk brain allows an order, the
  book is not hard-stopped and the stage not shadow-only, the market holds no position, the open
  markets and the correlated cluster are below the limits of the stage, the notional is at least one cent
  and at most the stage's absolute cap, and with the order added the open exposure is at most
  half of the bankroll rounded up, at every drawdown and for every Kelly fraction.\<close>

theorem order_budget_within_limits:
  assumes "order_budget s market_exposure kelly group_exposure group_count = Some v" and "bd_allowed v"
    and "0 \<le> bs_bankroll_cents s" and "bs_bankroll_cents s < 2 ^ 53" and "0 \<le> market_exposure"
  shows "\<not> bs_hard_stopped s \<and> bs_stage s \<noteq> SHADOW_ONLY \<and> market_exposure = 0 \<and>
    bs_open_markets s < sl_max_open_markets (STAGE_LIMITS (bs_stage s)) \<and>
    group_count < sl_max_per_group (STAGE_LIMITS (bs_stage s)) \<and>
    1 \<le> bd_max_notional_cents v \<and> bd_max_notional_cents v \<le> sl_order_abs_cents (STAGE_LIMITS (bs_stage s)) \<and>
    bs_open_exposure_cents s + bd_max_notional_cents v \<le> (bs_bankroll_cents s + 1) div 2"
  by (rule allowed_budget_limits [OF assms])





subsection \<open>Stages\<close>

text \<open>
  What a session does to its state: the drawdown policy, a promotion check, a closed position,
  and a new reading of bankroll and open positions. \<open>n\<close> counts the closed positions.
\<close>

inductive brain_path :: "codec \<Rightarrow> nat \<Rightarrow> brain_state \<Rightarrow> brain_state \<Rightarrow> bool" for c :: codec where
  start: "brain_path c 0 s s"
| drawdown: "brain_path c n s t \<Longrightarrow> brain_path c n s (apply_drawdown_policy clk t)"
| promotion: "brain_path c n s t \<Longrightarrow> brain_path c n s (maybe_promote c clk t)"
| closed: "brain_path c n s t \<Longrightarrow> brain_path c (Suc n) s (book_closed_position pnl filled t)"
| reading: "brain_path c n s t \<Longrightarrow> brain_path c n s (t\<lparr>bs_bankroll_cents := b, bs_equity_peak_cents := peak,
    bs_open_exposure_cents := exposure, bs_open_markets := markets\<rparr>)"

definition stage_potential :: "brain_state \<Rightarrow> int" where
  "stage_potential s = 20 * stage_int (bs_stage s) + bs_settled_count_at_stage s"

lemma stage_up: "stage_int st < 3 \<Longrightarrow> (case stage_of_int (stage_int st + 1) of Some x \<Rightarrow> x | None \<Rightarrow> st) = st' \<Longrightarrow> stage_int st' = stage_int st + 1"
  by (cases st) (auto simp: stage_int_def stage_of_int_def)

lemma stage_down: "1 < stage_int st \<Longrightarrow> (case stage_of_int (stage_int st - 1) of Some x \<Rightarrow> x | None \<Rightarrow> st) = st' \<Longrightarrow> stage_int st' = stage_int st - 1"
  by (cases st) (auto simp: stage_int_def stage_of_int_def)

lemma drawdown_potential:
  assumes "0 \<le> bs_settled_count_at_stage s"
  shows "stage_potential (apply_drawdown_policy clk s) \<le> stage_potential s \<and> 0 \<le> bs_settled_count_at_stage (apply_drawdown_policy clk s) \<and>
    stage_int (bs_stage (apply_drawdown_policy clk s)) \<le> stage_int (bs_stage s) \<and>
    (bs_hard_stopped s \<longrightarrow> bs_hard_stopped (apply_drawdown_policy clk s))"
  using assms stage_down [OF _ refl, of "bs_stage s"]
  by (auto simp: apply_drawdown_policy_def stage_potential_def Let_def stage_int_def [of CANARY])

lemma promotion_potential:
  assumes "0 \<le> bs_settled_count_at_stage s"
  shows "stage_potential (maybe_promote c clk s) \<le> stage_potential s \<and> 0 \<le> bs_settled_count_at_stage (maybe_promote c clk s) \<and>
    (bs_hard_stopped s \<longrightarrow> maybe_promote c clk s = s)"
  using assms stage_up [OF _ refl, of "bs_stage s"]
  by (auto simp: maybe_promote_def stage_potential_def stage_int_def [of CRUISE] PROMOTION_MIN_SETTLED_def)

text \<open>Size is earned and never assumed. Along every history of a session, twenty times the stage plus
  the settled count at that stage grows by at most one for each position closed: a stage is
  gained only for twenty further closed positions, and what a demotion takes is not given back.
  A hard stop is never lifted, and while it holds the stage does not rise.\<close>

theorem stages_are_earned:
  assumes "brain_path c n s t" and "0 \<le> bs_settled_count_at_stage s"
  shows "20 * stage_int (bs_stage t) + bs_settled_count_at_stage t \<le>
      20 * stage_int (bs_stage s) + bs_settled_count_at_stage s + int n \<and>
    0 \<le> bs_settled_count_at_stage t \<and>
    (bs_hard_stopped s \<longrightarrow> bs_hard_stopped t \<and> stage_int (bs_stage t) \<le> stage_int (bs_stage s))"
  using assms
proof (induction rule: brain_path.induct)
  case (drawdown n s t clk)
  then show ?case using drawdown_potential [of t clk] by (auto simp: stage_potential_def)
next
  case (promotion n s t clk)
  then show ?case using promotion_potential [of t c clk] by (auto simp: stage_potential_def)
qed (simp_all add: book_closed_position_def)

subsection \<open>Kelly fractions\<close>

lemma kelly_bounds: "fle (Fin 0) (kelly_fraction_yes p n)" "fle (kelly_fraction_yes p n) (Fin 1)"
proof -
  have "fle (Fin 0) (fmax (Fin 0) (fmin (Fin 1) f)) \<and> fle (fmax (Fin 0) (fmin (Fin 1) f)) (Fin 1)" for f
    by (cases f) (auto simp: fmax_def fmin_def)
  then show "fle (Fin 0) (kelly_fraction_yes p n)" "fle (kelly_fraction_yes p n) (Fin 1)"
    by (auto simp: kelly_fraction_yes_def Let_def split: option.split)
qed

lemma small_ints: "0 \<le> n \<Longrightarrow> n \<le> 100 \<Longrightarrow> float_of_int n = Fin (of_int n)"
  by (rule float_of_int_exact) simp_all

lemma fdiv_mono: "fle a b \<Longrightarrow> 0 < d \<Longrightarrow> \<exists>x y. fdiv a (Fin d) = Some x \<and> fdiv b (Fin d) = Some y \<and> fle x y"
  by (cases a; cases b) (auto simp: inf_of_sign_def intro!: to_float_mono_all divide_right_mono)

lemma fclip_mono: "fle a b \<Longrightarrow> fle (fmax (Fin 0) (fmin (Fin 1) a)) (fmax (Fin 0) (fmin (Fin 1) b))"
  by (cases a; cases b) (auto simp: fmax_def fmin_def)

lemma kelly_mono:
  assumes "fnonneg p" and "fle p q"
  shows "fle (kelly_fraction_yes p n) (kelly_fraction_yes q n)"
proof (cases "1 \<le> n \<and> n \<le> 99")
  case False
  then show ?thesis by (auto simp: kelly_fraction_yes_def)
next
  case True
  let ?e = "\<lambda>p. fsub (fmul p (Fin 100)) (Fin (of_int n))"
  have n: "float_of_int n = Fin (of_int n)" using True by (simp add: small_ints)
  have d: "fsub (Fin 100) (Fin (of_int n)) = Fin (of_int (100 - n))"
    using True small_ints [of "100 - n"] n by (simp add: fsub_def float_of_int_def)
  have e: "fle (?e p) (?e q)"
    unfolding fsub_def fneg.simps by (rule fadd_mono) (rule fmul_mono [OF assms], simp)
  show ?thesis
  proof (cases "fle (?e p) (Fin 0)")
    case True
    then have "kelly_fraction_yes p n = Fin 0" by (auto simp: kelly_fraction_yes_def n Let_def)
    then show ?thesis using kelly_bounds(1) by simp
  next
    case False
    then have fq: "\<not> fle (?e q) (Fin 0)" using e fle_trans by blast
    have "(0 :: rat) < of_int (100 - n)" using True by simp
    from fdiv_mono [OF e this] obtain x y where xy: "fdiv (?e p) (Fin (of_int (100 - n))) = Some x"
      "fdiv (?e q) (Fin (of_int (100 - n))) = Some y" "fle x y" by blast
    show ?thesis
      using True False fq fclip_mono [OF xy(3)] by (simp only: kelly_fraction_yes_def Let_def n d xy option.case) simp
  qed
qed


lemma adjusted_valid:
  assumes "0 \<le> p" and "p \<le> 1" and "0 \<le> s" and "s \<le> 1 / 2" and "0 \<le> h"
  shows "uncertainty_adjusted_kelly (Fin p) (Fin s) n (Fin h) =
    kelly_fraction_yes (fmax (lit64 (5 / 1000)) (fsub (Fin p) (fmul (Fin h) (Fin s)))) n"
  using assms by (simp add: uncertainty_adjusted_kelly_def fisfinite_def)

lemma floor_probability: "lit64 (5 / 1000) = Fin (5764607523034235 / 1152921504606846976)"
  by code_simp

lemma kelly_of_floor: "kelly_fraction_yes (lit64 (5 / 1000)) n = Fin 0"
proof (cases "1 \<le> n \<and> n \<le> 99")
  case False
  then show ?thesis by (auto simp: kelly_fraction_yes_def)
next
  case True
  have "fmul (lit64 (5 / 1000)) (Fin 100) = Fin (1 / 2)" by code_simp
  moreover have "fle (fsub (Fin (1 / 2)) (float_of_int n)) (Fin 0)"
  proof -
    have "fle (to_float (1 / 2 - of_int n)) (to_float 0)" by (rule to_float_mono_all) (use True in \<open>simp\<close>)
    moreover have "to_float 0 = Fin 0" by (simp add: to_float_def float_limit_def)
    ultimately show ?thesis using True small_ints [of n] by (simp add: fsub_def)
  qed
  ultimately show ?thesis by (simp add: kelly_fraction_yes_def)
qed

lemma fmax_mono: "fle a b \<Longrightarrow> fle (fmax (Fin c) a) (fmax (Fin c) b)"
  by (cases a; cases b) (auto simp: fmax_def)

text \<open>Sizing is conservative. For a probability and an uncertainty band the adjusted Kelly fraction lies
  between 0 and 1, never exceeds the plain fraction, and does not grow with the uncertainty; on
  evidence that is not a number it is 0, while the plain fraction of a NaN is the whole bankroll.\<close>

theorem sizing_is_conservative:
  assumes "0 \<le> p" and "p \<le> 1" and "0 \<le> s" and "s \<le> s'" and "0 \<le> h" and "to_float p = Fin p"
  shows "fle (uncertainty_adjusted_kelly (Fin p) (Fin s') n (Fin h)) (uncertainty_adjusted_kelly (Fin p) (Fin s) n (Fin h)) \<and>
    fle (uncertainty_adjusted_kelly (Fin p) (Fin s) n (Fin h)) (kelly_fraction_yes (Fin p) n) \<and>
    fle (Fin 0) (uncertainty_adjusted_kelly (Fin p) (Fin s) n (Fin h)) \<and>
    fle (uncertainty_adjusted_kelly (Fin p) (Fin s) n (Fin h)) (Fin 1) \<and>
    uncertainty_adjusted_kelly NaN (Fin s) n (Fin h) = Fin 0 \<and> kelly_fraction_yes NaN 50 = Fin 1"
proof -
  let ?k = "\<lambda>s. uncertainty_adjusted_kelly (Fin p) (Fin s) n (Fin h)"
  let ?c = "\<lambda>s. fmax (lit64 (5 / 1000)) (fsub (Fin p) (fmul (Fin h) (Fin s)))"
  have too_wide: "?k x = Fin 0" if "1 / 2 < x" for x using that by (simp add: uncertainty_adjusted_kelly_def)
  have bounds: "fle (Fin 0) (?k x) \<and> fle (?k x) (Fin 1)" for x
    using kelly_bounds by (simp add: uncertainty_adjusted_kelly_def)
  have nn: "fnonneg (fmax (lit64 (5 / 1000)) y)" for y
    unfolding floor_probability by (cases y) (auto simp: fmax_def)
  have mono: "fle (?k s') (?k s)"
  proof (cases "s' \<le> 1 / 2")
    case False
    then show ?thesis using too_wide bounds by simp
  next
    case True
    have "fle (fmul (Fin h) (Fin s)) (fmul (Fin h) (Fin s'))"
      using assms(4,5) by (auto intro!: to_float_mono_all mult_left_mono)
    then have "fle (fsub (Fin p) (fmul (Fin h) (Fin s'))) (fsub (Fin p) (fmul (Fin h) (Fin s)))"
      by (cases "fmul (Fin h) (Fin s)"; cases "fmul (Fin h) (Fin s')") (auto simp: fsub_def intro!: to_float_mono_all)
    then have c: "fle (?c s') (?c s)" unfolding floor_probability by (rule fmax_mono)
    have "?k s' = kelly_fraction_yes (?c s') n" "?k s = kelly_fraction_yes (?c s) n"
      by (rule adjusted_valid; use assms True in simp)+
    then show ?thesis using kelly_mono [OF nn c] by presburger
  qed
  have le: "fle (?k s) (kelly_fraction_yes (Fin p) n)"
  proof (cases "s \<le> 1 / 2")
    case False
    then show ?thesis using too_wide kelly_bounds(1) by simp
  next
    case True
    have v: "?k s = kelly_fraction_yes (?c s) n" using assms True by (simp add: adjusted_valid)
    show ?thesis
    proof (cases "flt (lit64 (5 / 1000)) (fsub (Fin p) (fmul (Fin h) (Fin s)))")
      case False
      show ?thesis unfolding v fmax_def if_not_P [OF False] kelly_of_floor by (rule kelly_bounds(1))
    next
      case True
      have nh: "fnonneg (fmul (Fin h) (Fin s))" using assms(3,5) by (simp add: fnonneg_to_float)
      have "fle (fsub (Fin p) (fmul (Fin h) (Fin s))) (Fin p)"
      proof (cases "fmul (Fin h) (Fin s)")
        case (Fin y)
        then have "fle (to_float (p - y)) (to_float p)" using nh by (intro to_float_mono_all) simp
        then show ?thesis using Fin assms(6) by (simp add: fsub_def)
      qed (use nh in \<open>simp_all add: fsub_def del: fmul.simps\<close>)
      moreover have "fnonneg (fsub (Fin p) (fmul (Fin h) (Fin s)))"
        using nn [of "fsub (Fin p) (fmul (Fin h) (Fin s))"] unfolding fmax_def if_P [OF True] .
      ultimately show ?thesis unfolding v fmax_def if_P [OF True] by (intro kelly_mono)
    qed
  qed
  have "kelly_fraction_yes NaN 50 = Fin 1" by code_simp
  then show ?thesis using mono le bounds by (simp add: uncertainty_adjusted_kelly_def fisfinite_def)
qed


subsection \<open>The state file\<close>

text \<open>What a cycle saves is what the next one loads. A saved state comes back with every field but the
  bankroll, which is read anew and raises the equity peak when it is above it; the accounting
  version of the saved file is current, so the counters come back as well.\<close>

theorem risk_file_roundtrip:
  "load_state c bankroll (snd (save_state clk None s f)) =
     (s\<lparr>bs_bankroll_cents := bankroll, bs_equity_peak_cents := max (bs_equity_peak_cents s) bankroll\<rparr>, None)"
  by (simp add: load_state_def save_state_def state_payload_def state_of_object_def int_field_def Let_def)

section \<open>Concrete runs\<close>

lemma order_budget_within_limits_witness:
  "\<exists>v. order_budget (fresh_state 100000) 0 (Fin (1 / 2)) 0 0 = Some v \<and> bd_max_notional_cents v = 100 \<and>
     0 + bd_max_notional_cents v \<le> (100000 + 1) div (2 :: int)"
proof -
  have n: "budget_notional (fresh_state 100000) 0 (Fin (1 / 2)) 0 = Some (100, 12500)" by code_simp
  have fs: "\<not> bs_hard_stopped (fresh_state 100000)" "bs_stage (fresh_state 100000) = CANARY" "bs_open_markets (fresh_state 100000) = 0"
    by (simp_all add: fresh_state_def)
  have l: "sl_order_abs_cents (STAGE_LIMITS CANARY) = 100" "sl_max_open_markets (STAGE_LIMITS CANARY) = 5"
    "sl_max_per_group (STAGE_LIMITS CANARY) = 1" by (simp_all add: STAGE_LIMITS_def)
  obtain v where v: "order_budget (fresh_state 100000) 0 (Fin (1 / 2)) 0 0 = Some v" "bd_allowed v" "bd_max_notional_cents v = 100"
    by (simp add: order_budget_def n fs l)
  have "bs_open_exposure_cents (fresh_state 100000) = 0" "bs_bankroll_cents (fresh_state 100000) = 100000"
    by (simp_all add: fresh_state_def)
  with order_budget_within_limits [OF v(1,2)] v show ?thesis by simp
qed


lemma stages_are_earned_witness:
  "20 * stage_int (bs_stage (maybe_promote label_codec noon (book_closed_position 30 2 (fresh_state 1000)))) \<le> 20 * 1 + 0 + 1"
proof -
  have "brain_path label_codec 1 (fresh_state 1000) (maybe_promote label_codec noon (book_closed_position 30 2 (fresh_state 1000)))"
    using brain_path.promotion [OF brain_path.closed [OF brain_path.start]] by simp
  from stages_are_earned [OF this] show ?thesis by (simp add: fresh_state_def stage_int_def)
qed

lemma sizing_is_conservative_witness:
  "fle (uncertainty_adjusted_kelly (Fin (3 / 4)) (Fin (1 / 4)) 50 (Fin (1 / 2))) (kelly_fraction_yes (Fin (3 / 4)) 50)"
proof -
  have "to_float (3 / 4) = Fin (3 / 4)" by code_simp
  from sizing_is_conservative [OF _ _ _ _ _ this, of "1 / 4" "1 / 4" "1 / 2" 50] show ?thesis by simp
qed

end
