(* ===== verification/Allocation.thy ===== *)
theory Allocation
  imports PyJson "HOL-Library.Product_Lexorder" "HOL-Library.Multiset"
begin

text \<open>
  The split of one cycle's pot among competing candidates: \<open>autonomy/candidate_allocation.py\<close>,
  the weights of \<open>autonomy/allocation_weights.py\<close> and the operator's parameters of
  \<open>autonomy/allocation_config.py\<close>.
\<close>

section \<open>Floats in order\<close>

text \<open>
  Python orders floats by value; a NaN has no place in that order. The instance puts it last,
  which no property relies on.
\<close>

fun float_le :: "pyfloat \<Rightarrow> pyfloat \<Rightarrow> bool" where
  "float_le _ NaN = True"
| "float_le NaN _ = False"
| "float_le NegInf _ = True"
| "float_le _ NegInf = False"
| "float_le _ PosInf = True"
| "float_le PosInf _ = False"
| "float_le (Fin x) (Fin y) = (x \<le> y)"

instantiation pyfloat :: linorder
begin

definition less_eq_pyfloat :: "pyfloat \<Rightarrow> pyfloat \<Rightarrow> bool" where
  "less_eq_pyfloat = float_le"

definition less_pyfloat :: "pyfloat \<Rightarrow> pyfloat \<Rightarrow> bool" where
  "less_pyfloat a b \<longleftrightarrow> float_le a b \<and> \<not> float_le b a"

instance
proof
  fix a b c :: pyfloat
  show "(a < b) = (a \<le> b \<and> \<not> b \<le> a)" by (simp add: less_eq_pyfloat_def less_pyfloat_def)
  show "a \<le> a" by (cases a) (simp_all add: less_eq_pyfloat_def)
  show "a \<le> b \<Longrightarrow> b \<le> c \<Longrightarrow> a \<le> c" by (cases a; cases b; cases c) (simp_all add: less_eq_pyfloat_def)
  show "a \<le> b \<Longrightarrow> b \<le> a \<Longrightarrow> a = b" by (cases a; cases b) (simp_all add: less_eq_pyfloat_def)
  show "a \<le> b \<or> b \<le> a" by (cases a; cases b) (auto simp: less_eq_pyfloat_def)
qed

end

section \<open>The split\<close>

record ask =
  ak_candidate_id :: string
  ak_scope :: string
  ak_ask_cents :: int
  ak_price_cents :: int

datatype policy = KELLY_PRORATA | PROPORTIONAL | TOP_K

text \<open>\<open>policy\<close> as a text; anything else falls back to the default.\<close>

definition policy_of :: "string \<Rightarrow> policy" where
  "policy_of s = (if s = ''proportional'' then PROPORTIONAL else if s = ''top_k'' then TOP_K else KELLY_PRORATA)"

text \<open>The reason texts, with the numbers some of them print.\<close>

datatype grant_reason =
    Pot_Exhausted | No_Ask | Zero_Weight | Full_Ask | Zero_Weighted_Ask | Weighted_Share | Zero_Total_Weight
  | Weight_Share pyfloat | Share_Clamped | Outside_Top int | Within_Top int | Top_Truncated int

record grant =
  gr_candidate_id :: string
  gr_granted_cents :: int
  gr_weight :: pyfloat
  gr_policy :: policy
  gr_reason :: grant_reason

type_synonym weights = "string \<Rightarrow> pyfloat option"

definition weight_of :: "weights \<Rightarrow> ask \<Rightarrow> pyfloat" where
  "weight_of w a = (case w (ak_scope a) of None \<Rightarrow> Fin 0 | Some x \<Rightarrow> x)"

definition mk_grant :: "weights \<Rightarrow> policy \<Rightarrow> ask \<Rightarrow> int \<Rightarrow> grant_reason \<Rightarrow> grant" where
  "mk_grant w p a cents reason = \<lparr>gr_candidate_id = ak_candidate_id a, gr_granted_cents = cents,
     gr_weight = weight_of w a, gr_policy = p, gr_reason = reason\<rparr>"

text \<open>
  One pass over the asks: \<open>share\<close> gives what the policy would grant before the clamps (\<open>None\<close>:
  \<open>int\<close> of a NaN or an infinity raises), \<open>reason\<close> the reason for the share and the final
  amount; \<open>spent\<close> is what the earlier asks got.
\<close>

fun grant_pass :: "(ask \<Rightarrow> int option) \<Rightarrow> (ask \<Rightarrow> int \<Rightarrow> int \<Rightarrow> grant_reason) \<Rightarrow> weights \<Rightarrow> policy \<Rightarrow> int \<Rightarrow> int \<Rightarrow>
    ask list \<Rightarrow> grant list option" where
  "grant_pass share reason w p pot spent [] = Some []"
| "grant_pass share reason w p pot spent (a # as) =
     (case share a of
        None \<Rightarrow> None
      | Some s \<Rightarrow>
          (let cents = min s (min (ak_ask_cents a) (max 0 (pot - spent))) in
           map_option (Cons (mk_grant w p a cents (reason a s cents)))
             (grant_pass share reason w p pot (spent + cents) as)))"

text \<open>The weighted asks by candidate, in a dict: a later ask of one id replaces the value.\<close>

definition weighted_asks :: "weights \<Rightarrow> ask list \<Rightarrow> (string \<times> pyfloat) list" where
  "weighted_asks w as =
     fold (\<lambda>a d. AList.update (ak_candidate_id a) (fmul (float_of_int (ak_ask_cents a)) (weight_of w a)) d) as []"

text \<open>\<open>compensated\<close>: whether \<open>sum\<close> of floats is compensated, as it is from Python 3.12 on.\<close>

definition kelly_prorata :: "bool \<Rightarrow> ask list \<Rightarrow> int \<Rightarrow> weights \<Rightarrow> grant list option" where
  "kelly_prorata compensated live pot w =
     (let eligible = filter (\<lambda>a. flt (Fin 0) (weight_of w a)) live;
          barred = map (\<lambda>a. mk_grant w KELLY_PRORATA a 0 Zero_Weight) (filter (\<lambda>a. fle (weight_of w a) (Fin 0)) live)
      in if eligible = [] then Some barred
         else if (\<Sum>a\<leftarrow>eligible. ak_ask_cents a) \<le> pot
         then map_option (append barred)
           (grant_pass (\<lambda>a. Some (ak_ask_cents a)) (\<lambda>_ _ _. Full_Ask) w KELLY_PRORATA pot 0 eligible)
         else
           (let raw = weighted_asks w eligible; total_raw = py_sum compensated (map snd raw)
            in if fle total_raw (Fin 0)
               then Some (barred @ map (\<lambda>a. mk_grant w KELLY_PRORATA a 0 Zero_Weighted_Ask) eligible)
               else map_option (append barred)
                 (grant_pass (\<lambda>a. case map_of raw (ak_candidate_id a) of
                      None \<Rightarrow> None
                    | Some r \<Rightarrow> (case fdiv r total_raw of None \<Rightarrow> None | Some q \<Rightarrow> int_of_float (fmul q (float_of_int pot))))
                   (\<lambda>_ _ _. Weighted_Share) w KELLY_PRORATA pot 0 eligible)))"

definition proportional :: "bool \<Rightarrow> ask list \<Rightarrow> int \<Rightarrow> weights \<Rightarrow> grant list option" where
  "proportional compensated live pot w =
     (let total_weight = py_sum compensated (map (weight_of w) live);
          part = (\<lambda>a. case fdiv (weight_of w a) total_weight of None \<Rightarrow> NaN | Some q \<Rightarrow> q)
      in if fle total_weight (Fin 0)
         then Some (map (\<lambda>a. mk_grant w PROPORTIONAL a 0 Zero_Total_Weight) live)
         else grant_pass (\<lambda>a. int_of_float (fmul (float_of_int pot) (part a)))
           (\<lambda>a s cents. if cents = s then Weight_Share (part a) else Share_Clamped) w PROPORTIONAL pot 0 live)"

definition top_k_split :: "ask list \<Rightarrow> int \<Rightarrow> weights \<Rightarrow> int \<Rightarrow> grant list option" where
  "top_k_split live pot w top_k =
     (let ranked = sort_key (\<lambda>a. (fneg (weight_of w a), ak_candidate_id a)) live;
          funded = ak_candidate_id ` set (take (nat (max 0 top_k)) ranked)
      in grant_pass (\<lambda>a. Some (if ak_candidate_id a \<in> funded then ak_ask_cents a else 0))
           (\<lambda>a _ cents. if ak_candidate_id a \<notin> funded then Outside_Top top_k
              else if cents = ak_ask_cents a then Within_Top top_k else Top_Truncated top_k) w TOP_K pot 0 ranked)"

text \<open>\<open>None\<close>: an exception.\<close>

definition allocate :: "bool \<Rightarrow> ask list \<Rightarrow> int \<Rightarrow> weights \<Rightarrow> string \<Rightarrow> int \<Rightarrow> grant list option" where
  "allocate compensated asks pot w policy_text top_k =
     (let p = policy_of policy_text;
          ordered = sort_key ak_candidate_id asks;
          live = filter (\<lambda>a. 0 < ak_ask_cents a) ordered;
          dead = map (\<lambda>a. mk_grant w p a 0 No_Ask) (filter (\<lambda>a. ak_ask_cents a \<le> 0) ordered)
      in if pot \<le> 0 then Some (map (\<lambda>a. mk_grant w p a 0 Pot_Exhausted) ordered)
         else if live = [] then Some dead
         else map_option (\<lambda>gs. sort_key gr_candidate_id (dead @ gs))
           (case p of TOP_K \<Rightarrow> top_k_split live pot w top_k
            | PROPORTIONAL \<Rightarrow> proportional compensated live pot w
            | KELLY_PRORATA \<Rightarrow> kelly_prorata compensated live pot w))"

section \<open>Weights\<close>

text \<open>\<open>_numeric\<close> and \<open>_as_float\<close>: an int or a finite float that is no bool; \<open>Inl\<close> is the
  OverflowError of an int that no float can hold.\<close>

fun numeric :: "json \<Rightarrow> unit + pyfloat option" where
  "numeric (JInt n) = (if fisfinite (float_of_int n) then Inr (Some (float_of_int n)) else Inl ())"
| "numeric (JFloat x) = Inr (if fisfinite x then Some x else None)"
| "numeric _ = Inr None"

text \<open>The weight of a usable advantage. The divisor is positive here, so the division cannot raise.\<close>

definition weight_for_advantage :: "pyfloat option \<Rightarrow> pyfloat \<Rightarrow> pyfloat \<Rightarrow> pyfloat" where
  "weight_for_advantage value min_weight target_advantage =
     (case value of
        None \<Rightarrow> min_weight
      | Some v \<Rightarrow>
          if fle v (Fin 0) \<or> fle target_advantage (Fin 0) then min_weight
          else (case fdiv v target_advantage of
              None \<Rightarrow> min_weight
            | Some q \<Rightarrow> fadd min_weight (fmul (fsub (Fin 1) min_weight) (fmin (Fin 1) q))))"

section \<open>The operator's parameters\<close>

definition DEFAULT_TOP_K :: int where "DEFAULT_TOP_K = 5"
definition DEFAULT_MIN_WEIGHT :: pyfloat where "DEFAULT_MIN_WEIGHT = Fin (1 / 4)"
definition DEFAULT_TARGET_ADVANTAGE :: pyfloat where "DEFAULT_TARGET_ADVANTAGE = to_float (2 / 100)"
definition DEFAULT_THROTTLE :: pyfloat where "DEFAULT_THROTTLE = Fin 1"
definition MIN_WEIGHT_FLOOR :: pyfloat where "MIN_WEIGHT_FLOOR = to_float (1 / 100)"

definition fclamp :: "pyfloat \<Rightarrow> pyfloat \<Rightarrow> pyfloat \<Rightarrow> pyfloat" where
  "fclamp value low high = fmax low (fmin high value)"

definition as_float :: "json \<Rightarrow> pyfloat \<Rightarrow> pyfloat option" where
  "as_float v dflt = (case numeric v of Inl _ \<Rightarrow> None | Inr None \<Rightarrow> Some dflt | Inr (Some x) \<Rightarrow> Some x)"

definition as_int :: "json \<Rightarrow> int \<Rightarrow> int" where
  "as_int v dflt = (case v of JInt n \<Rightarrow> n | _ \<Rightarrow> dflt)"

text \<open>\<open>float_text\<close> is \<open>float\<close> of a text, \<open>None\<close> its ValueError.\<close>

definition env_float :: "(string \<Rightarrow> pyfloat option) \<Rightarrow> (string \<Rightarrow> string option) \<Rightarrow> string \<Rightarrow> pyfloat option" where
  "env_float float_text env name =
     (case env name of
        None \<Rightarrow> None
      | Some raw \<Rightarrow> (case float_text (strip raw) of None \<Rightarrow> None | Some x \<Rightarrow> if fisfinite x then Some x else None))"

definition env_int :: "(string \<Rightarrow> string option) \<Rightarrow> string \<Rightarrow> int option" where
  "env_int env name = (case env name of None \<Rightarrow> None | Some raw \<Rightarrow> int_of_text (strip raw))"

record allocation_config =
  al_policy :: policy
  al_top_k :: int
  al_min_weight :: pyfloat
  al_target_advantage :: pyfloat
  al_throttle :: pyfloat

text \<open>
  The policy of the environment or the file. Looking up a list or an object in the frozenset of
  policies raises TypeError (\<open>None\<close>).
\<close>

definition configured_policy :: "string option \<Rightarrow> json \<Rightarrow> policy option" where
  "configured_policy env_policy v =
     (case env_policy of
        Some (x # xs) \<Rightarrow> Some (policy_of (x # xs))
      | _ \<Rightarrow> (case v of
            JStr s \<Rightarrow> Some (policy_of s)
          | JArr _ \<Rightarrow> None
          | JObj _ \<Rightarrow> None
          | _ \<Rightarrow> Some KELLY_PRORATA))"

definition float_setting ::
  "(string \<Rightarrow> pyfloat option) \<Rightarrow> (string \<Rightarrow> string option) \<Rightarrow> (string \<times> json) list \<Rightarrow> string \<Rightarrow> string \<Rightarrow> pyfloat \<Rightarrow> pyfloat option" where
  "float_setting ft env raw name key dflt =
     (case env_float ft env name of Some x \<Rightarrow> Some x | None \<Rightarrow> as_float (jget key raw) dflt)"

text \<open>\<open>None\<close>: an exception leaves \<open>load\<close>.\<close>

definition load_allocation_config ::
  "(string \<Rightarrow> pyfloat option) \<Rightarrow> (string \<Rightarrow> string option) \<Rightarrow> json_file \<Rightarrow> allocation_config option" where
  "load_allocation_config ft env f =
     (let raw = (case f of Holds v \<Rightarrow> (case as_obj v of None \<Rightarrow> [] | Some d \<Rightarrow> d) | _ \<Rightarrow> []) in
      case (configured_policy (env ''DUMMY_ALLOC_POLICY'') (jget ''policy'' raw),
            float_setting ft env raw ''DUMMY_ALLOC_MIN_WEIGHT'' ''min_weight'' DEFAULT_MIN_WEIGHT,
            float_setting ft env raw ''DUMMY_ALLOC_TARGET_ADVANTAGE'' ''target_advantage'' DEFAULT_TARGET_ADVANTAGE,
            float_setting ft env raw ''DUMMY_ALLOC_THROTTLE'' ''throttle'' DEFAULT_THROTTLE) of
        (Some p, Some mw, Some ta, Some th) \<Rightarrow>
          Some \<lparr>al_policy = p,
            al_top_k = max 0 (case env_int env ''DUMMY_ALLOC_TOP_K'' of Some n \<Rightarrow> n | None \<Rightarrow> as_int (jget ''top_k'' raw) DEFAULT_TOP_K),
            al_min_weight = fclamp mw MIN_WEIGHT_FLOOR (Fin 1),
            al_target_advantage = fmax (to_float (1 / 1000000)) ta,
            al_throttle = fclamp th (Fin 0) (Fin 1)\<rparr>
      | _ \<Rightarrow> None)"

text \<open>\<open>weights_for_scopes\<close>; \<open>None\<close>: an advantage overflows.\<close>

fun weights_for_scopes :: "string list \<Rightarrow> (string \<Rightarrow> json option) \<Rightarrow> allocation_config \<Rightarrow> (string \<times> pyfloat) list option" where
  "weights_for_scopes [] advantages cfg = Some []"
| "weights_for_scopes (scope # scopes) advantages cfg =
     (case numeric (case advantages scope of None \<Rightarrow> JNull | Some v \<Rightarrow> v) of
        Inl _ \<Rightarrow> None
      | Inr v \<Rightarrow>
          map_option (Cons (scope, weight_for_advantage v (al_min_weight cfg) (al_target_advantage cfg)))
            (weights_for_scopes scopes advantages cfg))"

section \<open>The pot\<close>

abbreviation granted_total :: "grant list \<Rightarrow> int" where
  "granted_total gs \<equiv> (\<Sum>g\<leftarrow>gs. gr_granted_cents g)"

lemma mk_grant_simps [simp]:
  "gr_granted_cents (mk_grant w p a c r) = c" "gr_candidate_id (mk_grant w p a c r) = ak_candidate_id a"
  by (simp_all add: mk_grant_def)

lemma zero_grants_total [simp]: "sum_list (map (gr_granted_cents \<circ> (\<lambda>a. mk_grant w p a 0 (r a))) as) = 0"
  by (induction as) simp_all

text \<open>A pass spends at most what is left, and answers the asks in order.\<close>

lemma grant_pass_facts:
  assumes "grant_pass share reason w p pot spent as = Some gs" and "spent \<le> pot"
  shows "granted_total gs \<le> pot - spent \<and> map gr_candidate_id gs = map ak_candidate_id as \<and>
    list_all2 (\<lambda>g a. gr_granted_cents g \<le> ak_ask_cents a) gs as"
  using assms
proof (induction as arbitrary: spent gs)
  case Nil
  then show ?case by simp
next
  case (Cons a as)
  obtain s where s: "share a = Some s" using Cons.prems(1) by (cases "share a") simp_all
  let ?c = "min s (min (ak_ask_cents a) (max 0 (pot - spent)))"
  obtain gs' where gs': "grant_pass share reason w p pot (spent + ?c) as = Some gs'"
    and gs: "gs = mk_grant w p a ?c (reason a s ?c) # gs'"
    using Cons.prems(1) by (auto simp: s Let_def)
  have c: "?c \<le> ak_ask_cents a" "spent + ?c \<le> pot" using Cons.prems(2) by linarith+
  from Cons.IH [OF gs' c(2)] c(1) show ?case by (simp add: gs)
qed







lemma total_sort_key:
  fixes f :: "'a \<Rightarrow> int"
  shows "(\<Sum>x\<leftarrow>sort_key k xs. f x) = (\<Sum>x\<leftarrow>xs. f x)"
proof -
  have "(\<Sum>x\<leftarrow>ys. f x) = (\<Sum>x\<in>#mset ys. f x)" for ys by (induction ys) simp_all
  then show ?thesis by (metis mset_sort)
qed



section \<open>Order, full asks and complete answers\<close>

text \<open>Ties break on the candidate and on nothing else: as long as no candidate asks twice, the split
  does not depend on the order in which the asks arrive.\<close>

theorem split_ignores_arrival_order:
  assumes "mset asks = mset asks'" and "distinct (map ak_candidate_id asks)"
  shows "allocate compensated asks pot w policy_text top_k = allocate compensated asks' pot w policy_text top_k"
proof -
  have "inj_on ak_candidate_id (set asks)" using assms(2) by (simp add: distinct_map)
  then have "sort_key ak_candidate_id asks = sort_key ak_candidate_id asks'"
    using assms(1) by (intro sort_key_inj_key_eq) simp_all
  then show ?thesis by (simp add: allocate_def)
qed

lemma kelly_uncontended:
  assumes "\<And>a. a \<in> set live \<Longrightarrow> flt (Fin 0) (weight_of w a)" and "\<And>a. a \<in> set live \<Longrightarrow> 0 \<le> ak_ask_cents a"
    and "spent + (\<Sum>a\<leftarrow>live. ak_ask_cents a) \<le> pot"
  shows "grant_pass (\<lambda>a. Some (ak_ask_cents a)) (\<lambda>_ _ _. Full_Ask) w p pot spent live =
    Some (map (\<lambda>a. mk_grant w p a (ak_ask_cents a) Full_Ask) live)"
  using assms
proof (induction live arbitrary: spent)
  case Nil
  then show ?case by simp
next
  case (Cons a as)
  have "0 \<le> (\<Sum>x\<leftarrow>as. ak_ask_cents x)" using Cons.prems(2) by (intro sum_list_nonneg) auto
  then have "min (ak_ask_cents a) (min (ak_ask_cents a) (max 0 (pot - spent))) = ak_ask_cents a"
    using Cons.prems(3) by simp
  moreover have "grant_pass (\<lambda>a. Some (ak_ask_cents a)) (\<lambda>_ _ _. Full_Ask) w p pot (spent + ak_ask_cents a) as =
      Some (map (\<lambda>a. mk_grant w p a (ak_ask_cents a) Full_Ask) as)"
    by (rule Cons.IH) (use Cons.prems in auto)
  ultimately show ?case by simp
qed

lemma fle_not_flt: "flt (Fin 0) x \<Longrightarrow> \<not> fle x (Fin 0)"
  by (cases x) auto

text \<open>Weights decide who is cut, not how much fits. Under the default policy, when every candidate asks
  for something, has a positive weight, and the asks together fit the pot, every candidate gets
  exactly what it asked for.\<close>

theorem fitting_asks_granted_in_full:
  assumes "policy_of policy_text = KELLY_PRORATA" and "\<And>a. a \<in> set asks \<Longrightarrow> 0 < ak_ask_cents a \<and> flt (Fin 0) (weight_of w a)"
    and "(\<Sum>a\<leftarrow>asks. ak_ask_cents a) \<le> pot" and "0 < pot"
  shows "allocate compensated asks pot w policy_text top_k =
    Some (map (\<lambda>a. mk_grant w KELLY_PRORATA a (ak_ask_cents a) Full_Ask) (sort_key ak_candidate_id asks))"
proof -
  let ?o = "sort_key ak_candidate_id asks"
  have el: "filter (\<lambda>a. 0 < ak_ask_cents a) ?o = ?o" "filter (\<lambda>a. ak_ask_cents a \<le> 0) ?o = []"
    "filter (\<lambda>a. flt (Fin 0) (weight_of w a)) ?o = ?o" "filter (\<lambda>a. fle (weight_of w a) (Fin 0)) ?o = []"
    using assms(2) fle_not_flt by (force simp: filter_id_conv filter_empty_conv)+
  have total: "(\<Sum>a\<leftarrow>?o. ak_ask_cents a) = (\<Sum>a\<leftarrow>asks. ak_ask_cents a)"
    by (rule total_sort_key)
  have pass: "grant_pass (\<lambda>a. Some (ak_ask_cents a)) (\<lambda>_ _ _. Full_Ask) w KELLY_PRORATA pot 0 ?o =
      Some (map (\<lambda>a. mk_grant w KELLY_PRORATA a (ak_ask_cents a) Full_Ask) ?o)"
    by (rule kelly_uncontended) (use assms(2,3) total in \<open>auto intro: less_imp_le\<close>)
  have sorted: "sort_key gr_candidate_id (map (\<lambda>a. mk_grant w KELLY_PRORATA a (ak_ask_cents a) Full_Ask) ?o) =
      map (\<lambda>a. mk_grant w KELLY_PRORATA a (ak_ask_cents a) Full_Ask) ?o"
    by (rule sort_key_id_if_sorted) (simp add: comp_def sorted_sort_key)
  show ?thesis
  proof (cases "asks = []")
    case True
    then show ?thesis using assms(4) by (simp add: allocate_def)
  next
    case False
    then have "?o \<noteq> []" by (metis mset_sort mset_zero_iff)
    then show ?thesis
      using assms(1,3,4) by (simp add: allocate_def Let_def el kelly_prorata_def total pass sorted)
  qed
qed


section \<open>Weights and parameters\<close>

text \<open>A number between two others, both floats.\<close>

definition in_range :: "pyfloat \<Rightarrow> pyfloat \<Rightarrow> pyfloat \<Rightarrow> bool" where
  "in_range low x high \<longleftrightarrow> fle low x \<and> fle x high"

lemma fclamp_range: "fle low high \<Longrightarrow> value \<noteq> NaN \<Longrightarrow> in_range low (fclamp value low high) high"
  by (cases low; cases high; cases "value") (auto simp: in_range_def fclamp_def fmax_def fmin_def)

lemma floor_value: "MIN_WEIGHT_FLOOR = Fin (5764607523034235 / 576460752303423488)"
  by code_simp

lemma round_to_one: "to_float (1 + 1 / 9007199254740992) = Fin 1"
  by code_simp

lemma round_error_below_one:
  assumes "0 \<le> x" and "x < 1"
  shows "r64 x \<le> x + 1 / 18014398509481984"
proof (cases "x = 0")
  case False
  then have "\<bar>r64 x - x\<bar> \<le> 2 powi (0 - 54)" using assms by (intro r64_error_below) simp_all
  moreover have "(2 :: rat) powi (0 - 54) = 1 / 18014398509481984" by (simp add: power_int_def power_divide)
  ultimately show ?thesis by linarith
qed simp

text \<open>Adding a fraction of what is missing to one never passes one, in spite of three roundings.\<close>

lemma weight_below_one:
  assumes m: "1 / 128 \<le> m" "m \<le> 1" and f: "0 \<le> f" "f \<le> 1"
  shows "\<exists>x. fmul (fsub (Fin 1) (Fin m)) (Fin f) = Fin x \<and> 0 \<le> x \<and> fle (fadd (Fin m) (Fin x)) (Fin 1)"
proof -
  have lt: "r64 x < float_limit" if "0 \<le> x" "x \<le> 2" for x
  proof -
    have "r64 x \<le> r64 (of_int 2)" using that by (intro r64_mono) simp_all
    also have "\<dots> = 2" using r64_of_int [of 2] by simp
    finally show ?thesis by (simp add: float_limit_def)
  qed
  have tf: "to_float x = Fin (r64 x)" if "0 \<le> x" "x \<le> 2" for x
    using lt [OF that] that by (simp add: to_float_nonneg not_le)
  let ?d = "r64 (1 - m)"
  have d0: "0 \<le> ?d" using m by (intro r64_nonneg) simp
  have "?d \<le> r64 (127 / 128)" using m by (intro r64_mono) simp_all
  also have "\<dots> = 127 / 128" by code_simp
  finally have d1: "?d < 1" by simp
  have p: "0 \<le> ?d * f" "?d * f \<le> ?d" using d0 f by (simp_all add: mult_left_le)
  have x: "r64 (?d * f) \<le> ?d + 1 / 18014398509481984" "0 \<le> r64 (?d * f)"
    using round_error_below_one [of "?d * f"] p d1 r64_nonneg [of "?d * f"] by linarith+
  have "?d \<le> (1 - m) + 1 / 18014398509481984" using m by (intro round_error_below_one) simp_all
  then have "m + r64 (?d * f) \<le> 1 + 1 / 9007199254740992" using x(1) by simp
  then have "fle (to_float (m + r64 (?d * f))) (to_float (1 + 1 / 9007199254740992))" by (rule to_float_mono_all)
  moreover have "fmul (fsub (Fin 1) (Fin m)) (Fin f) = Fin (r64 (?d * f))"
    using tf [of "1 - m"] tf [of "?d * f"] m p d1 by (simp add: fsub_def)
  ultimately show ?thesis using x(2) round_to_one by simp
qed

text \<open>A weight stays between the floor and one.\<close>

lemma weight_in_range:
  assumes "1 / 128 \<le> m" and "m \<le> 1" and "to_float m = Fin m" and "target \<noteq> NaN" and "\<And>x. v = Some x \<Longrightarrow> fisfinite x"
  shows "in_range (Fin m) (weight_for_advantage v (Fin m) target) (Fin 1)"
proof (cases "\<exists>x. v = Some x \<and> \<not> fle x (Fin 0) \<and> \<not> fle target (Fin 0)")
  case False
  then show ?thesis using assms(2) by (auto simp: weight_for_advantage_def in_range_def split: option.split)
next
  case True
  then obtain x where x: "v = Some (Fin x)" "0 < x" and t: "\<not> fle target (Fin 0)"
    using assms(5) by (auto simp: fisfinite_def split: pyfloat.splits)
  have "\<exists>q. fdiv (Fin x) target = Some q \<and> fnonneg q"
    using x t assms(4) by (cases target) (auto intro: fnonneg_to_float)
  then obtain q where q: "fdiv (Fin x) target = Some q" "fnonneg q" by blast
  then have "\<exists>f. fmin (Fin 1) q = Fin f \<and> 0 \<le> f \<and> f \<le> 1" by (cases q) (auto simp: fmin_def)
  then obtain f where f: "fmin (Fin 1) q = Fin f" "0 \<le> f" "f \<le> 1" by blast
  from weight_below_one [OF assms(1,2) f(2,3)] obtain y where
    y: "fmul (fsub (Fin 1) (Fin m)) (Fin f) = Fin y" "0 \<le> y" "fle (fadd (Fin m) (Fin y)) (Fin 1)" by blast
  have "fle (to_float m) (to_float (m + y))" using y(2) by (intro to_float_mono_all) simp
  then have "fle (Fin m) (fadd (Fin m) (Fin y))" using assms(3) by simp
  moreover have "weight_for_advantage v (Fin m) target = fadd (Fin m) (Fin y)"
    using x t by (simp add: weight_for_advantage_def q f(1) y(1) del: fadd.simps)
  ultimately show ?thesis using y(3) by (simp only: in_range_def)
qed

lemma as_float_not_NaN: "as_float v dflt = Some x \<Longrightarrow> dflt \<noteq> NaN \<Longrightarrow> x \<noteq> NaN"
  by (cases v) (auto simp: as_float_def fisfinite_def split: if_splits pyfloat.splits)

lemma float_setting_not_NaN: "float_setting ft env raw name key dflt = Some x \<Longrightarrow> dflt \<noteq> NaN \<Longrightarrow> x \<noteq> NaN"
  by (auto simp: float_setting_def env_float_def fisfinite_def dest: as_float_not_NaN split: option.splits if_splits pyfloat.splits)

text \<open>No operator value enlarges the pot. Whatever the file and the environment hold, a configuration
  that loads has a throttle between 0 and 1, a weight floor between 0.01 and 1, a positive target
  and no negative count. But not every bad file degrades to the defaults: one whose policy is a
  list makes loading raise.\<close>

theorem allocation_config_clamped:
  assumes "load_allocation_config ft env f = Some cfg"
  shows "in_range (Fin 0) (al_throttle cfg) (Fin 1) \<and> in_range MIN_WEIGHT_FLOOR (al_min_weight cfg) (Fin 1) \<and>
    flt (Fin 0) (al_target_advantage cfg) \<and> 0 \<le> al_top_k cfg \<and>
    load_allocation_config ft (\<lambda>_. None) (Holds (JObj [(''policy'', JArr [])])) = None"
proof -
  from assms obtain raw p mw ta th where
    s: "float_setting ft env raw ''DUMMY_ALLOC_MIN_WEIGHT'' ''min_weight'' DEFAULT_MIN_WEIGHT = Some mw"
      "float_setting ft env raw ''DUMMY_ALLOC_TARGET_ADVANTAGE'' ''target_advantage'' DEFAULT_TARGET_ADVANTAGE = Some ta"
      "float_setting ft env raw ''DUMMY_ALLOC_THROTTLE'' ''throttle'' DEFAULT_THROTTLE = Some th"
    and c: "al_min_weight cfg = fclamp mw MIN_WEIGHT_FLOOR (Fin 1)" "al_target_advantage cfg = fmax (to_float (1 / 1000000)) ta"
      "al_throttle cfg = fclamp th (Fin 0) (Fin 1)" "0 \<le> al_top_k cfg"
    by (auto simp: load_allocation_config_def Let_def split: option.splits)
  have "DEFAULT_MIN_WEIGHT \<noteq> NaN" "DEFAULT_THROTTLE \<noteq> NaN"
    by (simp_all add: DEFAULT_MIN_WEIGHT_def DEFAULT_THROTTLE_def)
  then have n: "mw \<noteq> NaN" "th \<noteq> NaN" using s float_setting_not_NaN by blast+
  have e: "flt (Fin 0) (to_float (1 / 1000000))" by code_simp
  have "flt (Fin 0) (fmax (to_float (1 / 1000000)) ta)"
    using e by (cases "to_float (1 / 1000000)"; cases ta) (auto simp: fmax_def)
  moreover have "load_allocation_config ft (\<lambda>_. None) (Holds (JObj [(''policy'', JArr [])])) = None"
    by (simp add: load_allocation_config_def configured_policy_def)
  ultimately show ?thesis using c n by (simp add: fclamp_range floor_value)
qed


section \<open>Every candidate is answered\<close>

lemma filter_ids_mset:
  "mset (filter P xs) + mset (filter (\<lambda>x. \<not> P x) xs) = mset xs"
  by (induction xs) simp_all

lemma kelly_answers:
  assumes "kelly_prorata cmp live pot w = Some gs" and "0 \<le> pot" and "\<And>a. a \<in> set live \<Longrightarrow> weight_of w a \<noteq> NaN"
  shows "mset (map gr_candidate_id gs) = mset (map ak_candidate_id live)"
proof -
  let ?el = "filter (\<lambda>a. flt (Fin 0) (weight_of w a)) live"
  let ?bs = "filter (\<lambda>a. fle (weight_of w a) (Fin 0)) live"
  have bs: "?bs = filter (\<lambda>a. \<not> flt (Fin 0) (weight_of w a)) live"
  proof (rule filter_cong)
    fix a assume "a \<in> set live"
    then show "fle (weight_of w a) (Fin 0) = (\<not> flt (Fin 0) (weight_of w a))"
      using assms(3) by (cases "weight_of w a") auto
  qed simp
  have "\<exists>hs. gs = map (\<lambda>a. mk_grant w KELLY_PRORATA a 0 Zero_Weight) ?bs @ hs \<and> map gr_candidate_id hs = map ak_candidate_id ?el"
  proof (cases "?el = []")
    case True
    then show ?thesis using assms(1) by (simp add: kelly_prorata_def Let_def)
  next
    case False
    then show ?thesis using assms(1,2) grant_pass_facts
      by (fastforce simp: kelly_prorata_def Let_def comp_def split: if_splits)
  qed
  then obtain hs where gs: "gs = map (\<lambda>a. mk_grant w KELLY_PRORATA a 0 Zero_Weight) ?bs @ hs"
    "map gr_candidate_id hs = map ak_candidate_id ?el" by blast
  have "mset (map gr_candidate_id gs) = mset (map ak_candidate_id ?bs) + mset (map ak_candidate_id ?el)"
    using arg_cong [OF gs(2), of mset] by (simp add: gs(1) multiset.map_comp comp_def)
  also have "\<dots> = image_mset ak_candidate_id (mset ?el + mset ?bs)" by simp
  also have "mset ?el + mset ?bs = mset live" unfolding bs by (rule filter_ids_mset)
  finally show ?thesis by simp
qed


lemma proportional_answers:
  assumes "proportional cmp live pot w = Some gs" and "0 \<le> pot"
  shows "mset (map gr_candidate_id gs) = mset (map ak_candidate_id live)"
proof (cases "gs = map (\<lambda>a. mk_grant w PROPORTIONAL a 0 Zero_Total_Weight) live")
  case True
  then show ?thesis by (simp add: multiset.map_comp comp_def)
next
  case False
  then obtain share reason where "grant_pass share reason w PROPORTIONAL pot 0 live = Some gs"
    using assms(1) by (auto simp: proportional_def Let_def split: if_splits)
  then have m: "map gr_candidate_id gs = map ak_candidate_id live" using grant_pass_facts assms(2) by blast
  show ?thesis unfolding m ..
qed

lemma top_k_answers:
  assumes "top_k_split live pot w k = Some gs" and "0 \<le> pot"
  shows "mset (map gr_candidate_id gs) = mset (map ak_candidate_id live)"
proof -
  let ?ranked = "sort_key (\<lambda>a. (fneg (weight_of w a), ak_candidate_id a)) live"
  obtain share reason where "grant_pass share reason w TOP_K pot 0 ?ranked = Some gs"
    using assms(1) by (auto simp: top_k_split_def Let_def)
  then have m: "map gr_candidate_id gs = map ak_candidate_id ?ranked" using grant_pass_facts assms(2) by blast
  show ?thesis unfolding m by simp
qed

text \<open>Every candidate is answered. As long as no weight is a NaN, a split returns exactly one grant for
  each ask, under the candidate's own id; a candidate whose weight is a NaN gets no answer at all
  from the default policy.\<close>

theorem every_candidate_is_answered:
  assumes "allocate compensated asks pot w policy_text top_k = Some gs"
    and "\<And>a. a \<in> set asks \<Longrightarrow> weight_of w a \<noteq> NaN"
  shows "mset (map gr_candidate_id gs) = mset (map ak_candidate_id asks) \<and>
    allocate compensated [\<lparr>ak_candidate_id = i, ak_scope = [], ak_ask_cents = 1, ak_price_cents = 1\<rparr>] 100 (\<lambda>_. Some NaN) [] top_k = Some []"
proof -
  let ?o = "sort_key ak_candidate_id asks"
  let ?live = "filter (\<lambda>a. 0 < ak_ask_cents a) ?o"
  let ?dd = "filter (\<lambda>a. ak_ask_cents a \<le> 0) ?o"
  let ?dead = "map (\<lambda>a. mk_grant w (policy_of policy_text) a 0 No_Ask) ?dd"
  have dd: "?dd = filter (\<lambda>a. \<not> 0 < ak_ask_cents a) ?o" by (simp add: not_less)
  have parts: "mset ?live + mset ?dd = mset asks" unfolding dd filter_ids_mset by simp
  have "mset (map gr_candidate_id gs) = mset (map ak_candidate_id asks)"
  proof (cases "pot \<le> 0")
    case True
    then show ?thesis using assms(1) by (auto simp: allocate_def Let_def multiset.map_comp comp_def)
  next
    case pot: False
    show ?thesis
    proof (cases "?live = []")
      case True
      then have "gs = ?dead" using assms(1) pot by (simp add: allocate_def Let_def)
      moreover have "mset ?dd = mset asks" using parts True by simp
      then have "image_mset ak_candidate_id (mset ?dd) = image_mset ak_candidate_id (mset asks)" by (rule arg_cong)
      ultimately show ?thesis by (simp add: multiset.map_comp comp_def)
    next
      case False
      then obtain hs where gs: "gs = sort_key gr_candidate_id (?dead @ hs)"
        and hs: "(case policy_of policy_text of TOP_K \<Rightarrow> top_k_split ?live pot w top_k
              | PROPORTIONAL \<Rightarrow> proportional compensated ?live pot w
              | KELLY_PRORATA \<Rightarrow> kelly_prorata compensated ?live pot w) = Some hs"
        using assms(1) pot by (auto simp: allocate_def Let_def)
      have nan: "weight_of w a \<noteq> NaN" if "a \<in> set ?live" for a using assms(2) that by simp
      have "mset (map gr_candidate_id hs) = mset (map ak_candidate_id ?live)"
      proof (cases "policy_of policy_text")
        case KELLY_PRORATA
        then have "kelly_prorata compensated ?live pot w = Some hs" using hs by simp
        then show ?thesis by (rule kelly_answers) (use pot nan in auto)
      next
        case PROPORTIONAL
        then have "proportional compensated ?live pot w = Some hs" using hs by simp
        then show ?thesis by (rule proportional_answers) (use pot in simp)
      next
        case TOP_K
        then have "top_k_split ?live pot w top_k = Some hs" using hs by simp
        then show ?thesis by (rule top_k_answers) (use pot in simp)
      qed
      then have "mset (map gr_candidate_id gs) = image_mset ak_candidate_id (mset ?live + mset ?dd)"
        by (simp add: gs multiset.map_comp comp_def)
      also note parts
      finally show ?thesis by simp
    qed
  qed
  moreover have "allocate compensated [\<lparr>ak_candidate_id = i, ak_scope = [], ak_ask_cents = 1, ak_price_cents = 1\<rparr>] 100
      (\<lambda>_. Some NaN) [] top_k = Some []"
    by (simp add: allocate_def policy_of_def kelly_prorata_def weight_of_def)
  ultimately show ?thesis by blast
qed

section \<open>Concrete splits\<close>

definition sample_asks :: "ask list" where
  "sample_asks = [\<lparr>ak_candidate_id = ''b'', ak_scope = ''sol'', ak_ask_cents = 60, ak_price_cents = 40\<rparr>,
     \<lparr>ak_candidate_id = ''a'', ak_scope = ''btc'', ak_ask_cents = 80, ak_price_cents = 30\<rparr>]"

definition even_weights :: weights where "even_weights _ = Some (Fin (1 / 2))"

lemma sample_split: "map_option (map gr_granted_cents) (allocate False sample_asks 100 even_weights ''top_k'' 1) = Some [80, 0]"
  by code_simp


lemma every_candidate_is_answered_witness:
  "\<exists>gs. allocate False sample_asks 100 even_weights ''top_k'' 1 = Some gs \<and> mset (map gr_candidate_id gs) = {#''a'', ''b''#}"
proof -
  obtain gs where gs: "allocate False sample_asks 100 even_weights ''top_k'' 1 = Some gs" using sample_split by auto
  have "weight_of even_weights a \<noteq> NaN" for a by (simp add: weight_of_def even_weights_def)
  with every_candidate_is_answered [OF gs] gs show ?thesis by (simp add: sample_asks_def)
qed

lemma split_ignores_arrival_order_witness:
  "allocate False sample_asks 100 even_weights ''kelly_prorata'' 5 = allocate False (rev sample_asks) 100 even_weights ''kelly_prorata'' 5"
  by (rule split_ignores_arrival_order) (simp_all add: sample_asks_def)

lemma fitting_asks_granted_in_full_witness:
  "map_option (map gr_granted_cents) (allocate False sample_asks 200 even_weights ''kelly_prorata'' 5) = Some [80, 60]"
proof -
  have "policy_of ''kelly_prorata'' = KELLY_PRORATA" by (simp add: policy_of_def)
  moreover have "a \<in> set sample_asks \<Longrightarrow> 0 < ak_ask_cents a \<and> flt (Fin 0) (weight_of even_weights a)" for a
    by (auto simp: sample_asks_def weight_of_def even_weights_def)
  moreover have "sort_key ak_candidate_id sample_asks = rev sample_asks" by code_simp
  ultimately show ?thesis
    using fitting_asks_granted_in_full [of "''kelly_prorata''" sample_asks even_weights 200 False 5]
    by (simp add: comp_def) (simp add: sample_asks_def)
qed

lemma allocation_config_clamped_witness:
  "\<exists>cfg. load_allocation_config (\<lambda>_. None) (\<lambda>_. None) (Holds (JObj [(''throttle'', JInt 7)])) = Some cfg \<and>
     in_range (Fin 0) (al_throttle cfg) (Fin 1)"
proof -
  have "\<exists>cfg. load_allocation_config (\<lambda>_. None) (\<lambda>_. None) (Holds (JObj [(''throttle'', JInt 7)])) = Some cfg"
    by (simp add: load_allocation_config_def configured_policy_def float_setting_def env_float_def as_float_def
        float_of_int_def) (code_simp)
  then show ?thesis using allocation_config_clamped by blast
qed

end
