(* ===== verification/Trading.thy ===== *)
theory Trading
  imports RiskBrain TargetPolicy
begin

text \<open>
  The values that the decision path of \<open>autonomy/\<close> hands around: market views, fused forecasts,
  decisions and outcomes (\<open>autonomy/ontology.py\<close>), the typed execution policies
  (\<open>autonomy/execution_policy.py\<close>), and the classification of tickers
  (\<open>autonomy/scanner.py\<close>).
\<close>

section \<open>Numbers as text\<close>

text \<open>
  The format \<open>f"{x:.nf}"\<close>. Decimals are rounded half to even on the exact value; there is no
  negative zero.
\<close>

definition fixed_text :: "nat \<Rightarrow> pyfloat \<Rightarrow> string" where
  "fixed_text n x =
     (case x of
        Fin r \<Rightarrow>
          (let m = round_half_even (\<bar>r\<bar> * 10 ^ n); digits = pad (n + 1) m; cut = length digits - n
           in (if r < 0 then ''-'' else []) @ take cut digits @ (if n = 0 then [] else ''.'' @ drop cut digits))
      | PosInf \<Rightarrow> ''inf'' | NegInf \<Rightarrow> ''-inf'' | NaN \<Rightarrow> ''nan'')"

lemma fixed_text_examples: "fixed_text 1 (Fin (9 / 4)) = ''2.2''" "fixed_text 2 (Fin (- 1 / 2)) = ''-0.50''"
    "fixed_text 0 (Fin 7) = ''7''"
  by code_simp+

section \<open>Data\<close>

record market_view =
  mv_ticker :: string
  mv_title :: string
  mv_vertical :: vertical
  mv_status :: string
  mv_close_time :: string
  mv_yes_bid :: "int option"
  mv_yes_ask :: "int option"
  mv_no_bid :: "int option"
  mv_no_ask :: "int option"
  mv_volume :: int
  mv_liquidity :: int
  mv_tick_size :: int
  mv_raw :: "(string \<times> json) list"
  mv_fetched_at :: "string option"

text \<open>The fields that describe the model view and the calibration are display only.\<close>

record fused_forecast =
  ff_market_ticker :: string
  ff_probability_yes :: pyfloat
  ff_uncertainty :: pyfloat
  ff_sources_used :: "(string \<times> pyfloat) list"
  ff_market_implied_yes :: "pyfloat option"
  ff_edge_yes :: pyfloat
  ff_rationale :: string

datatype decision_action = BUY_YES | BUY_NO | ABSTAIN

record decision =
  dc_id :: string
  dc_market_ticker :: string
  dc_action :: decision_action
  dc_side :: string
  dc_price_cents :: int
  dc_count :: int
  dc_ev_cents :: pyfloat
  dc_kelly :: pyfloat
  dc_notional_cents :: int
  dc_forecast :: fused_forecast
  dc_risk_snapshot :: "(string \<times> json) list"
  dc_abstain_reason :: string
  dc_created_at :: string

datatype outcome_kind = ACCEPTED | REJECTED | BLOCKED_LOCAL | PARTIALLY_FILLED | FILLED | CANCELED | EXPIRED
  | SETTLED_WIN | SETTLED_LOSS | SHADOW

record trade_outcome =
  oc_decision_id :: string
  oc_market_ticker :: string
  oc_kind :: outcome_kind
  oc_order_id :: "string option"
  oc_fill_count :: int
  oc_fill_price_cents :: "int option"
  oc_pnl_cents :: "int option"
  oc_broker_contacted :: bool
  oc_detail :: "(string \<times> json) list"

section \<open>Execution policies\<close>

datatype execution_mode = Maker | Taker | Hybrid

definition mode_text :: "execution_mode \<Rightarrow> string" where
  "mode_text m = (case m of Maker \<Rightarrow> ''maker'' | Taker \<Rightarrow> ''taker'' | Hybrid \<Rightarrow> ''hybrid'')"

record execution_policy =
  xp_cohort :: string
  xp_label :: string
  xp_mode :: execution_mode
  xp_taker_min_ev_cents :: "pyfloat option"
  xp_taker_min_edge_cents :: pyfloat
  xp_walk_forward :: bool
  xp_fast_cross_guard_seconds :: "pyfloat option"
  xp_presubmit_book_recheck :: bool
  xp_divergence_cap_cents :: "pyfloat option"
  xp_rest_seconds_before_take :: "pyfloat option"

definition COHORT_ORDER :: "string list" where
  "COHORT_ORDER = [''C0'', ''C1'', ''C2'', ''C3'', ''C4'']"

text \<open>\<open>__post_init__\<close>; the mode is right by its type.\<close>

definition policy_ok :: "execution_policy \<Rightarrow> bool" where
  "policy_ok p \<longleftrightarrow>
     (xp_cohort p \<in> set COHORT_ORDER \<or> startswith (xp_cohort p) ''C2:'') \<and> \<not> flt (xp_taker_min_edge_cents p) (Fin 0)"

definition is_control :: "execution_policy \<Rightarrow> bool" where
  "is_control p \<longleftrightarrow> xp_mode p = Maker \<and> xp_fast_cross_guard_seconds p = None \<and> \<not> xp_presubmit_book_recheck p \<and>
     xp_divergence_cap_cents p = None \<and> xp_rest_seconds_before_take p = None \<and> xp_taker_min_ev_cents p = None"

definition takes_liquidity :: "execution_policy \<Rightarrow> bool" where
  "takes_liquidity p \<longleftrightarrow> xp_mode p \<in> {Taker, Hybrid} \<or> xp_rest_seconds_before_take p \<noteq> None"

definition with_edge_threshold :: "pyfloat \<Rightarrow> execution_policy \<Rightarrow> execution_policy" where
  "with_edge_threshold x p = p\<lparr>xp_taker_min_edge_cents := x, xp_walk_forward := True\<rparr>"

definition maker_only_control :: execution_policy where
  "maker_only_control = \<lparr>xp_cohort = ''C0'', xp_label = ''maker-only control (incumbent)'', xp_mode = Maker,
     xp_taker_min_ev_cents = None, xp_taker_min_edge_cents = Fin 0, xp_walk_forward = False,
     xp_fast_cross_guard_seconds = None, xp_presubmit_book_recheck = False, xp_divergence_cap_cents = None,
     xp_rest_seconds_before_take = None\<rparr>"

definition taker_only :: "pyfloat \<Rightarrow> execution_policy" where
  "taker_only min_ev = maker_only_control\<lparr>xp_cohort := ''C1'',
     xp_label := ''taker-only (cross at decision time, MIN_EV net of taker fee)'', xp_mode := Taker,
     xp_taker_min_ev_cents := Some min_ev\<rparr>"

definition taker_walk_forward :: "pyfloat option \<Rightarrow> pyfloat \<Rightarrow> execution_policy" where
  "taker_walk_forward edge min_ev =
     (let p = maker_only_control\<lparr>xp_cohort := ''C2'', xp_label := ''taker with walk-forward edge threshold'',
                xp_mode := Taker, xp_taker_min_ev_cents := Some min_ev, xp_walk_forward := True\<rparr>
      in case edge of None \<Rightarrow> p | Some x \<Rightarrow> with_edge_threshold x p)"

definition adverse_guard_maker :: "pyfloat \<Rightarrow> pyfloat \<Rightarrow> execution_policy" where
  "adverse_guard_maker guard_seconds cap = maker_only_control\<lparr>xp_cohort := ''C3'',
     xp_label := ''adverse-guard maker (fast-cross + divergence cap)'', xp_fast_cross_guard_seconds := Some guard_seconds,
     xp_presubmit_book_recheck := True, xp_divergence_cap_cents := Some cap\<rparr>"

definition hybrid_patient_then_take :: "pyfloat \<Rightarrow> pyfloat \<Rightarrow> execution_policy" where
  "hybrid_patient_then_take rest_seconds min_ev = maker_only_control\<lparr>xp_cohort := ''C4'',
     xp_label := ''hybrid patient-then-take (rest 60s, then cross if EV holds)'', xp_mode := Hybrid,
     xp_rest_seconds_before_take := Some rest_seconds, xp_taker_min_ev_cents := Some min_ev\<rparr>"

text \<open>The policy that the environment variable \<open>DUMMY_EXECUTION_POLICY\<close> selects.\<close>

definition policy_from_env :: "string option \<Rightarrow> execution_policy" where
  "policy_from_env v =
     (let raw = upper (strip (case v of None \<Rightarrow> [] | Some s \<Rightarrow> s)) in
      if raw = ''C1'' then taker_only (Fin 3)
      else if raw = ''C3'' then adverse_guard_maker (Fin 60) (Fin 10)
      else maker_only_control)"

definition default_cohorts :: "execution_policy list" where
  "default_cohorts = [maker_only_control, taker_only (Fin 3), taker_walk_forward None (Fin 3),
     adverse_guard_maker (Fin 60) (Fin 10), hybrid_patient_then_take (Fin 60) (Fin 3)]"

section \<open>Verticals of tickers\<close>

definition VERTICAL_PREFIXES :: "(string \<times> vertical) list" where
  "VERTICAL_PREFIXES =
     [(''KXHIGH'', WEATHER), (''KXLOW'', WEATHER), (''KXRAIN'', WEATHER), (''KXSNOW'', WEATHER), (''KXBTC'', CRYPTO),
      (''KXETH'', CRYPTO), (''KXSOL'', CRYPTO), (''BTCD'', CRYPTO), (''BTC'', CRYPTO), (''ETHD'', CRYPTO),
      (''ETH'', CRYPTO), (''KXWNBA'', SPORTS), (''KXNBA'', SPORTS), (''KXNFL'', SPORTS), (''KXMLB'', SPORTS),
      (''KXNHL'', SPORTS), (''KXNCAA'', SPORTS), (''KXMVESPORTS'', SPORTS), (''KXOIL'', COMMODITIES),
      (''KXWTI'', COMMODITIES), (''KXNATGAS'', COMMODITIES), (''KXNGAS'', COMMODITIES), (''KXGAS'', COMMODITIES),
      (''KXGOLD'', COMMODITIES), (''KXCPI'', ECON), (''KXFED'', ECON), (''KXGDP'', ECON), (''KXPAYROLL'', ECON)]"

definition classify_vertical :: "string \<Rightarrow> vertical" where
  "classify_vertical ticker =
     (case List.find (\<lambda>(prefix, _). startswith (upper ticker) prefix) VERTICAL_PREFIXES of
        None \<Rightarrow> OTHER
      | Some (_, v) \<Rightarrow> v)"

section \<open>Properties\<close>

text \<open>Whatever the environment says, the selected policy is valid, is the control or a policy that
  the live path implements (no hybrid and no walk-forward one), and is the control unless the
  trimmed value spells one of the two other names.\<close>

theorem env_policy_fails_closed:
  "policy_ok (policy_from_env v) \<and> xp_mode (policy_from_env v) \<noteq> Hybrid \<and> \<not> xp_walk_forward (policy_from_env v) \<and>
   (is_control (policy_from_env v) \<or> (\<exists>s. v = Some s \<and> upper (strip s) \<in> {''C1'', ''C3''})) \<and>
   list_all policy_ok default_cohorts \<and> filter is_control default_cohorts = [maker_only_control]"
proof -
  have "policy_from_env v \<in> {taker_only (Fin 3), adverse_guard_maker (Fin 60) (Fin 10), maker_only_control}"
    by (simp add: policy_from_env_def Let_def)
  moreover have "is_control (policy_from_env v) \<or> (\<exists>s. v = Some s \<and> upper (strip s) \<in> {''C1'', ''C3''})"
    by (cases v) (simp_all add: policy_from_env_def Let_def is_control_def maker_only_control_def)
  ultimately show ?thesis
    by (elim insertE emptyE) (simp_all add: policy_ok_def COHORT_ORDER_def taker_only_def adverse_guard_maker_def
        maker_only_control_def default_cohorts_def taker_walk_forward_def hybrid_patient_then_take_def is_control_def)
qed

end
