(* ===== verification/Decide.thy ===== *)
theory Decide
  imports Trading
begin

text \<open>
  The allocator of \<open>autonomy/allocator.py\<close>: from a forecast, a book and the risk state to a sized
  and priced decision, on the budgets of \<open>RiskBrain\<close> and the fees of \<open>Fees\<close>. The values that
  the caller injects (the performance guard, the maker evidence, the execution policy) are fields of
  the allocator; \<open>uuid4\<close> is the argument \<open>fresh_id\<close>. \<open>None\<close> is an exception.
\<close>

section \<open>Constants\<close>

definition MIN_EV_CENTS :: pyfloat where "MIN_EV_CENTS = Fin 3"
definition MAX_UNCERTAINTY :: pyfloat where "MAX_UNCERTAINTY = lit64 (35 / 100)"
definition MAX_PRICE_CENTS :: int where "MAX_PRICE_CENTS = 90"
definition CRYPTO_MIN_EV_CENTS :: pyfloat where "CRYPTO_MIN_EV_CENTS = Fin 8"
definition CRYPTO_MAX_PRICE_CENTS :: int where "CRYPTO_MAX_PRICE_CENTS = 75"
definition CONFIDENCE_HAIRCUT_SIGMAS :: pyfloat where "CONFIDENCE_HAIRCUT_SIGMAS = Fin (1 / 2)"
definition MAX_ACTIONABLE_SPREAD_CENTS :: int where "MAX_ACTIONABLE_SPREAD_CENTS = 20"

section \<open>The allocator\<close>

record maker_evidence =
  me_haircut_cents :: pyfloat
  me_generated_at :: string
  me_source_report_sha256 :: string

record allocator =
  ac_codec :: codec
  ac_min_ev_cents :: pyfloat
  ac_performance_guard :: "(market_view \<Rightarrow> fused_forecast \<Rightarrow> string option) option"
  ac_execution_policy :: "execution_policy option"
  ac_maker_evidence :: "maker_evidence option"
  ac_require_maker_evidence :: bool

definition immediate_taker :: "allocator \<Rightarrow> bool" where
  "immediate_taker a = (case ac_execution_policy a of None \<Rightarrow> False | Some p \<Rightarrow> xp_mode p = Taker)"

definition abstain ::
  "clock \<Rightarrow> string \<Rightarrow> market_view \<Rightarrow> fused_forecast \<Rightarrow> string \<Rightarrow> (string \<times> json) list \<Rightarrow> string \<Rightarrow> int \<Rightarrow> pyfloat \<Rightarrow> pyfloat \<Rightarrow> decision" where
  "abstain clk fresh_id market f reason snapshot side price ev kelly =
     \<lparr>dc_id = fresh_id, dc_market_ticker = mv_ticker market, dc_action = ABSTAIN, dc_side = side,
      dc_price_cents = price, dc_count = 0, dc_ev_cents = py_round 2 ev, dc_kelly = py_round 4 kelly,
      dc_notional_cents = 0, dc_forecast = f, dc_risk_snapshot = snapshot, dc_abstain_reason = reason,
      dc_created_at = iso_now clk\<rparr>"

text \<open>Rest one tick inside the bid, never above fair value; \<open>None\<close>: no price.\<close>

definition maker_price :: "int option \<Rightarrow> int option \<Rightarrow> int \<Rightarrow> int option" where
  "maker_price best_bid best_ask fair =
     (let candidate = (case (best_bid, best_ask) of
            (Some b, Some a) \<Rightarrow> if 1 < a - b then b + 1 else b
          | (Some b, None) \<Rightarrow> b
          | (None, Some a) \<Rightarrow> max 1 (a - 1)
          | (None, None) \<Rightarrow> fair);
          price = min candidate (fair - 1)
      in if 1 \<le> price \<and> price \<le> 99 then Some price else None)"

text \<open>The outer \<open>None\<close> is the error of \<open>int(fair_cents)\<close>.\<close>

definition entry_price :: "allocator \<Rightarrow> int option \<Rightarrow> int option \<Rightarrow> pyfloat \<Rightarrow> int option option" where
  "entry_price a best_bid best_ask fair_cents =
     (if immediate_taker a
      then Some (case best_ask of None \<Rightarrow> None | Some x \<Rightarrow> if 1 \<le> x \<and> x \<le> 99 then Some x else None)
      else map_option (maker_price best_bid best_ask) (int_of_float fair_cents))"

definition entry_fee :: "int \<Rightarrow> allocator \<Rightarrow> int \<Rightarrow> string \<Rightarrow> int option" where
  "entry_fee today a price ticker =
     (if immediate_taker a then kalshi_taker_fee_cents price 1 (Some ticker)
      else kalshi_maker_fee_cents today price 1 (Some ticker) None)"

section \<open>Gates before pricing\<close>

definition evidence_snapshot :: "allocator \<Rightarrow> (string \<times> json) list" where
  "evidence_snapshot a =
     (if immediate_taker a then []
      else (case ac_maker_evidence a of
          None \<Rightarrow> []
        | Some e \<Rightarrow> [(''maker_adverse_selection_haircut_cents'', JFloat (me_haircut_cents e)),
                   (''maker_adverse_selection_report_sha256'', JStr (me_source_report_sha256 e)),
                   (''maker_adverse_selection_generated_at'', JStr (me_generated_at e))]))"

definition guard_reason :: "allocator \<Rightarrow> market_view \<Rightarrow> fused_forecast \<Rightarrow> string option" where
  "guard_reason a market f =
     (case ac_performance_guard a of
        None \<Rightarrow> None
      | Some reason_for \<Rightarrow> (case reason_for market f of Some (c # cs) \<Rightarrow> Some (c # cs) | _ \<Rightarrow> None))"

text \<open>The four quotes, when the book is two-sided.\<close>

definition quotes :: "market_view \<Rightarrow> (int \<times> int \<times> int \<times> int) option" where
  "quotes m = (case (mv_yes_bid m, mv_yes_ask m, mv_no_bid m, mv_no_ask m) of
     (Some yb, Some ya, Some nb, Some na) \<Rightarrow> Some (yb, ya, nb, na) | _ \<Rightarrow> None)"

definition book_reason :: "market_view \<Rightarrow> string option" where
  "book_reason m =
     (case quotes m of
        None \<Rightarrow> Some ''two-sided executable book required''
      | Some (yb, ya, nb, na) \<Rightarrow>
          (let yes_spread = ya - yb; no_spread = na - nb; widest = max yes_spread no_spread in
           if yes_spread \<le> 0 \<or> no_spread \<le> 0 then Some ''crossed or invalid binary book''
           else if MAX_ACTIONABLE_SPREAD_CENTS < widest
           then Some (''spread '' @ show_int widest @ ''c exceeds actionable maximum '' @
                      show_int MAX_ACTIONABLE_SPREAD_CENTS @ ''c'')
           else None))"

text \<open>Days until the close, \<open>None\<close> when the text is no time with an offset.\<close>

definition days_out :: "codec \<Rightarrow> clock \<Rightarrow> string \<Rightarrow> pyfloat option" where
  "days_out c clk close_time =
     (case from_iso c (z_to_offset close_time) of
        Some (Aware t) \<Rightarrow> fdiv (int_truediv (t - now_us clk) 1000000) (Fin 86400)
      | _ \<Rightarrow> None)"

definition horizon_reason :: "codec \<Rightarrow> clock \<Rightarrow> stage \<Rightarrow> market_view \<Rightarrow> string option" where
  "horizon_reason c clk st m =
     (let max_days = float_of_int (sl_max_days_to_close (STAGE_LIMITS st)) in
      if \<not> flt (Fin 0) max_days then None
      else (case days_out c clk (mv_close_time m) of
          None \<Rightarrow> Some ''missing or invalid close time at bounded-risk stage''
        | Some d \<Rightarrow>
            if flt d (Fin 0) then Some ''market close time already passed''
            else if flt max_days d
            then Some (''close '' @ fixed_text 1 d @ ''d out exceeds stage horizon '' @ fixed_text 0 max_days @ ''d'')
            else None))"

definition entry_reason :: "allocator \<Rightarrow> clock \<Rightarrow> market_view \<Rightarrow> fused_forecast \<Rightarrow> brain_state \<Rightarrow> string option" where
  "entry_reason a clk m f s =
     (if \<not> immediate_taker a \<and> ac_maker_evidence a = None \<and> ac_require_maker_evidence a
      then Some ''maker adverse-selection evidence unavailable or stale''
      else (case guard_reason a m f of
          Some r \<Rightarrow> Some r
        | None \<Rightarrow>
            if flt MAX_UNCERTAINTY (ff_uncertainty f)
            then Some (''uncertainty '' @ fixed_text 2 (ff_uncertainty f) @ '' too high'')
            else (case book_reason m of
                Some r \<Rightarrow> Some r
              | None \<Rightarrow> horizon_reason (ac_codec a) clk (bs_stage s) m)))"

section \<open>Candidates\<close>

record candidate =
  cd_side :: string
  cd_price :: int
  cd_raw_probability :: pyfloat
  cd_probability :: pyfloat
  cd_ev :: pyfloat

definition maker_haircut :: "allocator \<Rightarrow> pyfloat" where
  "maker_haircut a =
     (if immediate_taker a then Fin 0
      else (case ac_maker_evidence a of None \<Rightarrow> Fin 0 | Some e \<Rightarrow> me_haircut_cents e))"

text \<open>\<open>haircut / 100.0\<close>; the divisor is not zero.\<close>

definition per_cent :: "pyfloat \<Rightarrow> pyfloat" where
  "per_cent x = (case fdiv x (Fin 100) of Some y \<Rightarrow> y | None \<Rightarrow> Fin 0)"

definition max_price :: "market_view \<Rightarrow> int" where
  "max_price m = (if mv_vertical m = CRYPTO then CRYPTO_MAX_PRICE_CENTS else MAX_PRICE_CENTS)"

text \<open>One side at its entry price; \<open>None\<close>: an exception, \<open>Some None\<close>: no candidate.\<close>

definition side_candidate ::
  "int \<Rightarrow> allocator \<Rightarrow> market_view \<Rightarrow> fused_forecast \<Rightarrow> string \<Rightarrow> pyfloat \<Rightarrow> int option \<Rightarrow> candidate option option" where
  "side_candidate today a m f side q price =
     (case price of
        None \<Rightarrow> Some None
      | Some p \<Rightarrow>
          if max_price m < p then Some None
          else
            (let conservative = fmax (lit64 (5 / 1000))
                   (fsub (fsub q (fmul CONFIDENCE_HAIRCUT_SIGMAS (ff_uncertainty f))) (per_cent (maker_haircut a)))
             in map_option (\<lambda>fee. Some
                  \<lparr>cd_side = side, cd_price = p, cd_raw_probability = q, cd_probability = conservative,
                   cd_ev = fsub (fsub (fmul conservative (Fin 100)) (float_of_int p)) (float_of_int fee)\<rparr>)
                (entry_fee today a p (mv_ticker m))))"

definition candidates :: "int \<Rightarrow> allocator \<Rightarrow> market_view \<Rightarrow> fused_forecast \<Rightarrow> candidate list option" where
  "candidates today a m f =
     (let q = ff_probability_yes f; no_q = fsub (Fin 1) q in
      case (entry_price a (mv_yes_bid m) (mv_yes_ask m) (fmul q (Fin 100)),
            entry_price a (mv_no_bid m) (mv_no_ask m) (fmul no_q (Fin 100))) of
        (Some yes_price, Some no_price) \<Rightarrow>
          map_option (List.map_filter id)
            (option_all id [side_candidate today a m f ''yes'' q yes_price, side_candidate today a m f ''no'' no_q no_price])
      | _ \<Rightarrow> None)"

text \<open>\<open>max(candidates, key=ev)\<close>: the first of the best.\<close>

definition best_candidate :: "candidate \<Rightarrow> candidate list \<Rightarrow> candidate" where
  "best_candidate c cs = fold (\<lambda>x best. if flt (cd_ev best) (cd_ev x) then x else best) cs c"

section \<open>Thresholds and size\<close>

text \<open>\<open>float(x or 0.0)\<close>.\<close>

definition or_zero :: "pyfloat option \<Rightarrow> pyfloat" where
  "or_zero v = (case v of None \<Rightarrow> Fin 0 | Some x \<Rightarrow> x)"

definition min_ev :: "allocator \<Rightarrow> market_view \<Rightarrow> pyfloat" where
  "min_ev a m =
     (let base = (if mv_vertical m = CRYPTO then fmax (ac_min_ev_cents a) CRYPTO_MIN_EV_CENTS else ac_min_ev_cents a)
      in if immediate_taker a
         then fmax base (or_zero (case ac_execution_policy a of None \<Rightarrow> None | Some p \<Rightarrow> xp_taker_min_ev_cents p))
         else base)"

definition edge_floor :: "allocator \<Rightarrow> pyfloat" where
  "edge_floor a = or_zero (map_option xp_taker_min_edge_cents (ac_execution_policy a))"

definition value_reason :: "allocator \<Rightarrow> market_view \<Rightarrow> candidate \<Rightarrow> string option" where
  "value_reason a m c =
     (let gross = fsub (fmul (cd_probability c) (Fin 100)) (float_of_int (cd_price c)) in
      if immediate_taker a \<and> flt gross (edge_floor a)
      then Some (''gross edge '' @ fixed_text 1 gross @ ''c below taker threshold '' @ fixed_text 1 (edge_floor a) @ ''c'')
      else if flt (cd_ev c) (min_ev a m)
      then Some (''ev '' @ fixed_text 1 (cd_ev c) @ ''c below threshold '' @ fixed_text 1 (min_ev a m) @ ''c'')
      else None)"

definition candidate_kelly :: "allocator \<Rightarrow> fused_forecast \<Rightarrow> candidate \<Rightarrow> pyfloat" where
  "candidate_kelly a f c = uncertainty_adjusted_kelly
     (fmax (lit64 (5 / 1000)) (fsub (cd_raw_probability c) (per_cent (maker_haircut a))))
     (ff_uncertainty f) (cd_price c) CONFIDENCE_HAIRCUT_SIGMAS"

text \<open>What the budget and the allocator's grant leave for the order: a refusal or the grantable cents.\<close>

definition grantable_cents :: "order_budget_verdict \<Rightarrow> int \<Rightarrow> int option \<Rightarrow> string + int" where
  "grantable_cents budget price cap =
     (if \<not> bd_allowed budget then Inl (''risk brain: '' @ bd_reason budget)
      else if bd_max_notional_cents budget < price
      then Inl (''risk brain: remaining budget '' @ show_int (bd_max_notional_cents budget) @ ''c below one contract at '' @
                show_int price @ ''c'')
      else
        (let grantable = (case cap of None \<Rightarrow> bd_max_notional_cents budget
                           | Some x \<Rightarrow> min (bd_max_notional_cents budget) (max 0 x))
         in if grantable < price
            then Inl (''allocation: granted '' @ show_int grantable @ ''c below one contract at '' @ show_int price @ ''c'')
            else Inr grantable))"

definition sized_decision ::
  "clock \<Rightarrow> string \<Rightarrow> market_view \<Rightarrow> fused_forecast \<Rightarrow> (string \<times> json) list \<Rightarrow> candidate \<Rightarrow> pyfloat \<Rightarrow> int \<Rightarrow> decision" where
  "sized_decision clk fresh_id m f snapshot c kelly grantable =
     (let count = grantable div cd_price c in
      \<lparr>dc_id = fresh_id, dc_market_ticker = mv_ticker m, dc_action = (if cd_side c = ''yes'' then BUY_YES else BUY_NO),
       dc_side = cd_side c, dc_price_cents = cd_price c, dc_count = count, dc_ev_cents = py_round 2 (cd_ev c),
       dc_kelly = py_round 4 kelly, dc_notional_cents = count * cd_price c, dc_forecast = f,
       dc_risk_snapshot = snapshot, dc_abstain_reason = [], dc_created_at = iso_now clk\<rparr>)"

text \<open>The decision once the candidates are known. The keys of the two snapshots differ.\<close>

definition decide_on ::
  "allocator \<Rightarrow> clock \<Rightarrow> string \<Rightarrow> market_view \<Rightarrow> fused_forecast \<Rightarrow> brain_state \<Rightarrow> int \<Rightarrow> int \<Rightarrow> int \<Rightarrow> int option \<Rightarrow>
   candidate list \<Rightarrow> decision option" where
  "decide_on a clk fresh_id m f s market_exposure group_exposure group_count cap cs =
     (let snapshot = evidence_snapshot a in
      case cs of
        [] \<Rightarrow> Some (abstain clk fresh_id m f (''no viable '' @ (if immediate_taker a then ''taker'' else ''maker'') @ '' price'')
               snapshot ''yes'' 0 (Fin 0) (Fin 0))
      | c # rest \<Rightarrow>
          (let b = best_candidate c rest; kelly = candidate_kelly a f b;
               refuse = (\<lambda>reason snap. Some (abstain clk fresh_id m f reason snap (cd_side b) (cd_price b) (cd_ev b) kelly))
           in case value_reason a m b of
                Some r \<Rightarrow> refuse r snapshot
              | None \<Rightarrow>
                  (case order_budget s market_exposure kelly group_exposure group_count of
                     None \<Rightarrow> None
                   | Some budget \<Rightarrow>
                       (case grantable_cents budget (cd_price b) cap of
                          Inl r \<Rightarrow> refuse r (bd_snapshot budget @ snapshot)
                        | Inr g \<Rightarrow> Some (sized_decision clk fresh_id m f (bd_snapshot budget @ snapshot) b kelly g)))))"

definition decide ::
  "allocator \<Rightarrow> clock \<Rightarrow> int \<Rightarrow> string \<Rightarrow> market_view \<Rightarrow> fused_forecast \<Rightarrow> brain_state \<Rightarrow> int \<Rightarrow> int \<Rightarrow> int \<Rightarrow> int option \<Rightarrow>
   decision option" where
  "decide a clk today fresh_id m f s market_exposure group_exposure group_count cap =
     (case entry_reason a clk m f s of
        Some r \<Rightarrow> Some (abstain clk fresh_id m f r (evidence_snapshot a) ''yes'' 0 (Fin 0) (Fin 0))
      | None \<Rightarrow>
          (case candidates today a m f of
             None \<Rightarrow> None
           | Some cs \<Rightarrow> decide_on a clk fresh_id m f s market_exposure group_exposure group_count cap cs))"

section \<open>What a decision to buy went through\<close>

lemma abstain_simps [simp]:
  "dc_action (abstain clk i m f r sn sd p ev k) = ABSTAIN" "dc_count (abstain clk i m f r sn sd p ev k) = 0"
  "dc_notional_cents (abstain clk i m f r sn sd p ev k) = 0" "dc_abstain_reason (abstain clk i m f r sn sd p ev k) = r"
  by (simp_all add: abstain_def)

lemma sized_simps [simp]:
  "dc_side (sized_decision clk i m f sn c k g) = cd_side c" "dc_price_cents (sized_decision clk i m f sn c k g) = cd_price c"
  "dc_count (sized_decision clk i m f sn c k g) = g div cd_price c"
  "dc_notional_cents (sized_decision clk i m f sn c k g) = g div cd_price c * cd_price c"
  "dc_action (sized_decision clk i m f sn c k g) = (if cd_side c = ''yes'' then BUY_YES else BUY_NO)"
  "dc_ev_cents (sized_decision clk i m f sn c k g) = py_round 2 (cd_ev c)"
  by (simp_all add: sized_decision_def Let_def)

lemma decide_buys:
  assumes "decide a clk today i m f s me ge gc cap = Some d" and "dc_action d \<noteq> ABSTAIN"
  obtains c rest budget g where "entry_reason a clk m f s = None" "candidates today a m f = Some (c # rest)"
    "value_reason a m (best_candidate c rest) = None"
    "order_budget s me (candidate_kelly a f (best_candidate c rest)) ge gc = Some budget"
    "grantable_cents budget (cd_price (best_candidate c rest)) cap = Inr g"
    "d = sized_decision clk i m f (bd_snapshot budget @ evidence_snapshot a) (best_candidate c rest)
       (candidate_kelly a f (best_candidate c rest)) g"
proof -
  have e: "entry_reason a clk m f s = None"
    using assms by (cases "entry_reason a clk m f s") (auto simp: decide_def)
  obtain cs where cs: "candidates today a m f = Some cs"
    using assms(1) by (cases "candidates today a m f") (simp_all add: decide_def e)
  have d: "decide_on a clk i m f s me ge gc cap cs = Some d" using assms(1) by (simp add: decide_def e cs)
  obtain c rest where c: "cs = c # rest" using d assms(2) by (cases cs) (auto simp: decide_on_def)
  let ?b = "best_candidate c rest"
  have v: "value_reason a m ?b = None"
    using d assms(2) by (cases "value_reason a m ?b") (auto simp: decide_on_def Let_def c)
  obtain budget where b: "order_budget s me (candidate_kelly a f ?b) ge gc = Some budget"
    using d by (cases "order_budget s me (candidate_kelly a f ?b) ge gc") (simp_all add: decide_on_def Let_def c v)
  obtain g where g: "grantable_cents budget (cd_price ?b) cap = Inr g"
    using d assms(2) by (cases "grantable_cents budget (cd_price ?b) cap") (auto simp: decide_on_def Let_def c v b)
  have "d = sized_decision clk i m f (bd_snapshot budget @ evidence_snapshot a) ?b (candidate_kelly a f ?b) g"
    using d by (simp add: decide_on_def Let_def c v b g)
  then show thesis using that e cs c v b g by blast
qed

lemma grantable_Inr:
  assumes "grantable_cents budget price cap = Inr g"
  shows "bd_allowed budget \<and> price \<le> g \<and> g \<le> bd_max_notional_cents budget \<and> (\<forall>x. cap = Some x \<longrightarrow> g \<le> max 0 x)"
  using assms by (auto simp: grantable_cents_def Let_def split: if_splits option.splits)

lemma best_candidate_best:
  "best_candidate c cs \<in> set (c # cs) \<and> (cs = [] \<or> (\<exists>x. cs = [x]) \<longrightarrow> (\<forall>x \<in> set (c # cs). \<not> flt (cd_ev (best_candidate c cs)) (cd_ev x)))"
proof
  show "best_candidate c cs \<in> set (c # cs)"
    by (induction cs arbitrary: c) (auto simp: best_candidate_def)
  have irrefl: "\<not> flt x x" for x by (cases x) simp_all
  have asym: "flt x y \<Longrightarrow> \<not> flt y x" for x y by (cases x; cases y) simp_all
  show "cs = [] \<or> (\<exists>x. cs = [x]) \<longrightarrow> (\<forall>x \<in> set (c # cs). \<not> flt (cd_ev (best_candidate c cs)) (cd_ev x))"
    using irrefl asym by (auto simp: best_candidate_def split: if_splits)
qed

text \<open>What a candidate of one side is.\<close>

lemma side_candidate_Some:
  assumes "side_candidate today a m f side q price = Some (Some c)"
  shows "price = Some (cd_price c) \<and> cd_side c = side \<and> cd_price c \<le> max_price m \<and> cd_raw_probability c = q \<and>
    cd_probability c = fmax (lit64 (5 / 1000)) (fsub (fsub q (fmul CONFIDENCE_HAIRCUT_SIGMAS (ff_uncertainty f))) (per_cent (maker_haircut a))) \<and>
    (\<exists>fee. entry_fee today a (cd_price c) (mv_ticker m) = Some fee \<and>
      cd_ev c = fsub (fsub (fmul (cd_probability c) (Fin 100)) (float_of_int (cd_price c))) (float_of_int fee))"
proof (cases price)
  case None
  then show ?thesis using assms by (simp add: side_candidate_def)
next
  case (Some p)
  then show ?thesis using assms
    by (cases "entry_fee today a p (mv_ticker m)") (auto simp: side_candidate_def Let_def split: if_splits)
qed

text \<open>The bid, the ask and the probability of a side.\<close>

definition side_terms :: "string \<Rightarrow> market_view \<Rightarrow> fused_forecast \<Rightarrow> int option \<times> int option \<times> pyfloat" where
  "side_terms side m f =
     (if side = ''yes'' then (mv_yes_bid m, mv_yes_ask m, ff_probability_yes f)
      else (mv_no_bid m, mv_no_ask m, fsub (Fin 1) (ff_probability_yes f)))"

lemma candidates_Some:
  assumes "candidates today a m f = Some cs"
  shows "length cs \<le> 2 \<and> (\<forall>c \<in> set cs. cd_side c \<in> {''yes'', ''no''} \<and> (\<exists>bid ask q.
      side_terms (cd_side c) m f = (bid, ask, q) \<and>
      entry_price a bid ask (fmul q (Fin 100)) = Some (Some (cd_price c)) \<and>
      side_candidate today a m f (cd_side c) q (Some (cd_price c)) = Some (Some c)))"
proof -
  let ?q = "ff_probability_yes f"
  obtain yp where yp: "entry_price a (mv_yes_bid m) (mv_yes_ask m) (fmul ?q (Fin 100)) = Some yp"
    using assms by (cases "entry_price a (mv_yes_bid m) (mv_yes_ask m) (fmul ?q (Fin 100))") (simp_all add: candidates_def Let_def)
  obtain np where np: "entry_price a (mv_no_bid m) (mv_no_ask m) (fmul (fsub (Fin 1) ?q) (Fin 100)) = Some np"
    using assms by (cases "entry_price a (mv_no_bid m) (mv_no_ask m) (fmul (fsub (Fin 1) ?q) (Fin 100))") (simp_all add: candidates_def Let_def yp)
  obtain y where y: "side_candidate today a m f ''yes'' ?q yp = Some y"
    using assms by (cases "side_candidate today a m f ''yes'' ?q yp") (simp_all add: candidates_def Let_def yp np)
  obtain n where n: "side_candidate today a m f ''no'' (fsub (Fin 1) ?q) np = Some n"
    using assms by (cases "side_candidate today a m f ''no'' (fsub (Fin 1) ?q) np") (simp_all add: candidates_def Let_def yp np y)
  have cs: "cs = List.map_filter id [y, n]" using assms by (simp add: candidates_def Let_def yp np y n)
  have yes: "cd_side c = ''yes'' \<and> yp = Some (cd_price c)" if "y = Some c" for c
    using side_candidate_Some [of today a m f "''yes''" ?q yp c] y that by simp
  have no: "cd_side c = ''no'' \<and> np = Some (cd_price c)" if "n = Some c" for c
    using side_candidate_Some [of today a m f "''no''" "fsub (Fin 1) ?q" np c] n that by simp
  have "c \<in> set cs \<Longrightarrow> y = Some c \<or> n = Some c" for c by (cases y; cases n) (auto simp: cs map_filter_simps)
  moreover have "length cs \<le> 2" by (cases y; cases n) (simp_all add: cs map_filter_simps)
  ultimately show ?thesis
    using yp np y n yes no by (fastforce simp: side_terms_def)
qed

text \<open>The quotes that an entry needs.\<close>

lemma entry_reason_None:
  assumes "entry_reason a clk m f s = None"
  shows "\<not> flt MAX_UNCERTAINTY (ff_uncertainty f) \<and> guard_reason a m f = None \<and>
    (immediate_taker a \<or> ac_maker_evidence a \<noteq> None \<or> \<not> ac_require_maker_evidence a) \<and>
    horizon_reason (ac_codec a) clk (bs_stage s) m = None \<and>
    (\<exists>yb ya nb na. quotes m = Some (yb, ya, nb, na) \<and> 1 \<le> ya - yb \<and> ya - yb \<le> 20 \<and> 1 \<le> na - nb \<and> na - nb \<le> 20)"
proof -
  have g: "guard_reason a m f = None" and ev: "\<not> (\<not> immediate_taker a \<and> ac_maker_evidence a = None \<and> ac_require_maker_evidence a)"
    and u: "\<not> flt MAX_UNCERTAINTY (ff_uncertainty f)"
    using assms by (auto simp: entry_reason_def split: if_splits option.splits)
  have b: "book_reason m = None" using assms u by (simp add: entry_reason_def g ev split: option.splits)
  have h: "horizon_reason (ac_codec a) clk (bs_stage s) m = None" using assms u ev by (simp add: entry_reason_def g b split: if_splits)
  obtain yb ya nb na where q: "quotes m = Some (yb, ya, nb, na)"
    using b by (cases "quotes m") (auto simp: book_reason_def)
  have "1 \<le> ya - yb \<and> ya - yb \<le> 20 \<and> 1 \<le> na - nb \<and> na - nb \<le> 20"
    using b by (auto simp: book_reason_def q Let_def MAX_ACTIONABLE_SPREAD_CENTS_def split: if_splits)
  then show ?thesis using g ev u h q by simp
qed

lemma entry_price_range: "entry_price a bid ask x = Some (Some p) \<Longrightarrow> 1 \<le> p \<and> p \<le> 99"
  by (auto simp: entry_price_def maker_price_def Let_def split: if_splits option.splits)

lemma bought_candidate:
  assumes "candidates today a m f = Some (c # rest)"
  obtains bid ask q where "cd_side (best_candidate c rest) \<in> {''yes'', ''no''}"
    "side_terms (cd_side (best_candidate c rest)) m f = (bid, ask, q)"
    "entry_price a bid ask (fmul q (Fin 100)) = Some (Some (cd_price (best_candidate c rest)))"
    "side_candidate today a m f (cd_side (best_candidate c rest)) q (Some (cd_price (best_candidate c rest))) =
       Some (Some (best_candidate c rest))"
  using candidates_Some [OF assms] best_candidate_best [of c rest] that by blast

section \<open>Properties\<close>

text \<open>C22: What a decision to buy satisfies: the forecast is certain enough, the guard is silent, the close is within
  the horizon of the stage, both books are uncrossed and at most twenty cents wide, the price is
  within the cap of the vertical, the order is at least one contract, its notional is the price
  times the count, within the cap of the stage and the grant of the candidate allocation, and the open
  exposure with it is at most half of the bankroll rounded up.\<close>

theorem bought_within_limits:
  assumes "decide a clk today i m f s me ge gc cap = Some d" and "dc_action d \<noteq> ABSTAIN"
    and "0 \<le> bs_bankroll_cents s" and "bs_bankroll_cents s < 2 ^ 53" and "0 \<le> me"
  shows "\<not> flt MAX_UNCERTAINTY (ff_uncertainty f) \<and> guard_reason a m f = None \<and>
    horizon_reason (ac_codec a) clk (bs_stage s) m = None \<and>
    (\<exists>yb ya nb na. quotes m = Some (yb, ya, nb, na) \<and> 1 \<le> ya - yb \<and> ya - yb \<le> 20 \<and> 1 \<le> na - nb \<and> na - nb \<le> 20) \<and>
    1 \<le> dc_price_cents d \<and> dc_price_cents d \<le> max_price m \<and> 1 \<le> dc_count d \<and>
    dc_notional_cents d = dc_count d * dc_price_cents d \<and>
    dc_notional_cents d \<le> sl_order_abs_cents (STAGE_LIMITS (bs_stage s)) \<and>
    dc_notional_cents d \<le> (case cap of None \<Rightarrow> dc_notional_cents d | Some x \<Rightarrow> x) \<and>
    \<not> bs_hard_stopped s \<and> me = 0 \<and>
    bs_open_exposure_cents s + dc_notional_cents d \<le> (bs_bankroll_cents s + 1) div 2"
proof -
  from assms(1,2) obtain c rest budget g where e: "entry_reason a clk m f s = None" and cs: "candidates today a m f = Some (c # rest)"
    and v: "value_reason a m (best_candidate c rest) = None"
    and b: "order_budget s me (candidate_kelly a f (best_candidate c rest)) ge gc = Some budget"
    and g: "grantable_cents budget (cd_price (best_candidate c rest)) cap = Inr g"
    and d: "d = sized_decision clk i m f (bd_snapshot budget @ evidence_snapshot a) (best_candidate c rest)
       (candidate_kelly a f (best_candidate c rest)) g"
    by (rule decide_buys)
  let ?p = "cd_price (best_candidate c rest)"
  from cs obtain bid ask q where sd: "cd_side (best_candidate c rest) \<in> {''yes'', ''no''}"
    and t: "side_terms (cd_side (best_candidate c rest)) m f = (bid, ask, q)"
    and p: "entry_price a bid ask (fmul q (Fin 100)) = Some (Some (cd_price (best_candidate c rest)))"
    and sc: "side_candidate today a m f (cd_side (best_candidate c rest)) q (Some (cd_price (best_candidate c rest))) =
      Some (Some (best_candidate c rest))"
    by (rule bought_candidate)
  have p1: "1 \<le> ?p" and pm: "?p \<le> max_price m" using entry_price_range [OF p] side_candidate_Some [OF sc] by simp_all
  have gr: "bd_allowed budget" "?p \<le> g" "g \<le> bd_max_notional_cents budget" "\<forall>x. cap = Some x \<longrightarrow> g \<le> max 0 x"
    using grantable_Inr [OF g] by simp_all
  have lim: "\<not> bs_hard_stopped s \<and> me = 0 \<and> bd_max_notional_cents budget \<le> sl_order_abs_cents (STAGE_LIMITS (bs_stage s)) \<and>
      bs_open_exposure_cents s + bd_max_notional_cents budget \<le> (bs_bankroll_cents s + 1) div 2"
    using allowed_budget_limits [OF b gr(1) assms(3-5)] by simp
  have n: "g div ?p * ?p \<le> g" using p1 gr(2) by (simp add: minus_mod_eq_div_mult [symmetric])
  have "1 \<le> g div ?p" using p1 gr(2) by (simp add: pos_imp_zdiv_pos_iff order_less_le_trans int_one_le_iff_zero_less)
  moreover have "g div ?p * ?p \<le> (case cap of None \<Rightarrow> g div ?p * ?p | Some x \<Rightarrow> x)"
    using gr(2,4) p1 n by (cases cap) (auto simp: max_def split: if_splits)
  ultimately show ?thesis
    unfolding d sized_simps using entry_reason_None [OF e] p1 pm n gr(3) lim by simp
qed

text \<open>A maker never crosses and never pays fair value: a decision of a maker rests below the best ask of its side, at
  most one tick above the best bid, and at least one cent below the whole cents of the forecast's
  fair value; a taker pays exactly the best ask.\<close>

theorem entry_price_discipline:
  assumes "decide a clk today i m f s me ge gc cap = Some d" and "dc_action d \<noteq> ABSTAIN"
  shows "\<exists>bid ask q. side_terms (dc_side d) m f = (Some bid, Some ask, q) \<and>
    (if immediate_taker a then dc_price_cents d = ask
     else dc_price_cents d < ask \<and> dc_price_cents d \<le> bid + 1 \<and>
       (\<exists>fair. int_of_float (fmul q (Fin 100)) = Some fair \<and> dc_price_cents d \<le> fair - 1))"
proof -
  from assms obtain c rest budget g where e: "entry_reason a clk m f s = None" and cs: "candidates today a m f = Some (c # rest)"
    and v: "value_reason a m (best_candidate c rest) = None"
    and b: "order_budget s me (candidate_kelly a f (best_candidate c rest)) ge gc = Some budget"
    and g: "grantable_cents budget (cd_price (best_candidate c rest)) cap = Inr g"
    and d: "d = sized_decision clk i m f (bd_snapshot budget @ evidence_snapshot a) (best_candidate c rest)
       (candidate_kelly a f (best_candidate c rest)) g"
    by (rule decide_buys)
  from cs obtain bid ask q where sd: "cd_side (best_candidate c rest) \<in> {''yes'', ''no''}"
    and t: "side_terms (cd_side (best_candidate c rest)) m f = (bid, ask, q)"
    and p: "entry_price a bid ask (fmul q (Fin 100)) = Some (Some (cd_price (best_candidate c rest)))"
    and sc: "side_candidate today a m f (cd_side (best_candidate c rest)) q (Some (cd_price (best_candidate c rest))) =
      Some (Some (best_candidate c rest))"
    by (rule bought_candidate)
  obtain yb ya nb na where qs: "quotes m = Some (yb, ya, nb, na)" "1 \<le> ya - yb" "1 \<le> na - nb"
    using entry_reason_None [OF e] by blast
  have quoted: "mv_yes_bid m = Some yb" "mv_yes_ask m = Some ya" "mv_no_bid m = Some nb" "mv_no_ask m = Some na"
    using qs(1) by (simp_all add: quotes_def split: option.splits)
  obtain b k where bk: "bid = Some b" "ask = Some k" "1 \<le> k - b"
    using t qs(2,3) that by (simp add: side_terms_def quoted split: if_splits) blast+
  show ?thesis
  proof (cases "immediate_taker a")
    case True
    then show ?thesis using p t by (auto simp: bk d entry_price_def split: if_splits)
  next
    case False
    then obtain fair where fair: "int_of_float (fmul q (Fin 100)) = Some fair" "maker_price bid ask fair = Some (cd_price (best_candidate c rest))"
      using p by (auto simp: entry_price_def)
    then show ?thesis using False t bk(3) by (auto simp: bk(1,2) d maker_price_def Let_def min_def split: if_splits)
  qed
qed

text \<open>A decision to buy has value after everything was subtracted: its expected value is the one of a probability that
  was cut by half a sigma of uncertainty and by the measured adverse selection, net of price and
  fee, it is not below the threshold of the vertical and the policy, no other side of the market
  offered more, and the sizing fraction is computed from the same evidence.\<close>

theorem bought_with_conservative_value:
  assumes "decide a clk today i m f s me ge gc cap = Some d" and "dc_action d \<noteq> ABSTAIN"
  shows "\<exists>cs c fee bid ask q. candidates today a m f = Some cs \<and> c \<in> set cs \<and> (\<forall>x \<in> set cs. \<not> flt (cd_ev c) (cd_ev x)) \<and>
    dc_side d = cd_side c \<and> dc_price_cents d = cd_price c \<and> dc_ev_cents d = py_round 2 (cd_ev c) \<and>
    dc_kelly d = py_round 4 (candidate_kelly a f c) \<and> \<not> flt (cd_ev c) (min_ev a m) \<and>
    side_terms (dc_side d) m f = (bid, ask, q) \<and> entry_fee today a (dc_price_cents d) (mv_ticker m) = Some fee \<and>
    cd_ev c = fsub (fsub (fmul (fmax (lit64 (5 / 1000))
       (fsub (fsub q (fmul CONFIDENCE_HAIRCUT_SIGMAS (ff_uncertainty f))) (per_cent (maker_haircut a)))) (Fin 100))
       (float_of_int (dc_price_cents d))) (float_of_int fee)"
proof -
  from assms obtain c rest budget g where e: "entry_reason a clk m f s = None" and cs: "candidates today a m f = Some (c # rest)"
    and v: "value_reason a m (best_candidate c rest) = None"
    and b: "order_budget s me (candidate_kelly a f (best_candidate c rest)) ge gc = Some budget"
    and g: "grantable_cents budget (cd_price (best_candidate c rest)) cap = Inr g"
    and d: "d = sized_decision clk i m f (bd_snapshot budget @ evidence_snapshot a) (best_candidate c rest)
       (candidate_kelly a f (best_candidate c rest)) g"
    by (rule decide_buys)
  let ?b = "best_candidate c rest"
  from cs obtain bid ask q where sd: "cd_side (best_candidate c rest) \<in> {''yes'', ''no''}"
    and t: "side_terms (cd_side (best_candidate c rest)) m f = (bid, ask, q)"
    and p: "entry_price a bid ask (fmul q (Fin 100)) = Some (Some (cd_price (best_candidate c rest)))"
    and sc: "side_candidate today a m f (cd_side (best_candidate c rest)) q (Some (cd_price (best_candidate c rest))) =
      Some (Some (best_candidate c rest))"
    by (rule bought_candidate)
  have "length (c # rest) \<le> 2" using candidates_Some [OF cs] by simp
  then have "rest = [] \<or> (\<exists>x. rest = [x])" by (cases rest) auto
  then have best: "?b \<in> set (c # rest)" "\<forall>x \<in> set (c # rest). \<not> flt (cd_ev ?b) (cd_ev x)"
    using best_candidate_best [of c rest] by blast+
  have ev: "\<not> flt (cd_ev ?b) (min_ev a m)" using v by (auto simp: value_reason_def Let_def split: if_splits)
  obtain fee where fee: "entry_fee today a (cd_price ?b) (mv_ticker m) = Some fee"
    "cd_ev ?b = fsub (fsub (fmul (cd_probability ?b) (Fin 100)) (float_of_int (cd_price ?b))) (float_of_int fee)"
    "cd_probability ?b = fmax (lit64 (5 / 1000)) (fsub (fsub q (fmul CONFIDENCE_HAIRCUT_SIGMAS (ff_uncertainty f))) (per_cent (maker_haircut a)))"
    using side_candidate_Some [OF sc] by blast
  have k: "dc_kelly d = py_round 4 (candidate_kelly a f ?b)" by (simp add: d sized_decision_def Let_def)
  show ?thesis
    by (rule exI [of _ "c # rest"], rule exI [of _ ?b], rule exI [of _ fee], rule exI [of _ bid], rule exI [of _ ask], rule exI [of _ q])
      (intro conjI cs best k ev; simp add: d t fee(1) fee(2) fee(3))
qed

text \<open>What a grant of \<open>x\<close> cents makes of the decision without one.\<close>

definition granted_decision :: "int \<Rightarrow> decision \<Rightarrow> decision" where
  "granted_decision x d =
     (if dc_action d = ABSTAIN then d
      else if max 0 x < dc_price_cents d
      then d\<lparr>dc_action := ABSTAIN, dc_count := 0, dc_notional_cents := 0, dc_abstain_reason :=
             ''allocation: granted '' @ show_int (max 0 x) @ ''c below one contract at '' @ show_int (dc_price_cents d) @ ''c''\<rparr>
      else (let n = min (dc_count d) (x div dc_price_cents d) in d\<lparr>dc_count := n, dc_notional_cents := n * dc_price_cents d\<rparr>))"

lemma min_div: "0 < p \<Longrightarrow> min a b div p = min (a div p) (b div (p :: int))"
  by (cases "a \<le> b") (simp_all add: zdiv_mono1 min_absorb1 min_absorb2)

lemma decide_on_granted:
  assumes "\<forall>c \<in> set cs. 1 \<le> cd_price c"
  shows "decide_on a clk i m f s me ge gc (Some x) cs = map_option (granted_decision x) (decide_on a clk i m f s me ge gc None cs)"
proof (cases cs)
  case Nil
  then show ?thesis by (simp add: decide_on_def granted_decision_def)
next
  case (Cons c rest)
  let ?b = "best_candidate c rest"
  have p: "1 \<le> cd_price ?b" using assms best_candidate_best [of c rest] unfolding Cons by blast
  show ?thesis
  proof (cases "value_reason a m ?b")
    case (Some r)
    then show ?thesis by (simp add: Cons decide_on_def Let_def granted_decision_def)
  next
    case v: None
    show ?thesis
    proof (cases "order_budget s me (candidate_kelly a f ?b) ge gc")
      case None
      then show ?thesis by (simp add: Cons decide_on_def Let_def v)
    next
      case b: (Some budget)
      have "(\<exists>r. \<forall>cap. grantable_cents budget (cd_price ?b) cap = Inl r) \<or> bd_allowed budget \<and> cd_price ?b \<le> bd_max_notional_cents budget"
        by (cases "bd_allowed budget"; cases "bd_max_notional_cents budget < cd_price ?b") (simp_all add: grantable_cents_def)
      then consider (no) r where "\<And>cap. grantable_cents budget (cd_price ?b) cap = Inl r"
        | (yes) "bd_allowed budget" "cd_price ?b \<le> bd_max_notional_cents budget"
        by blast
      then show ?thesis
      proof cases
        case no
        then show ?thesis by (simp add: Cons decide_on_def Let_def v b granted_decision_def)
      next
        case yes
        then have n: "grantable_cents budget (cd_price ?b) None = Inr (bd_max_notional_cents budget)" by (simp add: grantable_cents_def)
        have g: "grantable_cents budget (cd_price ?b) (Some x) =
            (if max 0 x < cd_price ?b
             then Inl (''allocation: granted '' @ show_int (max 0 x) @ ''c below one contract at '' @ show_int (cd_price ?b) @ ''c'')
             else Inr (min (bd_max_notional_cents budget) x))"
          using yes p by (auto simp: grantable_cents_def Let_def min_def max_def)
        show ?thesis using p
          by (simp add: Cons decide_on_def Let_def v b n g granted_decision_def sized_decision_def abstain_def min_div)
      qed
    qed
  qed
qed

text \<open>The candidate allocation can only reduce. A grant acts on the decision that the allocator takes without one, and
  on nothing but its size: an abstention stays as it is, a purchase keeps side, price, evidence and
  snapshot and buys the smaller of its own count and what the grant pays, or abstains when the
  grant does not pay for one contract; and it raises exactly where it raises without a grant.\<close>

theorem grant_only_resizes:
  "decide a clk today i m f s me ge gc (Some x) = map_option (granted_decision x) (decide a clk today i m f s me ge gc None)"
proof (cases "entry_reason a clk m f s")
  case (Some r)
  then show ?thesis by (simp add: decide_def granted_decision_def)
next
  case e: None
  show ?thesis
  proof (cases "candidates today a m f")
    case None
    then show ?thesis by (simp add: decide_def e)
  next
    case (Some cs)
    have "\<forall>c \<in> set cs. 1 \<le> cd_price c" using candidates_Some [OF Some] entry_price_range by blast
    then show ?thesis by (simp add: decide_def e Some decide_on_granted)
  qed
qed

section \<open>A concrete decision\<close>

definition sample_market :: market_view where
  "sample_market = \<lparr>mv_ticker = ''KXMLB-26'', mv_title = ''t'', mv_vertical = SPORTS, mv_status = ''open'', mv_close_time = ''FUTURE'',
     mv_yes_bid = Some 50, mv_yes_ask = Some 54, mv_no_bid = Some 46, mv_no_ask = Some 50, mv_volume = 10,
     mv_liquidity = 10, mv_tick_size = 1, mv_raw = [(''category'', JStr ''Sports'')], mv_fetched_at = None\<rparr>"

definition sample_forecast :: fused_forecast where
  "sample_forecast = \<lparr>ff_market_ticker = ''KXMLB-26'', ff_probability_yes = Fin (3 / 4), ff_uncertainty = Fin (1 / 8),
     ff_sources_used = [(''elo'', Fin 1)], ff_market_implied_yes = Some (Fin (1 / 2)), ff_edge_yes = Fin (1 / 4), ff_rationale = ''r''\<rparr>"

definition sample_brain :: brain_state where
  "sample_brain = (fresh_state 100000)\<lparr>bs_stage := RAMP\<rparr>"

definition sample_allocator :: allocator where
  "sample_allocator = \<lparr>ac_codec = label_codec, ac_min_ev_cents = MIN_EV_CENTS, ac_performance_guard = None,
     ac_execution_policy = Some maker_only_control, ac_maker_evidence = None, ac_require_maker_evidence = False\<rparr>"

definition sample_yes :: candidate where
  "sample_yes = \<lparr>cd_side = ''yes'', cd_price = 51, cd_raw_probability = Fin (3 / 4), cd_probability = Fin (11 / 16), cd_ev = Fin (67 / 4)\<rparr>"

definition sample_no :: candidate where
  "sample_no = \<lparr>cd_side = ''no'', cd_price = 24, cd_raw_probability = Fin (1 / 4), cd_probability = Fin (3 / 16), cd_ev = Fin (- (25 / 4))\<rparr>"

lemma sample_entry: "entry_reason sample_allocator noon sample_market sample_forecast sample_brain = None"
  by code_simp

lemma sample_candidates:
  "candidates FEE_SCHEDULE_EFFECTIVE_DATE sample_allocator sample_market sample_forecast = Some [sample_yes, sample_no]"
  by code_simp

lemma sample_value: "value_reason sample_allocator sample_market sample_yes = None"
  by code_simp

lemma sample_kelly: "candidate_kelly sample_allocator sample_forecast sample_yes = Fin (1631405987465843 / 4503599627370496)"
  by code_simp

lemma sample_budget:
  "map_option (\<lambda>b. (bd_allowed b, bd_max_notional_cents b))
     (order_budget sample_brain 0 (Fin (1631405987465843 / 4503599627370496)) 0 0) = Some (True, 500)"
  by code_simp

lemma sample_best: "best_candidate sample_yes [sample_no] = sample_yes"
  by (simp add: best_candidate_def sample_yes_def sample_no_def)

lemma sample_decide_Some:
  obtains d where "decide sample_allocator noon FEE_SCHEDULE_EFFECTIVE_DATE ''d1'' sample_market sample_forecast sample_brain 0 0 0 (Some 300) = Some d"
    "dc_action d \<noteq> ABSTAIN" "dc_side d = ''yes''" "dc_price_cents d = 51" "dc_count d = 5"
proof -
  obtain b where b: "order_budget sample_brain 0 (candidate_kelly sample_allocator sample_forecast sample_yes) 0 0 = Some b"
    "bd_allowed b" "bd_max_notional_cents b = 500"
    using sample_budget unfolding sample_kelly by (auto simp: map_option_eq_Some)
  have g: "grantable_cents b (cd_price sample_yes) (Some 300) = Inr 300"
    using b by (simp add: grantable_cents_def sample_yes_def)
  show thesis
    by (rule that) (simp_all add: decide_def sample_entry sample_candidates decide_on_def Let_def sample_best sample_value b(1) g,
      simp_all add: sample_yes_def)
qed

lemma sample_limits: "0 \<le> bs_bankroll_cents sample_brain" "bs_bankroll_cents sample_brain < 2 ^ 53"
    "sl_order_abs_cents (STAGE_LIMITS (bs_stage sample_brain)) = 500" "bs_open_exposure_cents sample_brain = 0"
  by (simp_all add: sample_brain_def fresh_state_def STAGE_LIMITS_def)

theorem bought_within_limits_witness:
  "\<exists>d. decide sample_allocator noon FEE_SCHEDULE_EFFECTIVE_DATE ''d1'' sample_market sample_forecast sample_brain 0 0 0 (Some 300) = Some d \<and>
     dc_action d \<noteq> ABSTAIN \<and> dc_notional_cents d \<le> 300 \<and> dc_notional_cents d \<le> 500 \<and> 1 \<le> dc_count d"
proof -
  obtain d where d: "decide sample_allocator noon FEE_SCHEDULE_EFFECTIVE_DATE ''d1'' sample_market sample_forecast sample_brain 0 0 0 (Some 300) = Some d"
    "dc_action d \<noteq> ABSTAIN" using sample_decide_Some by blast
  show ?thesis using bought_within_limits [OF d sample_limits(1,2) order.refl] d by (auto simp: sample_limits(3))
qed

theorem entry_price_discipline_witness:
  "\<exists>d bid ask q. decide sample_allocator noon FEE_SCHEDULE_EFFECTIVE_DATE ''d1'' sample_market sample_forecast sample_brain 0 0 0 (Some 300) = Some d \<and>
     side_terms (dc_side d) sample_market sample_forecast = (Some bid, Some ask, q) \<and> dc_price_cents d < ask \<and> dc_price_cents d \<le> bid + 1"
proof -
  obtain d where d: "decide sample_allocator noon FEE_SCHEDULE_EFFECTIVE_DATE ''d1'' sample_market sample_forecast sample_brain 0 0 0 (Some 300) = Some d"
    "dc_action d \<noteq> ABSTAIN" using sample_decide_Some by blast
  have "\<not> immediate_taker sample_allocator" by code_simp
  then show ?thesis using entry_price_discipline [OF d] d(1) by auto
qed

theorem bought_with_conservative_value_witness:
  "\<exists>d c. decide sample_allocator noon FEE_SCHEDULE_EFFECTIVE_DATE ''d1'' sample_market sample_forecast sample_brain 0 0 0 (Some 300) = Some d \<and>
     dc_price_cents d = cd_price c \<and> \<not> flt (cd_ev c) (min_ev sample_allocator sample_market) \<and>
     dc_kelly d = py_round 4 (candidate_kelly sample_allocator sample_forecast c)"
proof -
  obtain d where d: "decide sample_allocator noon FEE_SCHEDULE_EFFECTIVE_DATE ''d1'' sample_market sample_forecast sample_brain 0 0 0 (Some 300) = Some d"
    "dc_action d \<noteq> ABSTAIN" using sample_decide_Some by blast
  show ?thesis using bought_with_conservative_value [OF d] d(1) by blast
qed

end
