(* ===== verification/Liquidity.thy ===== *)
theory Liquidity
  imports Trading
begin

text \<open>
  The planner of taker orders, \<open>autonomy/executable_liquidity.py\<close>: the age of a quote, the ladder
  of whole contracts in it, and the plan that discounts displayed depth and stays within the
  notional of the risk brain. A quote is a JSON object and the value of \<open>book_received_at\<close>,
  which may also be a \<open>datetime\<close>. \<open>None\<close> is an exception that leaves the function.
\<close>

section \<open>Constants\<close>

definition LIQUIDITY_EVIDENCE_VERSION :: string where "LIQUIDITY_EVIDENCE_VERSION = ''executable_depth_v1''"
definition MAX_FRESH_QUOTE_AGE_SECONDS :: pyfloat where "MAX_FRESH_QUOTE_AGE_SECONDS = Fin 5"
definition MAX_FUTURE_QUOTE_SKEW_SECONDS :: pyfloat where "MAX_FUTURE_QUOTE_SKEW_SECONDS = Fin 1"
definition MAX_EXECUTABLE_SPREAD_CENTS :: int where "MAX_EXECUTABLE_SPREAD_CENTS = 20"
definition MAX_TAKER_LEVEL_SLIPPAGE_CENTS :: int where "MAX_TAKER_LEVEL_SLIPPAGE_CENTS = 3"
definition MAX_TAKER_VWAP_SLIPPAGE_CENTS :: pyfloat where "MAX_TAKER_VWAP_SLIPPAGE_CENTS = Fin 2"
definition DISPLAYED_DEPTH_SAFETY_FRACTION :: pyfloat where "DISPLAYED_DEPTH_SAFETY_FRACTION = Fin (1 / 2)"

section \<open>The age of a quote\<close>

datatype received_value = Datetime stamp | Plain json

record quote =
  qt_fields :: "(string \<times> json) list"
  qt_received_at :: received_value

record quote_freshness =
  qf_valid :: bool
  qf_reason :: string
  qf_age_seconds :: "pyfloat option"
  qf_received_at :: "string option"

definition stamp_us :: "stamp \<Rightarrow> int" where
  "stamp_us s = (case s of Aware t \<Rightarrow> t | Naive t \<Rightarrow> t)"

text \<open>\<open>timestamp()\<close> of an instant in UTC.\<close>

definition timestamp :: "int \<Rightarrow> pyfloat" where
  "timestamp us = int_truediv us 1000000"

text \<open>
  \<open>datetime.fromtimestamp(x, utc)\<close> in microseconds: the fraction of the second is scaled in floats and
  rounded half to even; outside the years 1 to 9999 it raises.
\<close>

definition from_timestamp :: "rat \<Rightarrow> int option" where
  "from_timestamp x =
     (if x < - 62135596800 \<or> 253402300800 \<le> x then None
      else (case fmul (Fin (x - of_int (trunc_rat x))) (Fin 1000000) of
          Fin y \<Rightarrow> Some (trunc_rat x * 1000000 + round_half_even y)
        | _ \<Rightarrow> None))"

text \<open>The instant in microseconds; \<open>Some None\<close>: not a time.\<close>

definition parse_received_at :: "codec \<Rightarrow> received_value \<Rightarrow> int option option" where
  "parse_received_at c v =
     (case v of
        Datetime s \<Rightarrow> Some (Some (stamp_us s))
      | Plain (JStr t) \<Rightarrow> Some (map_option stamp_us (from_iso c (z_to_offset t)))
      | Plain (JBool b) \<Rightarrow> Some (Some (if b then 1000000 else 0))
      | Plain (JInt n) \<Rightarrow> (case float_of_int n of Fin x \<Rightarrow> map_option Some (from_timestamp x) | _ \<Rightarrow> None)
      | Plain (JFloat (Fin x)) \<Rightarrow> map_option Some (from_timestamp x)
      | Plain _ \<Rightarrow> Some None)"

definition evaluate_quote_freshness :: "codec \<Rightarrow> pyfloat \<Rightarrow> pyfloat \<Rightarrow> pyfloat \<Rightarrow> quote option \<Rightarrow> quote_freshness option" where
  "evaluate_quote_freshness c now_ts max_age max_skew q =
     (let invalid = (\<lambda>reason. Some \<lparr>qf_valid = False, qf_reason = reason, qf_age_seconds = None, qf_received_at = None\<rparr>) in
      case q of
        None \<Rightarrow> invalid ''taker_no_fresh_book''
      | Some q \<Rightarrow>
          (case parse_received_at c (qt_received_at q) of
             None \<Rightarrow> None
           | Some None \<Rightarrow> invalid ''taker_quote_timestamp_missing''
           | Some (Some us) \<Rightarrow>
               (let age = fsub now_ts (timestamp us); received = Some (to_iso c us) in Some
                (if flt age (fneg max_skew)
                 then \<lparr>qf_valid = False, qf_reason = ''taker_quote_timestamp_future'', qf_age_seconds = Some age, qf_received_at = received\<rparr>
                 else if flt max_age age
                 then \<lparr>qf_valid = False, qf_reason = ''taker_quote_stale'', qf_age_seconds = Some age, qf_received_at = received\<rparr>
                 else \<lparr>qf_valid = True, qf_reason = ''fresh'', qf_age_seconds = Some (fmax (Fin 0) age), qf_received_at = received\<rparr>))))"

section \<open>The ladder of a quote\<close>

text \<open>\<open>float(x)\<close>: \<open>None\<close> is the OverflowError, \<open>Some None\<close> a caught TypeError or ValueError.\<close>

definition float_or_skip :: "(string \<Rightarrow> pyfloat option) \<Rightarrow> json \<Rightarrow> pyfloat option option" where
  "float_or_skip ft v =
     (case v of
        JInt n \<Rightarrow> if fisfinite (float_of_int n) then Some (Some (float_of_int n)) else None
      | _ \<Rightarrow> Some (float_of_json ft v))"

text \<open>The two values of a level; \<open>None\<close>: the item is skipped.\<close>

definition level_values :: "json \<Rightarrow> (json \<times> json) option" where
  "level_values item =
     (case item of
        JObj d \<Rightarrow> Some (jget_default ''price_cents'' (jget ''price'' d) d, jget_default ''count'' (jget ''size'' d) d)
      | JArr (p # n # _) \<Rightarrow> Some (p, n)
      | _ \<Rightarrow> None)"

definition level_of_floats :: "pyfloat option \<Rightarrow> pyfloat option \<Rightarrow> (int \<times> int) option" where
  "level_of_floats p n =
     (case (p, n) of
        (Some (Fin x), Some (Fin y)) \<Rightarrow>
          if of_int (trunc_rat x) \<noteq> x \<or> \<not> (1 \<le> trunc_rat x \<and> trunc_rat x \<le> 99) \<or> \<lfloor>y\<rfloor> < 1 then None
          else Some (trunc_rat x, \<lfloor>y\<rfloor>)
      | _ \<Rightarrow> None)"

definition parse_level :: "(string \<Rightarrow> pyfloat option) \<Rightarrow> json \<Rightarrow> (int \<times> int) option option" where
  "parse_level ft item =
     (case level_values item of
        None \<Rightarrow> Some None
      | Some (p, n) \<Rightarrow>
          (case float_or_skip ft p of
             None \<Rightarrow> None
           | Some None \<Rightarrow> Some None
           | Some (Some x) \<Rightarrow> map_option (level_of_floats (Some x)) (float_or_skip ft n)))"

text \<open>The merged ladder is kept sorted by price; the source sorts its dict at the end.\<close>

fun merge_level :: "int \<Rightarrow> int \<Rightarrow> (int \<times> int) list \<Rightarrow> (int \<times> int) list" where
  "merge_level p n [] = [(p, n)]"
| "merge_level p n ((p', n') # ls) =
     (if p < p' then (p, n) # (p', n') # ls
      else if p = p' then (p', n' + n) # ls
      else (p', n') # merge_level p n ls)"

definition raw_levels :: "(string \<times> json) list \<Rightarrow> string \<Rightarrow> json list" where
  "raw_levels q side =
     (case jget (side @ ''_ask_levels'') q of
        JNull \<Rightarrow> (let ask = jget (side @ ''_ask'') q; sz = jget (side @ ''_ask_size'') q in
                if ask \<noteq> JNull \<and> sz \<noteq> JNull then [JArr [ask, sz]] else [])
      | JArr xs \<Rightarrow> xs
      | _ \<Rightarrow> [])"

definition whole_contract_levels :: "(string \<Rightarrow> pyfloat option) \<Rightarrow> (string \<times> json) list \<Rightarrow> string \<Rightarrow> (int \<times> int) list option" where
  "whole_contract_levels ft q side =
     map_option (\<lambda>ls. fold (\<lambda>(p, n). merge_level p n) (List.map_filter id ls) []) (option_all (parse_level ft) (raw_levels q side))"

section \<open>The plan\<close>

record liquidity_limits =
  ll_max_spread :: int
  ll_max_level_slippage :: int
  ll_max_vwap_slippage :: pyfloat
  ll_depth_fraction :: pyfloat

definition default_limits :: liquidity_limits where
  "default_limits = \<lparr>ll_max_spread = MAX_EXECUTABLE_SPREAD_CENTS, ll_max_level_slippage = MAX_TAKER_LEVEL_SLIPPAGE_CENTS,
     ll_max_vwap_slippage = MAX_TAKER_VWAP_SLIPPAGE_CENTS, ll_depth_fraction = DISPLAYED_DEPTH_SAFETY_FRACTION\<rparr>"

record taker_request =
  tr_side :: string
  tr_requested_count :: int
  tr_notional_cap_cents :: int
  tr_probability :: pyfloat
  tr_ticker :: string
  tr_min_ev_cents :: pyfloat
  tr_min_edge_cents :: pyfloat

record liquidity_plan =
  lp_requested_count :: int
  lp_executable_count :: int
  lp_top_ask_cents :: int
  lp_limit_price_cents :: int
  lp_modeled_vwap_cents :: pyfloat
  lp_visible_cost_cents :: int
  lp_worst_case_notional_cents :: int
  lp_modeled_fee_cents :: int
  lp_net_ev_cents :: pyfloat
  lp_gross_edge_cents :: pyfloat
  lp_spread_cents :: int
  lp_level_slippage_cents :: int
  lp_vwap_slippage_cents :: pyfloat
  lp_visible_depth :: int
  lp_usable_depth :: int
  lp_depth_fraction :: pyfloat
  lp_level_fills :: "(int \<times> int) list"

definition plan_evidence :: "string option \<Rightarrow> liquidity_plan \<Rightarrow> (string \<times> json) list" where
  "plan_evidence received p =
     [(''liquidity_evidence_version'', JStr LIQUIDITY_EVIDENCE_VERSION), (''quote_received_at'', jopt_str received),
      (''requested_count'', JInt (lp_requested_count p)), (''executable_count'', JInt (lp_executable_count p)),
      (''top_ask_cents'', JInt (lp_top_ask_cents p)), (''submitted_limit_price_cents'', JInt (lp_limit_price_cents p)),
      (''modeled_vwap_cents'', JFloat (py_round 4 (lp_modeled_vwap_cents p))), (''visible_cost_cents'', JInt (lp_visible_cost_cents p)),
      (''worst_case_notional_cents'', JInt (lp_worst_case_notional_cents p)), (''modeled_fee_cents'', JInt (lp_modeled_fee_cents p)),
      (''net_ev_cents_per_contract'', JFloat (py_round 4 (lp_net_ev_cents p))), (''gross_edge_cents'', JFloat (py_round 4 (lp_gross_edge_cents p))),
      (''spread_cents'', JInt (lp_spread_cents p)), (''level_slippage_cents'', JInt (lp_level_slippage_cents p)),
      (''vwap_slippage_cents'', JFloat (py_round 4 (lp_vwap_slippage_cents p))), (''visible_depth_contracts'', JInt (lp_visible_depth p)),
      (''usable_depth_contracts'', JInt (lp_usable_depth p)), (''depth_safety_fraction'', JFloat (lp_depth_fraction p)),
      (''level_fills'', JArr (map (\<lambda>(price, n). JArr [JInt price, JInt n]) (lp_level_fills p))),
      (''depth_capped'', JBool (lp_executable_count p < lp_requested_count p)), (''fill_status'', JStr ''unfilled_plan_only'')]"

record liquidity_assessment =
  la_allowed :: bool
  la_reason :: string
  la_plan :: "liquidity_plan option"
  la_detail :: "(string \<times> json) list"

definition reject_liquidity :: "string \<Rightarrow> (string \<times> json) list \<Rightarrow> liquidity_assessment" where
  "reject_liquidity reason detail = \<lparr>la_allowed = False, la_reason = reason, la_plan = None, la_detail = detail\<rparr>"

section \<open>The walk down the ladder\<close>

record walk =
  wk_fills :: "(int \<times> int) list"
  wk_selected :: int
  wk_capacity :: int
  wk_rejection :: "string option"

definition no_walk :: walk where
  "no_walk = \<lparr>wk_fills = [], wk_selected = 0, wk_capacity = 0, wk_rejection = None\<rparr>"

definition floor_of_float :: "pyfloat \<Rightarrow> int option" where
  "floor_of_float a = (case a of Fin x \<Rightarrow> Some \<lfloor>x\<rfloor> | _ \<Rightarrow> None)"

definition usable_count :: "liquidity_limits \<Rightarrow> int \<Rightarrow> int option" where
  "usable_count l visible = floor_of_float (fmul (float_of_int visible) (ll_depth_fraction l))"

text \<open>The contracts that one level adds, and the walk with them.\<close>

definition take_count :: "taker_request \<Rightarrow> int \<Rightarrow> int \<Rightarrow> walk \<Rightarrow> int" where
  "take_count r price usable w = min usable (min (tr_requested_count r - wk_selected w)
     (tr_notional_cap_cents r div price - wk_selected w))"

definition take_level :: "taker_request \<Rightarrow> int \<Rightarrow> int \<Rightarrow> walk \<Rightarrow> walk" where
  "take_level r price usable w =
     (let n = take_count r price usable w; w' = w\<lparr>wk_capacity := wk_capacity w + usable\<rparr> in
      if usable < 1 \<or> n \<le> 0 then w'
      else w'\<lparr>wk_fills := wk_fills w @ [(price, n)], wk_selected := wk_selected w + n\<rparr>)"

text \<open>Why the walk stops before a level is used.\<close>

definition level_rejection :: "taker_request \<Rightarrow> int \<Rightarrow> int \<Rightarrow> string option" where
  "level_rejection r price fee =
     (let gross = fsub (fmul (tr_probability r) (Fin 100)) (float_of_int price) in
      if flt gross (tr_min_edge_cents r) then Some ''taker_edge_below_min''
      else if flt (fsub gross (float_of_int fee)) (tr_min_ev_cents r) then Some ''taker_ev_below_min''
      else None)"

fun walk_ladder :: "liquidity_limits \<Rightarrow> taker_request \<Rightarrow> int \<Rightarrow> (int \<times> int) list \<Rightarrow> walk \<Rightarrow> walk option" where
  "walk_ladder l r best [] w = Some w"
| "walk_ladder l r best ((price, visible) # levels) w =
     (if ll_max_level_slippage l < price - best then Some w
      else (case kalshi_taker_fee_cents price 1 (Some (tr_ticker r)) of
          None \<Rightarrow> None
        | Some fee \<Rightarrow>
            (case level_rejection r price fee of
               Some reason \<Rightarrow> Some (w\<lparr>wk_rejection := Some reason\<rparr>)
             | None \<Rightarrow>
                 (case usable_count l visible of
                    None \<Rightarrow> None
                  | Some usable \<Rightarrow>
                      (let w' = take_level r price usable w in
                       if 1 \<le> usable \<and> tr_requested_count r \<le> wk_selected w' then Some w'
                       else walk_ladder l r best levels w')))))"

section \<open>The assessment\<close>

text \<open>\<open>int(x)\<close> under the handler of TypeError and ValueError: \<open>None\<close> is the OverflowError of an infinity.\<close>

definition int_or_skip :: "json \<Rightarrow> int option option" where
  "int_or_skip v = (case v of JFloat PosInf \<Rightarrow> None | JFloat NegInf \<Rightarrow> None | _ \<Rightarrow> Some (int_of_json v))"

definition fee_sum :: "string \<Rightarrow> (int \<times> int) list \<Rightarrow> int option" where
  "fee_sum ticker fills =
     map_option sum_list (option_all (\<lambda>(price, n). kalshi_taker_fee_cents price n (Some ticker)) fills)"

text \<open>The plan of a walk that selected something, or the reason against it.\<close>

definition conclude_plan ::
  "liquidity_limits \<Rightarrow> taker_request \<Rightarrow> int \<Rightarrow> int \<Rightarrow> int \<Rightarrow> walk \<Rightarrow> int \<Rightarrow> liquidity_assessment" where
  "conclude_plan l r best spread visible_depth w fee =
     (let selected = wk_selected w; cost = (\<Sum>(price, n) \<leftarrow> wk_fills w. price * n); limit_price = fst (last (wk_fills w));
          worst = limit_price * selected; vwap = int_truediv cost selected; slip = fsub vwap (float_of_int best);
          value = fmul (tr_probability r) (Fin 100);
          net = fsub value (int_truediv (cost + fee) selected); gross = fsub value vwap
      in if flt (ll_max_vwap_slippage l) slip
         then reject_liquidity ''taker_vwap_slippage_exceeds_cap''
           [(''vwap_slippage_cents'', JFloat (py_round 4 slip)), (''maximum_vwap_slippage_cents'', JFloat (ll_max_vwap_slippage l))]
         else if flt net (tr_min_ev_cents r) then reject_liquidity ''taker_ev_below_min'' [(''net_ev_cents_per_contract'', JFloat net)]
         else if flt gross (tr_min_edge_cents r) then reject_liquidity ''taker_edge_below_min'' [(''gross_edge_cents'', JFloat gross)]
         else if tr_notional_cap_cents r < worst then reject_liquidity ''taker_reprice_exceeds_notional_cap'' []
         else \<lparr>la_allowed = True, la_reason = ''executable_depth_verified'', la_plan = Some
           \<lparr>lp_requested_count = tr_requested_count r, lp_executable_count = selected, lp_top_ask_cents = best,
            lp_limit_price_cents = limit_price, lp_modeled_vwap_cents = vwap, lp_visible_cost_cents = cost,
            lp_worst_case_notional_cents = worst, lp_modeled_fee_cents = fee, lp_net_ev_cents = net, lp_gross_edge_cents = gross,
            lp_spread_cents = spread, lp_level_slippage_cents = limit_price - best, lp_vwap_slippage_cents = slip,
            lp_visible_depth = visible_depth, lp_usable_depth = wk_capacity w, lp_depth_fraction = ll_depth_fraction l,
            lp_level_fills = wk_fills w\<rparr>, la_detail = []\<rparr>)"

text \<open>Why a walk that selected nothing is refused.\<close>

definition nothing_selected :: "liquidity_limits \<Rightarrow> taker_request \<Rightarrow> int \<Rightarrow> int \<Rightarrow> walk \<Rightarrow> liquidity_assessment" where
  "nothing_selected l r best visible_depth w =
     (case wk_rejection w of
        Some reason \<Rightarrow> reject_liquidity reason [(''top_ask_cents'', JInt best)]
      | None \<Rightarrow>
          if tr_notional_cap_cents r < best
          then reject_liquidity ''taker_reprice_exceeds_notional_cap''
            [(''top_ask_cents'', JInt best), (''notional_cap_cents'', JInt (tr_notional_cap_cents r))]
          else reject_liquidity ''taker_depth_below_safety_floor''
            [(''visible_depth_contracts'', JInt visible_depth), (''depth_safety_fraction'', JFloat (ll_depth_fraction l))])"

definition assess_ladder :: "liquidity_limits \<Rightarrow> taker_request \<Rightarrow> int \<Rightarrow> int \<Rightarrow> (int \<times> int) list \<Rightarrow> liquidity_assessment option" where
  "assess_ladder l r best spread levels =
     (let visible_depth = (\<Sum>(price, n) \<leftarrow> levels. if price - best \<le> ll_max_level_slippage l then n else 0) in
      case walk_ladder l r best levels no_walk of
        None \<Rightarrow> None
      | Some w \<Rightarrow>
          if wk_selected w < 1 then Some (nothing_selected l r best visible_depth w)
          else map_option (conclude_plan l r best spread visible_depth w) (fee_sum (tr_ticker r) (wk_fills w)))"

text \<open>The checks of the request, and those of the two-sided book.\<close>

definition request_rejection :: "liquidity_limits \<Rightarrow> taker_request \<Rightarrow> liquidity_assessment option" where
  "request_rejection l r =
     (if tr_side r \<notin> {''yes'', ''no''} then Some (reject_liquidity ''taker_side_invalid'' [(''side'', JStr (tr_side r))])
      else if tr_requested_count r < 1 \<or> tr_notional_cap_cents r < 1
      then Some (reject_liquidity ''taker_reprice_exceeds_notional_cap'' [])
      else if \<not> (fle (Fin 0) (tr_probability r) \<and> fle (tr_probability r) (Fin 1))
      then Some (reject_liquidity ''taker_probability_invalid'' [])
      else if \<not> (flt (Fin 0) (ll_depth_fraction l) \<and> fle (ll_depth_fraction l) (Fin 1))
      then Some (reject_liquidity ''taker_depth_safety_invalid'' [])
      else None)"

definition quoted_prices :: "(string \<times> json) list \<Rightarrow> string \<Rightarrow> (int \<times> int) option option" where
  "quoted_prices q side =
     (case int_or_skip (jget (side @ ''_ask'') q) of
        None \<Rightarrow> None
      | Some None \<Rightarrow> Some None
      | Some (Some ask) \<Rightarrow> map_option (map_option (Pair ask)) (int_or_skip (jget (side @ ''_bid'') q)))"

definition book_rejection :: "liquidity_limits \<Rightarrow> int \<Rightarrow> int \<Rightarrow> int \<Rightarrow> liquidity_assessment option" where
  "book_rejection l best quoted bid =
     (if quoted \<noteq> best
      then Some (reject_liquidity ''taker_book_inconsistent'' [(''quoted_ask_cents'', JInt quoted), (''ladder_top_ask_cents'', JInt best)])
      else if best - bid \<le> 0
      then Some (reject_liquidity ''taker_book_crossed'' [(''bid_cents'', JInt bid), (''ask_cents'', JInt best)])
      else if ll_max_spread l < best - bid
      then Some (reject_liquidity ''taker_spread_exceeds_cap''
        [(''spread_cents'', JInt (best - bid)), (''maximum_spread_cents'', JInt (ll_max_spread l))])
      else None)"

definition assess_taker_liquidity ::
  "(string \<Rightarrow> pyfloat option) \<Rightarrow> liquidity_limits \<Rightarrow> taker_request \<Rightarrow> (string \<times> json) list \<Rightarrow> liquidity_assessment option" where
  "assess_taker_liquidity ft l r q =
     (case request_rejection l r of
        Some a \<Rightarrow> Some a
      | None \<Rightarrow>
          (case whole_contract_levels ft q (tr_side r) of
             None \<Rightarrow> None
           | Some [] \<Rightarrow> Some (reject_liquidity ''taker_executable_depth_missing'' [])
           | Some ((best, visible) # levels) \<Rightarrow>
               (case quoted_prices q (tr_side r) of
                  None \<Rightarrow> None
                | Some None \<Rightarrow> Some (reject_liquidity ''taker_two_sided_book_required'' [])
                | Some (Some (quoted, bid)) \<Rightarrow>
                    (case book_rejection l best quoted bid of
                       Some a \<Rightarrow> Some a
                     | None \<Rightarrow> assess_ladder l r best (best - bid) ((best, visible) # levels)))))"

section \<open>The ladder is well formed\<close>

definition ladder_ok :: "(int \<times> int) list \<Rightarrow> bool" where
  "ladder_ok ls \<longleftrightarrow> sorted_wrt (<) (map fst ls) \<and> (\<forall>(p, n) \<in> set ls. 1 \<le> p \<and> p \<le> 99 \<and> 1 \<le> n)"

lemma keys_merge_level: "fst ` set (merge_level p n ls) = insert p (fst ` set ls)"
  by (induction p n ls rule: merge_level.induct) auto

lemma ladder_ok_merge:
  assumes "1 \<le> p" and "p \<le> 99" and "1 \<le> n"
  shows "ladder_ok ls \<Longrightarrow> ladder_ok (merge_level p n ls)"
proof (induction ls)
  case Nil
  then show ?case using assms by (simp add: ladder_ok_def)
next
  case (Cons x ls)
  obtain p' n' where x: "x = (p', n')" by (cases x)
  have tl: "ladder_ok ls" and low: "\<forall>q \<in> fst ` set ls. p' < q" and hd: "1 \<le> p'" "p' \<le> 99" "1 \<le> n'"
    using Cons.prems by (auto simp: ladder_ok_def x)
  have keys: "fst ` set (merge_level p n ls) = insert p (fst ` set ls)" by (rule keys_merge_level)
  have "\<forall>q \<in> fst ` set (merge_level p n ls). p' < q" if "p' < p" using that low unfolding keys by simp
  then show ?case using assms tl low hd Cons.IH [OF tl] Cons.prems by (auto simp: ladder_ok_def x)
qed

lemma level_of_floats_ok: "level_of_floats x y = Some (p, n) \<Longrightarrow> 1 \<le> p \<and> p \<le> 99 \<and> 1 \<le> n"
  by (auto simp: level_of_floats_def split: option.splits pyfloat.splits if_splits)

lemma parse_level_ok: "parse_level ft item = Some (Some (p, n)) \<Longrightarrow> 1 \<le> p \<and> p \<le> 99 \<and> 1 \<le> n"
  using level_of_floats_ok by (auto simp: parse_level_def split: option.splits prod.splits)

lemma ladder_ok_fold:
  "ladder_ok acc \<Longrightarrow> \<forall>(p, n) \<in> set ls. 1 \<le> p \<and> p \<le> 99 \<and> 1 \<le> n \<Longrightarrow> ladder_ok (fold (\<lambda>(p, n). merge_level p n) ls acc)"
  by (induction ls arbitrary: acc) (auto simp: ladder_ok_merge)

lemma whole_contract_levels_ok:
  assumes "whole_contract_levels ft q side = Some ls"
  shows "ladder_ok ls"
proof -
  obtain xs where xs: "option_all (parse_level ft) (raw_levels q side) = Some xs"
    "ls = fold (\<lambda>(p, n). merge_level p n) (List.map_filter id xs) []"
    using assms by (auto simp: whole_contract_levels_def)
  have "1 \<le> p \<and> p \<le> 99 \<and> 1 \<le> n" if "(p, n) \<in> set (List.map_filter id xs)" for p n
  proof -
    have "Some (p, n) \<in> set xs" using that by (auto simp: List.map_filter_def)
    then show ?thesis using option_all_set [OF xs(1)] parse_level_ok by blast
  qed
  then show ?thesis unfolding xs(2) by (intro ladder_ok_fold) (auto simp: ladder_ok_def)
qed

section \<open>What the walk keeps\<close>

text \<open>
  The invariant of the walk: the fills are a ladder within the slippage band, below the levels
  still to come and each within the discounted depth of its level; they add up to the selected
  count, which is within the request and, at the last price, within the notional cap.
\<close>

definition walk_ok :: "liquidity_limits \<Rightarrow> taker_request \<Rightarrow> int \<Rightarrow> (int \<times> int) list \<Rightarrow> walk \<Rightarrow> bool" where
  "walk_ok l r best levels w \<longleftrightarrow>
     sorted_wrt (<) (map fst (wk_fills w)) \<and>
     (\<forall>(p, n) \<in> set (wk_fills w). best \<le> p \<and> p - best \<le> ll_max_level_slippage l \<and> 1 \<le> n \<and>
        (\<exists>v u. (p, v) \<in> set levels \<and> usable_count l v = Some u \<and> n \<le> u)) \<and>
     wk_selected w = sum_list (map snd (wk_fills w)) \<and> wk_selected w \<le> max 0 (tr_requested_count r) \<and>
     (wk_fills w \<noteq> [] \<longrightarrow> wk_selected w \<le> tr_notional_cap_cents r div fst (last (wk_fills w)))"

lemma walk_ok_empty: "walk_ok l r best levels no_walk"
  by (simp add: walk_ok_def no_walk_def)

lemma take_level_skip: "usable < 1 \<or> take_count r p usable w \<le> 0 \<Longrightarrow> take_level r p usable w = w\<lparr>wk_capacity := wk_capacity w + usable\<rparr>"
  by (simp add: take_level_def Let_def)

lemma take_level_take: "1 \<le> usable \<Longrightarrow> 1 \<le> take_count r p usable w \<Longrightarrow> take_level r p usable w =
    w\<lparr>wk_capacity := wk_capacity w + usable, wk_fills := wk_fills w @ [(p, take_count r p usable w)],
      wk_selected := wk_selected w + take_count r p usable w\<rparr>"
  by (simp add: take_level_def Let_def)

lemma walk_ok_take_level:
  assumes "walk_ok l r best levels w" and "(p, v) \<in> set levels" and "usable_count l v = Some usable"
    and "best \<le> p" and "p - best \<le> ll_max_level_slippage l" and "\<forall>q \<in> fst ` set (wk_fills w). q < p"
  shows "walk_ok l r best levels (take_level r p usable w) \<and>
    fst ` set (wk_fills (take_level r p usable w)) \<subseteq> insert p (fst ` set (wk_fills w))"
proof (cases "1 \<le> usable \<and> 1 \<le> take_count r p usable w")
  case False
  then have "take_level r p usable w = w\<lparr>wk_capacity := wk_capacity w + usable\<rparr>" by (intro take_level_skip) auto
  then show ?thesis using assms(1) by (auto simp: walk_ok_def)
next
  case True
  let ?n = "take_count r p usable w"
  have t: "take_level r p usable w = w\<lparr>wk_capacity := wk_capacity w + usable, wk_fills := wk_fills w @ [(p, ?n)],
      wk_selected := wk_selected w + ?n\<rparr>"
    using True by (intro take_level_take) auto
  have n: "?n \<le> usable" "?n \<le> tr_requested_count r - wk_selected w" "?n \<le> tr_notional_cap_cents r div p - wk_selected w"
    by (simp_all add: take_count_def)
  have sorted: "sorted_wrt (<) (map fst (wk_fills w @ [(p, ?n)]))"
    using assms(1,6) by (auto simp: walk_ok_def sorted_wrt_append)
  show ?thesis
    unfolding t walk_ok_def using assms n True sorted by (auto simp: walk_ok_def)
qed

lemma walk_ladder_keeps:
  assumes "walk_ladder l r best levels w = Some w'" and "walk_ok l r best all w" and "set levels \<subseteq> set all"
    and "sorted_wrt (<) (map fst levels)" and "\<forall>q \<in> fst ` set (wk_fills w). \<forall>p \<in> fst ` set levels. q < p"
    and "\<forall>p \<in> fst ` set levels. best \<le> p"
  shows "walk_ok l r best all w'"
  using assms
proof (induction l r best levels w rule: walk_ladder.induct)
  case (1 l r best w)
  then show ?case by simp
next
  case (2 l r best price visible levels w)
  show ?case
  proof (cases "ll_max_level_slippage l < price - best")
    case True
    then show ?thesis using 2(2,3) by simp
  next
    case band: False
    obtain fee where fee: "kalshi_taker_fee_cents price 1 (Some (tr_ticker r)) = Some fee"
      using 2(2) band by (cases "kalshi_taker_fee_cents price 1 (Some (tr_ticker r))") simp_all
    show ?thesis
    proof (cases "level_rejection r price fee")
      case (Some reason)
      then have "w' = w\<lparr>wk_rejection := Some reason\<rparr>" using 2(2) band fee by simp
      then have "walk_ok l r best all w' = walk_ok l r best all w" by (simp add: walk_ok_def)
      then show ?thesis using 2(3) by simp
    next
      case none: None
      obtain usable where u: "usable_count l visible = Some usable"
        using 2(2) band fee none by (cases "usable_count l visible") simp_all
      have ok: "walk_ok l r best all (take_level r price usable w)"
        and keys: "fst ` set (wk_fills (take_level r price usable w)) \<subseteq> insert price (fst ` set (wk_fills w))"
        using walk_ok_take_level [OF 2(3), of price visible usable] 2(4,6,7) u band by auto
      show ?thesis
      proof (cases "1 \<le> usable \<and> tr_requested_count r \<le> wk_selected (take_level r price usable w)")
        case True
        then have "w' = take_level r price usable w" using 2(2) band fee none u by (simp add: Let_def)
        then show ?thesis using ok by simp
      next
        case False
        then have go: "walk_ladder l r best levels (take_level r price usable w) = Some w'"
          using 2(2) band fee none u by (simp add: Let_def split: if_splits)
        have "\<forall>q \<in> fst ` set (wk_fills (take_level r price usable w)). \<forall>p \<in> fst ` set levels. q < p"
          using keys 2(5,6) by fastforce
        then show ?thesis using 2(1) [OF band fee none u refl False go ok] 2(4,5,7) by simp
      qed
    qed
  qed
qed

lemma level_rejection_reason: "level_rejection r p fee = Some x \<Longrightarrow> x = ''taker_edge_below_min'' \<or> x = ''taker_ev_below_min''"
  by (simp add: level_rejection_def Let_def split: if_splits)

lemma take_level_rejection [simp]: "wk_rejection (take_level r p u w) = wk_rejection w"
  by (simp add: take_level_def Let_def)

lemma walk_rejection:
  "walk_ladder l r best levels w = Some w' \<Longrightarrow> wk_rejection w = None \<Longrightarrow> wk_rejection w' = Some x \<Longrightarrow>
    x = ''taker_edge_below_min'' \<or> x = ''taker_ev_below_min''"
proof (induction l r best levels w rule: walk_ladder.induct)
  case (2 l r best price visible levels w)
  then show ?case
    by (auto simp: Let_def dest: level_rejection_reason split: if_splits option.splits)
qed simp

declare walk_ladder.simps [simp del]

lemma reject_liquidity_simps [simp]:
  "la_plan (reject_liquidity reason d) = None" "la_reason (reject_liquidity reason d) = reason"
  by (simp_all add: reject_liquidity_def)

text \<open>An assessment that reached the walk.\<close>

definition walked :: "taker_request \<Rightarrow> liquidity_assessment \<Rightarrow> bool" where
  "walked r a \<longleftrightarrow> la_plan a \<noteq> None \<or> 1 \<le> tr_requested_count r \<and> 1 \<le> tr_notional_cap_cents r \<and>
     la_reason a = ''taker_reprice_exceeds_notional_cap''"

lemma assess_selected:
  assumes "assess_taker_liquidity ft l r q = Some a" and "walked r a"
  obtains best v rest bid w where "1 \<le> tr_requested_count r"
    "whole_contract_levels ft q (tr_side r) = Some ((best, v) # rest)" "1 \<le> best - bid" "best - bid \<le> ll_max_spread l"
    "walk_ladder l r best ((best, v) # rest) no_walk = Some w"
    "assess_ladder l r best (best - bid) ((best, v) # rest) = Some a"
proof -
  have g: "request_rejection l r = None"
    using assms by (cases "request_rejection l r") (auto simp: assess_taker_liquidity_def request_rejection_def walked_def split: if_splits)
  then have n: "1 \<le> tr_requested_count r" by (auto simp: request_rejection_def split: if_splits)
  obtain ls where ls: "whole_contract_levels ft q (tr_side r) = Some ls"
    using assms(1) by (cases "whole_contract_levels ft q (tr_side r)") (simp_all add: assess_taker_liquidity_def g)
  obtain best v rest where bv: "ls = (best, v) # rest"
    using assms by (cases ls) (auto simp: assess_taker_liquidity_def g ls walked_def)
  obtain ask bid where p: "quoted_prices q (tr_side r) = Some (Some (ask, bid))"
    using assms by (auto simp: assess_taker_liquidity_def g ls bv walked_def split: option.splits)
  have b: "book_rejection l best ask bid = None"
    using assms by (cases "book_rejection l best ask bid") (auto simp: assess_taker_liquidity_def g ls bv p walked_def book_rejection_def split: if_splits)
  have a: "assess_ladder l r best (best - bid) ((best, v) # rest) = Some a"
    using assms(1) by (simp add: assess_taker_liquidity_def g ls bv p b)
  obtain w where "walk_ladder l r best ((best, v) # rest) no_walk = Some w"
    using a by (cases "walk_ladder l r best ((best, v) # rest) no_walk") (simp_all add: assess_ladder_def Let_def)
  moreover have "1 \<le> best - bid" "best - bid \<le> ll_max_spread l"
    using b by (auto simp: book_rejection_def split: if_splits)
  ultimately show thesis using that [OF n _ _ _ _ a] ls by (simp add: bv)
qed

lemma walk_of_ladder:
  assumes "ladder_ok ((best, v) # rest)" and "walk_ladder l r best ((best, v) # rest) no_walk = Some w"
  shows "walk_ok l r best ((best, v) # rest) w"
  by (rule walk_ladder_keeps [OF assms(2) walk_ok_empty order.refl]) (use assms(1) in \<open>auto simp: ladder_ok_def no_walk_def\<close>)

lemma notional_within_cap:
  assumes "walk_ok l r best levels w" and "1 \<le> best" and "1 \<le> wk_selected w"
  shows "wk_fills w \<noteq> [] \<and> best \<le> fst (last (wk_fills w)) \<and> fst (last (wk_fills w)) * wk_selected w \<le> tr_notional_cap_cents r"
proof -
  have ne: "wk_fills w \<noteq> []" using assms(1,3) by (auto simp: walk_ok_def)
  then have "last (wk_fills w) \<in> set (wk_fills w)" by simp
  then have p: "best \<le> fst (last (wk_fills w))" using assms(1) by (auto simp: walk_ok_def split_beta)
  have "wk_selected w \<le> tr_notional_cap_cents r div fst (last (wk_fills w))" using assms(1) ne by (simp add: walk_ok_def)
  then have "fst (last (wk_fills w)) * wk_selected w \<le> fst (last (wk_fills w)) * (tr_notional_cap_cents r div fst (last (wk_fills w)))"
    using p assms(2) by (intro mult_left_mono) simp_all
  also have "\<dots> \<le> tr_notional_cap_cents r" using p assms(2) mult_div_mod_eq [of "fst (last (wk_fills w))" "tr_notional_cap_cents r"]
      pos_mod_sign [of "fst (last (wk_fills w))" "tr_notional_cap_cents r"] by linarith
  finally show ?thesis using ne p by simp
qed

lemma cost_within_limit:
  "sorted_wrt (<) (map fst fs) \<Longrightarrow> \<forall>(p, n) \<in> set fs. (0 :: int) \<le> n \<Longrightarrow> fs \<noteq> [] \<Longrightarrow>
    (\<Sum>(p, n) \<leftarrow> fs. p * n) \<le> (fst (last fs) :: int) * sum_list (map snd fs)"
proof (induction fs rule: rev_induct)
  case (snoc x fs)
  obtain p n where x: "x = (p, n)" by (cases x)
  show ?case
  proof (cases "fs = []")
    case True
    then show ?thesis by (simp add: x)
  next
    case False
    then have ih: "(\<Sum>(p, n) \<leftarrow> fs. p * n) \<le> fst (last fs) * sum_list (map snd fs)"
      using snoc by (simp add: sorted_wrt_append)
    have "last fs \<in> set fs" using False by simp
    then have "fst (last fs) \<le> p" using snoc.prems(1) by (auto simp: x sorted_wrt_append)
    moreover have "0 \<le> sum_list (map snd fs)" using snoc.prems(2) by (intro sum_list_nonneg) auto
    ultimately have "fst (last fs) * sum_list (map snd fs) \<le> p * sum_list (map snd fs)" by (intro mult_right_mono)
    then show ?thesis using ih by (simp add: x distrib_left)
  qed
qed simp

section \<open>Properties\<close>

text \<open>C21: The ladder read from a quote is one, whatever the quote holds: prices strictly increase and lie between 1 and 99
  cents, every level has at least one whole contract, and a level that names a price twice
  counts for its sum.\<close>

theorem quoted_ladder_well_formed:
  assumes "whole_contract_levels ft q side = Some ls"
  shows "sorted_wrt (<) (map fst ls) \<and> distinct (map fst ls) \<and> (\<forall>(p, n) \<in> set ls. 1 \<le> p \<and> p \<le> 99 \<and> 1 \<le> n)"
  using whole_contract_levels_ok [OF assms] by (auto simp: ladder_ok_def strict_sorted_iff)

lemma executable_plan:
  assumes "assess_taker_liquidity ft l r q = Some a" and "la_plan a = Some p"
  shows "\<exists>best v rest. whole_contract_levels ft q (tr_side r) = Some ((best, v) # rest) \<and> lp_top_ask_cents p = best \<and> la_allowed a \<and>
    1 \<le> lp_executable_count p \<and> lp_executable_count p \<le> tr_requested_count r \<and>
    sorted_wrt (<) (map fst (lp_level_fills p)) \<and> lp_executable_count p = sum_list (map snd (lp_level_fills p)) \<and>
    (\<forall>(price, n) \<in> set (lp_level_fills p). best \<le> price \<and> price - best \<le> ll_max_level_slippage l \<and> 1 \<le> n \<and>
       (\<exists>shown u. (price, shown) \<in> set ((best, v) # rest) \<and> usable_count l shown = Some u \<and> n \<le> u)) \<and>
    lp_limit_price_cents p = fst (last (lp_level_fills p)) \<and>
    lp_worst_case_notional_cents p = lp_limit_price_cents p * lp_executable_count p \<and>
    lp_visible_cost_cents p \<le> lp_worst_case_notional_cents p \<and> lp_worst_case_notional_cents p \<le> tr_notional_cap_cents r \<and>
    1 \<le> lp_spread_cents p \<and> lp_spread_cents p \<le> ll_max_spread l \<and>
    \<not> flt (lp_net_ev_cents p) (tr_min_ev_cents r) \<and> \<not> flt (lp_gross_edge_cents p) (tr_min_edge_cents r)"
proof -
  have "walked r a" using assms(2) by (simp add: walked_def)
  with assms(1) obtain best v rest bid w where rq: "1 \<le> tr_requested_count r"
    and ls: "whole_contract_levels ft q (tr_side r) = Some ((best, v) # rest)" and sp: "1 \<le> best - bid" "best - bid \<le> ll_max_spread l"
    and w: "walk_ladder l r best ((best, v) # rest) no_walk = Some w"
    and a: "assess_ladder l r best (best - bid) ((best, v) # rest) = Some a"
    by (rule assess_selected)
  have lad: "ladder_ok ((best, v) # rest)" by (rule whole_contract_levels_ok [OF ls])
  then have b: "1 \<le> best" by (simp add: ladder_ok_def)
  have ok: "walk_ok l r best ((best, v) # rest) w" by (rule walk_of_ladder [OF lad w])
  have sel: "1 \<le> wk_selected w"
    using a assms(2) by (auto simp: assess_ladder_def Let_def w nothing_selected_def reject_liquidity_def split: if_splits option.splits)
  have cap: "wk_fills w \<noteq> []" "fst (last (wk_fills w)) * wk_selected w \<le> tr_notional_cap_cents r"
    using notional_within_cap [OF ok b sel] by simp_all
  have nn: "\<forall>(p, n) \<in> set (wk_fills w). 0 \<le> n" using ok unfolding walk_ok_def by fastforce
  have cost: "(\<Sum>(p, n) \<leftarrow> wk_fills w. p * n) \<le> fst (last (wk_fills w)) * wk_selected w"
    using cost_within_limit [of "wk_fills w"] ok cap(1) nn by (simp add: walk_ok_def)
  obtain fee where c: "a = conclude_plan l r best (best - bid)
      (\<Sum>(price, n) \<leftarrow> (best, v) # rest. if price - best \<le> ll_max_level_slippage l then n else 0) w fee"
    using a sel by (auto simp: assess_ladder_def Let_def w)
  show ?thesis
    using assms(2) ok cap cost sel sp rq ls unfolding c
    by (auto simp: conclude_plan_def Let_def reject_liquidity_def walk_ok_def split: if_splits)
qed

text \<open>C20: A taker plan can be executed within its limits. It buys at least one contract and at most what was asked for; its fills climb
  strictly from the best ask within the slippage band, each within the discounted depth that the
  quote shows at that price; the limit price is the last fill's, the worst case is the limit price
  times the count, covers the displayed cost and is within the notional cap; the book is
  uncrossed within the spread cap, and value and edge reach their floors.\<close>

theorem taker_plan_is_executable:
  assumes "assess_taker_liquidity ft l r q = Some a" and "la_plan a = Some p"
  shows "\<exists>best v rest. whole_contract_levels ft q (tr_side r) = Some ((best, v) # rest) \<and> lp_top_ask_cents p = best \<and> la_allowed a \<and>
    1 \<le> lp_executable_count p \<and> lp_executable_count p \<le> tr_requested_count r \<and>
    sorted_wrt (<) (map fst (lp_level_fills p)) \<and> lp_executable_count p = sum_list (map snd (lp_level_fills p)) \<and>
    (\<forall>(price, n) \<in> set (lp_level_fills p). best \<le> price \<and> price - best \<le> ll_max_level_slippage l \<and> 1 \<le> n \<and>
       (\<exists>shown u. (price, shown) \<in> set ((best, v) # rest) \<and> usable_count l shown = Some u \<and> n \<le> u)) \<and>
    lp_limit_price_cents p = fst (last (lp_level_fills p)) \<and>
    lp_worst_case_notional_cents p = lp_limit_price_cents p * lp_executable_count p \<and>
    lp_visible_cost_cents p \<le> lp_worst_case_notional_cents p \<and> lp_worst_case_notional_cents p \<le> tr_notional_cap_cents r \<and>
    1 \<le> lp_spread_cents p \<and> lp_spread_cents p \<le> ll_max_spread l \<and>
    \<not> flt (lp_net_ev_cents p) (tr_min_ev_cents r) \<and> \<not> flt (lp_gross_edge_cents p) (tr_min_edge_cents r)"
  by (rule executable_plan [OF assms])

text \<open>The reason given for a refusal over the notional cap is true: the cap is below one contract at the
  best ask or the request is empty. The last comparison with the cap, after the walk, never
  refuses a plan.\<close>

theorem notional_refusal_is_exact:
  assumes "assess_taker_liquidity ft l r q = Some a" and "la_reason a = ''taker_reprice_exceeds_notional_cap''"
  shows "tr_requested_count r < 1 \<or> tr_notional_cap_cents r < 1 \<or>
    (\<exists>best v rest. whole_contract_levels ft q (tr_side r) = Some ((best, v) # rest) \<and> tr_notional_cap_cents r < best)"
proof (cases "1 \<le> tr_requested_count r \<and> 1 \<le> tr_notional_cap_cents r")
  case True
  then have "walked r a" using assms(2) by (simp add: walked_def)
  with assms(1) obtain best v rest bid w where rq: "1 \<le> tr_requested_count r"
    and ls: "whole_contract_levels ft q (tr_side r) = Some ((best, v) # rest)" and sp: "1 \<le> best - bid" "best - bid \<le> ll_max_spread l"
    and w: "walk_ladder l r best ((best, v) # rest) no_walk = Some w"
    and a: "assess_ladder l r best (best - bid) ((best, v) # rest) = Some a"
    by (rule assess_selected)
  have lad: "ladder_ok ((best, v) # rest)" by (rule whole_contract_levels_ok [OF ls])
  then have b: "1 \<le> best" by (simp add: ladder_ok_def)
  have ok: "walk_ok l r best ((best, v) # rest) w" by (rule walk_of_ladder [OF lad w])
  show ?thesis
  proof (cases "1 \<le> wk_selected w")
    case sel: True
    then have False
      using a assms(2) notional_within_cap [OF ok b sel]
      by (auto simp: assess_ladder_def Let_def w conclude_plan_def reject_liquidity_def split: if_splits)
    then show ?thesis ..
  next
    case False
    have "wk_rejection w \<noteq> Some ''taker_reprice_exceeds_notional_cap''"
      using walk_rejection [OF w, of "''taker_reprice_exceeds_notional_cap''"] by (auto simp: no_walk_def)
    with False show ?thesis
      using a assms(2) ls by (auto simp: assess_ladder_def Let_def w nothing_selected_def reject_liquidity_def split: if_splits option.splits)
  qed
qed auto

section \<open>A concrete quote\<close>

definition sample_quote :: "(string \<times> json) list" where
  "sample_quote = [(''yes_ask'', JInt 50), (''yes_bid'', JInt 48),
     (''yes_ask_levels'', JArr [JArr [JInt 51, JInt 12], JArr [JInt 50, JInt 10], JArr [JInt 51, JInt 8]])]"

definition sample_request :: "int \<Rightarrow> taker_request" where
  "sample_request cap = \<lparr>tr_side = ''yes'', tr_requested_count = 8, tr_notional_cap_cents = cap, tr_probability = Fin (3 / 4),
     tr_ticker = ''KXMLB-26'', tr_min_ev_cents = Fin 3, tr_min_edge_cents = Fin 0\<rparr>"

lemma sample_ladder: "whole_contract_levels (\<lambda>_. None) sample_quote ''yes'' = Some [(50, 10), (51, 20)]"
  by code_simp

lemma sample_fees: "kalshi_taker_fee_cents 50 1 (Some ''KXMLB-26'') = Some 2" "kalshi_taker_fee_cents 51 1 (Some ''KXMLB-26'') = Some 2"
    "kalshi_taker_fee_cents 50 5 (Some ''KXMLB-26'') = Some 9" "kalshi_taker_fee_cents 51 2 (Some ''KXMLB-26'') = Some 4"
  by code_simp+

lemma sample_usable: "usable_count default_limits 10 = Some 5" "usable_count default_limits 20 = Some 10"
  by code_simp+

lemma sample_levels_kept: "level_rejection (sample_request cap) 50 2 = None" "level_rejection (sample_request cap) 51 2 = None"
  unfolding level_rejection_def sample_request_def taker_request.simps by code_simp+

lemma sample_request_simps: "tr_ticker (sample_request cap) = ''KXMLB-26''" "tr_requested_count (sample_request cap) = 8"
    "tr_notional_cap_cents (sample_request cap) = cap"
  by (simp_all add: sample_request_def)

lemma sample_band: "ll_max_level_slippage default_limits = 3"
  by (simp add: default_limits_def MAX_TAKER_LEVEL_SLIPPAGE_CENTS_def)

definition sample_walk :: walk where
  "sample_walk = \<lparr>wk_fills = [(50, 5), (51, 2)], wk_selected = 7, wk_capacity = 15, wk_rejection = None\<rparr>"

lemma sample_walked: "walk_ladder default_limits (sample_request 400) 50 [(50, 10), (51, 20)] no_walk = Some sample_walk"
  by (simp add: walk_ladder.simps sample_fees sample_usable sample_levels_kept sample_request_simps no_walk_def
      take_level_def take_count_def sample_band sample_walk_def)

lemma sample_gates: "request_rejection default_limits (sample_request cap) = (if cap < 1 then Some (reject_liquidity ''taker_reprice_exceeds_notional_cap'' []) else None)"
    "quoted_prices sample_quote ''yes'' = Some (Some (50, 48))" "book_rejection default_limits 50 50 48 = None"
  by (simp_all add: request_rejection_def sample_request_def default_limits_def DISPLAYED_DEPTH_SAFETY_FRACTION_def
      quoted_prices_def sample_quote_def int_or_skip_def book_rejection_def MAX_EXECUTABLE_SPREAD_CENTS_def)

lemma sample_plan:
  "map_option (\<lambda>a. map_option (\<lambda>p. (lp_executable_count p, lp_limit_price_cents p, lp_worst_case_notional_cents p)) (la_plan a))
     (Some (conclude_plan default_limits (sample_request 400) 50 2 30 sample_walk 13)) = Some (Some (7, 51, 357))"
  by code_simp

lemma sample_conclusion:
  "assess_taker_liquidity (\<lambda>_. None) default_limits (sample_request 400) sample_quote =
     Some (conclude_plan default_limits (sample_request 400) 50 2 30 sample_walk 13)"
proof -
  have side: "tr_side (sample_request 400) = ''yes''" by (simp add: sample_request_def)
  have fees: "fee_sum (tr_ticker (sample_request 400)) (wk_fills sample_walk) = Some 13"
    by (simp add: fee_sum_def sample_request_def sample_walk_def sample_fees)
  show ?thesis
    by (simp add: assess_taker_liquidity_def sample_gates side sample_ladder assess_ladder_def sample_walked fees)
      (simp add: sample_walk_def default_limits_def MAX_TAKER_LEVEL_SLIPPAGE_CENTS_def)
qed

lemma sample_assessed:
  obtains a p where "assess_taker_liquidity (\<lambda>_. None) default_limits (sample_request 400) sample_quote = Some a" "la_plan a = Some p"
    "lp_executable_count p = 7" "lp_worst_case_notional_cents p = 357"
  using sample_conclusion sample_plan that by auto

theorem quoted_ladder_well_formed_witness:
  "sorted_wrt (<) (map fst [(50 :: int, 10 :: int), (51, 20)]) \<and>
   whole_contract_levels (\<lambda>_. None) sample_quote ''yes'' = Some [(50, 10), (51, 20)]"
  using quoted_ladder_well_formed [OF sample_ladder] sample_ladder by blast

theorem taker_plan_is_executable_witness:
  "\<exists>a p. assess_taker_liquidity (\<lambda>_. None) default_limits (sample_request 400) sample_quote = Some a \<and> la_plan a = Some p \<and>
     lp_executable_count p = 7 \<and> lp_worst_case_notional_cents p \<le> 400 \<and> lp_visible_cost_cents p \<le> lp_worst_case_notional_cents p"
proof -
  obtain a p where a: "assess_taker_liquidity (\<lambda>_. None) default_limits (sample_request 400) sample_quote = Some a" "la_plan a = Some p"
    "lp_executable_count p = 7" using sample_assessed by blast
  have "tr_notional_cap_cents (sample_request 400) = 400" by (simp add: sample_request_def)
  then show ?thesis using taker_plan_is_executable [OF a(1,2)] a by auto
qed

theorem notional_refusal_is_exact_witness:
  "assess_taker_liquidity (\<lambda>_. None) default_limits (sample_request 0) sample_quote =
     Some (reject_liquidity ''taker_reprice_exceeds_notional_cap'' []) \<and> tr_notional_cap_cents (sample_request 0) < 1"
proof -
  have a: "assess_taker_liquidity (\<lambda>_. None) default_limits (sample_request 0) sample_quote =
      Some (reject_liquidity ''taker_reprice_exceeds_notional_cap'' [])"
    by (simp add: assess_taker_liquidity_def sample_gates)
  have side: "tr_side (sample_request 0) = ''yes''" "tr_requested_count (sample_request 0) = 8" by (simp_all add: sample_request_def)
  show ?thesis using notional_refusal_is_exact [OF a] a by (auto simp: side sample_ladder sample_request_def)
qed

end
