(* ===== verification/Presubmit.thy ===== *)
theory Presubmit
  imports Decide Liquidity
begin

text \<open>
  What the executor of \<open>autonomy/executor.py\<close> checks before an order takes either path: the target
  context, the age of the driving snapshot (\<open>autonomy/staleness.py\<close>), the guards of the execution
  policy, the repricing of takers on a fresh book, and the live session. \<open>None\<close> is an exception.
\<close>

section \<open>Constants and dictionaries\<close>

definition AUTONOMY_ACK :: string where
  "AUTONOMY_ACK = ''I authorize an autonomous Dummy trading session with self-managed risk '' @
     ''under the LiveBrokerFirewall, LIMIT orders only, until I stop it''"

definition SESSION_ACCOUNTING_VERSION :: int where "SESSION_ACCOUNTING_VERSION = 2"

definition MAX_QUEUE_AHEAD_CONTRACTS :: pyfloat where "MAX_QUEUE_AHEAD_CONTRACTS = Fin 50"

text \<open>\<open>d[k] = v\<close> on a dict that keeps the order of first insertion.\<close>

fun jput :: "string \<Rightarrow> json \<Rightarrow> (string \<times> json) list \<Rightarrow> (string \<times> json) list" where
  "jput k v [] = [(k, v)]"
| "jput k v ((k', v') # d) = (if k = k' then (k', v) # d else (k', v') # jput k v d)"

lemma jget_jput: "jget k (jput k' v d) = (if k = k' then v else jget k d)"
  by (induction k' v d rule: jput.induct) auto

definition jopt_float :: "pyfloat option \<Rightarrow> json" where
  "jopt_float x = (case x of None \<Rightarrow> JNull | Some y \<Rightarrow> JFloat y)"

definition order_ttl_seconds :: "string \<Rightarrow> int" where
  "order_ttl_seconds ticker = (if classify_vertical ticker = CRYPTO then 60 else 45 * 60)"

definition blocked_outcome :: "decision \<Rightarrow> string \<Rightarrow> (string \<times> json) list \<Rightarrow> trade_outcome" where
  "blocked_outcome d reason detail =
     \<lparr>oc_decision_id = dc_id d, oc_market_ticker = dc_market_ticker d, oc_kind = BLOCKED_LOCAL, oc_order_id = None,
      oc_fill_count = 0, oc_fill_price_cents = None, oc_pnl_cents = None, oc_broker_contacted = False,
      oc_detail = (''reason'', JStr reason) # detail\<rparr>"

section \<open>The age of the driving snapshot\<close>

record staleness_policy =
  sp_crypto_fast_seconds :: pyfloat
  sp_crypto_slow_seconds :: pyfloat
  sp_sports_live_seconds :: pyfloat
  sp_sports_pregame_seconds :: pyfloat
  sp_default_seconds :: pyfloat

definition DEFAULT_STALENESS_POLICY :: staleness_policy where
  "DEFAULT_STALENESS_POLICY = \<lparr>sp_crypto_fast_seconds = Fin 60, sp_crypto_slow_seconds = Fin 180, sp_sports_live_seconds = Fin 120,
     sp_sports_pregame_seconds = Fin 300, sp_default_seconds = Fin 300\<rparr>"

fun has_infix :: "string \<Rightarrow> string \<Rightarrow> bool" where
  "has_infix p [] = (p = [])"
| "has_infix p (c # s) = (startswith (c # s) p \<or> has_infix p s)"

definition is_fast_crypto :: "string \<Rightarrow> bool" where
  "is_fast_crypto ticker \<longleftrightarrow> has_infix ''15M'' (upper ticker) \<or> has_infix ''5M'' (upper ticker) \<or> has_infix ''1M'' (upper ticker)"

definition max_age_seconds :: "staleness_policy \<Rightarrow> string \<Rightarrow> bool \<Rightarrow> pyfloat" where
  "max_age_seconds p ticker is_live_market =
     (case classify_vertical ticker of
        CRYPTO \<Rightarrow> if is_fast_crypto ticker then sp_crypto_fast_seconds p else sp_crypto_slow_seconds p
      | SPORTS \<Rightarrow> if is_live_market then sp_sports_live_seconds p else sp_sports_pregame_seconds p
      | _ \<Rightarrow> sp_default_seconds p)"

text \<open>\<open>Some None\<close>: not a time; \<open>None\<close>: the OverflowError of a huge integer.\<close>

definition to_epoch_seconds :: "codec \<Rightarrow> json \<Rightarrow> pyfloat option option" where
  "to_epoch_seconds c v =
     (case v of
        JNull \<Rightarrow> Some None
      | JInt n \<Rightarrow> if fisfinite (float_of_int n) then Some (Some (float_of_int n)) else None
      | JFloat x \<Rightarrow> Some (Some x)
      | JBool b \<Rightarrow> Some (Some (Fin (if b then 1 else 0)))
      | _ \<Rightarrow>
          (let text = strip (str_of_json (repr_text c) v) in
           if text = [] then Some None
           else Some (map_option (\<lambda>s. timestamp (stamp_us s)) (from_iso c (z_to_offset text)))))"

record freshness_verdict =
  fw_fresh :: bool
  fw_reason :: string
  fw_age_seconds :: "pyfloat option"
  fw_max_age_seconds :: pyfloat

definition evaluate_snapshot_freshness ::
  "codec \<Rightarrow> string \<Rightarrow> json \<Rightarrow> pyfloat \<Rightarrow> bool \<Rightarrow> staleness_policy option \<Rightarrow> freshness_verdict option" where
  "evaluate_snapshot_freshness c ticker snapshot_ts now_epoch is_live_market policy =
     (let pol = (case policy of None \<Rightarrow> DEFAULT_STALENESS_POLICY | Some p \<Rightarrow> p); max_age = max_age_seconds pol ticker is_live_market in
      map_option (\<lambda>epoch.
        case epoch of
          None \<Rightarrow> \<lparr>fw_fresh = False, fw_reason = ''missing_snapshot_timestamp'', fw_age_seconds = None, fw_max_age_seconds = max_age\<rparr>
        | Some t \<Rightarrow>
            (let age = fsub now_epoch t in
             if flt age (Fin (- 1))
             then \<lparr>fw_fresh = False, fw_reason = ''snapshot_timestamp_in_future'', fw_age_seconds = Some (py_round 3 age), fw_max_age_seconds = max_age\<rparr>
             else \<lparr>fw_fresh = fle age max_age, fw_reason = (if fle age max_age then ''fresh'' else ''stale_market_snapshot''),
                   fw_age_seconds = Some (py_round 3 age), fw_max_age_seconds = max_age\<rparr>))
        (to_epoch_seconds c snapshot_ts))"

section \<open>The executor\<close>

text \<open>
  What the executor is built from, and what its environment answers during one call: the clock,
  \<open>now_fn\<close>, the fresh quote (no function, an exception and a value that is no object are
  \<open>None\<close>), the public book of the shadow path (\<open>Inl\<close>: the type of the exception), the session
  and kill files, and the venue status (no function or an exception: \<open>None\<close>).
\<close>

record executor =
  ex_live :: bool
  ex_codec :: codec
  ex_policy :: execution_policy
  ex_staleness :: "staleness_policy option"
  ex_float_text :: "string \<Rightarrow> pyfloat option"
  ex_sha256_hex :: "string \<Rightarrow> string"

record executor_env =
  ee_clock :: clock
  ee_now :: pyfloat
  ee_quote :: "string \<Rightarrow> quote option"
  ee_shadow_book :: "(string \<Rightarrow> string + json) option"
  ee_session :: json_file
  ee_kill_file :: bool
  ee_exchange_status :: "json option"

abbreviation takes :: "executor \<Rightarrow> bool" where
  "takes x \<equiv> xp_mode (ex_policy x) = Taker"

definition idempotency_key :: "executor \<Rightarrow> decision \<Rightarrow> string" where
  "idempotency_key x d = take 32 (ex_sha256_hex x (''autonomy|'' @ dc_id d))"

definition target_tags :: "market_view \<Rightarrow> json" where
  "target_tags m = por (jget ''series_tags'' (mv_raw m)) (jget ''tags'' (mv_raw m))"

definition vertical_text :: "vertical \<Rightarrow> string" where
  "vertical_text v = (case v of WEATHER \<Rightarrow> ''WEATHER'' | CRYPTO \<Rightarrow> ''CRYPTO'' | SPORTS \<Rightarrow> ''SPORTS''
     | COMMODITIES \<Rightarrow> ''COMMODITIES'' | ECON \<Rightarrow> ''ECON'' | OTHER \<Rightarrow> ''OTHER'')"

definition target_context_block :: "executor \<Rightarrow> decision \<Rightarrow> market_view option \<Rightarrow> trade_outcome option" where
  "target_context_block x d market =
     (case market of
        None \<Rightarrow> Some (blocked_outcome d ''prediction_target_context_unverified'' [])
      | Some m \<Rightarrow>
          (let c = ex_codec x; category = jget ''category'' (mv_raw m); v = Typed (mv_vertical m); tags = target_tags m;
               detail = [(''target_category'', category), (''target_vertical'', JStr (vertical_text (mv_vertical m)))]
           in if mv_ticker m \<noteq> dc_market_ticker d then Some (blocked_outcome d ''prediction_target_context_mismatch'' [])
              else if is_prediction_quarantined_target c (dc_market_ticker d) category v tags
              then Some (blocked_outcome d ''prediction_target_quarantine'' detail)
              else if \<not> has_prediction_target_authority c (dc_market_ticker d) category v tags
              then Some (blocked_outcome d ''prediction_target_eligibility_unverified'' detail)
              else None))"

text \<open>The gate and the counter of refusals.\<close>

definition stale_gate_block ::
  "executor \<Rightarrow> executor_env \<Rightarrow> decision \<Rightarrow> json \<Rightarrow> bool \<Rightarrow> int \<Rightarrow> (trade_outcome option \<times> int) option" where
  "stale_gate_block x e d snapshot_ts is_live_market count =
     (case ex_staleness x of
        None \<Rightarrow> Some (None, count)
      | Some p \<Rightarrow>
          map_option (\<lambda>v. if fw_fresh v then (None, count)
            else (Some (blocked_outcome d (fw_reason v)
                [(''snapshot_age_seconds'', jopt_float (fw_age_seconds v)), (''max_age_seconds'', JFloat (fw_max_age_seconds v)),
                 (''stale_block_count'', JInt (count + 1))]), count + 1))
            (evaluate_snapshot_freshness (ex_codec x) (dc_market_ticker d) snapshot_ts (ee_now e) is_live_market (Some p)))"

definition execution_policy_block :: "executor \<Rightarrow> decision \<Rightarrow> pyfloat option \<Rightarrow> trade_outcome option" where
  "execution_policy_block x d market_prior =
     (let p = ex_policy x in
      if is_control p then None
      else (case (xp_divergence_cap_cents p, market_prior) of
          (Some cap, Some prior) \<Rightarrow>
            (let divergence = fmul (fabs (fsub (ff_probability_yes (dc_forecast d)) prior)) (Fin 100) in
             if flt cap divergence
             then Some (blocked_outcome d ''execution_policy_divergence_cap''
               [(''cohort'', JStr (xp_cohort p)), (''divergence_cents'', JFloat (py_round 4 divergence)), (''divergence_cap_cents'', JFloat cap)])
             else None)
        | _ \<Rightarrow> None))"

section \<open>Repricing a taker\<close>

text \<open>The probability the plan uses: the one encoded in the decision, capped by the forecast's.\<close>

definition side_forecast :: "decision \<Rightarrow> pyfloat" where
  "side_forecast d = (let p = ff_probability_yes (dc_forecast d) in if dc_side d = ''yes'' then p else fsub (Fin 1) p)"

definition encoded_probability :: "decision \<Rightarrow> int \<Rightarrow> pyfloat" where
  "encoded_probability d fee = per_cent (fadd (fadd (dc_ev_cents d) (float_of_int (dc_price_cents d))) (float_of_int fee))"

definition plan_probability :: "decision \<Rightarrow> int \<Rightarrow> pyfloat" where
  "plan_probability d fee = fmin (side_forecast d) (fmax (Fin 0) (fmin (Fin 1) (encoded_probability d fee)))"

definition plan_request :: "executor \<Rightarrow> decision \<Rightarrow> pyfloat \<Rightarrow> taker_request" where
  "plan_request x d p =
     \<lparr>tr_side = dc_side d, tr_requested_count = max 0 (dc_count d), tr_notional_cap_cents = max 0 (dc_notional_cents d),
      tr_probability = p, tr_ticker = dc_market_ticker d, tr_min_ev_cents = or_zero (xp_taker_min_ev_cents (ex_policy x)),
      tr_min_edge_cents = xp_taker_min_edge_cents (ex_policy x)\<rparr>"

definition repriced_decision :: "decision \<Rightarrow> string option \<Rightarrow> pyfloat \<Rightarrow> liquidity_plan \<Rightarrow> decision" where
  "repriced_decision d received p plan =
     (let ev = py_round 2 (lp_net_ev_cents plan); kelly = py_round 4 (kelly_fraction_yes p (lp_limit_price_cents plan)) in
      d\<lparr>dc_price_cents := lp_limit_price_cents plan, dc_count := lp_executable_count plan,
        dc_notional_cents := lp_worst_case_notional_cents plan, dc_ev_cents := ev, dc_kelly := kelly,
        dc_risk_snapshot := jput ''execution_reprice'' (JObj
          [(''liquidity_role'', JStr ''taker''), (''decision_price_cents'', JInt (dc_price_cents d)), (''decision_count'', JInt (dc_count d)),
           (''decision_notional_cents'', JInt (dc_notional_cents d)), (''submitted_price_cents'', JInt (lp_limit_price_cents plan)),
           (''submitted_count'', JInt (lp_executable_count plan)), (''submitted_notional_cents'', JInt (lp_worst_case_notional_cents plan)),
           (''submitted_ev_cents_per_contract'', JFloat ev), (''submitted_kelly_fraction'', JFloat kelly),
           (''executable_liquidity'', JObj (plan_evidence received plan))]) (dc_risk_snapshot d)\<rparr>)"

definition quote_detail :: "quote_freshness \<Rightarrow> (string \<times> json) list" where
  "quote_detail q = [(''quote_age_seconds'', jopt_float (qf_age_seconds q)), (''quote_received_at'', jopt_str (qf_received_at q))]"

definition apply_taker_policy :: "executor \<Rightarrow> executor_env \<Rightarrow> decision \<Rightarrow> (trade_outcome + decision) option" where
  "apply_taker_policy x e d =
     (if \<not> takes x then Some (Inr d)
      else
        (let fresh = ee_quote e (dc_market_ticker d) in
         case evaluate_quote_freshness (ex_codec x) (ee_now e) MAX_FRESH_QUOTE_AGE_SECONDS MAX_FUTURE_QUOTE_SKEW_SECONDS fresh of
           None \<Rightarrow> None
         | Some q \<Rightarrow>
             if \<not> qf_valid q
             then Some (Inl (blocked_outcome d (qf_reason q) (quote_detail q @
               [(''maximum_quote_age_seconds'', JFloat MAX_FRESH_QUOTE_AGE_SECONDS),
                (''liquidity_evidence_version'', JStr LIQUIDITY_EVIDENCE_VERSION)])))
             else
               (case kalshi_taker_fee_cents (dc_price_cents d) 1 (Some (dc_market_ticker d)) of
                  None \<Rightarrow> None
                | Some fee \<Rightarrow>
                    (let p = plan_probability d fee; book = (case fresh of None \<Rightarrow> [] | Some b \<Rightarrow> qt_fields b) in
                     case assess_taker_liquidity (ex_float_text x) default_limits (plan_request x d p) book of
                       None \<Rightarrow> None
                     | Some a \<Rightarrow>
                         Some (case (la_allowed a, la_plan a) of
                             (True, Some plan) \<Rightarrow> Inr (repriced_decision d (qf_received_at q) p plan)
                           | _ \<Rightarrow> Inl (blocked_outcome d (la_reason a) (la_detail a @ quote_detail q @
                                   [(''liquidity_evidence_version'', JStr LIQUIDITY_EVIDENCE_VERSION)])))))))"

section \<open>The live session\<close>

text \<open>\<open>load_session\<close>; \<open>None\<close> is the error of reading a field (a session that is no object, an
  accounting version that is no integer).\<close>

record session_verdict =
  sn_mode :: json
  sn_valid :: bool
  sn_reason :: json

definition invalid_session :: "string \<Rightarrow> session_verdict" where
  "invalid_session reason = \<lparr>sn_mode = JStr ''SHADOW'', sn_valid = False, sn_reason = JStr reason\<rparr>"

definition session_expiry_reason :: "codec \<Rightarrow> clock \<Rightarrow> json \<Rightarrow> string option" where
  "session_expiry_reason c clk v =
     (case from_iso c (z_to_offset (str_of_json (repr_text c) v)) of
        Some (Aware t) \<Rightarrow> if t < now_us clk then Some ''session expired'' else None
      | _ \<Rightarrow> Some ''bad expiry'')"

definition load_session :: "codec \<Rightarrow> clock \<Rightarrow> json_file \<Rightarrow> session_verdict option" where
  "load_session c clk f =
     (case f of
        Absent \<Rightarrow> Some (invalid_session ''no session file'')
      | Unreadable _ \<Rightarrow> Some (invalid_session ''unreadable session file'')
      | Holds v \<Rightarrow>
          (case as_obj v of
             None \<Rightarrow> None
           | Some d \<Rightarrow>
               (let plain = Some \<lparr>sn_mode = jget ''mode'' d, sn_valid = True, sn_reason = jget_default ''reason'' (JStr ''unknown'') d\<rparr> in
                if jget ''mode'' d \<noteq> JStr ''LIVE'' then plain
                else (case int_of_json (jget_default ''accounting_version'' (JInt 1) d) of
                    None \<Rightarrow> None
                  | Some version \<Rightarrow>
                      if version < SESSION_ACCOUNTING_VERSION
                      then Some (invalid_session ''live session predates fill-truth accounting upgrade; restart required'')
                      else if jget ''ack'' d \<noteq> JStr AUTONOMY_ACK then Some (invalid_session ''ack mismatch'')
                      else (case session_expiry_reason c clk (jget_default ''expires_at'' (JStr []) d) of
                          Some r \<Rightarrow> Some (invalid_session r)
                        | None \<Rightarrow> plain)))))"

end
