(* ===== verification/Executor.thy ===== *)
theory Executor
  imports Presubmit Submission
begin

text \<open>
  The executor of \<open>autonomy/executor.py\<close>: the shadow book, the check of a decision against the
  live book, the forecast handed to the firewall, and \<open>execute\<close> on both paths. The live path
  ends in the \<open>submit\<close> of \<open>Firewall\<close>. \<open>None\<close> is an exception that leaves \<open>execute\<close>.
\<close>

section \<open>Details of an outcome\<close>

definition role_text :: "executor \<Rightarrow> string" where
  "role_text x = (if takes x then ''taker'' else ''maker'')"

definition plan_of_decision :: "decision \<Rightarrow> (string \<times> json) list option" where
  "plan_of_decision d =
     (case jget ''execution_reprice'' (dc_risk_snapshot d) of
        JObj r \<Rightarrow> (case jget ''executable_liquidity'' r of JObj plan \<Rightarrow> Some plan | _ \<Rightarrow> None)
      | _ \<Rightarrow> None)"

definition EVIDENCE_KEYS :: "string list" where
  "EVIDENCE_KEYS = [''maker_adverse_selection_haircut_cents'', ''maker_adverse_selection_report_sha256'',
     ''maker_adverse_selection_generated_at'']"

definition execution_detail :: "executor \<Rightarrow> decision \<Rightarrow> (string \<times> json) list" where
  "execution_detail x d =
     [(''execution_policy_cohort'', JStr (xp_cohort (ex_policy x))), (''submitted_liquidity_role'', JStr (role_text x)),
      (''liquidity_role'', JStr (role_text x)), (''submitted_price_cents'', JInt (dc_price_cents d)),
      (''submitted_count'', JInt (dc_count d)), (''submitted_notional_cents'', JInt (dc_notional_cents d)),
      (''submitted_ev_cents_per_contract'', JFloat (dc_ev_cents d)), (''submitted_kelly_fraction'', JFloat (dc_kelly d)),
      (''price_evidence'', JStr ''submitted_limit'')] @
     (case plan_of_decision d of None \<Rightarrow> [] | Some plan \<Rightarrow> [(''executable_liquidity'', JObj plan)]) @
     map (\<lambda>k. (k, jget k (dc_risk_snapshot d))) (filter (\<lambda>k. jhas k (dc_risk_snapshot d)) EVIDENCE_KEYS)"

section \<open>The shadow book\<close>

text \<open>
  Under a handler: \<open>None\<close> is an exception that is not caught there, \<open>Some None\<close> one that
  is.
\<close>

definition caught :: "'a option option \<Rightarrow> ('a \<Rightarrow> 'b option option) \<Rightarrow> 'b option option" where
  "caught x f = (case x of None \<Rightarrow> None | Some None \<Rightarrow> Some None | Some (Some v) \<Rightarrow> f v)"

text \<open>\<open>int(round(x))\<close>: the ValueError of a NaN is caught, the OverflowError of an infinity not.\<close>

definition round_or_skip :: "pyfloat \<Rightarrow> int option option" where
  "round_or_skip x = (case x of Fin y \<Rightarrow> Some (Some (round_half_even y)) | NaN \<Rightarrow> Some None | _ \<Rightarrow> None)"

definition level_price :: "(string \<Rightarrow> pyfloat option) \<Rightarrow> bool \<Rightarrow> json \<Rightarrow> int option option" where
  "level_price ft dollars v =
     (if dollars then caught (float_or_skip ft v) (\<lambda>x. round_or_skip (fmul x (Fin 100))) else int_or_skip v)"

definition normalize_level :: "(string \<Rightarrow> pyfloat option) \<Rightarrow> bool \<Rightarrow> json \<Rightarrow> (int \<times> pyfloat) option option" where
  "normalize_level ft dollars level =
     (case level of
        JArr (p # n # _) \<Rightarrow>
          caught (level_price ft dollars p) (\<lambda>price. caught (float_or_skip ft n) (\<lambda>count.
            Some (if 1 \<le> price \<and> price \<le> 99 \<and> flt (Fin 0) count then Some (price, count) else None)))
      | _ \<Rightarrow> Some None)"

text \<open>\<open>Inl\<close>: the type of the exception.\<close>

definition normalize_orderbook_levels :: "(string \<Rightarrow> pyfloat option) \<Rightarrow> (string \<times> json) list \<Rightarrow> string \<Rightarrow> string + (int \<times> pyfloat) list" where
  "normalize_orderbook_levels ft book side =
     (let dollars = (jget side book = JNull); raw = (if dollars then jget (side @ ''_dollars'') book else jget side book) in
      case raw of
        JArr levels \<Rightarrow>
          (case option_all (normalize_level ft dollars) levels of
             None \<Rightarrow> Inl ''OverflowError''
           | Some ls \<Rightarrow> Inr (List.map_filter id ls))
      | JInt n \<Rightarrow> if n = 0 then Inr [] else Inl ''TypeError''
      | JFloat y \<Rightarrow> if truthy (JFloat y) then Inl ''TypeError'' else Inr []
      | JBool b \<Rightarrow> if b then Inl ''TypeError'' else Inr []
      | _ \<Rightarrow> Inr [])"

text \<open>What the public book says about the queue: its length, an error, or nothing.\<close>

datatype queue_snapshot = No_Book | Queue_Error string | Queue json pyfloat

definition queue_length :: "bool \<Rightarrow> int \<Rightarrow> (int \<times> pyfloat) list \<Rightarrow> queue_snapshot" where
  "queue_length compensated price levels =
     (case map snd (filter (\<lambda>l. fst l = price) levels) of
        [] \<Rightarrow> Queue (JInt 0) (Fin 0)
      | xs \<Rightarrow> (let q = py_round 4 (py_sum compensated xs) in Queue (JFloat q) q))"

definition shadow_queue :: "bool \<Rightarrow> executor \<Rightarrow> executor_env \<Rightarrow> decision \<Rightarrow> queue_snapshot" where
  "shadow_queue compensated x e d =
     (case ee_shadow_book e of
        None \<Rightarrow> No_Book
      | Some fetch \<Rightarrow>
          (case fetch (dc_market_ticker d) of
             Inl exn \<Rightarrow> Queue_Error exn
           | Inr (JObj book) \<Rightarrow>
               if list_ex (\<lambda>k. jhas k book) [''yes'', ''no'', ''yes_dollars'', ''no_dollars'']
               then (case normalize_orderbook_levels (ex_float_text x) book (dc_side d) of
                   Inl exn \<Rightarrow> Queue_Error exn
                 | Inr levels \<Rightarrow> queue_length compensated (dc_price_cents d) levels)
               else Queue_Error ''unrecognized_orderbook_schema''
           | Inr _ \<Rightarrow> Queue_Error ''unrecognized_orderbook_schema''))"

definition shadow_detail :: "executor \<Rightarrow> executor_env \<Rightarrow> decision \<Rightarrow> int \<Rightarrow> queue_snapshot \<Rightarrow> (string \<times> json) list" where
  "shadow_detail x e d seconds q =
     [(''note'', JStr (if takes x then ''shadow taker order (crossed book) pending witnessed fill''
                      else ''shadow maker order pending witnessed fill'')),
      (''state'', JStr ''resting''), (''side'', JStr (dc_side d)), (''count'', JInt (dc_count d)),
      (''expiration_ts'', JInt (seconds + order_ttl_seconds (dc_market_ticker d))),
      (''queue_snapshot_available'', JBool (case q of Queue _ _ \<Rightarrow> True | _ \<Rightarrow> False))] @ execution_detail x d @
     (case q of
        No_Book \<Rightarrow> []
      | Queue_Error exn \<Rightarrow> [(''queue_snapshot_error'', JStr exn)]
      | Queue n _ \<Rightarrow> [(''queue_ahead_contracts'', n), (''book_snapshot_at'', JStr (iso_now (ee_clock e)))])"

definition shadow_outcome :: "bool \<Rightarrow> executor \<Rightarrow> executor_env \<Rightarrow> decision \<Rightarrow> int \<Rightarrow> trade_outcome" where
  "shadow_outcome compensated x e d seconds =
     (let q = shadow_queue compensated x e d;
          placed = \<lparr>oc_decision_id = dc_id d, oc_market_ticker = dc_market_ticker d, oc_kind = SHADOW,
            oc_order_id = Some (''shadow-'' @ dc_id d), oc_fill_count = 0, oc_fill_price_cents = Some (dc_price_cents d),
            oc_pnl_cents = None, oc_broker_contacted = False, oc_detail = shadow_detail x e d seconds q\<rparr>
      in case q of
           Queue n len \<Rightarrow>
             if \<not> takes x \<and> flt MAX_QUEUE_AHEAD_CONTRACTS len
             then blocked_outcome d ''queue_ahead_exceeds_execution_cap''
               [(''queue_ahead_contracts'', n), (''maximum_queue_ahead_contracts'', JFloat MAX_QUEUE_AHEAD_CONTRACTS)]
             else placed
         | _ \<Rightarrow> placed)"

section \<open>The decision against the live book\<close>

definition side_book_levels :: "order_book \<Rightarrow> string \<Rightarrow> (int \<times> int) list \<times> (int \<times> int) list" where
  "side_book_levels ob side =
     (let flip = map (\<lambda>(p, n). (100 - p, n)); bids = (if side = ''yes'' then ob_bids ob else flip (ob_asks ob));
          asks = (if side = ''yes'' then ob_asks ob else flip (ob_bids ob))
      in (sort_key (\<lambda>l. - fst l) bids, sort_key fst asks))"

record planned_execution =
  pe_version :: string
  pe_count :: int
  pe_limit :: int
  pe_vwap :: pyfloat
  pe_fee :: int
  pe_net_ev :: pyfloat
  pe_notional :: int
  pe_fill_status :: string

definition plan_text :: "codec \<Rightarrow> string \<Rightarrow> (string \<times> json) list \<Rightarrow> string option option" where
  "plan_text c k d = Some (map_option (str_of_json (repr_text c)) (map_of d k))"

definition plan_int :: "string \<Rightarrow> (string \<times> json) list \<Rightarrow> int option option" where
  "plan_int k d = (case map_of d k of None \<Rightarrow> Some None | Some v \<Rightarrow> int_or_skip v)"

definition plan_float :: "(string \<Rightarrow> pyfloat option) \<Rightarrow> string \<Rightarrow> (string \<times> json) list \<Rightarrow> pyfloat option option" where
  "plan_float ft k d = (case map_of d k of None \<Rightarrow> Some None | Some v \<Rightarrow> float_or_skip ft v)"

definition read_plan :: "executor \<Rightarrow> (string \<times> json) list \<Rightarrow> planned_execution option option" where
  "read_plan x d =
     caught (plan_text (ex_codec x) ''liquidity_evidence_version'' d) (\<lambda>version.
     caught (plan_int ''executable_count'' d) (\<lambda>count.
     caught (plan_int ''submitted_limit_price_cents'' d) (\<lambda>limit.
     caught (plan_float (ex_float_text x) ''modeled_vwap_cents'' d) (\<lambda>vwap.
     caught (plan_int ''modeled_fee_cents'' d) (\<lambda>fee.
     caught (plan_float (ex_float_text x) ''net_ev_cents_per_contract'' d) (\<lambda>net_ev.
     caught (plan_int ''worst_case_notional_cents'' d) (\<lambda>notional.
     caught (plan_text (ex_codec x) ''fill_status'' d) (\<lambda>fill_status.
       Some (Some \<lparr>pe_version = version, pe_count = count, pe_limit = limit, pe_vwap = vwap, pe_fee = fee, pe_net_ev = net_ev,
         pe_notional = notional, pe_fill_status = fill_status\<rparr>)))))))))"

definition plan_mismatch :: "decision \<Rightarrow> planned_execution \<Rightarrow> bool" where
  "plan_mismatch d p \<longleftrightarrow>
     pe_version p \<noteq> LIQUIDITY_EVIDENCE_VERSION \<or> pe_fill_status p \<noteq> ''unfilled_plan_only'' \<or> pe_count p \<noteq> dc_count d \<or>
     pe_limit p \<noteq> dc_price_cents d \<or> pe_notional p \<noteq> dc_notional_cents d \<or> pe_fee p < 0 \<or>
     \<not> (flt (Fin 0) (pe_vwap p) \<and> fle (pe_vwap p) (float_of_int (pe_limit p))) \<or>
     flt (lit64 (11 / 1000)) (fabs (fsub (pe_net_ev p) (dc_ev_cents d)))"

text \<open>What is still to fill, the cost and the levels used.\<close>

fun fill_levels :: "int \<Rightarrow> (int \<times> int) list \<Rightarrow> int \<Rightarrow> int \<Rightarrow> (int \<times> int) list \<Rightarrow> int \<times> int \<times> (int \<times> int) list" where
  "fill_levels limit [] remaining cost used = (remaining, cost, used)"
| "fill_levels limit ((price, sz) # levels) remaining cost used =
     (if limit < price \<or> remaining \<le> 0 then (remaining, cost, used)
      else (let take = min remaining sz in
        if 0 < take then fill_levels limit levels (remaining - take) (cost + price * take) (used @ [(price, take)])
        else fill_levels limit levels remaining cost used))"

definition level_json :: "int \<times> int \<Rightarrow> json" where
  "level_json l = JObj [(''price_cents'', JInt (fst l)), (''count'', JInt (snd l))]"

text \<open>The taker's plan on the asks; \<open>None\<close> is the ZeroDivisionError of a plan for no contract.\<close>

definition plan_verdict :: "decision \<Rightarrow> (int \<times> int) list \<Rightarrow> planned_execution \<Rightarrow> (string option \<times> (string \<times> json) list) option" where
  "plan_verdict d asks p =
     (let (remaining, cost, used) = fill_levels (pe_limit p) asks (pe_count p) 0 [] in
      if 0 < remaining
      then Some (Some ''taker_depth_changed_before_firewall'', [(''firewall_executable_contracts'', JInt (pe_count p - remaining))])
      else if pe_count p = 0 then None
      else (let vwap = int_truediv cost (pe_count p) in
        Some (if flt (fadd (pe_vwap p) (lit64 (1 / 1000000))) vwap then Some ''taker_depth_changed_before_firewall'' else None,
          [(''firewall_executable_contracts'', JInt (pe_count p)), (''firewall_execution_vwap_cents'', JFloat (py_round 6 vwap)),
           (''firewall_execution_levels'', JArr (map level_json used)), (''planned_execution_vwap_cents'', JFloat (py_round 6 (pe_vwap p))),
           (''planned_execution_fee_cents'', JInt (pe_fee p)), (''planned_net_ev_cents_per_contract'', JFloat (py_round 6 (pe_net_ev p))),
           (''liquidity_evidence_version'', JStr (pe_version p))])))"

definition maker_verdict :: "decision \<Rightarrow> (int \<times> int) list \<Rightarrow> int \<Rightarrow> int \<Rightarrow> string option \<times> (string \<times> json) list" where
  "maker_verdict d bids best_bid best_ask =
     (if best_ask \<le> dc_price_cents d then (Some ''quote_crossed_repriced_out'', [])
      else if dc_price_cents d < best_bid then (Some ''quote_behind_current_best_bid'', [])
      else (let ahead = (\<Sum>(price, n) \<leftarrow> bids. if price = dc_price_cents d then n else 0) in
        (if 50 < ahead then Some ''queue_ahead_exceeds_execution_cap'' else None, [(''firewall_queue_ahead_contracts'', JInt ahead)])))"

definition taker_verdict :: "executor \<Rightarrow> decision \<Rightarrow> (int \<times> int) list \<Rightarrow> (string option \<times> (string \<times> json) list) option" where
  "taker_verdict x d asks =
     (case plan_of_decision d of
        None \<Rightarrow> Some (Some ''taker_liquidity_plan_missing'', [])
      | Some plan \<Rightarrow>
          (case read_plan x plan of
             None \<Rightarrow> None
           | Some None \<Rightarrow> Some (Some ''taker_liquidity_plan_malformed'', [])
           | Some (Some p) \<Rightarrow>
               if plan_mismatch d p then Some (Some ''taker_liquidity_plan_mismatch'', [])
               else if flt (pe_net_ev p) (or_zero (xp_taker_min_ev_cents (ex_policy x))) then Some (Some ''taker_ev_below_min'', [])
               else plan_verdict d asks p))"

text \<open>The reason against the order, if any, and the evidence.\<close>

definition live_book_verdict :: "executor \<Rightarrow> decision \<Rightarrow> order_book \<Rightarrow> (string option \<times> (string \<times> json) list) option" where
  "live_book_verdict x d ob =
     (let (bids, asks) = side_book_levels ob (dc_side d);
          evidence = [(''firewall_book_timestamp'', JStr (to_iso (ex_codec x) (stamp_us (ob_timestamp ob)))),
            (''firewall_book_bid_levels'', JInt (int (length bids))), (''firewall_book_ask_levels'', JInt (int (length asks)))]
      in case (bids, asks) of
           ((best_bid, _) # _, (best_ask, _) # _) \<Rightarrow>
             map_option (\<lambda>(r, more_evidence). (r, evidence @
                 [(''firewall_best_bid_cents'', JInt best_bid), (''firewall_best_ask_cents'', JInt best_ask)] @ more_evidence))
               (if takes x then taker_verdict x d asks else Some (maker_verdict d bids best_bid best_ask))
         | _ \<Rightarrow> Some (Some ''firewall_book_missing_two_sided_depth'', evidence))"

section \<open>The forecast for the firewall\<close>

text \<open>
  What the live path meets: the firewall or the exception of building it, its surroundings at
  each moment, what other coroutines do while the book is fetched and during the submission, the
  broker, the exception types of the two awaits, the risk file, and whether a text that
  \<open>Decimal\<close> reads as not finite is an infinity (with its sign) or no number.
\<close>

record live_env =
  le_firewall :: "string + firewall"
  le_moments :: "moment \<Rightarrow> firewall_env"
  le_other :: "moment \<Rightarrow> process \<Rightarrow> process"
  le_other_fetch :: "process \<Rightarrow> process"
  le_broker :: broker
  le_fetch_error :: string
  le_submit_error :: string
  le_risk_file :: hashed_file
  le_infinite :: "string \<Rightarrow> bool option"

text \<open>\<open>Decimal(str(x))\<close> of a float.\<close>

definition decimal_of_float :: "decimal_codec \<Rightarrow> pyfloat \<Rightarrow> decimal" where
  "decimal_of_float dc x = (case dec_of_text dc (text_of_float dc x) of None \<Rightarrow> DNonFinite | Some y \<Rightarrow> y)"

definition decimal_diff :: "decimal \<Rightarrow> decimal \<Rightarrow> decimal" where
  "decimal_diff a b = (case (a, b) of (DFin x, DFin y) \<Rightarrow> DFin (d28 (x - y)) | _ \<Rightarrow> DNonFinite)"

text \<open>The settlement risk, clamped to the unit interval; a NaN raises in the comparison.\<close>

definition settlement_risk :: "codec \<Rightarrow> decimal_codec \<Rightarrow> (string \<Rightarrow> bool option) \<Rightarrow> json \<Rightarrow> string + rat" where
  "settlement_risk c dc inf_sign v =
     (let text = str_of_json (case v of JFloat x \<Rightarrow> (\<lambda>_. text_of_float dc x) | _ \<Rightarrow> repr_text c) v in
      case dec_of_text dc text of
        None \<Rightarrow> Inr 1
      | Some (DFin x) \<Rightarrow> Inr (min 1 (max 0 x))
      | Some DNonFinite \<Rightarrow> (case inf_sign text of Some positive \<Rightarrow> Inr (if positive then 1 else 0) | None \<Rightarrow> Inl ''InvalidOperation''))"

definition close_instant :: "codec \<Rightarrow> string \<Rightarrow> int option" where
  "close_instant c t = map_option stamp_us (from_iso c (z_to_offset t))"

fun join_comma :: "string list \<Rightarrow> string" where
  "join_comma [] = []"
| "join_comma [s] = s"
| "join_comma (s # t # ts) = s @ '','' @ join_comma (t # ts)"

definition source_summary :: "fused_forecast \<Rightarrow> string" where
  "source_summary f = (let s = join_comma (sort_key (map (of_char :: char \<Rightarrow> nat)) (map fst (ff_sources_used f))) in
     if s = [] then ''no_sources'' else s)"

definition per_contract_fee :: "executor \<Rightarrow> int \<Rightarrow> decision \<Rightarrow> pyfloat option" where
  "per_contract_fee x today d =
     map_option (\<lambda>fee. int_truediv fee (max 1 (dc_count d)))
       (if takes x then kalshi_taker_fee_cents (dc_price_cents d) (dc_count d) (Some (dc_market_ticker d))
        else kalshi_maker_fee_cents today (dc_price_cents d) (dc_count d) (Some (dc_market_ticker d)) None)"

definition contract_title :: "codec \<Rightarrow> market_view \<Rightarrow> string" where
  "contract_title c m = (let sub = jget ''subtitle'' (mv_raw m) in if truthy sub then str_of_json (repr_text c) sub else mv_title m)"

definition all_finite :: "decimal list \<Rightarrow> bool" where
  "all_finite ds \<longleftrightarrow> DNonFinite \<notin> set ds"

text \<open>
  The record; pydantic rejects a Decimal that is not finite. The scores of the record that neither
  the firewall nor the attestation reads are left out.
\<close>

definition forecast_record ::
  "executor \<Rightarrow> decimal_codec \<Rightarrow> decision \<Rightarrow> market_view \<Rightarrow> rat \<Rightarrow> rat \<Rightarrow> pyfloat \<Rightarrow> int \<Rightarrow> int \<Rightarrow> string + forecast" where
  "forecast_record x dc d m implied risk fee stamped closes =
     (let f = dc_forecast d; p = ff_probability_yes f; u = fmax (Fin 0) (fmin (Fin (1 / 2)) (ff_uncertainty f));
          point = decimal_of_float dc p; lo = decimal_of_float dc (fmax (Fin 0) (fsub p u));
          up = decimal_of_float dc (fmin (Fin 1) (fadd p u)); delta = decimal_diff point (DFin implied);
          confidence = decimal_of_float dc (fmax (Fin 0) (fmin (Fin 1) (fsub (Fin 1) (fmul u (Fin 2)))));
          gross = decimal_of_float dc (per_cent (fadd (dc_ev_cents d) fee)); net = decimal_of_float dc (per_cent (dc_ev_cents d))
      in if \<not> all_finite [point, delta, confidence, lo, up, gross, net] then Inl ''ValidationError''
         else Inr \<lparr>fc_market_ticker = dc_market_ticker d, fc_contract_ticker = dc_market_ticker d, fc_event_title = mv_title m,
           fc_contract_title = contract_title (ex_codec x) m, fc_market_implied_probability = DFin implied,
           fc_dummy_probability = point, fc_probability_delta = delta, fc_confidence_score = confidence,
           fc_uncertainty_band = (lo, up), fc_expected_edge = gross, fc_edge_after_fees = net, fc_settlement_risk_score = risk,
           fc_source_summary = source_summary f, fc_model_summary = take 500 (ff_rationale f),
           fc_calibration_notes = ''uncertainty='' @ fixed_text 6 u @ '';central_firewall_v2'', fc_timestamp = Aware stamped,
           fc_expiration = Aware closes, fc_proof_reference = ''autonomy_forecast:'' @ dc_id d\<rparr>)"

definition to_firewall_forecast ::
  "executor \<Rightarrow> live_env \<Rightarrow> decimal_codec \<Rightarrow> clock \<Rightarrow> int \<Rightarrow> decision \<Rightarrow> market_view \<Rightarrow> order_book \<Rightarrow> string + forecast" where
  "to_firewall_forecast x le dc clk today d m ob =
     (case close_instant (ex_codec x) (mv_close_time m) of
        None \<Rightarrow> Inl ''ValueError''
      | Some closes \<Rightarrow>
          if closes \<le> now_us clk \<or> ob_bids ob = [] \<or> ob_asks ob = [] then Inl ''ValueError''
          else (case ob_timestamp ob of
              Naive _ \<Rightarrow> Inl ''TypeError''
            | Aware _ \<Rightarrow>
                (let best_bid = Max (set (map fst (ob_bids ob))); best_ask = Min (set (map fst (ob_asks ob)));
                     implied = d28 (of_int (best_bid + best_ask) / 200)
                 in case settlement_risk (ex_codec x) dc (le_infinite le) (jget ''settlement_risk_score'' (mv_raw m)) of
                      Inl exn \<Rightarrow> Inl exn
                    | Inr risk \<Rightarrow>
                        (case per_contract_fee x today d of
                           None \<Rightarrow> Inl ''OverflowError''
                         | Some fee \<Rightarrow>
                             (case from_iso (ex_codec x) (z_to_offset (dc_created_at d)) of
                                Some (Aware stamped) \<Rightarrow> forecast_record x dc d m implied risk fee stamped closes
                              | _ \<Rightarrow> Inl ''ValueError'')))))"

section \<open>The live path\<close>

text \<open>\<open>_risk_state_digest\<close>: the digest of a file that holds an object.\<close>

definition risk_state_digest :: "hashed_file \<Rightarrow> string option" where
  "risk_state_digest f =
     (case hf_json f of Holds v \<Rightarrow> (if as_obj v = None then None else hf_sha256 f) | _ \<Rightarrow> None)"

text \<open>\<open>int(now.timestamp())\<close>.\<close>

definition now_seconds :: "clock \<Rightarrow> int option" where
  "now_seconds clk = int_of_float (timestamp (now_us clk))"

definition order_request :: "executor \<Rightarrow> decision \<Rightarrow> string \<Rightarrow> string \<Rightarrow> int \<Rightarrow> live_order_request" where
  "order_request x d digest proof seconds =
     \<lparr>rq_proposal_id = idempotency_key x d, rq_market_ticker = dc_market_ticker d, rq_contract_ticker = dc_market_ticker d,
      rq_side = dc_side d, rq_price_cents = dc_price_cents d, rq_size = dc_count d,
      rq_strategy_proof_reference = ''autonomy_strategy_v2:'' @ dc_id d, rq_forecast_proof_reference = proof,
      rq_adapter_name = ''kalshi_live_firewall_adapter'', rq_liquidity_role = mode_text (xp_mode (ex_policy x)),
      rq_risk_state_sha256 = Some digest, rq_risk_snapshot = dc_risk_snapshot d,
      rq_expiration_ts = Some (seconds + order_ttl_seconds (dc_market_ticker d)), rq_attestation = None\<rparr>"

text \<open>
  The request with its attestation. \<open>None\<close> is an exception of the builder, or the
  ValidationError of a role that is neither maker nor taker.
\<close>

definition attested_order :: "firewall \<Rightarrow> clock \<Rightarrow> forecast \<Rightarrow> live_order_request \<Rightarrow> live_order_request option" where
  "attested_order fw clk f req =
     (if rq_liquidity_role req \<notin> {''maker'', ''taker''} then None
      else map_option (\<lambda>a. req\<lparr>rq_attestation := Some a\<rparr>)
        (build_attestation (plain_part fw) (fw_dec fw) (fw_taxonomy fw) (fw_sha256 fw) f req None None None None (now_us clk)))"

definition result_outcome :: "executor \<Rightarrow> decision \<Rightarrow> (string \<times> json) list \<Rightarrow> live_order_result \<Rightarrow> trade_outcome" where
  "result_outcome x d evidence r =
     (let detail = execution_detail x d @ evidence @ [(''firewall_error'', jopt_str (lr_error r))];
          named = (lr_success r \<and> lr_order_id r \<notin> {None, Some []})
      in \<lparr>oc_decision_id = dc_id d, oc_market_ticker = dc_market_ticker d,
          oc_kind = (if named then ACCEPTED else if lr_broker_contacted r then REJECTED else BLOCKED_LOCAL),
          oc_order_id = (if named then lr_order_id r else None), oc_fill_count = 0, oc_fill_price_cents = None, oc_pnl_cents = None,
          oc_broker_contacted = lr_broker_contacted r,
          oc_detail = (if named then (''state'', JStr ''submitted'') # detail else detail)\<rparr>)"

text \<open>The outcome, the calls on the broker in order, and the process afterwards.\<close>

type_synonym execution = "trade_outcome option \<times> broker_call list \<times> process"

text \<open>From the fetched book on.\<close>

definition execute_on_book ::
  "executor \<Rightarrow> executor_env \<Rightarrow> live_env \<Rightarrow> firewall \<Rightarrow> int \<Rightarrow> decision \<Rightarrow> market_view \<Rightarrow> string \<Rightarrow> order_book \<Rightarrow> process \<Rightarrow> execution" where
  "execute_on_book x e le fw today d m digest ob p =
     (case live_book_verdict x d ob of
        None \<Rightarrow> (None, [], p)
      | Some (Some reason, evidence) \<Rightarrow> (Some (blocked_outcome d reason evidence), [], p)
      | Some (None, evidence) \<Rightarrow>
          (case to_firewall_forecast x le (fw_dec fw) (ee_clock e) today d m ob of
             Inl exn \<Rightarrow> (Some (blocked_outcome d (''firewall_forecast_unavailable:'' @ exn) []), [], p)
           | Inr f \<Rightarrow>
               (case now_seconds (ee_clock e) of
                  None \<Rightarrow> (None, [], p)
                | Some seconds \<Rightarrow>
                    (case attested_order fw (ee_clock e) f (order_request x d digest (fc_proof_reference f) seconds) of
                       None \<Rightarrow> (None, [], p)
                     | Some req \<Rightarrow>
                         (let (r, calls, p') = submit fw (le_moments le) (le_other le) (le_broker le) req ob f p in
                          (Some (case r of
                              None \<Rightarrow> blocked_outcome d (''central_firewall_submit_failed:'' @ le_submit_error le) evidence
                            | Some res \<Rightarrow> result_outcome x d evidence res), calls, p'))))))"

definition execute_live :: "executor \<Rightarrow> executor_env \<Rightarrow> live_env \<Rightarrow> int \<Rightarrow> decision \<Rightarrow> market_view option \<Rightarrow> process \<Rightarrow> execution" where
  "execute_live x e le today d market p =
     (let blocked = (\<lambda>reason detail. (Some (blocked_outcome d reason detail), [], p)) in
      case market of
        None \<Rightarrow> blocked ''live_market_context_missing_or_mismatched'' []
      | Some m \<Rightarrow>
          if mv_ticker m \<noteq> dc_market_ticker d then blocked ''live_market_context_missing_or_mismatched'' []
          else (case le_firewall le of
              Inl exn \<Rightarrow> blocked (''central_firewall_unavailable:'' @ exn) []
            | Inr fw \<Rightarrow>
                (case live_authority_gate fw (le_moments le Start) of
                   Raise \<Rightarrow> (None, [], p)
                 | Reject v \<Rightarrow> blocked (fv_reason v)
                     [(''rejected_by'', JStr (case fv_rejected_by v of Some (c # s) \<Rightarrow> c # s | _ \<Rightarrow> ''live_authority''))]
                 | Pass \<Rightarrow>
                     (case risk_state_digest (le_risk_file le) of
                        None \<Rightarrow> blocked ''persisted_autonomy_risk_state_unavailable'' []
                      | Some digest \<Rightarrow>
                          if \<not> fw_has_client fw \<or> \<not> fw_can_read_book fw
                          then blocked ''central_firewall_orderbook_reader_unavailable'' []
                          else
                            (let p1 = le_other_fetch le p; read = GetOrderbook (dc_market_ticker d) 10 in
                             case br_orderbook (le_broker le) (dc_market_ticker d) 10 of
                               None \<Rightarrow> (Some (blocked_outcome d (''fresh_orderbook_unavailable:'' @ le_fetch_error le) []), [read], p1)
                             | Some None \<Rightarrow> (None, [read], p1)
                             | Some (Some ob) \<Rightarrow>
                                 (let (r, calls, p2) = execute_on_book x e le fw today d m digest ob p1 in (r, read # calls, p2)))))))"

section \<open>Executing a decision\<close>

definition abstained_outcome :: "decision \<Rightarrow> trade_outcome" where
  "abstained_outcome d =
     \<lparr>oc_decision_id = dc_id d, oc_market_ticker = dc_market_ticker d, oc_kind = SHADOW, oc_order_id = None, oc_fill_count = 0,
      oc_fill_price_cents = None, oc_pnl_cents = None, oc_broker_contacted = False, oc_detail = [(''note'', JStr ''abstain'')]\<rparr>"

text \<open>Session, kill file and venue at the moment of the submission.\<close>

definition live_block :: "executor \<Rightarrow> executor_env \<Rightarrow> decision \<Rightarrow> trade_outcome option option" where
  "live_block x e d =
     (let blocked = (\<lambda>reason. Some (Some (blocked_outcome d reason []))) in
      case load_session (ex_codec x) (ee_clock e) (ee_session e) of
        None \<Rightarrow> None
      | Some s \<Rightarrow>
          if \<not> sn_valid s \<or> sn_mode s \<noteq> JStr ''LIVE''
          then blocked (''live session invalid: '' @ str_of_json (repr_text (ex_codec x)) (sn_reason s))
          else if ee_kill_file e then blocked ''kill switch active''
          else (case ee_exchange_status e of
              Some (JObj venue) \<Rightarrow>
                if jget ''exchange_active'' venue \<noteq> JBool True then blocked ''exchange_maintenance_at_submit''
                else if jget ''trading_active'' venue \<noteq> JBool True then blocked ''trading_halted_at_submit''
                else Some None
            | _ \<Rightarrow> blocked ''exchange_status_unavailable_at_submit''))"

definition place ::
  "bool \<Rightarrow> executor \<Rightarrow> executor_env \<Rightarrow> live_env \<Rightarrow> int \<Rightarrow> decision \<Rightarrow> market_view option \<Rightarrow> process \<Rightarrow> execution" where
  "place compensated x e le today d market p =
     (if \<not> ex_live x
      then (map_option (shadow_outcome compensated x e d) (now_seconds (ee_clock e)), [], p)
      else (case live_block x e d of
          None \<Rightarrow> (None, [], p)
        | Some (Some o1) \<Rightarrow> (Some o1, [], p)
        | Some None \<Rightarrow> execute_live x e le today d market p))"

text \<open>The gates before the fork: an outcome, or the repriced decision; and the counter.\<close>

definition presubmit ::
  "executor \<Rightarrow> executor_env \<Rightarrow> decision \<Rightarrow> json \<Rightarrow> bool \<Rightarrow> pyfloat option \<Rightarrow> market_view option \<Rightarrow> int \<Rightarrow>
   (trade_outcome + decision) option \<times> int" where
  "presubmit x e d snapshot_ts is_live_market prior market count =
     (case target_context_block x d market of
        Some o1 \<Rightarrow> (Some (Inl o1), count)
      | None \<Rightarrow>
          if dc_action d = ABSTAIN \<or> dc_count d < 1 then (Some (Inl (abstained_outcome d)), count)
          else (case stale_gate_block x e d snapshot_ts is_live_market count of
              None \<Rightarrow> (None, count)
            | Some (Some o1, count') \<Rightarrow> (Some (Inl o1), count')
            | Some (None, count') \<Rightarrow>
                (case execution_policy_block x d prior of
                   Some o1 \<Rightarrow> (Some (Inl o1), count')
                 | None \<Rightarrow> (apply_taker_policy x e d, count'))))"

definition execute ::
  "bool \<Rightarrow> executor \<Rightarrow> executor_env \<Rightarrow> live_env \<Rightarrow> int \<Rightarrow> decision \<Rightarrow> json \<Rightarrow> bool \<Rightarrow> pyfloat option \<Rightarrow> market_view option \<Rightarrow> int \<Rightarrow>
   process \<Rightarrow> execution \<times> int" where
  "execute compensated x e le today d snapshot_ts is_live_market prior market count p =
     (case presubmit x e d snapshot_ts is_live_market prior market count of
        (None, count') \<Rightarrow> ((None, [], p), count')
      | (Some (Inl o1), count') \<Rightarrow> ((Some o1, [], p), count')
      | (Some (Inr d'), count') \<Rightarrow> (place compensated x e le today d' market p, count'))"

end
