(* ===== verification/ExecutorSafety.thy ===== *)
theory ExecutorSafety
  imports Executor
begin

text \<open>
  What the executor promises: when an order leaves for the venue, what its outcomes say about
  contact, what repricing may change, when a stale snapshot stops an order, and what the check of
  the live book shows.
\<close>

section \<open>The live session\<close>

text \<open>A session file that authorises live trading now.\<close>

definition live_session_open :: "codec \<Rightarrow> clock \<Rightarrow> json_file \<Rightarrow> bool" where
  "live_session_open c clk f \<longleftrightarrow>
     (\<exists>v s t n. f = Holds v \<and> as_obj v = Some s \<and> jget ''mode'' s = JStr ''LIVE'' \<and> jget ''ack'' s = JStr AUTONOMY_ACK \<and>
        int_of_json (jget_default ''accounting_version'' (JInt 1) s) = Some n \<and> SESSION_ACCOUNTING_VERSION \<le> n \<and>
        from_iso c (z_to_offset (str_of_json (repr_text c) (jget_default ''expires_at'' (JStr []) s))) = Some (Aware t) \<and>
        now_us clk \<le> t)"

lemma session_expiry_None:
  "session_expiry_reason c clk v = None \<longleftrightarrow> (\<exists>t. from_iso c (z_to_offset (str_of_json (repr_text c) v)) = Some (Aware t) \<and> now_us clk \<le> t)"
  by (auto simp: session_expiry_reason_def split: option.splits stamp.splits if_splits)

lemma load_session_live:
  "(\<exists>s. load_session c clk f = Some s \<and> sn_valid s \<and> sn_mode s = JStr ''LIVE'') \<longleftrightarrow> live_session_open c clk f"
proof (cases f)
  case (Holds v)
  show ?thesis
  proof (cases "as_obj v")
    case (Some s)
    let ?e = "jget_default ''expires_at'' (JStr []) s"
    have v: "v = JObj s" using Some by simp
    have o1: "live_session_open c clk f \<longleftrightarrow> jget ''mode'' s = JStr ''LIVE'' \<and> jget ''ack'' s = JStr AUTONOMY_ACK \<and>
        (\<exists>n. int_of_json (jget_default ''accounting_version'' (JInt 1) s) = Some n \<and> SESSION_ACCOUNTING_VERSION \<le> n) \<and>
        session_expiry_reason c clk ?e = None"
      by (auto simp: live_session_open_def Holds v session_expiry_None)
    show ?thesis
      unfolding o1 by (auto simp: load_session_def Holds v Let_def invalid_session_def split: option.splits)
  next
    case None
    then have "v \<noteq> JObj s" for s by auto
    then show ?thesis by (simp add: load_session_def live_session_open_def Holds None)
  qed
qed (simp_all add: load_session_def live_session_open_def invalid_session_def)

lemma live_block_open:
  assumes "live_block x e d = Some None"
  shows "live_session_open (ex_codec x) (ee_clock e) (ee_session e) \<and> \<not> ee_kill_file e \<and>
    (\<exists>venue. ee_exchange_status e = Some (JObj venue) \<and> jget ''exchange_active'' venue = JBool True \<and>
       jget ''trading_active'' venue = JBool True)"
proof -
  obtain s where s: "load_session (ex_codec x) (ee_clock e) (ee_session e) = Some s" "sn_valid s" "sn_mode s = JStr ''LIVE''"
    using assms by (auto simp: live_block_def Let_def split: option.splits if_split_asm)
  then have "live_session_open (ex_codec x) (ee_clock e) (ee_session e)" using load_session_live by blast
  then show ?thesis
    using assms by (auto simp: live_block_def Let_def s split: option.splits json.splits if_split_asm)
qed

section \<open>Taking an execution apart\<close>


text \<open>The ways from the fetched book: no call at all, or one submission whose result is reported.\<close>

lemma execute_on_book_ends:
  assumes "execute_on_book x e le fw today d m digest ob p = (r, calls, p')"
  obtains (quiet) "calls = []" "p' = p" "\<And>o1. r = Some o1 \<Longrightarrow> oc_kind o1 = BLOCKED_LOCAL \<and> \<not> oc_broker_contacted o1"
  | (submitted) evidence f seconds req res where
      "live_book_verdict x d ob = Some (None, evidence)"
      "to_firewall_forecast x le (fw_dec fw) (ee_clock e) today d m ob = Inr f"
      "now_seconds (ee_clock e) = Some seconds"
      "attested_order fw (ee_clock e) f (order_request x d digest (fc_proof_reference f) seconds) = Some req"
      "submit fw (le_moments le) (le_other le) (le_broker le) req ob f p = (res, calls, p')"
      "r = Some (case res of None \<Rightarrow> blocked_outcome d (''central_firewall_submit_failed:'' @ le_submit_error le) evidence
         | Some lr \<Rightarrow> result_outcome x d evidence lr)"
proof -
  note def = assms [unfolded execute_on_book_def]
  show thesis
  proof (cases "live_book_verdict x d ob")
    case None
    then show thesis using def quiet by simp
  next
    case (Some v)
    obtain reason evidence where v: "v = (reason, evidence)" by (cases v)
    show thesis
    proof (cases reason)
      case (Some why)
      then show thesis using def quiet \<open>live_book_verdict x d ob = Some v\<close> by (auto simp: v blocked_outcome_def)
    next
      case None
      note lb = \<open>live_book_verdict x d ob = Some v\<close> [unfolded v None]
      show thesis
      proof (cases "to_firewall_forecast x le (fw_dec fw) (ee_clock e) today d m ob")
        case (Inl exn)
        then show thesis using def quiet lb by (auto simp: blocked_outcome_def)
      next
        case f: (Inr f)
        show thesis
        proof (cases "now_seconds (ee_clock e)")
          case None
          then show thesis using def quiet lb f by simp
        next
          case seconds: (Some seconds)
          let ?a = "attested_order fw (ee_clock e) f (order_request x d digest (fc_proof_reference f) seconds)"
          obtain res calls1 p1 where s: "submit fw (le_moments le) (le_other le) (le_broker le) (the ?a) ob f p = (res, calls1, p1)"
            using prod_cases3 by blast
          show thesis
          proof (cases ?a)
            case None
            then show thesis using def quiet lb f seconds by simp
          next
            case (Some req)
            then show thesis using def submitted [OF lb f seconds Some] lb f seconds s by simp
          qed
        qed
      qed
    qed
  qed
qed


text \<open>The live path up to the fetched book.\<close>

lemma execute_live_ends:
  assumes "execute_live x e le today d market p = (r, calls, p')"
  obtains (quiet) "\<And>ord. CreateOrder ord \<notin> set calls"
      "\<And>o1. r = Some o1 \<Longrightarrow> oc_kind o1 = BLOCKED_LOCAL \<and> \<not> oc_broker_contacted o1"
  | (on_book) m fw digest ob calls' where "market = Some m" "mv_ticker m = dc_market_ticker d" "le_firewall le = Inr fw"
      "live_authority_gate fw (le_moments le Start) = Pass" "risk_state_digest (le_risk_file le) = Some digest"
      "br_orderbook (le_broker le) (dc_market_ticker d) 10 = Some (Some ob)"
      "execute_on_book x e le fw today d m digest ob (le_other_fetch le p) = (r, calls', p')"
      "calls = GetOrderbook (dc_market_ticker d) 10 # calls'"
proof (cases "\<exists>m fw digest. market = Some m \<and> mv_ticker m = dc_market_ticker d \<and> le_firewall le = Inr fw \<and>
      live_authority_gate fw (le_moments le Start) = Pass \<and> risk_state_digest (le_risk_file le) = Some digest \<and>
      fw_has_client fw \<and> fw_can_read_book fw")
  case False
  then have "calls = [] \<and> (\<forall>o1. r = Some o1 \<longrightarrow> oc_kind o1 = BLOCKED_LOCAL \<and> \<not> oc_broker_contacted o1)"
    using assms by (cases market; cases "le_firewall le"; cases "risk_state_digest (le_risk_file le)")
      (auto simp: execute_live_def Let_def blocked_outcome_def split: gate.splits if_split_asm)
  then show thesis using quiet by simp
next
  case True
  then obtain m fw digest where g: "market = Some m" "mv_ticker m = dc_market_ticker d" "le_firewall le = Inr fw"
    "live_authority_gate fw (le_moments le Start) = Pass" "risk_state_digest (le_risk_file le) = Some digest"
    "fw_has_client fw" "fw_can_read_book fw" by blast
  show thesis
  proof (cases "\<exists>ob. br_orderbook (le_broker le) (dc_market_ticker d) 10 = Some (Some ob)")
    case True
    then obtain ob where ob: "br_orderbook (le_broker le) (dc_market_ticker d) 10 = Some (Some ob)" by blast
    obtain r1 calls1 p1 where b: "execute_on_book x e le fw today d m digest ob (le_other_fetch le p) = (r1, calls1, p1)"
      using prod_cases3 by blast
    show thesis using on_book [OF g(1-5) ob] assms b by (simp add: execute_live_def g ob)
  next
    case False
    then show thesis using quiet assms
      by (auto simp: execute_live_def g Let_def blocked_outcome_def split: option.splits)
  qed
qed

lemma target_context_authorised:
  assumes "target_context_block x d market = None"
  obtains m where "market = Some m" "mv_ticker m = dc_market_ticker d"
    "has_prediction_target_authority (ex_codec x) (dc_market_ticker d) (jget ''category'' (mv_raw m)) (Typed (mv_vertical m)) (target_tags m)"
  using assms by (auto simp: target_context_block_def Let_def split: option.splits if_split_asm)

text \<open>An execution: an outcome of the gates, a paper order, a block at the live gates, or the live path.\<close>

lemma execute_ends:
  assumes "execute compensated x e le today d snapshot_ts lm prior market count p = ((r, calls, p'), count')"
  obtains (gated) "calls = []" "p' = p" "\<And>o1. r = Some o1 \<Longrightarrow> oc_kind o1 \<in> {BLOCKED_LOCAL, SHADOW} \<and> \<not> oc_broker_contacted o1 \<and> oc_order_id o1 = None"
  | (placed) d' where "target_context_block x d market = None" "dc_action d \<noteq> ABSTAIN" "1 \<le> dc_count d"
      "stale_gate_block x e d snapshot_ts lm count = Some (None, count')"
      "execution_policy_block x d prior = None" "apply_taker_policy x e d = Some (Inr d')"
      "place compensated x e le today d' market p = (r, calls, p')"
proof -
  obtain g c where pre: "presubmit x e d snapshot_ts lm prior market count = (g, c)" by fastforce
  have tb: "target_context_block x d market = Some o1 \<Longrightarrow> oc_kind o1 = BLOCKED_LOCAL \<and> \<not> oc_broker_contacted o1 \<and> oc_order_id o1 = None" for o1
    by (auto simp: target_context_block_def Let_def blocked_outcome_def split: option.splits if_split_asm)
  have sb: "stale_gate_block x e d snapshot_ts lm count = Some (Some o1, n) \<Longrightarrow>
      oc_kind o1 = BLOCKED_LOCAL \<and> \<not> oc_broker_contacted o1 \<and> oc_order_id o1 = None" for o1 n
    by (auto simp: stale_gate_block_def blocked_outcome_def split: option.splits if_split_asm)
  have pb: "execution_policy_block x d prior = Some o1 \<Longrightarrow> oc_kind o1 = BLOCKED_LOCAL \<and> \<not> oc_broker_contacted o1 \<and> oc_order_id o1 = None" for o1
    by (auto simp: execution_policy_block_def Let_def blocked_outcome_def split: option.splits if_split_asm)
  have ab: "apply_taker_policy x e d = Some (Inl o1) \<Longrightarrow> oc_kind o1 = BLOCKED_LOCAL \<and> \<not> oc_broker_contacted o1 \<and> oc_order_id o1 = None" for o1
    by (auto simp: apply_taker_policy_def Let_def blocked_outcome_def split: option.splits if_split_asm bool.splits)
  show thesis
  proof (cases "\<exists>d'. g = Some (Inr d')")
    case True
    then obtain d' where g: "g = Some (Inr d')" ..
    then have "target_context_block x d market = None" "dc_action d \<noteq> ABSTAIN" "1 \<le> dc_count d"
      "stale_gate_block x e d snapshot_ts lm count = Some (None, c)" "execution_policy_block x d prior = None"
      "apply_taker_policy x e d = Some (Inr d')"
      using pre by (auto simp: presubmit_def split: option.splits prod.splits if_split_asm)
    then show thesis using placed assms by (simp add: execute_def pre g)
  next
    case False
    have "g = Some (Inl o1) \<Longrightarrow> oc_kind o1 \<in> {BLOCKED_LOCAL, SHADOW} \<and> \<not> oc_broker_contacted o1 \<and> oc_order_id o1 = None" for o1
      using pre tb sb pb ab by (fastforce simp: presubmit_def abstained_outcome_def split: option.splits prod.splits if_split_asm)
    then show thesis using gated False assms by (cases g rule: option.exhaust; auto simp: execute_def pre split: sum.splits)
  qed
qed

lemma place_ends:
  assumes "place compensated x e le today d market p = (r, calls, p')"
  obtains (paper) "\<not> ex_live x" "calls = []" "p' = p" "r = map_option (shadow_outcome compensated x e d) (now_seconds (ee_clock e))"
  | (blocked) "ex_live x" "calls = []" "p' = p" "\<And>o1. r = Some o1 \<Longrightarrow> oc_kind o1 = BLOCKED_LOCAL \<and> \<not> oc_broker_contacted o1"
  | (live) "ex_live x" "live_block x e d = Some None" "execute_live x e le today d market p = (r, calls, p')"
proof -
  have lb: "live_block x e d = Some (Some o1) \<Longrightarrow> oc_kind o1 = BLOCKED_LOCAL \<and> \<not> oc_broker_contacted o1" for o1
    by (auto simp: live_block_def Let_def blocked_outcome_def split: option.splits json.splits if_split_asm)
  show thesis
    using assms paper blocked live lb by (auto simp: place_def split: option.splits if_split_asm)
qed


lemma repriced_keeps [simp]:
  "dc_id (repriced_decision d received q plan) = dc_id d" "dc_market_ticker (repriced_decision d received q plan) = dc_market_ticker d"
  "dc_side (repriced_decision d received q plan) = dc_side d"
  "dc_count (repriced_decision d received q plan) = lp_executable_count plan"
  "dc_price_cents (repriced_decision d received q plan) = lp_limit_price_cents plan"
  "dc_notional_cents (repriced_decision d received q plan) = lp_worst_case_notional_cents plan"
  by (simp_all add: repriced_decision_def Let_def)

text \<open>A decision that passed the taker's policy: the same one for a maker, a repriced one for a taker.\<close>

lemma apply_taker_policy_ends:
  assumes "apply_taker_policy x e d = Some (Inr d')"
  obtains (maker) "\<not> takes x" "d' = d"
  | (taker) q fee a plan where "takes x"
      "evaluate_quote_freshness (ex_codec x) (ee_now e) MAX_FRESH_QUOTE_AGE_SECONDS MAX_FUTURE_QUOTE_SKEW_SECONDS (ee_quote e (dc_market_ticker d)) = Some q"
      "qf_valid q" "kalshi_taker_fee_cents (dc_price_cents d) 1 (Some (dc_market_ticker d)) = Some fee"
      "assess_taker_liquidity (ex_float_text x) default_limits (plan_request x d (plan_probability d fee))
         (case ee_quote e (dc_market_ticker d) of None \<Rightarrow> [] | Some b \<Rightarrow> qt_fields b) = Some a"
      "la_plan a = Some plan" "d' = repriced_decision d (qf_received_at q) (plan_probability d fee) plan"
proof (cases "takes x")
  case False
  then show thesis using assms maker by (simp add: apply_taker_policy_def)
next
  case True
  obtain q where q: "evaluate_quote_freshness (ex_codec x) (ee_now e) MAX_FRESH_QUOTE_AGE_SECONDS MAX_FUTURE_QUOTE_SKEW_SECONDS
      (ee_quote e (dc_market_ticker d)) = Some q" "qf_valid q"
    using assms True by (auto simp: apply_taker_policy_def Let_def split: option.splits if_split_asm)
  obtain fee where f: "kalshi_taker_fee_cents (dc_price_cents d) 1 (Some (dc_market_ticker d)) = Some fee"
    using assms True q by (auto simp: apply_taker_policy_def Let_def split: option.splits)
  obtain a where a: "assess_taker_liquidity (ex_float_text x) default_limits (plan_request x d (plan_probability d fee))
         (case ee_quote e (dc_market_ticker d) of None \<Rightarrow> [] | Some b \<Rightarrow> qt_fields b) = Some a"
    using assms True q f by (auto simp: apply_taker_policy_def Let_def split: option.splits)
  show thesis
    using assms True q f a taker [OF True q f a]
    by (cases "la_plan a"; cases "la_allowed a") (auto simp: apply_taker_policy_def Let_def)
qed

lemma apply_taker_policy_keeps:
  assumes "apply_taker_policy x e d = Some (Inr d')"
  shows "dc_id d' = dc_id d" "dc_market_ticker d' = dc_market_ticker d" "dc_side d' = dc_side d"
  using assms by (cases rule: apply_taker_policy_ends; simp)+

lemma attested_order_fields:
  assumes "attested_order fw clk f req = Some req'"
  shows "build_order req' = build_order req" "rq_liquidity_role req \<in> {''maker'', ''taker''}"
  using assms by (auto simp: attested_order_def build_order_def split: if_split_asm)

section \<open>When an order leaves\<close>

text \<open>C9: An order leaves the executor only in live mode, under a live session that carries the typed acknowledgement, the current
  accounting version and an expiry still ahead, with no kill file, on a venue that says it is
  active and trading, for the decision's own market and with prediction authority over it. It is
  the last call and the only one that does not read; it buys the side of the decision, with the
  price and count the taker's policy left, under the decision's idempotency key, with the
  lifetime of its market; and the firewall evaluated exactly this request once more and passed it.\<close>

theorem live_order_is_authorised:
  assumes "execute compensated x e le today d snapshot_ts lm prior market count p = ((r, calls, p'), count')"
    and "CreateOrder ord \<in> set calls"
  shows "ex_live x \<and> live_session_open (ex_codec x) (ee_clock e) (ee_session e) \<and> \<not> ee_kill_file e \<and>
    (\<exists>venue. ee_exchange_status e = Some (JObj venue) \<and> jget ''exchange_active'' venue = JBool True \<and>
       jget ''trading_active'' venue = JBool True) \<and>
    (\<exists>m. market = Some m \<and> mv_ticker m = dc_market_ticker d \<and> has_prediction_target_authority (ex_codec x) (dc_market_ticker d)
       (jget ''category'' (mv_raw m)) (Typed (mv_vertical m)) (target_tags m)) \<and>
    (\<exists>d' reads digest proof seconds. apply_taker_policy x e d = Some (Inr d') \<and> calls = reads @ [CreateOrder ord] \<and>
       list_all read_only reads \<and> now_seconds (ee_clock e) = Some seconds \<and>
       ord = build_order (order_request x d' digest proof seconds)) \<and>
    (\<exists>fw f req trusted q q'. le_firewall le = Inr fw \<and> ord = build_order req \<and>
       evaluate fw (le_moments le Final) req trusted f q = (Pass, q') \<and> mandatory_submit_gate fw (le_moments le Final) req = Pass)"
  using assms(1)
proof (cases rule: execute_ends)
  case gated
  then show ?thesis using assms(2) by simp
next
  case (placed d')
  note ids = apply_taker_policy_keeps [OF placed(6)]
  obtain m where m: "market = Some m" "mv_ticker m = dc_market_ticker d"
    "has_prediction_target_authority (ex_codec x) (dc_market_ticker d) (jget ''category'' (mv_raw m)) (Typed (mv_vertical m)) (target_tags m)"
    using placed(1) by (rule target_context_authorised)
  from placed(7) show ?thesis
  proof (cases rule: place_ends)
    case live
    from live(3) show ?thesis
    proof (cases rule: execute_live_ends)
      case (on_book m' fw digest ob calls')
      from on_book(7) show ?thesis
      proof (cases rule: execute_on_book_ends)
        case quiet
        then show ?thesis using assms(2) on_book(8) by simp
      next
        case (submitted evidence f seconds req res)
        have sent: "CreateOrder ord \<in> set calls'" using assms(2) on_book(8) by simp
        obtain trusted q where rf: "reserve_final fw (le_moments le Final) req trusted f
            (le_other le Book_Read (le_other le Metadata_Reads (snd (evaluate fw (le_moments le Start) req ob f (le_other_fetch le p))))) = (None, q)"
          and calls: "calls' = fst (compliance_gate fw (le_moments le Metadata_Reads) (le_broker le) req) @
            fst (trusted_sink_orderbook fw (le_moments le Book_Read) (le_broker le) req) @ [CreateOrder (build_order req)]"
          using submit_sent [OF submitted(5) sent] by metis
        obtain p1 where fin: "evaluate fw (le_moments le Final) req trusted f
            (le_other le Book_Read (le_other le Metadata_Reads (snd (evaluate fw (le_moments le Start) req ob f (le_other_fetch le p))))) = (Pass, p1)"
          "mandatory_submit_gate fw (le_moments le Final) req = Pass"
          using rf by (rule reserve_final_None)
        let ?reads = "fst (compliance_gate fw (le_moments le Metadata_Reads) (le_broker le) req) @
            fst (trusted_sink_orderbook fw (le_moments le Book_Read) (le_broker le) req)"
        have ro: "list_all read_only ?reads" using compliance_calls trusted_calls by simp
        have o1: "ord = build_order req" using sent calls read_only_no_order [OF ro] by auto
        have o2: "build_order req = build_order (order_request x d' digest (fc_proof_reference f) seconds)"
          using attested_order_fields submitted(4) by blast
        have cs: "calls = (GetOrderbook (dc_market_ticker d') 10 # ?reads) @ [CreateOrder ord]" by (simp add: on_book(8) calls o1)
        have ro': "list_all read_only (GetOrderbook (dc_market_ticker d') 10 # ?reads)" using ro by (simp add: read_only_def)
        show ?thesis
          using live_block_open [OF live(2)] live(1) m placed(6) cs ro' submitted(3) o1 o2 on_book(3) fin by blast
      qed
    qed (use assms(2) in simp)
  qed (use assms(2) in simp_all)
qed


section \<open>What repricing may change\<close>

text \<open>C11: A taker's repricing never enlarges the order. The identity, market and side stay; the count is at least
  one and at most the decided one, the notional is the limit price times the count and at most
  the decided one; the quote it rests on was fresh, and at the probability of the plan the value
  of one contract reaches the floor of the policy.\<close>

theorem repricing_never_enlarges:
  assumes "apply_taker_policy x e d = Some (Inr d')" and "takes x"
  shows "dc_id d' = dc_id d \<and> dc_market_ticker d' = dc_market_ticker d \<and> dc_side d' = dc_side d \<and>
    1 \<le> dc_count d' \<and> dc_count d' \<le> dc_count d \<and> dc_notional_cents d' = dc_price_cents d' * dc_count d' \<and>
    dc_notional_cents d' \<le> dc_notional_cents d \<and>
    (\<exists>q fee a plan. evaluate_quote_freshness (ex_codec x) (ee_now e) MAX_FRESH_QUOTE_AGE_SECONDS MAX_FUTURE_QUOTE_SKEW_SECONDS
         (ee_quote e (dc_market_ticker d)) = Some q \<and> qf_valid q \<and>
       assess_taker_liquidity (ex_float_text x) default_limits (plan_request x d (plan_probability d fee))
         (case ee_quote e (dc_market_ticker d) of None \<Rightarrow> [] | Some b \<Rightarrow> qt_fields b) = Some a \<and> la_plan a = Some plan \<and>
       dc_ev_cents d' = py_round 2 (lp_net_ev_cents plan) \<and>
       \<not> flt (lp_net_ev_cents plan) (or_zero (xp_taker_min_ev_cents (ex_policy x))))"
  using assms(1)
proof (cases rule: apply_taker_policy_ends)
  case maker
  then show ?thesis using assms(2) by simp
next
  case (taker q fee a plan)
  let ?r = "plan_request x d (plan_probability d fee)"
  have r: "tr_requested_count ?r = max 0 (dc_count d)" "tr_notional_cap_cents ?r = max 0 (dc_notional_cents d)"
    "tr_min_ev_cents ?r = or_zero (xp_taker_min_ev_cents (ex_policy x))" by (simp_all add: plan_request_def)
  obtain best where p: "1 \<le> lp_executable_count plan" "lp_executable_count plan \<le> max 0 (dc_count d)"
    "lp_worst_case_notional_cents plan = lp_limit_price_cents plan * lp_executable_count plan"
    "lp_worst_case_notional_cents plan \<le> max 0 (dc_notional_cents d)" "\<not> flt (lp_net_ev_cents plan) (or_zero (xp_taker_min_ev_cents (ex_policy x)))"
    "1 \<le> best" "best \<le> lp_limit_price_cents plan"
  proof -
    obtain best v rest where ls: "whole_contract_levels (ex_float_text x) (case ee_quote e (dc_market_ticker d) of None \<Rightarrow> [] | Some b \<Rightarrow> qt_fields b)
        (tr_side ?r) = Some ((best, v) # rest)"
      and fills: "\<forall>(price, n) \<in> set (lp_level_fills plan). best \<le> price" "lp_limit_price_cents plan = fst (last (lp_level_fills plan))"
        "lp_executable_count plan = sum_list (map snd (lp_level_fills plan))"
      and le: "1 \<le> lp_executable_count plan" "lp_executable_count plan \<le> tr_requested_count ?r"
        "lp_worst_case_notional_cents plan = lp_limit_price_cents plan * lp_executable_count plan"
        "lp_worst_case_notional_cents plan \<le> tr_notional_cap_cents ?r" "\<not> flt (lp_net_ev_cents plan) (tr_min_ev_cents ?r)"
      using executable_plan [OF taker(5,6)] by fast
    have "lp_level_fills plan \<noteq> []" using fills(3) le(1) by auto
    then have "last (lp_level_fills plan) \<in> set (lp_level_fills plan)" by simp
    then have "best \<le> lp_limit_price_cents plan" using fills(1,2) by (auto simp: split_beta)
    moreover have "1 \<le> best" using whole_contract_levels_ok [OF ls] by (simp add: ladder_ok_def)
    ultimately show thesis using that [of best] le r by simp
  qed
  have "1 * 1 \<le> lp_limit_price_cents plan * lp_executable_count plan" using p(1,6,7) by (intro mult_mono) auto
  then have "lp_worst_case_notional_cents plan \<le> dc_notional_cents d" using p(3,4) by simp
  moreover have "lp_executable_count plan \<le> dc_count d" using p(1,2) by simp
  moreover have "dc_ev_cents d' = py_round 2 (lp_net_ev_cents plan)" by (simp add: taker(7) repriced_decision_def Let_def)
  moreover have "dc_id d' = dc_id d" "dc_market_ticker d' = dc_market_ticker d" "dc_side d' = dc_side d"
    "dc_count d' = lp_executable_count plan" "dc_price_cents d' = lp_limit_price_cents plan"
    "dc_notional_cents d' = lp_worst_case_notional_cents plan" by (simp_all add: taker(7))
  ultimately show ?thesis using p(1,3,5) taker(2,3,5,6) by metis
qed

text \<open>C12: An executor with a staleness policy places nothing on a stale snapshot, on paper or live. A
  missing, unreadable or future time of the snapshot counts as stale, and so does an age that is
  no number.\<close>

theorem stale_snapshot_places_nothing:
  assumes "execute compensated x e le today d snapshot_ts lm prior market count p = ((r, calls, p'), count')"
    and "ex_staleness x = Some policy"
    and "(\<exists>ord. CreateOrder ord \<in> set calls) \<or> (\<exists>o1. r = Some o1 \<and> oc_order_id o1 \<noteq> None)"
  shows "\<exists>t. to_epoch_seconds (ex_codec x) snapshot_ts = Some (Some t) \<and> fle (Fin (- 1)) (fsub (ee_now e) t) \<and>
    fle (fsub (ee_now e) t) (max_age_seconds policy (dc_market_ticker d) lm)"
  using assms(1)
proof (cases rule: execute_ends)
  case gated
  then show ?thesis using assms(3) by auto
next
  case (placed d')
  have nan: "fle a m \<Longrightarrow> \<not> flt a (Fin (- 1)) \<Longrightarrow> fle (Fin (- 1)) a" for a m by (cases a; cases m) auto
  show ?thesis
    using placed(4) nan
    by (auto simp: stale_gate_block_def assms(2) evaluate_snapshot_freshness_def Let_def split: option.splits if_split_asm)
qed

section \<open>The plan and the live book\<close>

lemma plan_evidence_read:
  "read_plan x (plan_evidence received plan) = Some (Some
     \<lparr>pe_version = LIQUIDITY_EVIDENCE_VERSION, pe_count = lp_executable_count plan, pe_limit = lp_limit_price_cents plan,
      pe_vwap = py_round 4 (lp_modeled_vwap_cents plan), pe_fee = lp_modeled_fee_cents plan,
      pe_net_ev = py_round 4 (lp_net_ev_cents plan), pe_notional = lp_worst_case_notional_cents plan,
      pe_fill_status = ''unfilled_plan_only''\<rparr>)"
  by (simp add: read_plan_def plan_evidence_def plan_text_def plan_int_def plan_float_def caught_def int_or_skip_def float_or_skip_def)

lemma plan_of_repriced: "plan_of_decision (repriced_decision d received q plan) = Some (plan_evidence received plan)"
  by (simp add: plan_of_decision_def repriced_decision_def Let_def jget_jput)

text \<open>The plan of a repriced decision is read back from its risk snapshot as it was made, the two prices rounded to four places.\<close>

theorem repriced_plan_roundtrip:
  "map_option (read_plan x) (plan_of_decision (repriced_decision d received q plan)) = Some (Some (Some
     \<lparr>pe_version = LIQUIDITY_EVIDENCE_VERSION, pe_count = lp_executable_count plan, pe_limit = lp_limit_price_cents plan,
      pe_vwap = py_round 4 (lp_modeled_vwap_cents plan), pe_fee = lp_modeled_fee_cents plan,
      pe_net_ev = py_round 4 (lp_net_ev_cents plan), pe_notional = lp_worst_case_notional_cents plan,
      pe_fill_status = ''unfilled_plan_only''\<rparr>))"
  by (simp add: plan_of_repriced plan_evidence_read)

definition depth_within :: "int \<Rightarrow> (int \<times> int) list \<Rightarrow> int" where
  "depth_within limit levels = (\<Sum>(p, n) \<leftarrow> levels. if p \<le> limit then max 0 n else 0)"

lemma depth_within_nonneg: "0 \<le> depth_within limit levels"
  unfolding depth_within_def by (intro sum_list_nonneg) auto

lemma fill_levels_depth:
  "fill_levels limit levels remaining cost used = (rest, c, u) \<Longrightarrow> remaining - rest \<le> depth_within limit levels"
proof (induction limit levels remaining cost used rule: fill_levels.induct)
  case (1 limit remaining cost used)
  then show ?case by (simp add: depth_within_def)
next
  case (2 limit price sz levels remaining cost used)
  show ?case
  proof (cases "limit < price \<or> remaining \<le> 0")
    case True
    then show ?thesis using 2(3) depth_within_nonneg [of limit "(price, sz) # levels"] by simp
  next
    case False
    have d: "depth_within limit ((price, sz) # levels) = max 0 sz + depth_within limit levels"
      using False by (simp add: depth_within_def)
    show ?thesis
    proof (cases "0 < min remaining sz")
      case True
      then have "remaining - min remaining sz - rest \<le> depth_within limit levels" using 2(1,3) False by (simp add: Let_def)
      then show ?thesis by (simp add: d)
    next
      case no: False
      then have "remaining - rest \<le> depth_within limit levels" using 2(2,3) False by (simp add: Let_def)
      then show ?thesis by (simp add: d)
    qed
  qed
qed

lemma plan_verdict_clear:
  assumes "plan_verdict d asks p = Some (None, evidence)"
  shows "pe_count p \<le> depth_within (pe_limit p) asks"
  using assms fill_levels_depth [of "pe_limit p" asks "pe_count p" 0 "[]"]
  by (auto simp: plan_verdict_def split: prod.splits if_split_asm)

text \<open>C13: What a live book that lets a decision through shows: both sides; for a maker, the price rests at or above
  the best bid, below the best ask, with at most fifty contracts ahead; for a taker, the plan in the
  decision is the decision's own and the asks up to its limit price hold the whole count.\<close>

theorem live_book_clears:
  assumes "live_book_verdict x d ob = Some (None, evidence)"
  shows "\<exists>bb bn bids ba an asks. side_book_levels ob (dc_side d) = ((bb, bn) # bids, (ba, an) # asks) \<and>
    (if takes x then dc_count d \<le> depth_within (dc_price_cents d) ((ba, an) # asks)
     else bb \<le> dc_price_cents d \<and> dc_price_cents d < ba \<and>
       (\<Sum>(price, n) \<leftarrow> (bb, bn) # bids. if price = dc_price_cents d then n else 0) \<le> 50)"
proof -
  obtain bids asks where s: "side_book_levels ob (dc_side d) = (bids, asks)" by fastforce
  obtain bb bn bs ba an as where b: "bids = (bb, bn) # bs" "asks = (ba, an) # as"
    using assms by (cases bids; cases asks) (auto simp: live_book_verdict_def s Let_def)
  show ?thesis
  proof (cases "takes x")
    case False
    then have "maker_verdict d bids bb ba = (None, snd (maker_verdict d bids bb ba))"
      using assms by (auto simp: live_book_verdict_def s b Let_def split: prod.splits)
    then show ?thesis using False by (auto simp: s b maker_verdict_def Let_def split: if_split_asm)
  next
    case True
    then obtain ev where "taker_verdict x d asks = Some (None, ev)"
      using assms by (auto simp: live_book_verdict_def s b Let_def split: prod.splits)
    then obtain p where p: "\<not> plan_mismatch d p" "plan_verdict d asks p = Some (None, ev)"
      by (auto simp: taker_verdict_def split: option.splits if_split_asm)
    then show ?thesis using plan_verdict_clear [OF p(2)] True by (simp add: s b plan_mismatch_def)
  qed
qed

end
