(* ===== verification/ExecutorRuns.thy ===== *)
theory ExecutorRuns
  imports ExecutorSafety SubmissionRuns
begin

text \<open>
  A live maker decision that becomes the request of \<open>SubmissionRuns\<close>, and a taker decision that is
  repriced: the properties of \<open>ExecutorSafety\<close> applied to both, and a book the live check refuses
  although it holds the planned fills.
\<close>

section \<open>A live decision run through\<close>

definition exec_forecast :: fused_forecast where
  "exec_forecast = \<lparr>ff_market_ticker = ''KXSOL15M-26'', ff_probability_yes = Fin (5 / 8), ff_uncertainty = Fin (1 / 8),
     ff_sources_used = [(''s'', Fin 1)], ff_market_implied_yes = None, ff_edge_yes = Fin 0, ff_rationale = ''m''\<rparr>"

definition exec_market :: market_view where
  "exec_market = \<lparr>mv_ticker = ''KXSOL15M-26'', mv_title = ''SOL'', mv_vertical = CRYPTO, mv_status = ''open'', mv_close_time = ''FUTURE'',
     mv_yes_bid = Some 38, mv_yes_ask = Some 40, mv_no_bid = Some 60, mv_no_ask = Some 62, mv_volume = 10,
     mv_liquidity = 10, mv_tick_size = 1, mv_raw = [(''subtitle'', JStr ''up''), (''settlement_risk_score'', JStr ''0.01'')],
     mv_fetched_at = None\<rparr>"

definition exec_decision :: decision where
  "exec_decision = \<lparr>dc_id = ''d1'', dc_market_ticker = ''KXSOL15M-26'', dc_action = BUY_YES, dc_side = ''yes'', dc_price_cents = 39,
     dc_count = 2, dc_ev_cents = Fin 5, dc_kelly = Fin (1 / 8), dc_notional_cents = 78, dc_forecast = exec_forecast,
     dc_risk_snapshot = [(''stage'', JInt 1), (''bankroll_cents'', JInt 5000), (''open_exposure_cents'', JInt 0), (''open_markets'', JInt 0)],
     dc_abstain_reason = '''', dc_created_at = ''RECENT''\<rparr>"

definition exec_clock :: clock where
  "exec_clock = noon\<lparr>now_us := 43199500000\<rparr>"

definition live_session_file :: json_file where
  "live_session_file = Holds (JObj [(''mode'', JStr ''LIVE''), (''accounting_version'', JInt 2), (''ack'', JStr AUTONOMY_ACK),
     (''expires_at'', JStr ''FUTURE'')])"

definition exec_executor :: executor where
  "exec_executor = \<lparr>ex_live = True, ex_codec = label_codec, ex_policy = maker_only_control, ex_staleness = Some DEFAULT_STALENESS_POLICY,
     ex_float_text = (\<lambda>_. None), ex_sha256_hex = (\<lambda>_. ''o1'')\<rparr>"

definition exec_env :: executor_env where
  "exec_env = \<lparr>ee_clock = exec_clock, ee_now = Fin 43200, ee_quote = (\<lambda>_. None), ee_shadow_book = None, ee_session = live_session_file,
     ee_kill_file = False, ee_exchange_status = Some (JObj [(''exchange_active'', JBool True), (''trading_active'', JBool True)])\<rparr>"

definition exec_live :: live_env where
  "exec_live = \<lparr>le_firewall = Inr run_firewall, le_moments = run_moments, le_other = undisturbed, le_other_fetch = (\<lambda>p. p),
     le_broker = run_broker, le_fetch_error = '''', le_submit_error = '''',
     le_risk_file = \<lparr>hf_sha256 = Some ''CD34'', hf_json = Holds (JObj run_risk)\<rparr>, le_infinite = (\<lambda>_. None)\<rparr>"

lemma exec_session: "live_block exec_executor exec_env exec_decision = Some None"
  by code_simp

lemma exec_presubmit: "presubmit exec_executor exec_env exec_decision (JInt 43190) False None (Some exec_market) 0 = (Some (Inr exec_decision), 0)"
proof -
  have 1: "target_context_block exec_executor exec_decision (Some exec_market) = None" by code_simp
  have 2: "stale_gate_block exec_executor exec_env exec_decision (JInt 43190) False 0 = Some (None, 0)" by code_simp
  have 3: "execution_policy_block exec_executor exec_decision None = None" by code_simp
  have 4: "\<not> takes exec_executor" by code_simp
  have 5: "dc_action exec_decision \<noteq> ABSTAIN" "\<not> dc_count exec_decision < 1" by (simp_all add: exec_decision_def)
  show ?thesis by (simp add: presubmit_def 1 2 3 4 5 apply_taker_policy_def)
qed

lemma exec_verdict:
  "\<exists>evidence. live_book_verdict exec_executor exec_decision run_orderbook = Some (None, evidence)"
proof -
  have "map_option fst (live_book_verdict exec_executor exec_decision run_orderbook) = Some None"
    by (simp add: live_book_verdict_def exec_executor_def side_book_levels_def exec_decision_def run_orderbook_def maker_only_control_def maker_verdict_def Let_def)
  then show ?thesis by auto
qed

lemma exec_fee: "per_contract_fee exec_executor 0 exec_decision = Some (Fin 2)"
proof -
  have 1: "kalshi_maker_fee_cents 0 39 2 (Some ''KXSOL15M-26'') None = Some 4" by code_simp
  have 2: "int_truediv 4 2 = Fin 2" by code_simp
  have 3: "\<not> takes exec_executor" by code_simp
  have 4: "dc_price_cents exec_decision = 39" "dc_count exec_decision = 2" "dc_market_ticker exec_decision = ''KXSOL15M-26''"
    by (simp_all add: exec_decision_def)
  have 5: "max 1 2 = (2 :: int)" by simp
  show ?thesis unfolding per_contract_fee_def 4 if_not_P [OF 3] 1 5 option.map 2 ..
qed

lemma exec_risk: "settlement_risk label_codec sample_dec (\<lambda>_. None) (JStr ''0.01'') = Inr (1 / 100)"
  by (simp add: settlement_risk_def sample_dec_def)

lemma exec_calibration: "fixed_text 6 (Fin (1 / 8)) = ''0.125000''"
proof -
  have r: "round_half_even (\<bar>1 / 8\<bar> * 10 ^ 6) = 125000" by code_simp
  have d: "digit_char 0 = CHR ''0''" "digit_char 1 = CHR ''1''" "digit_char (Suc 0) = CHR ''1''" "digit_char 2 = CHR ''2''" "digit_char 5 = CHR ''5''"
    by code_simp+
  have "show_int 125000 = ''125000''" by (simp add: show_int_def show_nat.simps d)
  then have "pad (6 + 1) 125000 = ''0125000''" by (simp add: pad_def)
  then show ?thesis unfolding fixed_text_def pyfloat.case r Let_def by simp
qed

lemma exec_decimals: "decimal_of_float sample_dec (Fin (5 / 8)) = DFin (5 / 8)" "decimal_of_float sample_dec (Fin (1 / 2)) = DFin (1 / 2)"
    "decimal_of_float sample_dec (Fin (3 / 4)) = DFin (3 / 4)"
    "y \<notin> {Fin (1 / 2), Fin (3 / 4), Fin (5 / 8)} \<Longrightarrow> decimal_of_float sample_dec y = DFin (1 / 20)"
  by (simp_all add: decimal_of_float_def sample_dec_def)

lemma exec_cents: "per_cent (fadd (Fin 5) (Fin 2)) \<notin> {Fin (1 / 2), Fin (3 / 4), Fin (5 / 8)}"
    "per_cent (Fin 5) \<notin> {Fin (1 / 2), Fin (3 / 4), Fin (5 / 8)}"
  by code_simp+

lemma exec_band: "fmax (Fin 0) (fmin (Fin (1 / 2)) (Fin (1 / 8))) = Fin (1 / 8)" "fmax (Fin 0) (fsub (Fin (5 / 8)) (Fin (1 / 8))) = Fin (1 / 2)"
    "fmin (Fin 1) (fadd (Fin (5 / 8)) (Fin (1 / 8))) = Fin (3 / 4)" "fmax (Fin 0) (fmin (Fin 1) (fsub (Fin 1) (fmul (Fin (1 / 8)) (Fin 2)))) = Fin (3 / 4)"
    "decimal_diff (DFin (5 / 8)) (DFin (39 / 100)) = DFin (47 / 200)"
  by code_simp+

lemmas exec_floats = exec_band exec_decimals(1-3) exec_decimals(4) [OF exec_cents(1)] exec_decimals(4) [OF exec_cents(2)]

lemma exec_record:
  "forecast_record exec_executor sample_dec exec_decision exec_market (39 / 100) (1 / 100) (Fin 2) 43199000000 90000000000 = Inr ModelInfluence.sample_forecast"
proof -
  have d: "dc_forecast exec_decision = exec_forecast" "dc_market_ticker exec_decision = ''KXSOL15M-26''" "dc_ev_cents exec_decision = Fin 5"
    "dc_id exec_decision = ''d1''" by (simp_all add: exec_decision_def)
  have f: "ff_probability_yes exec_forecast = Fin (5 / 8)" "ff_uncertainty exec_forecast = Fin (1 / 8)" "ff_rationale exec_forecast = ''m''"
    "source_summary exec_forecast = ''s''" by (simp_all add: exec_forecast_def source_summary_def)
  have m: "mv_title exec_market = ''SOL''" "contract_title (ex_codec exec_executor) exec_market = ''up''"
    by (simp_all add: exec_market_def contract_title_def)
  show ?thesis
    unfolding forecast_record_def Let_def d f m exec_floats exec_calibration
    by (simp add: all_finite_def ModelInfluence.sample_forecast_def)
qed

lemma exec_firewall_forecast:
  "to_firewall_forecast exec_executor exec_live sample_dec exec_clock 0 exec_decision exec_market run_orderbook = Inr ModelInfluence.sample_forecast"
proof -
  have c: "close_instant (ex_codec exec_executor) (mv_close_time exec_market) = Some 90000000000" by code_simp
  have t: "from_iso (ex_codec exec_executor) (z_to_offset (dc_created_at exec_decision)) = Some (Aware 43199000000)" by code_simp
  have n: "now_us exec_clock = 43199500000" by (simp add: exec_clock_def)
  have b: "ob_bids run_orderbook = [(38, 10)]" "ob_asks run_orderbook = [(40, 5)]" "ob_timestamp run_orderbook = Aware 43199000000"
    by (simp_all add: run_orderbook_def)
  have i: "d28 (39 / 100) = 39 / 100" by code_simp
  have r: "ex_codec exec_executor = label_codec" "le_infinite exec_live = (\<lambda>_. None)"
    "jget ''settlement_risk_score'' (mv_raw exec_market) = JStr ''0.01''"
    by (simp_all add: exec_executor_def exec_live_def exec_market_def)
  show ?thesis
    using c t unfolding to_firewall_forecast_def c r
    by (simp add: n b i exec_risk exec_fee exec_record)
qed

lemma exec_seconds: "now_seconds exec_clock = Some 43199"
  by code_simp

lemma exec_request: "order_request exec_executor exec_decision ''CD34'' ''autonomy_forecast:d1'' 43199 = ModelInfluence.sample_request"
  by code_simp

lemma exec_attested:
  "attested_order run_firewall exec_clock ModelInfluence.sample_forecast ModelInfluence.sample_request = Some attested_request"
proof -
  have f: "plain_part run_firewall = label_codec" "fw_dec run_firewall = sample_dec" "fw_taxonomy run_firewall = sample_taxonomy"
    "fw_sha256 run_firewall = sample_sha" by (simp_all add: run_firewall_def)
  have n: "now_us exec_clock = 43199500000" by (simp add: exec_clock_def)
  have r: "rq_liquidity_role ModelInfluence.sample_request = ''maker''" by (simp add: ModelInfluence.sample_request_def)
  show ?thesis unfolding attested_order_def f n r sample_built by (simp add: attested_request_def)
qed

text \<open>The whole call: the decision becomes the request of \<open>SubmissionRuns\<close>, which is sent.\<close>

lemma exec_run:
  obtains o1 reads where "execute compensated exec_executor exec_env exec_live 0 exec_decision (JInt 43190) False None (Some exec_market) 0 run_process =
    ((Some o1, reads @ [CreateOrder run_order], run_settled), 0)"
proof -
  obtain evidence where v: "live_book_verdict exec_executor exec_decision run_orderbook = Some (None, evidence)" using exec_verdict by blast
  obtain reads where s: "submit run_firewall run_moments undisturbed run_broker attested_request run_orderbook ModelInfluence.sample_forecast run_process =
    (Some (contacted attested_request (Some ''X1'') None), reads @ [CreateOrder run_order], run_settled)" using run_submit by blast
  have l: "le_firewall exec_live = Inr run_firewall" "le_moments exec_live = run_moments" "le_other exec_live = undisturbed"
    "le_broker exec_live = run_broker" "le_other_fetch exec_live q = q" "risk_state_digest (le_risk_file exec_live) = Some ''CD34''" for q
    by (simp_all add: exec_live_def risk_state_digest_def)
  have c: "ee_clock exec_env = exec_clock" by (simp add: exec_env_def)
  have f: "fw_dec run_firewall = sample_dec" "fw_can_read_book run_firewall" by (simp_all add: run_firewall_def)
  have p: "fc_proof_reference ModelInfluence.sample_forecast = ''autonomy_forecast:d1''" by (simp add: ModelInfluence.sample_forecast_def)
  obtain o1 where b: "execute_on_book exec_executor exec_env exec_live run_firewall 0 exec_decision exec_market ''CD34'' run_orderbook run_process =
      (Some o1, reads @ [CreateOrder run_order], run_settled)"
    by (simp add: execute_on_book_def v c f p exec_firewall_forecast exec_seconds exec_request exec_attested l s)
  have a: "live_authority_gate run_firewall run_env = Pass" by (simp add: live_authority_gate_def run_authority)
  have m: "mv_ticker exec_market = dc_market_ticker exec_decision" by (simp add: exec_market_def exec_decision_def)
  have ob: "br_orderbook run_broker t d = Some (Some run_orderbook)" for t d by (simp add: run_broker_def)
  have live: "ex_live exec_executor" by (simp add: exec_executor_def)
  have e: "execute_live exec_executor exec_env exec_live 0 exec_decision (Some exec_market) run_process =
      (Some o1, (GetOrderbook (dc_market_ticker exec_decision) 10 # reads) @ [CreateOrder run_order], run_settled)"
    by (simp add: execute_live_def m l a f run_firewall_fields ob b)
  show thesis
    by (rule that [of o1 "GetOrderbook (dc_market_ticker exec_decision) 10 # reads"])
      (simp add: execute_def exec_presubmit place_def live exec_session e)
qed

theorem live_order_is_authorised_witness:
  "live_session_open (ex_codec exec_executor) (ee_clock exec_env) (ee_session exec_env) \<and>
   (\<exists>digest proof seconds. run_order = build_order (order_request exec_executor exec_decision digest proof seconds))"
proof -
  obtain o1 reads where e: "execute False exec_executor exec_env exec_live 0 exec_decision (JInt 43190) False None (Some exec_market) 0 run_process =
    ((Some o1, reads @ [CreateOrder run_order], run_settled), 0)" by (rule exec_run)
  have c: "CreateOrder run_order \<in> set (reads @ [CreateOrder run_order])" by simp
  have t: "\<not> takes exec_executor" by code_simp
  show ?thesis using live_order_is_authorised [OF e c] by (auto simp: apply_taker_policy_def t)
qed

section \<open>A taker run through\<close>

definition taker_executor :: executor where
  "taker_executor = exec_executor\<lparr>ex_policy := taker_only (Fin 3)\<rparr>"

definition taker_decision :: decision where
  "taker_decision = exec_decision\<lparr>dc_market_ticker := ''KXMLB-26'', dc_price_cents := 50, dc_count := 8, dc_notional_cents := 400,
     dc_ev_cents := Fin 30, dc_forecast := exec_forecast\<lparr>ff_probability_yes := Fin (3 / 4)\<rparr>\<rparr>"

definition taker_env :: executor_env where
  "taker_env = exec_env\<lparr>ee_quote := (\<lambda>_. Some \<lparr>qt_fields = sample_quote, qt_received_at = Plain (JInt 43199)\<rparr>)\<rparr>"

lemma taker_probability: "plan_probability taker_decision 2 = Fin (3 / 4)"
  by code_simp

lemma taker_request: "plan_request taker_executor taker_decision (Fin (3 / 4)) = Liquidity.sample_request 400"
  by code_simp

lemma taker_freshness:
  obtains q :: quote_freshness where "evaluate_quote_freshness label_codec (Fin 43200) MAX_FRESH_QUOTE_AGE_SECONDS MAX_FUTURE_QUOTE_SKEW_SECONDS
    (Some \<lparr>qt_fields = sample_quote, qt_received_at = Plain (JInt 43199)\<rparr>) = Some q" "qf_valid q"
proof -
  have a: "parse_received_at label_codec (Plain (JInt 43199)) = Some (Some 43199000000)" by code_simp
  have b: "fsub (Fin 43200) (timestamp 43199000000) = Fin 1" by code_simp
  have c: "\<not> flt (Fin 1) (fneg MAX_FUTURE_QUOTE_SKEW_SECONDS)" "\<not> flt MAX_FRESH_QUOTE_AGE_SECONDS (Fin 1)" by code_simp+
  show thesis by (rule that) (simp add: evaluate_quote_freshness_def a b c Let_def, simp)
qed

lemma taker_run:
  obtains q :: quote_freshness and a plan where
    "assess_taker_liquidity (\<lambda>_. None) default_limits (Liquidity.sample_request 400) sample_quote = Some a" "la_plan a = Some plan"
    "lp_executable_count plan = 7" "lp_worst_case_notional_cents plan = 357"
    "apply_taker_policy taker_executor taker_env taker_decision = Some (Inr (repriced_decision taker_decision (qf_received_at q) (Fin (3 / 4)) plan))"
proof -
  obtain q where q: "evaluate_quote_freshness label_codec (Fin 43200) MAX_FRESH_QUOTE_AGE_SECONDS MAX_FUTURE_QUOTE_SKEW_SECONDS
    (Some \<lparr>qt_fields = sample_quote, qt_received_at = Plain (JInt 43199)\<rparr>) = Some q" "qf_valid q" by (rule taker_freshness)
  obtain a plan where a: "assess_taker_liquidity (\<lambda>_. None) default_limits (Liquidity.sample_request 400) sample_quote = Some a" "la_plan a = Some plan"
    "lp_executable_count plan = 7" "lp_worst_case_notional_cents plan = 357" by (rule sample_assessed)
  have al: "la_allowed a" using executable_plan [OF a(1,2)] by blast
  have x: "takes taker_executor" "ex_codec taker_executor = label_codec" "ex_float_text taker_executor = (\<lambda>_. None)"
    by (simp_all add: taker_executor_def exec_executor_def taker_only_def)
  have e: "ee_now taker_env = Fin 43200" "ee_quote taker_env t = Some \<lparr>qt_fields = sample_quote, qt_received_at = Plain (JInt 43199)\<rparr>" for t
    by (simp_all add: taker_env_def exec_env_def)
  have d: "dc_market_ticker taker_decision = ''KXMLB-26''" "dc_price_cents taker_decision = 50" by (simp_all add: taker_decision_def)
  show thesis
    by (rule that [OF a])
      (simp add: apply_taker_policy_def x e d q sample_fees taker_probability taker_request a al Let_def)
qed

lemma repricing_never_enlarges_witness:
  "\<exists>d'. apply_taker_policy taker_executor taker_env taker_decision = Some (Inr d') \<and> dc_count d' = 7 \<and> dc_count d' \<le> dc_count taker_decision \<and>
     dc_notional_cents d' \<le> dc_notional_cents taker_decision"
proof -
  obtain q :: quote_freshness and a plan where r: "apply_taker_policy taker_executor taker_env taker_decision =
      Some (Inr (repriced_decision taker_decision (qf_received_at q) (Fin (3 / 4)) plan))" and n: "lp_executable_count plan = 7"
    by (rule taker_run) blast
  have "takes taker_executor" by (simp add: taker_executor_def taker_only_def)
  note t = repricing_never_enlarges [OF r this]
  let ?d = "repriced_decision taker_decision (qf_received_at q) (Fin (3 / 4)) plan"
  have "dc_count ?d \<le> dc_count taker_decision" "dc_notional_cents ?d \<le> dc_notional_cents taker_decision" using t by blast+
  moreover have "dc_count ?d = 7" by (simp add: n)
  ultimately show ?thesis using r by blast
qed

lemma stale_snapshot_places_nothing_witness:
  "\<exists>t. to_epoch_seconds label_codec (JInt 43190) = Some (Some t) \<and> fle (fsub (Fin 43200) t) (Fin 60)"
proof -
  obtain o1 reads where e: "execute False exec_executor exec_env exec_live 0 exec_decision (JInt 43190) False None (Some exec_market) 0 run_process =
    ((Some o1, reads @ [CreateOrder run_order], run_settled), 0)" by (rule exec_run)
  have x: "ex_staleness exec_executor = Some DEFAULT_STALENESS_POLICY" "ex_codec exec_executor = label_codec" "ee_now exec_env = Fin 43200"
    by (simp_all add: exec_executor_def exec_env_def)
  have a: "max_age_seconds DEFAULT_STALENESS_POLICY (dc_market_ticker exec_decision) False = Fin 60" by code_simp
  have "(\<exists>ord. CreateOrder ord \<in> set (reads @ [CreateOrder run_order])) \<or> (\<exists>o2. Some o1 = Some o2 \<and> oc_order_id o2 \<noteq> None)" by auto
  from stale_snapshot_places_nothing [OF e x(1) this] show ?thesis by (auto simp: x a)
qed

lemma live_book_clears_witness:
  "\<exists>evidence. live_book_verdict exec_executor exec_decision run_orderbook = Some (None, evidence) \<and> dc_price_cents exec_decision < 40"
proof -
  obtain evidence where v: "live_book_verdict exec_executor exec_decision run_orderbook = Some (None, evidence)" using exec_verdict by blast
  have t: "\<not> takes exec_executor" by code_simp
  have s: "side_book_levels run_orderbook (dc_side exec_decision) = ([(38, 10)], [(40, 5)])" by code_simp
  from live_book_clears [OF v] show ?thesis by (auto simp: t s v)
qed

lemma sample_plan_details:
  "map_option (\<lambda>p. (lp_level_fills p, lp_executable_count p, lp_limit_price_cents p, lp_worst_case_notional_cents p, lp_modeled_fee_cents p))
     (la_plan (conclude_plan default_limits (Liquidity.sample_request 400) 50 2 30 sample_walk 13)) = Some ([(50, 5), (51, 2)], 7, 51, 357, 13)"
  "map_option (\<lambda>p. let v = py_round 4 (lp_modeled_vwap_cents p) in
       (flt (Fin 0) v \<and> fle v (float_of_int 51), flt (fadd v (lit64 (1 / 1000000))) (int_truediv 352 7)))
     (la_plan (conclude_plan default_limits (Liquidity.sample_request 400) 50 2 30 sample_walk 13)) = Some (True, True)"
  "map_option (\<lambda>p. let v = py_round 4 (lp_net_ev_cents p) in
       (flt (lit64 (11 / 1000)) (fabs (fsub v (py_round 2 (lp_net_ev_cents p)))), flt v (Fin 3)))
     (la_plan (conclude_plan default_limits (Liquidity.sample_request 400) 50 2 30 sample_walk 13)) = Some (False, False)"
  by code_simp+

text \<open>C19: The live check can refuse the very book a plan was made from. The plan for seven contracts fills five at 50 cents
  and two at 51; its average price is kept rounded to four places, below the exact average by
  more than the tolerance of the check, so that a book that shows exactly these fills is refused
  as changed.\<close>

theorem rounded_average_refuses_own_fills:
  "\<exists>a plan. assess_taker_liquidity (\<lambda>_. None) default_limits (Liquidity.sample_request 400) sample_quote = Some a \<and>
     la_plan a = Some plan \<and> lp_level_fills plan = [(50, 5), (51, 2)] \<and>
     map_option fst (taker_verdict taker_executor (repriced_decision d received (Fin (3 / 4)) plan) (lp_level_fills plan)) =
       Some (Some ''taker_depth_changed_before_firewall'')"
proof -
  let ?a = "conclude_plan default_limits (Liquidity.sample_request 400) 50 2 30 sample_walk 13"
  obtain plan where plan: "la_plan ?a = Some plan" using sample_plan_details(1) by auto
  have n: "lp_level_fills plan = [(50, 5), (51, 2)]" "lp_executable_count plan = 7" "lp_limit_price_cents plan = 51"
    "lp_worst_case_notional_cents plan = 357" "lp_modeled_fee_cents plan = 13"
    using sample_plan_details(1) by (simp_all add: plan)
  have v: "flt (Fin 0) (py_round 4 (lp_modeled_vwap_cents plan))" "fle (py_round 4 (lp_modeled_vwap_cents plan)) (float_of_int 51)"
    "flt (fadd (py_round 4 (lp_modeled_vwap_cents plan)) (lit64 (1 / 1000000))) (int_truediv 352 7)"
    "\<not> flt (lit64 (11 / 1000)) (fabs (fsub (py_round 4 (lp_net_ev_cents plan)) (py_round 2 (lp_net_ev_cents plan))))"
    "\<not> flt (py_round 4 (lp_net_ev_cents plan)) (Fin 3)"
    using sample_plan_details(2,3) by (simp_all add: plan Let_def)
  have x: "or_zero (xp_taker_min_ev_cents (ex_policy taker_executor)) = Fin 3" by code_simp
  have ev: "dc_ev_cents (repriced_decision d received (Fin (3 / 4)) plan) = py_round 2 (lp_net_ev_cents plan)"
    by (simp add: repriced_decision_def Let_def)
  have "map_option fst (taker_verdict taker_executor (repriced_decision d received (Fin (3 / 4)) plan) (lp_level_fills plan)) =
      Some (Some ''taker_depth_changed_before_firewall'')"
    by (simp add: taker_verdict_def plan_of_repriced plan_evidence_read plan_mismatch_def ev n v x plan_verdict_def Let_def)
  then show ?thesis using sample_conclusion plan n(1) by blast
qed

end
