(* ===== verification/ProcLock.thy ===== *)
theory ProcLock
  imports PyJson
begin

text \<open>
  The single-instance lock of \<open>autonomy/proclock.py\<close>: the text of a lock file, the decision to break a
  lock, and \<open>acquire_lock\<close> and \<open>release_lock\<close> as steps on the file system that other processes
  interleave with. Times are rationals, and one event is one call of the operating system.
\<close>

section \<open>The text of a lock\<close>

text \<open>\<open>split()\<close> on white space; the word read so far is kept reversed.\<close>

fun words_from :: "string \<Rightarrow> string \<Rightarrow> string list" where
  "words_from w [] = (if w = [] then [] else [rev w])"
| "words_from w (c # cs) =
     (if is_space c then (if w = [] then words_from [] cs else rev w # words_from [] cs) else words_from (c # w) cs)"

text \<open>\<open>token.partition('=')\<close>, where both parts are there.\<close>

definition assignment :: "string \<Rightarrow> (string \<times> json) option" where
  "assignment token =
     (let key = takeWhile (\<lambda>c. c \<noteq> CHR ''='') token; val = drop (length key + 1) token in
      if key = [] \<or> val = [] then None else Some (key, JStr val))"

text \<open>The last assignment to a key counts; it comes first in the list.\<close>

definition read_lock :: "(string \<Rightarrow> json option) \<Rightarrow> string \<Rightarrow> (string \<times> json) list" where
  "read_lock parse raw =
     (let text = strip raw in
      case text of
        [] \<Rightarrow> []
      | c # _ \<Rightarrow>
          if c = CHR ''{'' then (case parse text of Some (JObj d) \<Rightarrow> d | _ \<Rightarrow> [])
          else rev (List.map_filter assignment (words_from [] text)))"

definition lock_pid :: "(string \<Rightarrow> json option) \<Rightarrow> string \<Rightarrow> int option" where
  "lock_pid parse raw = int_of_json (jget ''pid'' (read_lock parse raw))"

definition lock_text :: "int \<Rightarrow> string \<Rightarrow> string" where
  "lock_text pid time = ''pid='' @ show_int pid @ '' created='' @ time @ [CHR 0x0A]"

section \<open>The decision to break\<close>

datatype probe_answer = Gone | Present | Unknown

definition pid_alive :: "(int \<Rightarrow> probe_answer) \<Rightarrow> int \<Rightarrow> bool" where
  "pid_alive probe pid \<longleftrightarrow> 0 < pid \<and> probe pid \<noteq> Gone"

definition breaks :: "(int \<Rightarrow> probe_answer) \<Rightarrow> int option \<Rightarrow> bool \<Rightarrow> bool" where
  "breaks probe pid aged_out = (case pid of Some n \<Rightarrow> \<not> pid_alive probe n | None \<Rightarrow> aged_out)"

section \<open>Acquiring and releasing\<close>

record lock_file =
  lk_id :: nat
  lk_text :: string
  lk_mtime :: rat

text \<open>
  Where a process stands: outside, after \<open>exists\<close>, after \<open>read_text\<close>, after \<open>stat\<close>, about to unlink,
  about to open, with the file open but not written, returned with the descriptor, returned
  with \<open>None\<close>, or gone with an exception or dead.
\<close>

datatype phase = Outside | Reading | Aging "int option" | Deciding "int option" bool | Breaking | Opening | Writing nat
  | Holding nat | Refused | Ended

record lock_world =
  lw_file :: "lock_file option"
  lw_next :: nat
  lw_now :: rat
  lw_probe :: "int \<Rightarrow> probe_answer"
  lw_phase :: "int \<Rightarrow> phase"

datatype lock_event = Begin int | Read int | Stat int | Probe int | Unlink int | Open int | Write int | Release int | Die int
  | Tick rat

definition at_phase :: "int \<Rightarrow> phase \<Rightarrow> lock_world \<Rightarrow> lock_world" where
  "at_phase p ph w = w\<lparr>lw_phase := (lw_phase w)(p := ph)\<rparr>"

text \<open>One call of the operating system. \<open>None\<close>: the process is not at that call.\<close>

fun lock_step :: "(string \<Rightarrow> json option) \<Rightarrow> (rat \<Rightarrow> string) \<Rightarrow> rat \<Rightarrow> lock_event \<Rightarrow> lock_world \<Rightarrow> lock_world option" where
  "lock_step parse time_text stale (Begin p) w =
     (if lw_phase w p \<in> {Outside, Refused} \<and> pid_alive (lw_probe w) p
      then Some (at_phase p (if lw_file w = None then Opening else Reading) w) else None)"
| "lock_step parse time_text stale (Read p) w =
     (if lw_phase w p = Reading
      then Some (at_phase p (Aging (case lw_file w of None \<Rightarrow> None | Some f \<Rightarrow> lock_pid parse (lk_text f))) w) else None)"
| "lock_step parse time_text stale (Stat p) w =
     (case lw_phase w p of
        Aging pid \<Rightarrow>
          Some (if stale \<le> 0 then at_phase p (Deciding pid False) w
                else (case lw_file w of
                    None \<Rightarrow> at_phase p Ended w
                  | Some f \<Rightarrow> at_phase p (Deciding pid (stale < lw_now w - lk_mtime f)) w))
      | _ \<Rightarrow> None)"
| "lock_step parse time_text stale (Probe p) w =
     (case lw_phase w p of
        Deciding pid aged \<Rightarrow> Some (at_phase p (if breaks (lw_probe w) pid aged then Breaking else Opening) w)
      | _ \<Rightarrow> None)"
| "lock_step parse time_text stale (Unlink p) w =
     (if lw_phase w p = Breaking then Some (at_phase p Opening (w\<lparr>lw_file := None\<rparr>)) else None)"
| "lock_step parse time_text stale (Open p) w =
     (if lw_phase w p = Opening
      then Some (case lw_file w of
          Some f \<Rightarrow> at_phase p Refused w
        | None \<Rightarrow> at_phase p (Writing (lw_next w))
            (w\<lparr>lw_file := Some \<lparr>lk_id = lw_next w, lk_text = [], lk_mtime = lw_now w\<rparr>, lw_next := lw_next w + 1\<rparr>))
      else None)"
| "lock_step parse time_text stale (Write p) w =
     (case lw_phase w p of
        Writing i \<Rightarrow> Some (at_phase p (Holding i) (w\<lparr>lw_file := map_option (\<lambda>f. if lk_id f = i
            then f\<lparr>lk_text := lock_text p (time_text (lw_now w)), lk_mtime := lw_now w\<rparr> else f) (lw_file w)\<rparr>))
      | _ \<Rightarrow> None)"
| "lock_step parse time_text stale (Release p) w =
     (case lw_phase w p of Holding i \<Rightarrow> Some (at_phase p Outside (w\<lparr>lw_file := None\<rparr>)) | _ \<Rightarrow> None)"
| "lock_step parse time_text stale (Die p) w = Some (at_phase p Ended (w\<lparr>lw_probe := (lw_probe w)(p := Gone)\<rparr>))"
| "lock_step parse time_text stale (Tick d) w = (if 0 < d then Some (w\<lparr>lw_now := lw_now w + d\<rparr>) else None)"

fun lock_run :: "(string \<Rightarrow> json option) \<Rightarrow> (rat \<Rightarrow> string) \<Rightarrow> rat \<Rightarrow> lock_event list \<Rightarrow> lock_world \<Rightarrow> lock_world option" where
  "lock_run parse time_text stale [] w = Some w"
| "lock_run parse time_text stale (e # es) w =
     (case lock_step parse time_text stale e w of None \<Rightarrow> None | Some w' \<Rightarrow> lock_run parse time_text stale es w')"




section \<open>A lock names its writer\<close>




section \<open>One holder\<close>








lemma at_phase_simps [simp]:
  "lw_file (at_phase p ph w) = lw_file w" "lw_probe (at_phase p ph w) = lw_probe w" "lw_now (at_phase p ph w) = lw_now w"
  "lw_phase (at_phase p ph w) q = (if q = p then ph else lw_phase w q)"
  by (simp_all add: at_phase_def)








section \<open>An acquisition ends\<close>

text \<open>The calls of an acquisition after its \<open>exists\<close>, and how many of them a process has at most before it.\<close>

definition acquire_calls :: "int \<Rightarrow> lock_event list" where
  "acquire_calls p = [Read p, Stat p, Probe p, Unlink p, Open p, Write p]"

definition calls_left :: "phase \<Rightarrow> nat" where
  "calls_left ph = (case ph of Reading \<Rightarrow> 6 | Aging pid \<Rightarrow> 5 | Deciding pid aged \<Rightarrow> 4 | Breaking \<Rightarrow> 3 | Opening \<Rightarrow> 2
     | Writing i \<Rightarrow> 1 | _ \<Rightarrow> 0)"

lemma lock_step_calls_left:
  assumes "lock_step parse time_text stale e w = Some w'" and "e \<noteq> Begin p"
  shows "(if e \<in> set (acquire_calls p) then 1 else 0) + calls_left (lw_phase w' p) \<le> calls_left (lw_phase w p)"
proof (cases e)
  case (Begin q)
  then have "e \<notin> set (acquire_calls p)" "lw_phase w' p = lw_phase w p"
    using assms by (auto simp: acquire_calls_def at_phase_def split: if_split_asm)
  then show ?thesis by simp
next
  case (Read q)
  then have "lw_phase w q = Reading" using assms(1) by (simp split: if_split_asm)
  then show ?thesis using assms(1) Read by (cases "q = p") (auto simp: acquire_calls_def calls_left_def at_phase_def)
next
  case (Stat q)
  then show ?thesis using assms(1)
    by (cases "lw_phase w q"; cases "q = p"; cases "lw_file w"; cases "stale \<le> 0") (auto simp: acquire_calls_def calls_left_def at_phase_def)
next
  case (Probe q)
  then show ?thesis using assms(1) by (cases "lw_phase w q"; cases "q = p") (auto simp: acquire_calls_def calls_left_def at_phase_def)
next
  case (Unlink q)
  then have "lw_phase w q = Breaking" using assms(1) by (simp split: if_split_asm)
  then show ?thesis using assms(1) Unlink by (cases "q = p") (auto simp: acquire_calls_def calls_left_def at_phase_def)
next
  case (Open q)
  then have "lw_phase w q = Opening" using assms(1) by (simp split: if_split_asm)
  then show ?thesis using assms(1) Open
    by (cases "q = p"; cases "lw_file w") (auto simp: acquire_calls_def calls_left_def at_phase_def)
next
  case (Write q)
  then show ?thesis using assms(1) by (cases "lw_phase w q"; cases "q = p") (auto simp: acquire_calls_def calls_left_def at_phase_def)
next
  case (Release q)
  then show ?thesis using assms(1) by (cases "lw_phase w q"; cases "q = p") (auto simp: acquire_calls_def calls_left_def at_phase_def)
next
  case (Die q)
  then show ?thesis using assms(1) by (cases "q = p") (auto simp: acquire_calls_def calls_left_def at_phase_def)
next
  case (Tick d)
  then show ?thesis using assms(1) by (auto simp: acquire_calls_def split: if_split_asm)
qed

lemma next_call: "calls_left (lw_phase w p) \<noteq> 0 \<Longrightarrow> \<exists>e \<in> set (acquire_calls p). lock_step parse time_text stale e w \<noteq> None"
  by (cases "lw_phase w p") (simp_all add: acquire_calls_def calls_left_def)

lemma lock_run_calls_left:
  "lock_run parse time_text stale es w = Some w' \<Longrightarrow> Begin p \<notin> set es \<Longrightarrow>
    length (filter (\<lambda>e. e \<in> set (acquire_calls p)) es) + calls_left (lw_phase w' p) \<le> calls_left (lw_phase w p)"
proof (induction es arbitrary: w)
  case (Cons e es)
  then obtain v where v: "lock_step parse time_text stale e w = Some v" "lock_run parse time_text stale es v = Some w'"
    by (auto split: option.splits)
  have "e \<noteq> Begin p" using Cons.prems(2) by auto
  from lock_step_calls_left [OF v(1) this] Cons.IH [OF v(2)] Cons.prems(2) show ?case by auto
qed simp

section \<open>Properties\<close>


text \<open>C27: An acquisition ends, whatever the other processes do in between. After its first look a process makes at most six
  calls before it holds the lock, is refused or has raised, and until then it is never stuck:
  one of these calls can be made.\<close>

theorem acquisition_ends:
  assumes "lock_step parse time_text stale (Begin p) w0 = Some w" and "lock_run parse time_text stale es w = Some w'"
    and "Begin p \<notin> set es"
  shows "length (filter (\<lambda>e. e \<in> set (acquire_calls p)) es) \<le> 6 \<and>
    ((\<exists>e \<in> set (acquire_calls p). lock_step parse time_text stale e w' \<noteq> None) \<or>
      lw_phase w' p \<in> {Outside, Refused, Ended} \<or> (\<exists>i. lw_phase w' p = Holding i))"
proof
  have "calls_left (lw_phase w p) \<le> 6" using assms(1) by (auto simp: at_phase_def calls_left_def split: if_splits)
  with lock_run_calls_left [OF assms(2,3)] show "length (filter (\<lambda>e. e \<in> set (acquire_calls p)) es) \<le> 6" by simp
  show "(\<exists>e \<in> set (acquire_calls p). lock_step parse time_text stale e w' \<noteq> None) \<or>
      lw_phase w' p \<in> {Outside, Refused, Ended} \<or> (\<exists>i. lw_phase w' p = Holding i)"
    using next_call [of w' p] by (cases "lw_phase w' p") (auto simp: calls_left_def)
qed

definition start_world :: lock_world where
  "start_world = \<lparr>lw_file = None, lw_next = 0, lw_now = 0, lw_probe = (\<lambda>_. Present), lw_phase = (\<lambda>_. Outside)\<rparr>"



lemma acquisition_ends_witness:
  "\<exists>w w'. lock_step (\<lambda>_. None) (\<lambda>_. ''0'') 7200 (Begin 1) start_world = Some w \<and>
     lock_run (\<lambda>_. None) (\<lambda>_. ''0'') 7200 [Open 1, Begin 2, Write 1] w = Some w' \<and>
     length (filter (\<lambda>e. e \<in> set (acquire_calls 1)) [Open 1, Begin 2, Write 1]) \<le> 6"
proof -
  obtain w w' where w: "lock_step (\<lambda>_. None) (\<lambda>_. ''0'') 7200 (Begin 1) start_world = Some w"
    "lock_run (\<lambda>_. None) (\<lambda>_. ''0'') 7200 [Open 1, Begin 2, Write 1] w = Some w'"
    by (simp add: start_world_def at_phase_def pid_alive_def)
  have "Begin 1 \<notin> set [Open 1, Begin 2, Write 1]" by simp
  from acquisition_ends [OF w this] w show ?thesis by blast
qed

end
