(* ===== verification/PromotionChain.thy ===== *)
theory PromotionChain
  imports PyJson "HOL-Library.List_Lexorder" "HOL-Library.Multiset"
begin

text \<open>
  The hash-chained log of fusion-membership changes of \<open>autonomy/promotion_ledger.py\<close>. A line of
  the file is its JSON value: writing puts the keys of every object in order, as
  \<open>json.dumps(sort_keys=True)\<close> does, and reading gives the value written. The digest of a
  canonical value is a parameter.
\<close>

section \<open>Canonical values\<close>

definition key_order :: "string \<times> json \<Rightarrow> nat list" where
  "key_order kv = map of_char (fst kv)"

function (sequential) canonical :: "json \<Rightarrow> json" where
  "canonical (JArr xs) = JArr (map canonical xs)"
| "canonical (JObj d) = JObj (sort_key key_order (map (\<lambda>(k, v). (k, canonical v)) d))"
| "canonical v = v"
  by pat_completeness auto

termination
proof (relation "measure size")
  show "wf (measure size)" by simp
next
  fix xs x assume "x \<in> set (xs :: json list)"
  then show "(x, JArr xs) \<in> measure size" by (induction xs) auto
next
  fix d :: "(string \<times> json) list" and z x y assume "z \<in> set d" "(x, y) = z"
  then show "(y, JObj d) \<in> measure size" by (induction d) auto
qed

lemma canonical_idem [simp]: "canonical (canonical v) = canonical v"
proof (induction v rule: canonical.induct)
  case (2 d)
  let ?d = "sort_key key_order (map (\<lambda>(k, v). (k, canonical v)) d)"
  have "map (\<lambda>(k, v). (k, canonical v)) ?d = ?d"
    using 2 by (intro map_idI) force
  then show ?case by (simp add: sort_key_id_if_sorted)
qed auto

section \<open>The ledger\<close>

definition GENESIS_HASH :: string where "GENESIS_HASH = replicate 64 CHR ''0''"

definition VALID_ACTIONS :: "string list" where
  "VALID_ACTIONS = [''PROMOTE'', ''ESCALATE'', ''DEMOTE'', ''ABORT'']"

record ledger_entry =
  le_sequence :: int
  le_previous_hash :: string
  le_action :: string
  le_scope :: string
  le_at :: string
  le_payload :: "(string \<times> json) list"
  le_entry_hash :: string

definition entry_body :: "ledger_entry \<Rightarrow> (string \<times> json) list" where
  "entry_body e =
     [(''schema_version'', JInt 1), (''sequence'', JInt (le_sequence e)), (''previous_hash'', JStr (le_previous_hash e)),
      (''action'', JStr (le_action e)), (''scope'', JStr (le_scope e)), (''at'', JStr (le_at e)), (''payload'', JObj (le_payload e))]"

definition entry_dict :: "ledger_entry \<Rightarrow> (string \<times> json) list" where
  "entry_dict e = entry_body e @ [(''entry_hash'', JStr (le_entry_hash e))]"

text \<open>The lines of the file and whether its last line is terminated; a line is blank, no JSON, or a value.\<close>

datatype ledger_line = Blank_Line | No_Json | Json_Line json

record ledger_file =
  lf_lines :: "ledger_line list"
  lf_terminated :: bool

datatype ledger_error = Not_Json | Malformed | Broken | Tampered | Unknown_Action | No_Scope | Escaped string

definition digest_of :: "(json \<Rightarrow> string) \<Rightarrow> (string \<times> json) list \<Rightarrow> string" where
  "digest_of sha d = sha (canonical (JObj d))"

text \<open>\<open>dict(v)\<close> of a JSON value; pairs whose key is no text are outside the model.\<close>

definition dict_pair :: "json \<Rightarrow> (string \<times> json) option" where
  "dict_pair v = (case v of JArr [JStr k, x] \<Rightarrow> Some (k, x) | JStr [a, b] \<Rightarrow> Some ([a], JStr [b]) | _ \<Rightarrow> None)"

definition dict_of :: "json \<Rightarrow> (string \<times> json) list option" where
  "dict_of v = (case v of JObj d \<Rightarrow> Some d | JStr [] \<Rightarrow> Some [] | JArr xs \<Rightarrow> option_all dict_pair xs | _ \<Rightarrow> None)"

definition ENTRY_KEYS :: "string list" where
  "ENTRY_KEYS = [''sequence'', ''previous_hash'', ''action'', ''scope'', ''at'', ''payload'', ''entry_hash'']"

definition read_entry :: "(json \<Rightarrow> string) \<Rightarrow> json \<Rightarrow> ledger_error + ledger_entry" where
  "read_entry rp v =
     (case v of
        JObj d \<Rightarrow>
          if jget ''sequence'' d \<in> {JFloat PosInf, JFloat NegInf} then Inl (Escaped ''OverflowError'')
          else if list_ex (\<lambda>k. \<not> jhas k d) ENTRY_KEYS then Inl Malformed
          else (case (int_of_json (jget ''sequence'' d), dict_of (jget ''payload'' d)) of
              (Some n, Some payload) \<Rightarrow>
                (let text = (\<lambda>k. str_of_json rp (jget k d)) in
                 Inr \<lparr>le_sequence = n, le_previous_hash = text ''previous_hash'', le_action = text ''action'', le_scope = text ''scope'',
                   le_at = text ''at'', le_payload = payload, le_entry_hash = text ''entry_hash''\<rparr>)
            | _ \<Rightarrow> Inl Malformed)
      | _ \<Rightarrow> Inl Malformed)"

text \<open>The walk over the lines, from a sequence number and the hash before it.\<close>

fun verify_lines :: "(json \<Rightarrow> string) \<Rightarrow> (json \<Rightarrow> string) \<Rightarrow> int \<Rightarrow> string \<Rightarrow> ledger_line list \<Rightarrow> ledger_error + ledger_entry list" where
  "verify_lines sha rp n previous [] = Inr []"
| "verify_lines sha rp n previous (Blank_Line # ls) = verify_lines sha rp n previous ls"
| "verify_lines sha rp n previous (No_Json # ls) = Inl Not_Json"
| "verify_lines sha rp n previous (Json_Line v # ls) =
     (case read_entry rp v of
        Inl e \<Rightarrow> Inl e
      | Inr x \<Rightarrow>
          if le_sequence x \<noteq> n \<or> le_previous_hash x \<noteq> previous then Inl Broken
          else if le_entry_hash x \<noteq> digest_of sha (entry_body x) then Inl Tampered
          else map_sum id ((#) x) (verify_lines sha rp (n + 1) (le_entry_hash x) ls))"

text \<open>No file is an empty ledger.\<close>

definition read_verified :: "(json \<Rightarrow> string) \<Rightarrow> (json \<Rightarrow> string) \<Rightarrow> ledger_file option \<Rightarrow> ledger_error + ledger_entry list" where
  "read_verified sha rp f = (case f of None \<Rightarrow> Inr [] | Some g \<Rightarrow> verify_lines sha rp 0 GENESIS_HASH (lf_lines g))"

definition chain_head :: "ledger_entry list \<Rightarrow> string" where
  "chain_head es = (if es = [] then GENESIS_HASH else le_entry_hash (last es))"

text \<open>
  Appending text to a file whose last line is not terminated continues that line; a value
  followed by a second one is no JSON.
\<close>

definition add_line :: "json \<Rightarrow> ledger_file option \<Rightarrow> ledger_file" where
  "add_line v f =
     (case f of
        None \<Rightarrow> \<lparr>lf_lines = [Json_Line v], lf_terminated = True\<rparr>
      | Some g \<Rightarrow>
          if lf_terminated g \<or> lf_lines g = [] then \<lparr>lf_lines = lf_lines g @ [Json_Line v], lf_terminated = True\<rparr>
          else \<lparr>lf_lines = butlast (lf_lines g) @ [case last (lf_lines g) of Blank_Line \<Rightarrow> Json_Line v | _ \<Rightarrow> No_Json],
                lf_terminated = True\<rparr>)"

definition new_entry :: "(json \<Rightarrow> string) \<Rightarrow> clock \<Rightarrow> ledger_entry list \<Rightarrow> string \<Rightarrow> string \<Rightarrow> (string \<times> json) list \<Rightarrow> string option \<Rightarrow> ledger_entry" where
  "new_entry sha clk es action scope payload given_at =
     (let e = \<lparr>le_sequence = int (length es), le_previous_hash = chain_head es, le_action = action, le_scope = scope,
            le_at = (case given_at of Some (c # s) \<Rightarrow> c # s | _ \<Rightarrow> iso_now clk), le_payload = payload, le_entry_hash = []\<rparr>
      in e\<lparr>le_entry_hash := digest_of sha (entry_body e)\<rparr>)"

text \<open>The entry and the file afterwards, or the error; then the file is untouched.\<close>

definition append_entry ::
  "(json \<Rightarrow> string) \<Rightarrow> (json \<Rightarrow> string) \<Rightarrow> clock \<Rightarrow> string \<Rightarrow> string \<Rightarrow> (string \<times> json) list \<Rightarrow> string option \<Rightarrow> ledger_file option \<Rightarrow>
   ledger_error + ledger_entry \<times> ledger_file" where
  "append_entry sha rp clk action scope payload given_at f =
     (if action \<notin> set VALID_ACTIONS then Inl Unknown_Action
      else if strip scope = [] then Inl No_Scope
      else (case read_verified sha rp f of
          Inl e \<Rightarrow> Inl e
        | Inr es \<Rightarrow>
            (let x = new_entry sha clk es action scope payload given_at
             in Inr (x, add_line (canonical (JObj (entry_dict x))) f))))"

definition entries_on_date :: "(json \<Rightarrow> string) \<Rightarrow> (json \<Rightarrow> string) \<Rightarrow> string \<Rightarrow> ledger_file option \<Rightarrow> ledger_error + ledger_entry list" where
  "entries_on_date sha rp date f = map_sum id (filter (\<lambda>e. take 10 (le_at e) = take 10 date)) (read_verified sha rp f)"

section \<open>Reading back what was written\<close>

definition canonical_fields :: "(string \<times> json) list \<Rightarrow> (string \<times> json) list" where
  "canonical_fields d = sort_key key_order (map (\<lambda>(k, v). (k, canonical v)) d)"

lemma canonical_JObj: "canonical (JObj d) = JObj (canonical_fields d)"
  by (simp add: canonical_fields_def)

lemma map_of_canonical_fields:
  assumes "distinct (map fst d)"
  shows "map_of (canonical_fields d) k = map_option canonical (map_of d k)"
proof -
  let ?m = "map (\<lambda>(k, v). (k, canonical v)) d"
  have f: "map fst ?m = map fst d" by (simp add: comp_def case_prod_beta)
  have ds: "distinct (map fst ?m)" unfolding f by (rule assms)
  have "mset (map fst (canonical_fields d)) = mset (map fst ?m)" by (simp only: canonical_fields_def mset_map mset_sort)
  then have "distinct (map fst (canonical_fields d))" using ds mset_eq_imp_distinct_iff by blast
  moreover have "set (canonical_fields d) = set ?m" by (simp add: canonical_fields_def)
  ultimately have "map_of (canonical_fields d) = map_of ?m" using ds map_of_inject_set by blast
  then show ?thesis by (simp add: map_of_map)
qed

lemma jget_canonical_fields: "distinct (map fst d) \<Longrightarrow> jget k (canonical_fields d) = canonical (jget k d)"
  by (simp add: jget_def map_of_canonical_fields split: option.split)

lemma jhas_canonical_fields: "distinct (map fst d) \<Longrightarrow> jhas k (canonical_fields d) = jhas k d"
  using map_of_canonical_fields [of d k] by (auto simp: jhas_def)

lemma entry_dict_keys: "distinct (map fst (entry_dict e))" "distinct (map fst (entry_body e))"
  by (simp_all add: entry_dict_def entry_body_def)

definition canonical_entry :: "ledger_entry \<Rightarrow> ledger_entry" where
  "canonical_entry e = e\<lparr>le_payload := canonical_fields (le_payload e)\<rparr>"

lemma written_fields:
  "jget ''sequence'' (canonical_fields (entry_dict e)) = JInt (le_sequence e)"
  "jget ''previous_hash'' (canonical_fields (entry_dict e)) = JStr (le_previous_hash e)"
  "jget ''action'' (canonical_fields (entry_dict e)) = JStr (le_action e)"
  "jget ''scope'' (canonical_fields (entry_dict e)) = JStr (le_scope e)"
  "jget ''at'' (canonical_fields (entry_dict e)) = JStr (le_at e)"
  "jget ''payload'' (canonical_fields (entry_dict e)) = JObj (canonical_fields (le_payload e))"
  "jget ''entry_hash'' (canonical_fields (entry_dict e)) = JStr (le_entry_hash e)"
  unfolding jget_canonical_fields [OF entry_dict_keys(1)]
  by (simp_all add: entry_dict_def entry_body_def canonical_fields_def)

lemma read_entry_written: "read_entry rp (canonical (JObj (entry_dict e))) = Inr (canonical_entry e)"
proof -
  have "list_ex (\<lambda>k. \<not> jhas k (canonical_fields (entry_dict e))) ENTRY_KEYS = False"
    unfolding jhas_canonical_fields [OF entry_dict_keys(1)] by (simp add: ENTRY_KEYS_def entry_dict_def entry_body_def)
  then show ?thesis
    unfolding canonical_JObj read_entry_def json.case written_fields Let_def
    by (simp add: dict_of_def canonical_entry_def)
qed

lemma canonical_fields_idem: "canonical_fields (canonical_fields d) = canonical_fields d"
  using canonical_idem [of "JObj d"] by (simp only: canonical_JObj json.inject)

lemma digest_of_canonical_entry: "digest_of sha (entry_body (canonical_entry e)) = digest_of sha (entry_body e)"
proof -
  have p: "canonical (JObj (canonical_fields (le_payload e))) = canonical (JObj (le_payload e))"
    unfolding canonical_JObj canonical_fields_idem ..
  have "map (\<lambda>(k, v). (k, canonical v)) (entry_body (canonical_entry e)) = map (\<lambda>(k, v). (k, canonical v)) (entry_body e)"
    unfolding entry_body_def canonical_entry_def by (simp add: p del: canonical.simps(2))
  then show ?thesis unfolding digest_of_def canonical_JObj canonical_fields_def by (rule arg_cong)
qed

lemma verify_lines_snoc:
  "verify_lines sha rp n h ls = Inr es \<Longrightarrow> read_entry rp v = Inr x \<Longrightarrow>
   verify_lines sha rp n h (ls @ [Json_Line v]) =
     (if le_sequence x \<noteq> n + int (length es) \<or> le_previous_hash x \<noteq> (if es = [] then h else le_entry_hash (last es)) then Inl Broken
      else if le_entry_hash x \<noteq> digest_of sha (entry_body x) then Inl Tampered else Inr (es @ [x]))"
proof (induction sha rp n h ls arbitrary: es rule: verify_lines.induct)
  case (4 sha rp n h w ls)
  obtain y where y: "read_entry rp w = Inr y" "le_sequence y = n" "le_previous_hash y = h" "le_entry_hash y = digest_of sha (entry_body y)"
    using 4(2) by (auto split: sum.splits if_split_asm)
  obtain es' where es: "verify_lines sha rp (n + 1) (le_entry_hash y) ls = Inr es'" "es = y # es'"
    using 4(2) y by (cases "verify_lines sha rp (n + 1) (le_entry_hash y) ls") auto
  show ?case using 4(1) [OF y(1) _ _ es(1) 4(3)] y es(2) by (simp split: if_split_asm)
qed auto

lemma chain_head_snoc [simp]: "chain_head (es @ [x]) = le_entry_hash x"
  by (simp add: chain_head_def)

section \<open>What a verified ledger is\<close>




lemma verify_lines_prefix:
  "verify_lines sha rp n h (ls @ ls') = Inr es \<Longrightarrow> \<exists>k. verify_lines sha rp n h ls = Inr (take k es)"
proof (induction sha rp n h ls arbitrary: es rule: verify_lines.induct)
  case (1 sha rp n h)
  show ?case by (rule exI [of _ 0]) simp
next
  case (4 sha rp n h w ls)
  obtain y where y: "read_entry rp w = Inr y" "le_sequence y = n" "le_previous_hash y = h" "le_entry_hash y = digest_of sha (entry_body y)"
    using 4(2) by (auto split: sum.splits if_split_asm)
  obtain es' where es: "verify_lines sha rp (n + 1) (le_entry_hash y) (ls @ ls') = Inr es'" "es = y # es'"
    using 4(2) y by (cases "verify_lines sha rp (n + 1) (le_entry_hash y) (ls @ ls')") auto
  obtain k where "verify_lines sha rp (n + 1) (le_entry_hash y) ls = Inr (take k es')" using 4(1) [OF y(1) _ _ es(1)] y by auto
  then show ?case using y es(2) by (intro exI [of _ "Suc k"]) simp
qed auto



section \<open>Properties\<close>

lemma append_then_read:
  assumes "read_verified sha rp f = Inr es" and "action \<in> set VALID_ACTIONS" and "strip scope \<noteq> []"
    and "case f of None \<Rightarrow> True | Some g \<Rightarrow> lf_terminated g"
  shows "\<exists>x g. append_entry sha rp clk action scope payload given_at f = Inr (x, g) \<and> lf_terminated g \<and>
    read_verified sha rp (Some g) = Inr (es @ [canonical_entry x]) \<and> le_sequence x = int (length es) \<and>
    le_previous_hash x = chain_head es \<and> le_action x = action \<and> le_scope x = scope \<and> le_payload x = payload"
proof -
  let ?x = "new_entry sha clk es action scope payload given_at"
  let ?v = "canonical (JObj (entry_dict ?x))"
  have x: "le_sequence ?x = int (length es)" "le_previous_hash ?x = chain_head es" "le_action ?x = action" "le_scope ?x = scope"
    "le_payload ?x = payload" by (simp_all add: new_entry_def Let_def)
  have h: "le_entry_hash ?x = digest_of sha (entry_body ?x)" by (simp add: new_entry_def Let_def entry_body_def)
  have a: "append_entry sha rp clk action scope payload given_at f = Inr (?x, add_line ?v f)"
    by (simp add: append_entry_def assms(1-3) Let_def)
  have c: "le_sequence (canonical_entry ?x) = int (length es)" "le_previous_hash (canonical_entry ?x) = chain_head es"
    "le_entry_hash (canonical_entry ?x) = digest_of sha (entry_body (canonical_entry ?x))"
    by (simp_all add: digest_of_canonical_entry h [symmetric]) (simp_all add: canonical_entry_def x)
  have ls: "verify_lines sha rp 0 GENESIS_HASH (case f of None \<Rightarrow> [] | Some g \<Rightarrow> lf_lines g) = Inr es"
    using assms(1) by (simp add: read_verified_def split: option.splits)
  have g: "lf_lines (add_line ?v f) = (case f of None \<Rightarrow> [] | Some g \<Rightarrow> lf_lines g) @ [Json_Line ?v]" "lf_terminated (add_line ?v f)"
    using assms(4) by (simp_all add: add_line_def del: canonical.simps split: option.splits)
  have "read_verified sha rp (Some (add_line ?v f)) = Inr (es @ [canonical_entry ?x])"
    unfolding read_verified_def option.case g(1) verify_lines_snoc [OF ls read_entry_written] using c by (simp add: chain_head_def)
  then show ?thesis using a g(2) x by blast
qed

text \<open>C29: What is appended is read back. On a verified ledger whose last line is terminated, an entry with a known action and a scope is
  appended, and reading the new file gives the old entries and this one, its payload with ordered
  keys; it is numbered and linked, and the file verifies again.\<close>

theorem append_reads_back:
  assumes "read_verified sha rp f = Inr es" and "action \<in> set VALID_ACTIONS" and "strip scope \<noteq> []"
    and "case f of None \<Rightarrow> True | Some g \<Rightarrow> lf_terminated g"
  shows "\<exists>x g. append_entry sha rp clk action scope payload given_at f = Inr (x, g) \<and> lf_terminated g \<and>
    read_verified sha rp (Some g) = Inr (es @ [canonical_entry x]) \<and> le_sequence x = int (length es) \<and>
    le_previous_hash x = chain_head es \<and> le_action x = action \<and> le_scope x = scope \<and> le_payload x = payload"
  by (rule append_then_read [OF assms])


text \<open>Dropping lines from the end is not noticed. Every prefix of a verified ledger verifies, with fewer entries, so that a daily
  count over it can shrink.\<close>

theorem truncation_verifies:
  assumes "read_verified sha rp (Some g) = Inr es"
  shows "\<exists>j. read_verified sha rp (Some (g\<lparr>lf_lines := take k (lf_lines g)\<rparr>)) = Inr (take j es)"
  using verify_lines_prefix [of sha rp 0 GENESIS_HASH "take k (lf_lines g)" "drop k (lf_lines g)" es] assms
  by (simp add: read_verified_def)

lemma verify_lines_no_json:
  "verify_lines sha rp n h ls = Inr es \<Longrightarrow> verify_lines sha rp n h (ls @ [No_Json]) = Inl Not_Json"
proof (induction sha rp n h ls arbitrary: es rule: verify_lines.induct)
  case (4 sha rp n h w ls)
  obtain y where y: "read_entry rp w = Inr y" "le_sequence y = n" "le_previous_hash y = h" "le_entry_hash y = digest_of sha (entry_body y)"
    using 4(2) by (auto split: sum.splits if_split_asm)
  obtain es' where es: "verify_lines sha rp (n + 1) (le_entry_hash y) ls = Inr es'"
    using 4(2) y by (cases "verify_lines sha rp (n + 1) (le_entry_hash y) ls") auto
  show ?case using 4(1) [OF y(1) _ _ es] y by simp
qed auto

text \<open>An append can break the ledger. If the last line of a verified file is an entry without a line end, the append succeeds and returns
  the entry, and every later reading and append fails.\<close>

theorem unterminated_append_breaks:
  assumes "read_verified sha rp (Some g) = Inr es" and "\<not> lf_terminated g" and "lf_lines g \<noteq> []" and "last (lf_lines g) \<noteq> Blank_Line"
    and "action \<in> set VALID_ACTIONS" and "strip scope \<noteq> []"
  shows "\<exists>x g'. append_entry sha rp clk action scope payload given_at (Some g) = Inr (x, g') \<and>
    read_verified sha rp (Some g') = Inl Not_Json"
proof -
  let ?x = "new_entry sha clk es action scope payload given_at"
  let ?g = "add_line (canonical (JObj (entry_dict ?x))) (Some g)"
  have a: "append_entry sha rp clk action scope payload given_at (Some g) = Inr (?x, ?g)"
    using assms(1,5,6) by (simp add: append_entry_def Let_def)
  have g: "lf_lines ?g = butlast (lf_lines g) @ [No_Json]"
    using assms(2-4) by (cases "last (lf_lines g)") (simp_all add: add_line_def del: canonical.simps)
  obtain k where "verify_lines sha rp 0 GENESIS_HASH (butlast (lf_lines g)) = Inr (take k es)"
    using verify_lines_prefix [of sha rp 0 GENESIS_HASH "butlast (lf_lines g)" "[last (lf_lines g)]" es] assms(1,3)
    by (auto simp: read_verified_def)
  then have "read_verified sha rp (Some ?g) = Inl Not_Json"
    unfolding read_verified_def option.case g by (rule verify_lines_no_json)
  then show ?thesis using a by blast
qed

section \<open>A concrete ledger\<close>

definition toy_sha :: "json \<Rightarrow> string" where
  "toy_sha v = (case v of JObj d \<Rightarrow> str_of_json (\<lambda>_. []) (jget ''sequence'' d) @ str_of_json (\<lambda>_. []) (jget ''scope'' d) | _ \<Rightarrow> [])"

definition toy_ledger :: ledger_file where
  "toy_ledger = (case append_entry toy_sha (\<lambda>_. []) noon ''PROMOTE'' ''s'' [(''b'', JInt 2), (''a'', JInt 1)] None None of
     Inr (x, g) \<Rightarrow> g | Inl e \<Rightarrow> \<lparr>lf_lines = [], lf_terminated = True\<rparr>)"

lemma toy_verified:
  obtains x where "append_entry toy_sha (\<lambda>_. []) noon ''PROMOTE'' ''s'' [(''b'', JInt 2), (''a'', JInt 1)] None None = Inr (x, toy_ledger)"
    "read_verified toy_sha (\<lambda>_. []) (Some toy_ledger) = Inr [canonical_entry x]" "le_scope x = ''s''" "lf_terminated toy_ledger"
proof -
  have s: "strip ''s'' \<noteq> []" by code_simp
  have "\<exists>x g. append_entry toy_sha (\<lambda>_. []) noon ''PROMOTE'' ''s'' [(''b'', JInt 2), (''a'', JInt 1)] None None = Inr (x, g) \<and> lf_terminated g \<and>
    read_verified toy_sha (\<lambda>_. []) (Some g) = Inr ([] @ [canonical_entry x]) \<and> le_sequence x = int (length ([] :: ledger_entry list)) \<and>
    le_previous_hash x = chain_head [] \<and> le_action x = ''PROMOTE'' \<and> le_scope x = ''s'' \<and> le_payload x = [(''b'', JInt 2), (''a'', JInt 1)]"
    by (rule append_then_read) (use s in \<open>simp_all add: read_verified_def VALID_ACTIONS_def\<close>)
  then obtain x g where "append_entry toy_sha (\<lambda>_. []) noon ''PROMOTE'' ''s'' [(''b'', JInt 2), (''a'', JInt 1)] None None = Inr (x, g)"
    "read_verified toy_sha (\<lambda>_. []) (Some g) = Inr [canonical_entry x]" "le_scope x = ''s''" "lf_terminated g" by auto
  with that show thesis by (simp add: toy_ledger_def)
qed

lemma append_reads_back_witness:
  "\<exists>x g. append_entry toy_sha (\<lambda>_. []) noon ''DEMOTE'' ''s'' [] None (Some toy_ledger) = Inr (x, g) \<and> le_sequence x = 1"
proof -
  have s: "strip ''s'' \<noteq> []" by code_simp
  obtain y where "read_verified toy_sha (\<lambda>_. []) (Some toy_ledger) = Inr [canonical_entry y]" "lf_terminated toy_ledger" by (rule toy_verified)
  from append_reads_back [OF this(1) _ s, of "''DEMOTE''" noon "[]" None] this(2) show ?thesis by (auto simp: VALID_ACTIONS_def)
qed


lemma truncation_verifies_witness:
  "\<exists>j es. read_verified toy_sha (\<lambda>_. []) (Some (toy_ledger\<lparr>lf_lines := take 0 (lf_lines toy_ledger)\<rparr>)) = Inr (take j es) \<and> length es = 1"
proof -
  obtain y where r: "read_verified toy_sha (\<lambda>_. []) (Some toy_ledger) = Inr [canonical_entry y]" by (rule toy_verified)
  show ?thesis using truncation_verifies [OF r, of 0] by (metis length_Cons list.size(3) One_nat_def)
qed

lemma unterminated_append_breaks_witness:
  "\<exists>x g'. append_entry toy_sha (\<lambda>_. []) noon ''DEMOTE'' ''s'' [] None (Some (toy_ledger\<lparr>lf_terminated := False\<rparr>)) = Inr (x, g') \<and>
     read_verified toy_sha (\<lambda>_. []) (Some g') = Inl Not_Json"
proof -
  have s: "strip ''s'' \<noteq> []" by code_simp
  obtain y where r: "read_verified toy_sha (\<lambda>_. []) (Some toy_ledger) = Inr [canonical_entry y]" by (rule toy_verified)
  then have "read_verified toy_sha (\<lambda>_. []) (Some (toy_ledger\<lparr>lf_terminated := False\<rparr>)) = Inr [canonical_entry y]" by (simp add: read_verified_def)
  moreover have "lf_lines toy_ledger \<noteq> []" "last (lf_lines toy_ledger) \<noteq> Blank_Line"
    using s by (simp_all add: toy_ledger_def append_entry_def VALID_ACTIONS_def read_verified_def Let_def add_line_def del: canonical.simps)
  ultimately show ?thesis using s by (intro unterminated_append_breaks) (auto simp: VALID_ACTIONS_def)
qed

end
