(* ===== verification/CreditBudget.thy ===== *)
theory CreditBudget
  imports PyJson
begin

text \<open>
  The credit governor of \<open>autonomy/odds_api_budget.py\<close>: the daily and monthly caps, the slice
  reserved for game lines, the cache, and the governed fetch. \<open>None\<close> is an exception that leaves
  the call. The archive, which never influences a fetch, is left out.
\<close>

section \<open>Configuration\<close>

definition DEFAULT_DAILY_CREDITS :: int where "DEFAULT_DAILY_CREDITS = 640"
definition DEFAULT_LINE_RESERVE_FRACTION :: pyfloat where "DEFAULT_LINE_RESERVE_FRACTION = to_float (4 / 10)"
definition DEFAULT_MONTHLY_CREDITS :: int where "DEFAULT_MONTHLY_CREDITS = 20000"
definition LINE_CLASS :: string where "LINE_CLASS = ''line''"
definition DEFAULT_TTL_SECONDS :: pyfloat where "DEFAULT_TTL_SECONDS = Fin 1200"
definition ODDS_CALL_COST :: int where "ODDS_CALL_COST = 3"

definition credits_env :: "string option \<Rightarrow> int \<Rightarrow> int" where
  "credits_env raw fallback =
     (case raw of
        None \<Rightarrow> fallback
      | Some s \<Rightarrow> (case int_of_text s of Some n \<Rightarrow> if 0 \<le> n then n else fallback | None \<Rightarrow> fallback))"

record governor =
  og_daily :: int
  og_monthly :: int
  og_reserve :: int

text \<open>\<open>OddsApiBudget()\<close> from the three environment variables; \<open>None\<close>: the cap overflows a float.\<close>

definition configured_governor :: "string option \<Rightarrow> string option \<Rightarrow> string option \<Rightarrow> governor option" where
  "configured_governor daily_env reserve_env monthly_env =
     (let daily = credits_env daily_env DEFAULT_DAILY_CREDITS in
      map_option (\<lambda>proportional.
        \<lparr>og_daily = daily, og_monthly = credits_env monthly_env DEFAULT_MONTHLY_CREDITS,
         og_reserve = max 0 (min (credits_env reserve_env proportional) daily)\<rparr>)
        (int_of_float (fmul DEFAULT_LINE_RESERVE_FRACTION (float_of_int daily))))"

section \<open>The counters\<close>

text \<open>One reading of the clock: seconds, and the names of the UTC day and month.\<close>

record credit_clock =
  kc_now :: pyfloat
  kc_day :: string
  kc_month :: string

record credit_state =
  ks_spent_today :: int
  ks_spent_month :: int
  ks_reported :: json

text \<open>The counters of the file, rolled to the day and month of the clock.\<close>

definition load_credits :: "credit_clock \<Rightarrow> json_file \<Rightarrow> credit_state option" where
  "load_credits clk f =
     (case f of
        Holds v \<Rightarrow>
          (case as_obj v of
             None \<Rightarrow> None
           | Some d \<Rightarrow>
               (case (int_of_json (jget_default ''spent_today'' (JInt 0) d), int_of_json (jget_default ''spent_month'' (JInt 0) d)) of
                  (Some today, Some month) \<Rightarrow> Some
                    \<lparr>ks_spent_today = (if jget_default ''day'' (JStr (kc_day clk)) d = JStr (kc_day clk) then today else 0),
                     ks_spent_month = (if jget_default ''month'' (JStr (kc_month clk)) d = JStr (kc_month clk) then month else 0),
                     ks_reported = jget ''remaining_reported'' d\<rparr>
                | _ \<Rightarrow> None))
      | _ \<Rightarrow> Some \<lparr>ks_spent_today = 0, ks_spent_month = 0, ks_reported = JNull\<rparr>)"

definition credits_payload :: "credit_clock \<Rightarrow> credit_state \<Rightarrow> json" where
  "credits_payload clk s = JObj
     [(''day'', JStr (kc_day clk)), (''spent_today'', JInt (ks_spent_today s)), (''month'', JStr (kc_month clk)),
      (''spent_month'', JInt (ks_spent_month s)), (''remaining_reported'', ks_reported s)]"

definition daily_ceiling :: "governor \<Rightarrow> string \<Rightarrow> int" where
  "daily_ceiling g reserve_class = (if reserve_class = LINE_CLASS then og_daily g else og_daily g - og_reserve g)"

text \<open>\<open>v < n\<close>; \<open>None\<close> is the TypeError of a value that is no number.\<close>

definition json_below :: "json \<Rightarrow> int \<Rightarrow> bool option" where
  "json_below v n =
     (case v of JInt m \<Rightarrow> Some (m < n) | JBool b \<Rightarrow> Some ((if b then 1 else 0) < n)
      | JFloat (Fin x) \<Rightarrow> Some (x < of_int n) | JFloat NegInf \<Rightarrow> Some True | JFloat _ \<Rightarrow> Some False | _ \<Rightarrow> None)"

definition can_spend :: "governor \<Rightarrow> credit_clock \<Rightarrow> int \<Rightarrow> string \<Rightarrow> json_file \<Rightarrow> bool option" where
  "can_spend g clk cost reserve_class f =
     (case load_credits clk f of
        None \<Rightarrow> None
      | Some s \<Rightarrow>
          if daily_ceiling g reserve_class < ks_spent_today s + cost then Some False
          else if og_monthly g < ks_spent_month s + cost then Some False
          else if ks_reported s = JNull then Some True
          else map_option Not (json_below (ks_reported s) cost))"

text \<open>\<open>max(0, v - n)\<close>.\<close>

definition reported_less :: "json \<Rightarrow> int \<Rightarrow> json option" where
  "reported_less v n =
     (case v of
        JInt m \<Rightarrow> Some (JInt (max 0 (m - n)))
      | JBool b \<Rightarrow> Some (JInt (max 0 ((if b then 1 else 0) - n)))
      | JFloat x \<Rightarrow> (let y = fsub x (float_of_int n) in Some (if flt (Fin 0) y then JFloat y else JInt 0))
      | _ \<Rightarrow> None)"

definition record_spend :: "credit_clock \<Rightarrow> int \<Rightarrow> int option \<Rightarrow> json_file \<Rightarrow> json_file option" where
  "record_spend clk cost header f =
     (case load_credits clk f of
        None \<Rightarrow> None
      | Some s \<Rightarrow>
          map_option (\<lambda>v. Holds (credits_payload clk
              \<lparr>ks_spent_today = ks_spent_today s + cost, ks_spent_month = ks_spent_month s + cost, ks_reported = v\<rparr>))
            (case header of
               Some h \<Rightarrow> Some (JInt h)
             | None \<Rightarrow> if ks_reported s = JNull then Some JNull else reported_less (ks_reported s) cost))"

definition credit_status :: "governor \<Rightarrow> credit_clock \<Rightarrow> json_file \<Rightarrow> (string \<times> json) list option" where
  "credit_status g clk f =
     map_option (\<lambda>s.
       [(''day'', JStr (kc_day clk)), (''spent_today'', JInt (ks_spent_today s)), (''month'', JStr (kc_month clk)),
        (''spent_month'', JInt (ks_spent_month s)), (''remaining_reported'', ks_reported s),
        (''daily_credits'', JInt (og_daily g)), (''daily_remaining'', JInt (max 0 (og_daily g - ks_spent_today s))),
        (''line_reserve'', JInt (og_reserve g)), (''prop_remaining'', JInt (max 0 (daily_ceiling g ''prop'' - ks_spent_today s))),
        (''monthly_credits'', JInt (og_monthly g)), (''monthly_remaining'', JInt (max 0 (og_monthly g - ks_spent_month s)))])
       (load_credits clk f)"

section \<open>The governed fetch\<close>

text \<open>The budget file and the cache, one file per key.\<close>

record credit_files =
  kf_budget :: json_file
  kf_cache :: "string \<Rightarrow> json_file"

text \<open>What is cached under a key and whether it is fresh; \<open>Some None\<close>: nothing.\<close>

definition cache_get :: "(string \<Rightarrow> pyfloat option) \<Rightarrow> credit_clock \<Rightarrow> pyfloat \<Rightarrow> json_file \<Rightarrow> (json \<times> bool) option option" where
  "cache_get float_text clk ttl f =
     (case f of
        Holds v \<Rightarrow>
          (case as_obj v of
             None \<Rightarrow> None
           | Some d \<Rightarrow>
               (let at_time = (case jget_default ''fetched_at'' (JInt 0) d of
                      JInt n \<Rightarrow> if fisfinite (float_of_int n) then Some (float_of_int n) else None
                    | JFloat x \<Rightarrow> Some x
                    | JBool b \<Rightarrow> Some (Fin (if b then 1 else 0))
                    | JStr s \<Rightarrow> float_text s
                    | _ \<Rightarrow> None)
                in map_option (\<lambda>t. Some (jget ''payload'' d, fle (fsub (kc_now clk) t) ttl)) at_time))
      | _ \<Rightarrow> Some None)"

definition cache_entry :: "credit_clock \<Rightarrow> json \<Rightarrow> json_file" where
  "cache_entry clk payload = Holds (JObj [(''fetched_at'', JFloat (kc_now clk)), (''payload'', payload)])"

datatype fetch_source = Cache | Live | Stale | Exhausted | Failed

record credit_request =
  kr_key :: string
  kr_cost :: int
  kr_ttl :: pyfloat
  kr_class :: string

text \<open>The source function answers a payload and a header, or raises (\<open>None\<close>).\<close>

definition budgeted_fetch ::
  "(string \<Rightarrow> pyfloat option) \<Rightarrow> governor \<Rightarrow> credit_clock \<Rightarrow> (json \<times> int option) option \<Rightarrow> credit_request \<Rightarrow> credit_files \<Rightarrow>
   ((json \<times> fetch_source) \<times> credit_files) option" where
  "budgeted_fetch float_text g clk answer_of r st =
     (case cache_get float_text clk (kr_ttl r) (kf_cache st (kr_key r)) of
        None \<Rightarrow> None
      | Some (Some (payload, True)) \<Rightarrow> Some ((payload, Cache), st)
      | Some cached \<Rightarrow>
          (let stale = (\<lambda>otherwise. case cached of Some (payload, _) \<Rightarrow> (payload, Stale) | None \<Rightarrow> (JNull, otherwise)) in
           case can_spend g clk (kr_cost r) (kr_class r) (kf_budget st) of
             None \<Rightarrow> None
           | Some False \<Rightarrow> Some (stale Exhausted, st)
           | Some True \<Rightarrow>
               (case answer_of of
                  None \<Rightarrow> Some (stale Failed, st)
                | Some (payload, header) \<Rightarrow>
                    map_option (\<lambda>f. ((payload, Live),
                        \<lparr>kf_budget = f, kf_cache = (kf_cache st)(kr_key r := cache_entry clk payload)\<rparr>))
                      (record_spend clk (kr_cost r) header (kf_budget st)))))"

text \<open>A run of fetches, each with its own clock and answer, up to the first exception; the credits paid.\<close>

fun fetch_run ::
  "(string \<Rightarrow> pyfloat option) \<Rightarrow> governor \<Rightarrow> (credit_clock \<times> (json \<times> int option) option \<times> credit_request) list \<Rightarrow> credit_files \<Rightarrow> int \<times> credit_files" where
  "fetch_run ft g [] st = (0, st)"
| "fetch_run ft g ((clk, answer_of, r) # rs) st =
     (case budgeted_fetch ft g clk answer_of r st of
        None \<Rightarrow> (0, st)
      | Some ((payload, src), st') \<Rightarrow>
          (let (paid, st'') = fetch_run ft g rs st' in ((if src = Live then kr_cost r else 0) + paid, st'')))"

section \<open>What one fetch does to the counters\<close>

lemma load_credits_payload:
  "kc_day clk = kc_day clk' \<Longrightarrow> kc_month clk = kc_month clk' \<Longrightarrow> load_credits clk (Holds (credits_payload clk' s)) = Some s"
  by (simp add: load_credits_def credits_payload_def)

lemma record_spend_loads:
  assumes "record_spend clk cost header f = Some f'"
  obtains s v where "load_credits clk f = Some s" "f' = Holds (credits_payload clk
      \<lparr>ks_spent_today = ks_spent_today s + cost, ks_spent_month = ks_spent_month s + cost, ks_reported = v\<rparr>)"
  using assms by (auto simp: record_spend_def split: option.splits if_split_asm)

lemma budgeted_fetch_ends:
  assumes "budgeted_fetch ft g clk answer_of r st = Some ((payload, src), st')"
  obtains (kept) "src \<noteq> Live" "st' = st"
  | (paid) s v where "src = Live" "load_credits clk (kf_budget st) = Some s"
      "ks_spent_today s + kr_cost r \<le> daily_ceiling g (kr_class r)" "ks_spent_month s + kr_cost r \<le> og_monthly g"
      "ks_reported s = JNull \<or> json_below (ks_reported s) (kr_cost r) = Some False"
      "kf_budget st' = Holds (credits_payload clk
         \<lparr>ks_spent_today = ks_spent_today s + kr_cost r, ks_spent_month = ks_spent_month s + kr_cost r, ks_reported = v\<rparr>)"
proof (cases "src = Live")
  case False
  then have "st' = st" using assms by (auto simp: budgeted_fetch_def Let_def split: option.splits bool.splits prod.splits)
  then show thesis using kept False by blast
next
  case True
  then obtain header f where c: "can_spend g clk (kr_cost r) (kr_class r) (kf_budget st) = Some True"
    and f: "record_spend clk (kr_cost r) header (kf_budget st) = Some f" "kf_budget st' = f"
    using assms by (auto simp: budgeted_fetch_def Let_def split: option.splits bool.splits prod.splits)
  obtain s v where s: "load_credits clk (kf_budget st) = Some s" "f = Holds (credits_payload clk
      \<lparr>ks_spent_today = ks_spent_today s + kr_cost r, ks_spent_month = ks_spent_month s + kr_cost r, ks_reported = v\<rparr>)"
    by (rule record_spend_loads [OF f(1)])
  show thesis
    by (rule paid [OF True s(1)]) (use c s f(2) in \<open>auto simp: can_spend_def split: if_split_asm\<close>)
qed

section \<open>Properties\<close>

lemma load_credits_same_day: "kc_day clk = kc_day c0 \<Longrightarrow> kc_month clk = kc_month c0 \<Longrightarrow> load_credits clk f = load_credits c0 f"
  unfolding load_credits_def by (simp only:)

text \<open>Within one day the governor never passes a ceiling and counts exactly. A run of fetches, whatever their answers, classes and
  cached entries, pays what the counters grow by; the day's counter never rises above the highest
  ceiling of the classes asked for, nor the month's above its cap. So all classes together stay
  within the daily cap, and classes other than game lines leave their reserve untouched.\<close>

theorem credits_within_caps:
  assumes "fetch_run ft g rs st = (paid, st')" and "load_credits c0 (kf_budget st) = Some s0"
    and "\<forall>(clk, answer_of, r) \<in> set rs. kc_day clk = kc_day c0 \<and> kc_month clk = kc_month c0 \<and> 0 \<le> kr_cost r \<and> daily_ceiling g (kr_class r) \<le> c"
  shows "\<exists>s'. load_credits c0 (kf_budget st') = Some s' \<and> 0 \<le> paid \<and> ks_spent_today s' = ks_spent_today s0 + paid \<and>
    ks_spent_month s' = ks_spent_month s0 + paid \<and> ks_spent_today s' \<le> max (ks_spent_today s0) c \<and>
    ks_spent_month s' \<le> max (ks_spent_month s0) (og_monthly g)"
  using assms
proof (induction rs arbitrary: st s0 paid)
  case Nil
  then show ?case by simp
next
  case (Cons x rs)
  obtain clk ans r where x: "x = (clk, ans, r)" by (cases x)
  have day: "kc_day clk = kc_day c0" "kc_month clk = kc_month c0" "0 \<le> kr_cost r" "daily_ceiling g (kr_class r) \<le> c"
    and rest: "\<forall>(clk, answer_of, r) \<in> set rs. kc_day clk = kc_day c0 \<and> kc_month clk = kc_month c0 \<and> 0 \<le> kr_cost r \<and> daily_ceiling g (kr_class r) \<le> c"
    using Cons.prems(3) by (simp_all add: x)
  show ?case
  proof (cases "budgeted_fetch ft g clk ans r st")
    case None
    then show ?thesis using Cons.prems by (simp add: x)
  next
    case (Some y)
    obtain payload src st1 where y: "y = ((payload, src), st1)" using prod.exhaust by metis
    obtain more_paid where run: "fetch_run ft g rs st1 = (more_paid, st')" and p: "paid = (if src = Live then kr_cost r else 0) + more_paid"
      using Cons.prems(1) by (auto simp: x Some y Let_def split: prod.splits)
    note f = Some [unfolded y]
    show ?thesis
    proof (cases rule: budgeted_fetch_ends [OF f])
      case 1
      then show ?thesis using Cons.IH [OF _ _ rest, of st more_paid s0] run p Cons.prems(2) by simp
    next
      case (2 s v)
      have s: "s = s0" using 2(2) load_credits_same_day [OF day(1,2)] Cons.prems(2) by simp
      let ?s1 = "\<lparr>ks_spent_today = ks_spent_today s + kr_cost r, ks_spent_month = ks_spent_month s + kr_cost r, ks_reported = v\<rparr>"
      have l: "load_credits c0 (kf_budget st1) = Some ?s1" unfolding 2(6) by (rule load_credits_payload) (simp_all add: day)
      show ?thesis using Cons.IH [OF run l rest] 2(1,3,4) p day(3,4) by (auto simp: s)
    qed
  qed
qed

definition default_governor :: governor where
  "default_governor = \<lparr>og_daily = 640, og_monthly = 20000, og_reserve = 256\<rparr>"

lemma configured_default: "configured_governor None None None = Some default_governor"
  by code_simp

definition toy_clock :: credit_clock where
  "toy_clock = \<lparr>kc_now = Fin 0, kc_day = ''d'', kc_month = ''m''\<rparr>"

definition spent_files :: "int \<Rightarrow> credit_files" where
  "spent_files n = \<lparr>kf_budget = Holds (credits_payload toy_clock \<lparr>ks_spent_today = n, ks_spent_month = n, ks_reported = JNull\<rparr>),
     kf_cache = (\<lambda>_. Absent)\<rparr>"

lemma spent_files_load: "load_credits toy_clock (kf_budget (spent_files n)) = Some \<lparr>ks_spent_today = n, ks_spent_month = n, ks_reported = JNull\<rparr>"
  unfolding spent_files_def credit_files.simps by (rule load_credits_payload) simp_all

text \<open>A free call can be refused for lack of credits. Under the default configuration, once game lines have spent 400 of the 640 credits of the day, a
  call of cost zero in the common class is answered as exhausted, while a game-line call that
  costs three credits is still made.\<close>

theorem free_call_is_refused:
  "configured_governor None None None = Some g \<Longrightarrow>
   map_option fst (budgeted_fetch ft g toy_clock (Some (JArr [], header)) \<lparr>kr_key = ''sports_list'', kr_cost = 0, kr_ttl = Fin 21600, kr_class = ''other''\<rparr>
     (spent_files 400)) = Some (JNull, Exhausted) \<and>
   map_option (snd \<circ> fst) (budgeted_fetch ft g toy_clock (Some (JArr [], header)) \<lparr>kr_key = ''odds'', kr_cost = 3, kr_ttl = Fin 1200, kr_class = LINE_CLASS\<rparr>
     (spent_files 400)) = Some Live"
proof -
  assume "configured_governor None None None = Some g"
  then have g: "g = default_governor" by (simp add: configured_default)
  have c: "kf_cache (spent_files 400) k = Absent" for k by (simp add: spent_files_def)
  have r: "\<exists>f. record_spend toy_clock 3 header (kf_budget (spent_files 400)) = Some f"
    by (cases header) (simp_all add: record_spend_def spent_files_load)
  show ?thesis
    using r by (auto simp: budgeted_fetch_def cache_get_def c can_spend_def spent_files_load g default_governor_def daily_ceiling_def LINE_CLASS_def)
qed

lemma free_call_is_refused_witness:
  "map_option fst (budgeted_fetch (\<lambda>_. None) default_governor toy_clock (Some (JArr [], Some 100)) \<lparr>kr_key = ''sports_list'', kr_cost = 0, kr_ttl = Fin 21600, kr_class = ''other''\<rparr>
     (spent_files 400)) = Some (JNull, Exhausted)"
  using free_call_is_refused [OF configured_default] by blast

lemma credits_within_caps_witness:
  "\<exists>paid st' s'. fetch_run (\<lambda>_. None) default_governor [(toy_clock, Some (JNull, None), \<lparr>kr_key = ''a'', kr_cost = 3, kr_ttl = Fin 0, kr_class = ''prop''\<rparr>)]
     (spent_files 380) = (paid, st') \<and> load_credits toy_clock (kf_budget st') = Some s' \<and> ks_spent_today s' = 380 + paid \<and> ks_spent_today s' \<le> 384"
proof -
  let ?rs = "[(toy_clock, Some (JNull, None), \<lparr>kr_key = ''a'', kr_cost = 3, kr_ttl = Fin 0, kr_class = ''prop''\<rparr>)]"
  obtain paid st' where run: "fetch_run (\<lambda>_. None) default_governor ?rs (spent_files 380) = (paid, st')" by fastforce
  have c: "\<forall>(clk, answer_of, r) \<in> set ?rs. kc_day clk = kc_day toy_clock \<and> kc_month clk = kc_month toy_clock \<and> 0 \<le> kr_cost r \<and>
      daily_ceiling default_governor (kr_class r) \<le> 384"
    by (simp add: daily_ceiling_def LINE_CLASS_def default_governor_def)
  show ?thesis using credits_within_caps [OF run spent_files_load c] run by auto
qed

end
