(* ===== verification/LiveBook.thy ===== *)
theory LiveBook
  imports Executor
begin

text \<open>
  The live order book of \<open>autonomy/live_book.py\<close>: one market's book from snapshots and deltas, the
  quote it gives, the frames of the socket, and the quote the executor reads just before a
  submit. A dict of price levels is the list of its items by price; the program only reads
  its maximum, its values and its sorted items.
\<close>

section \<open>Price levels\<close>

type_synonym price_levels = "(int \<times> pyfloat) list"

definition count_at :: "int \<Rightarrow> price_levels \<Rightarrow> pyfloat" where
  "count_at p ls = (case map_of ls p of None \<Rightarrow> Fin 0 | Some c \<Rightarrow> c)"

text \<open>\<open>levels[p] = c\<close>, and \<open>levels.pop(p)\<close> for \<open>None\<close>.\<close>

fun put_level :: "int \<Rightarrow> pyfloat option \<Rightarrow> price_levels \<Rightarrow> price_levels" where
  "put_level p None [] = []"
| "put_level p (Some c) [] = [(p, c)]"
| "put_level p v ((q, c) # ls) =
     (if p < q then (case v of None \<Rightarrow> [] | Some c' \<Rightarrow> [(p, c')]) @ (q, c) # ls
      else if p = q then (case v of None \<Rightarrow> [] | Some c' \<Rightarrow> [(p, c')]) @ ls
      else (q, c) # put_level p v ls)"

text \<open>One item of a snapshot; \<open>None\<close> is the OverflowError, \<open>Some None\<close> an item that is skipped.\<close>

definition snapshot_level :: "(string \<Rightarrow> pyfloat option) \<Rightarrow> json \<Rightarrow> (int \<times> pyfloat) option option" where
  "snapshot_level ft item =
     (case item of
        JArr (p # n # _) \<Rightarrow>
          caught (int_or_skip p) (\<lambda>price. caught (float_or_skip ft n) (\<lambda>count.
            Some (if \<not> (1 \<le> price \<and> price \<le> 99) \<or> fle count (Fin 0) then None else Some (price, count))))
      | _ \<Rightarrow> Some None)"

definition add_level :: "int \<times> pyfloat \<Rightarrow> price_levels \<Rightarrow> price_levels" where
  "add_level x ls = put_level (fst x) (Some (fadd (count_at (fst x) ls) (snd x))) ls"

text \<open>\<open>_aggregate_levels\<close>; a truthy value that is no iterable raises.\<close>

definition aggregate_levels :: "(string \<Rightarrow> pyfloat option) \<Rightarrow> json \<Rightarrow> price_levels option" where
  "aggregate_levels ft raw =
     (case raw of
        JArr items \<Rightarrow> map_option (\<lambda>ls. fold add_level (List.map_filter id ls) []) (option_all (snapshot_level ft) items)
      | JStr _ \<Rightarrow> Some []
      | JObj _ \<Rightarrow> Some []
      | _ \<Rightarrow> if truthy raw then None else Some [])"

section \<open>The book of a market\<close>

record book_state =
  bk_yes :: price_levels
  bk_no :: price_levels
  bk_seq :: json
  bk_updated :: "string option"

definition empty_book :: book_state where
  "empty_book = \<lparr>bk_yes = [], bk_no = [], bk_seq = JNull, bk_updated = None\<rparr>"

text \<open>The book afterwards, and whether the call returned: an exception leaves what was assigned before.\<close>

definition apply_snapshot :: "(string \<Rightarrow> pyfloat option) \<Rightarrow> string \<Rightarrow> (string \<times> json) list \<Rightarrow> book_state \<Rightarrow> book_state \<times> bool" where
  "apply_snapshot ft now msg b =
     (case aggregate_levels ft (jget_default ''yes'' (JArr []) msg) of
        None \<Rightarrow> (b, False)
      | Some ys \<Rightarrow>
          (case aggregate_levels ft (jget_default ''no'' (JArr []) msg) of
             None \<Rightarrow> (b\<lparr>bk_yes := ys\<rparr>, False)
           | Some ns \<Rightarrow> (b\<lparr>bk_yes := ys, bk_no := ns, bk_seq := jget ''seq'' msg, bk_updated := Some now\<rparr>, True)))"

definition change_level :: "int \<Rightarrow> pyfloat \<Rightarrow> price_levels \<Rightarrow> price_levels" where
  "change_level p delta ls = (let c = fadd (count_at p ls) delta in put_level p (if fle c (Fin 0) then None else Some c) ls)"

definition apply_delta :: "(string \<Rightarrow> pyfloat option) \<Rightarrow> string \<Rightarrow> (string \<times> json) list \<Rightarrow> book_state \<Rightarrow> book_state \<times> bool" where
  "apply_delta ft now msg b =
     (case (int_of_json (jget ''price'' msg), float_of_json ft (jget_default ''delta'' (JInt 0) msg)) of
        (Some price, Some delta) \<Rightarrow>
          (let stamped = b\<lparr>bk_seq := jget_default ''seq'' (bk_seq b) msg, bk_updated := Some now\<rparr> in
           if jget ''side'' msg = JStr ''yes'' then (stamped\<lparr>bk_yes := change_level price delta (bk_yes b)\<rparr>, True)
           else if jget ''side'' msg = JStr ''no'' then (stamped\<lparr>bk_no := change_level price delta (bk_no b)\<rparr>, True)
           else (b, True))
      | _ \<Rightarrow> (b, False))"

definition best_bid :: "price_levels \<Rightarrow> int option" where
  "best_bid ls = (case map fst ls of [] \<Rightarrow> None | p # ps \<Rightarrow> Some (fold max ps p))"

definition best_ask :: "price_levels \<Rightarrow> int option" where
  "best_ask other = map_option (\<lambda>p. 100 - p) (best_bid other)"

definition ask_levels :: "price_levels \<Rightarrow> price_levels" where
  "ask_levels other = sort_key fst (map (\<lambda>(p, c). (100 - p, c)) other)"

definition jopt_int :: "int option \<Rightarrow> json" where
  "jopt_int v = (case v of None \<Rightarrow> JNull | Some n \<Rightarrow> JInt n)"

definition best_size :: "price_levels \<Rightarrow> json" where
  "best_size ls = (case best_bid ls of None \<Rightarrow> JNull | Some p \<Rightarrow> (case map_of ls p of None \<Rightarrow> JNull | Some c \<Rightarrow> JFloat c))"

definition levels_json :: "price_levels \<Rightarrow> json" where
  "levels_json ls = JArr (map (\<lambda>(p, c). JArr [JInt p, JFloat c]) ls)"

definition book_quote :: "book_state \<Rightarrow> quote" where
  "book_quote b = \<lparr>qt_fields =
     [(''yes_bid'', jopt_int (best_bid (bk_yes b))), (''yes_ask'', jopt_int (best_ask (bk_no b))),
      (''no_bid'', jopt_int (best_bid (bk_no b))), (''no_ask'', jopt_int (best_ask (bk_yes b))),
      (''yes_bid_size'', best_size (bk_yes b)), (''no_bid_size'', best_size (bk_no b)),
      (''yes_ask_size'', best_size (bk_no b)), (''no_ask_size'', best_size (bk_yes b)),
      (''yes_ask_levels'', levels_json (ask_levels (bk_no b))), (''no_ask_levels'', levels_json (ask_levels (bk_yes b))),
      (''book_received_at'', jopt_str (bk_updated b)), (''book_sequence'', bk_seq b)],
     qt_received_at = Plain (jopt_str (bk_updated b))\<rparr>"

section \<open>Frames of the socket\<close>

type_synonym live_books = "json \<Rightarrow> book_state option"

text \<open>
  A dict key up to Python's equality of hashable values; \<open>None\<close>: unhashable. (A NaN, never equal
  to itself as a key, is outside the model.)
\<close>

definition dict_key :: "json \<Rightarrow> json option" where
  "dict_key v =
     (case v of
        JArr _ \<Rightarrow> None
      | JObj _ \<Rightarrow> None
      | JBool b \<Rightarrow> Some (JInt (if b then 1 else 0))
      | JFloat (Fin x) \<Rightarrow> Some (if of_int \<lfloor>x\<rfloor> = x then JInt \<lfloor>x\<rfloor> else v)
      | _ \<Rightarrow> Some v)"

definition apply_frame :: "(string \<Rightarrow> pyfloat option) \<Rightarrow> string \<Rightarrow> json \<Rightarrow> live_books \<Rightarrow> live_books \<times> bool" where
  "apply_frame ft now frame books =
     (case frame of
        JObj f \<Rightarrow>
          (case jget_default ''msg'' (JObj []) f of
             JObj msg \<Rightarrow>
               (if \<not> truthy (jget ''market_ticker'' msg) then (books, True)
                else (case dict_key (jget ''market_ticker'' msg) of
                    None \<Rightarrow> (books, False)
                  | Some k \<Rightarrow>
                      (let b = (case books k of None \<Rightarrow> empty_book | Some b \<Rightarrow> b);
                           (b', returned) =
                             (if jget ''type'' f = JStr ''orderbook_snapshot'' then apply_snapshot ft now msg b
                              else if jget ''type'' f = JStr ''orderbook_delta'' then apply_delta ft now msg b
                              else (b, True))
                       in (books(k \<mapsto> b'), returned))))
           | _ \<Rightarrow> (books, False))
      | _ \<Rightarrow> (books, False))"

text \<open>
  \<open>KalshiLiveBook.run\<close> over the frames that arrive: the time of each, whether \<open>stop\<close> has not been
  called yet, and its JSON value (\<open>None\<close>: no JSON). A frame that raises is not counted.
\<close>

fun run_frames :: "(string \<Rightarrow> pyfloat option) \<Rightarrow> int option \<Rightarrow> (string \<times> bool \<times> json option) list \<Rightarrow> int \<Rightarrow> live_books \<Rightarrow> live_books" where
  "run_frames ft limit [] n books = books"
| "run_frames ft limit ((now, running, frame) # arriving) n books =
     (if \<not> running then books
      else
        (let (books', returned) = (case frame of None \<Rightarrow> (books, False) | Some v \<Rightarrow> apply_frame ft now v books) in
         if \<not> returned then run_frames ft limit arriving n books'
         else if (case limit of None \<Rightarrow> False | Some m \<Rightarrow> m \<le> n + 1) then books'
         else run_frames ft limit arriving (n + 1) books'))"

definition live_quote :: "string \<Rightarrow> live_books \<Rightarrow> quote option" where
  "live_quote ticker books = map_option book_quote (books (JStr ticker))"

section \<open>The quote before a submit\<close>

text \<open>The diagnosis file after a failure; \<open>writable\<close>: whether the write succeeds.\<close>

definition as_iterable :: "json \<Rightarrow> json list option" where
  "as_iterable v =
     (case v of
        JArr xs \<Rightarrow> Some xs
      | JObj d \<Rightarrow> Some (map (JStr \<circ> fst) d)
      | JStr s \<Rightarrow> Some (map (\<lambda>ch. JStr [ch]) s)
      | _ \<Rightarrow> None)"

definition record_book_fetch_failure :: "bool \<Rightarrow> string \<Rightarrow> string \<Rightarrow> string \<times> string \<Rightarrow> json_file \<Rightarrow> json_file" where
  "record_book_fetch_failure writable now ticker exn f =
     (case (case f of Holds v \<Rightarrow> as_obj v | _ \<Rightarrow> Some []) of
        None \<Rightarrow> f
      | Some blob \<Rightarrow>
          (case (as_obj (por (jget ''by_kind'' blob) (JObj [])), as_iterable (por (jget ''recent'' blob) (JArr [])),
                 int_of_json (jget_default ''total'' (JInt 0) blob)) of
             (Some kinds, Some recent, Some counted) \<Rightarrow>
               (case int_of_json (jget_default (fst exn) (JInt 0) kinds) of
                  None \<Rightarrow> f
                | Some n \<Rightarrow>
                    (let entry = JObj [(''at'', JStr now), (''ticker'', JStr (take 80 ticker)), (''kind'', JStr (fst exn)),
                           (''error'', JStr (take 200 (snd exn)))];
                         all_recent = recent @ [entry];
                         blob' = jput ''updated_at'' (JStr now) (jput ''total'' (JInt (counted + 1))
                           (jput ''recent'' (JArr (drop (length all_recent - 50) all_recent))
                             (jput ''by_kind'' (JObj (jput (fst exn) (JInt (n + 1)) kinds)) blob)))
                     in if writable then Holds (JObj blob') else f))
           | _ \<Rightarrow> f))"

text \<open>
  The answer of the source is an exception (its type and text) or a JSON value. The result is
  the quote, if any, and the diagnosis file; \<open>None\<close>: an exception leaves the call.
\<close>

definition fresh_best_quote ::
  "(string \<Rightarrow> pyfloat option) \<Rightarrow> bool \<Rightarrow> string \<Rightarrow> string \<Rightarrow> (string \<times> string) + json \<Rightarrow> json_file \<Rightarrow> (quote option \<times> json_file) option" where
  "fresh_best_quote ft writable now ticker answered f =
     (case answered of
        Inl exn \<Rightarrow> Some (None, record_book_fetch_failure writable now ticker exn f)
      | Inr (JObj ob) \<Rightarrow>
          (case (normalize_orderbook_levels ft ob ''yes'', normalize_orderbook_levels ft ob ''no'') of
             (Inr yes, Inr no) \<Rightarrow>
               (case apply_snapshot ft now [(''yes'', levels_json yes), (''no'', levels_json no)] empty_book of
                  (b, True) \<Rightarrow> Some (Some (book_quote b), f)
                | _ \<Rightarrow> None)
           | _ \<Rightarrow> None)
      | Inr _ \<Rightarrow> None)"

section \<open>Well-formed levels\<close>

text \<open>Prices ascend and no count is negative.\<close>

definition levels_ok :: "price_levels \<Rightarrow> bool" where
  "levels_ok ls \<longleftrightarrow> sorted_wrt (<) (map fst ls) \<and> (\<forall>(p, c) \<in> set ls. \<not> flt c (Fin 0))"

definition priced :: "price_levels \<Rightarrow> bool" where
  "priced ls \<longleftrightarrow> (\<forall>p \<in> fst ` set ls. 1 \<le> p \<and> p \<le> 99)"

lemma flt_fle: "flt a b \<Longrightarrow> fle a b"
  by (cases a; cases b) auto

text \<open>What the book needs of its price levels, and what it then knows of a change.\<close>

locale level_store =
  fixes lookup :: "'s \<Rightarrow> int \<Rightarrow> pyfloat option"
    and put :: "int \<Rightarrow> pyfloat option \<Rightarrow> 's \<Rightarrow> 's"
    and ok :: "'s \<Rightarrow> bool"
  assumes lookup_put: "ok s \<Longrightarrow> lookup (put p v s) q = (if q = p then v else lookup s q)"
    and ok_put: "ok s \<Longrightarrow> (\<And>c. v = Some c \<Longrightarrow> \<not> flt c (Fin 0)) \<Longrightarrow> ok (put p v s)"
    and positive: "ok s \<Longrightarrow> lookup s p = Some c \<Longrightarrow> \<not> flt c (Fin 0)"
begin

lemma ok_change: "ok s \<Longrightarrow> ok (put p (if fle c (Fin 0) then None else Some c) s)"
  by (rule ok_put) (auto dest: flt_fle split: if_splits)

lemma lookup_change: "ok s \<Longrightarrow> lookup (put p (if fle c (Fin 0) then None else Some c) s) q =
    (if q = p then if fle c (Fin 0) then None else Some c else lookup s q)"
  by (simp add: lookup_put)

lemma ok_fold: "ok s \<Longrightarrow> ok (fold (\<lambda>x. put (p x) (if fle (c x) (Fin 0) then None else Some (c x))) xs s)"
  by (induction xs arbitrary: s) (simp_all add: ok_change)

end

lemma levels_ok_Nil [simp]: "levels_ok []" "priced []"
  by (simp_all add: levels_ok_def priced_def)

lemma levels_ok_Cons: "levels_ok ((p, c) # ls) \<longleftrightarrow> levels_ok ls \<and> (\<forall>q \<in> fst ` set ls. p < q) \<and> \<not> flt c (Fin 0)"
  by (auto simp: levels_ok_def)

lemma keys_put_level: "fst ` set (put_level p v ls) \<subseteq> insert p (fst ` set ls)"
  by (induction p v ls rule: put_level.induct) (auto split: option.splits)

lemma levels_ok_put:
  "levels_ok ls \<Longrightarrow> (\<And>c. v = Some c \<Longrightarrow> \<not> flt c (Fin 0)) \<Longrightarrow> levels_ok (put_level p v ls)"
proof (induction p v ls rule: put_level.induct)
  case (3 p v q c ls)
  have "\<forall>r \<in> insert p (fst ` set ls). q < r" if "q < p" using that 3(2) by (simp add: levels_ok_Cons)
  then have "\<forall>r \<in> fst ` set (put_level p v ls). q < r" if "q < p" using that keys_put_level [of p v ls] by blast
  moreover have "\<forall>r \<in> fst ` set ls. p < r" if "p < q" using that 3(2) by (auto simp: levels_ok_Cons)
  ultimately show ?case using 3 by (cases v) (auto simp: levels_ok_Cons)
qed (auto simp: levels_ok_def)

lemma priced_put: "priced ls \<Longrightarrow> 1 \<le> p \<and> p \<le> 99 \<Longrightarrow> priced (put_level p v ls)"
  unfolding priced_def using keys_put_level [of p v ls] by blast

lemma map_of_put_level:
  "levels_ok ls \<Longrightarrow> map_of (put_level p v ls) q = (if q = p then v else map_of ls q)"
proof (induction p v ls rule: put_level.induct)
  case (3 p v r c ls)
  have fresh: "map_of ls p = None" if "p \<le> r" using 3(2) that by (force simp: levels_ok_Cons map_of_eq_None_iff)
  then show ?case using 3 by (cases v) (auto simp: levels_ok_Cons)
qed auto

lemma levels_ok_count: "levels_ok ls \<Longrightarrow> map_of ls p = Some c \<Longrightarrow> \<not> flt c (Fin 0)"
  by (auto simp: levels_ok_def dest!: map_of_SomeD)

interpretation levels: level_store map_of put_level levels_ok
  by unfold_locales (rule map_of_put_level levels_ok_put levels_ok_count; assumption)+

lemma levels_ok_change: "levels_ok ls \<Longrightarrow> levels_ok (change_level p d ls)"
  by (simp add: change_level_def Let_def levels.ok_change)

lemma priced_change: "priced ls \<Longrightarrow> 1 \<le> p \<and> p \<le> 99 \<Longrightarrow> priced (change_level p d ls)"
  by (simp add: change_level_def Let_def priced_put)

section \<open>Books are well formed\<close>

lemma fadd_nonnegative: "\<not> flt a (Fin 0) \<Longrightarrow> \<not> flt c (Fin 0) \<Longrightarrow> \<not> flt (fadd a c) (Fin 0)"
  by (cases a; cases c) (simp_all add: not_less to_float_nonneg r64_nonneg)

lemma count_nonnegative: "levels_ok ls \<Longrightarrow> \<not> flt (count_at p ls) (Fin 0)"
  by (auto simp: count_at_def levels_ok_def dest!: map_of_SomeD split: option.split)

lemma snapshot_level_ok: "snapshot_level ft item = Some (Some (p, c)) \<Longrightarrow> 1 \<le> p \<and> p \<le> 99 \<and> \<not> flt c (Fin 0)"
  by (auto simp: snapshot_level_def caught_def dest: flt_fle split: json.splits list.splits option.splits if_split_asm)

lemma fold_add_level:
  "levels_ok ls \<Longrightarrow> priced ls \<Longrightarrow> (\<And>p c. (p, c) \<in> set xs \<Longrightarrow> 1 \<le> p \<and> p \<le> 99 \<and> \<not> flt c (Fin 0)) \<Longrightarrow>
    levels_ok (fold add_level xs ls) \<and> priced (fold add_level xs ls)"
proof (induction xs arbitrary: ls)
  case (Cons x xs)
  have x: "1 \<le> fst x \<and> fst x \<le> 99 \<and> \<not> flt (snd x) (Fin 0)" using Cons.prems(3) [of "fst x" "snd x"] by simp
  have "levels_ok (add_level x ls)" unfolding add_level_def
    by (rule levels_ok_put [OF Cons.prems(1)]) (use x Cons.prems(1) in \<open>simp add: fadd_nonnegative count_nonnegative\<close>)
  moreover have "priced (add_level x ls)" unfolding add_level_def by (rule priced_put [OF Cons.prems(2)]) (use x in simp)
  ultimately have "levels_ok (fold add_level xs (add_level x ls)) \<and> priced (fold add_level xs (add_level x ls))"
    by (rule Cons.IH) (use Cons.prems(3) in auto)
  then show ?case by simp
qed simp

lemma aggregate_levels_ok:
  assumes "aggregate_levels ft raw = Some ls"
  shows "levels_ok ls \<and> priced ls"
proof (cases raw)
  case (JArr items)
  then obtain xs where xs: "option_all (snapshot_level ft) items = Some xs" "ls = fold add_level (List.map_filter id xs) []"
    using assms by (auto simp: aggregate_levels_def)
  have "1 \<le> p \<and> p \<le> 99 \<and> \<not> flt c (Fin 0)" if "(p, c) \<in> set (List.map_filter id xs)" for p c
  proof -
    have "Some (p, c) \<in> set xs" using that by (auto simp: List.map_filter_def)
    then show ?thesis using option_all_set [OF xs(1)] snapshot_level_ok by blast
  qed
  then show ?thesis unfolding xs(2) by (intro fold_add_level) simp_all
qed (use assms in \<open>simp_all add: aggregate_levels_def split: if_split_asm\<close>)

definition book_ok :: "book_state \<Rightarrow> bool" where
  "book_ok b \<longleftrightarrow> levels_ok (bk_yes b) \<and> levels_ok (bk_no b)"

definition book_priced :: "book_state \<Rightarrow> bool" where
  "book_priced b \<longleftrightarrow> priced (bk_yes b) \<and> priced (bk_no b)"

lemma empty_book_ok [simp]: "book_ok empty_book" "book_priced empty_book"
  by (simp_all add: empty_book_def book_ok_def book_priced_def)

lemma apply_snapshot_ok:
  "book_ok b \<Longrightarrow> book_ok (fst (apply_snapshot ft now msg b))" "book_priced b \<Longrightarrow> book_priced (fst (apply_snapshot ft now msg b))"
  by (auto simp: apply_snapshot_def book_ok_def book_priced_def dest: aggregate_levels_ok split: option.split)

lemma apply_delta_ok: "book_ok b \<Longrightarrow> book_ok (fst (apply_delta ft now msg b))"
  by (auto simp: apply_delta_def book_ok_def Let_def levels_ok_change split: option.split)

text \<open>A frame that names a price names one between 1 and 99 cents.\<close>

definition frame_in_range :: "json \<Rightarrow> bool" where
  "frame_in_range frame =
     (case frame of
        JObj f \<Rightarrow>
          (case jget_default ''msg'' (JObj []) f of
             JObj msg \<Rightarrow> (case int_of_json (jget ''price'' msg) of None \<Rightarrow> True | Some p \<Rightarrow> 1 \<le> p \<and> p \<le> 99)
           | _ \<Rightarrow> True)
      | _ \<Rightarrow> True)"

lemma apply_delta_priced:
  "book_priced b \<Longrightarrow> (case int_of_json (jget ''price'' msg) of None \<Rightarrow> True | Some p \<Rightarrow> 1 \<le> p \<and> p \<le> 99) \<Longrightarrow>
    book_priced (fst (apply_delta ft now msg b))"
  by (auto simp: apply_delta_def book_priced_def Let_def priced_change split: option.split)

text \<open>A property of books that snapshots and the deltas at hand keep.\<close>

lemma apply_frame_keeps:
  assumes "apply_frame ft now frame books = (books', returned)" and "\<forall>b \<in> ran books. P b" and "P empty_book"
    and "\<And>msg b. P b \<Longrightarrow> P (fst (apply_snapshot ft now msg b))"
    and "\<And>f msg b. frame = JObj f \<Longrightarrow> jget_default ''msg'' (JObj []) f = JObj msg \<Longrightarrow> P b \<Longrightarrow> P (fst (apply_delta ft now msg b))"
  shows "\<forall>b \<in> ran books'. P b"
proof (cases "books' = books")
  case True
  then show ?thesis using assms(2) by simp
next
  case False
  then obtain f msg key where f: "frame = JObj f" "jget_default ''msg'' (JObj []) f = JObj msg" "dict_key (jget ''market_ticker'' msg) = Some key"
    using assms(1) by (auto simp: apply_frame_def split: json.splits if_split_asm option.splits)
  let ?b = "case books key of None \<Rightarrow> empty_book | Some b \<Rightarrow> b"
  have old: "P ?b" using assms(2,3) by (auto simp: ranI split: option.split)
  have "\<exists>b'. books' = books(key \<mapsto> b') \<and> P b'"
    using assms(1) False f old assms(4) assms(5) [OF f(1,2)]
    by (auto simp: apply_frame_def Let_def split: if_split_asm prod.splits) (metis fst_conv)+
  then obtain b' where b': "books' = books(key \<mapsto> b')" "P b'" by blast
  show ?thesis
  proof
    fix b assume "b \<in> ran books'"
    then show "P b" using assms(2) b' by (auto simp: ran_def split: if_split_asm intro: bspec [OF assms(2)] ranI)
  qed
qed

lemma run_frames_keeps:
  assumes "\<And>now v books books' returned. Q v \<Longrightarrow> \<forall>b \<in> ran books. P b \<Longrightarrow> apply_frame ft now v books = (books', returned) \<Longrightarrow>
      \<forall>b \<in> ran books'. P b"
  shows "\<forall>b \<in> ran books. P b \<Longrightarrow> (\<And>now running v. (now, running, Some v) \<in> set arriving \<Longrightarrow> Q v) \<Longrightarrow>
    \<forall>b \<in> ran (run_frames ft limit arriving n books). P b"
proof (induction arriving arbitrary: n books)
  case (Cons x arriving)
  obtain now running frame where x: "x = (now, running, frame)" by (cases x)
  obtain books' returned where r: "(case frame of None \<Rightarrow> (books, False) | Some v \<Rightarrow> apply_frame ft now v books) = (books', returned)"
    by fastforce
  have ok: "\<forall>b \<in> ran books'. P b"
  proof (cases frame)
    case None
    then show ?thesis using r Cons.prems(1) by simp
  next
    case (Some v)
    show ?thesis
      by (rule assms [OF Cons.prems(2) [of now running v] Cons.prems(1)]) (use r in \<open>simp_all add: x Some\<close>)
  qed
  have rest: "(now, running, Some v) \<in> set arriving \<Longrightarrow> Q v" for now running v using Cons.prems(2) by auto
  have "\<forall>b \<in> ran (run_frames ft limit arriving m books'). P b" for m by (rule Cons.IH [OF ok]) (rule rest)
  then show ?case using r ok Cons.prems(1) by (simp add: x)
qed simp

lemma run_frames_books: "\<forall>b \<in> ran books. book_ok b \<Longrightarrow> \<forall>b \<in> ran (run_frames ft limit arriving n books). book_ok b"
proof (rule run_frames_keeps [where Q = "\<lambda>_. True", OF _ _ TrueI])
  fix now v books books' returned
  assume old: "\<forall>b \<in> ran books. book_ok b" and fr: "apply_frame ft now v books = (books', returned)"
  show "\<forall>b \<in> ran books'. book_ok b"
    by (rule apply_frame_keeps [where P = book_ok, OF fr old empty_book_ok(1) apply_snapshot_ok(1)]) (simp_all add: apply_delta_ok)
qed

lemma run_frames_priced:
  assumes "\<forall>b \<in> ran books. book_priced b" and "\<And>now running v. (now, running, Some v) \<in> set arriving \<Longrightarrow> frame_in_range v"
  shows "\<forall>b \<in> ran (run_frames ft limit arriving n books). book_priced b"
proof (rule run_frames_keeps [where Q = frame_in_range, OF _ assms])
  fix now v books books' returned
  assume range: "frame_in_range v" and old: "\<forall>b \<in> ran books. book_priced b" and fr: "apply_frame ft now v books = (books', returned)"
  show "\<forall>b \<in> ran books'. book_priced b"
    by (rule apply_frame_keeps [where P = book_priced, OF fr old empty_book_ok(2) apply_snapshot_ok(2)])
      (use range in \<open>auto simp: frame_in_range_def intro!: apply_delta_priced\<close>)
qed

section \<open>Whole counts\<close>

lemma float_of_int_small: "\<bar>n\<bar> < 2 ^ 53 \<Longrightarrow> float_of_int n = Fin (of_int n)"
proof (cases "0 \<le> n")
  case False
  assume "\<bar>n\<bar> < 2 ^ 53"
  then have "r64 (of_int (- n)) = of_int (- n)" using False by (intro r64_of_int) auto
  then have "r64 (of_int n) = of_int n" using r64_minus [of "of_int n"] by simp
  then show ?thesis using False \<open>\<bar>n\<bar> < 2 ^ 53\<close> by (simp add: float_of_int_def to_float_def float_limit_def)
qed (use float_of_int_exact in auto)





lemma fold_max_sorted: "sorted_wrt (<) (p # ps) \<Longrightarrow> fold max ps p = last (p # ps)" for p :: int
proof (induction ps arbitrary: p)
  case (Cons q ps)
  then show ?case using Cons.IH [of q] by (simp add: max_def)
qed simp

lemma best_bid_last: "levels_ok ls \<Longrightarrow> best_bid ls = (if ls = [] then None else Some (fst (last ls)))"
proof (cases ls)
  case (Cons x xs)
  assume "levels_ok ls"
  then have "fold max (map fst xs) (fst x) = last (map fst ls)"
    unfolding Cons levels_ok_def list.map by (intro fold_max_sorted) simp
  moreover have "last (map fst ls) = fst (last ls)" by (rule last_map) (simp add: Cons)
  ultimately show ?thesis by (simp add: best_bid_def Cons del: last.simps)
qed (simp add: best_bid_def)

section \<open>The planner reads the book\<close>

text \<open>The asks of whole contracts that opposing bids give, ascending.\<close>

definition whole_ask :: "int \<times> pyfloat \<Rightarrow> (int \<times> int) option" where
  "whole_ask x = (case snd x of Fin y \<Rightarrow> if \<lfloor>y\<rfloor> < 1 then None else Some (100 - fst x, \<lfloor>y\<rfloor>) | _ \<Rightarrow> None)"

definition whole_asks :: "price_levels \<Rightarrow> (int \<times> int) list" where
  "whole_asks other = List.map_filter whole_ask (rev other)"

lemma insort_key_largest: "\<forall>y \<in> set ys. f y < f x \<Longrightarrow> insort_key f x ys = ys @ [x]"
  by (induction ys) auto

lemma sort_key_descending: "sorted_wrt (\<lambda>x y. f y < f x) xs \<Longrightarrow> sort_key f xs = rev xs"
  by (induction xs) (simp_all add: insort_key_largest)

lemma ask_levels_rev: "levels_ok ls \<Longrightarrow> ask_levels ls = map (\<lambda>(p, c). (100 - p, c)) (rev ls)"
  unfolding ask_levels_def rev_map [symmetric]
  by (rule sort_key_descending) (simp add: levels_ok_def sorted_wrt_map case_prod_unfold)

lemma merge_level_append: "\<forall>q \<in> fst ` set acc. q < p \<Longrightarrow> merge_level p n acc = acc @ [(p, n)]"
  by (induction p n acc rule: merge_level.induct) auto

lemma fold_merge_sorted:
  "sorted_wrt (<) (map fst (acc @ ls)) \<Longrightarrow> fold (\<lambda>(p, n). merge_level p n) ls acc = acc @ ls"
proof (induction ls arbitrary: acc)
  case (Cons x ls)
  have "merge_level (fst x) (snd x) acc = acc @ [x]"
    using Cons.prems by (subst merge_level_append) (auto simp: sorted_wrt_append)
  then show ?case using Cons by (simp add: case_prod_unfold)
qed simp

lemma parse_quoted_level:
  assumes "1 \<le> p" and "p \<le> 99"
  shows "parse_level ft (JArr [JInt (100 - p), JFloat c]) = Some (whole_ask (p, c))"
proof -
  have "float_of_int (100 - p) = Fin (of_int (100 - p))" using assms by (intro float_of_int_exact) auto
  then show ?thesis using assms
    by (simp add: parse_level_def level_values_def float_or_skip_def fisfinite_def level_of_floats_def trunc_rat_def whole_ask_def split: pyfloat.split)
qed

lemma parse_quoted_levels:
  assumes "levels_ok ls" and "priced ls"
  shows "option_all (parse_level ft) (map (\<lambda>(p, c). JArr [JInt p, JFloat c]) (ask_levels ls)) = Some (map whole_ask (rev ls))"
proof -
  have "parse_level ft (JArr [JInt (100 - fst x), JFloat (snd x)]) = Some (whole_ask x)" if "x \<in> set (rev ls)" for x
    using parse_quoted_level [of "fst x" ft "snd x"] assms(2) that by (simp add: priced_def)
  then show ?thesis
    unfolding ask_levels_rev [OF assms(1)] map_map by (intro option_all_map) (simp add: case_prod_unfold)
qed

lemma whole_asks_sorted:
  "sorted_wrt (\<lambda>x y. fst y < fst x) xs \<Longrightarrow> sorted_wrt (<) (map fst (List.map_filter whole_ask xs)) \<and>
    (\<forall>y \<in> set (List.map_filter whole_ask xs). \<exists>x \<in> set xs. fst y = 100 - fst x)"
proof (induction xs)
  case (Cons x xs)
  have "whole_ask x = None \<or> (\<exists>n. whole_ask x = Some (100 - fst x, n))"
    by (auto simp: whole_ask_def split: pyfloat.split)
  then show ?case using Cons by (force simp: List.map_filter_simps)
qed (simp add: List.map_filter_simps)

lemma jget_quote:
  "jget ''yes_ask_levels'' (qt_fields (book_quote b)) = levels_json (ask_levels (bk_no b))"
  "jget ''no_ask_levels'' (qt_fields (book_quote b)) = levels_json (ask_levels (bk_yes b))"
  "jget ''yes_ask'' (qt_fields (book_quote b)) = jopt_int (best_ask (bk_no b))"
  "jget ''no_ask'' (qt_fields (book_quote b)) = jopt_int (best_ask (bk_yes b))"
  "jget ''yes_ask_size'' (qt_fields (book_quote b)) = best_size (bk_no b)"
  "jget ''no_ask_size'' (qt_fields (book_quote b)) = best_size (bk_yes b)"
  by (simp_all add: book_quote_def)

text \<open>The levels that oppose a purchase of a side.\<close>

definition opposing :: "string \<Rightarrow> book_state \<Rightarrow> price_levels" where
  "opposing side b = (if side = ''yes'' then bk_no b else bk_yes b)"

lemma jget_quote_side:
  assumes "side \<in> {''yes'', ''no''}"
  shows "jget (side @ ''_ask_levels'') (qt_fields (book_quote b)) = levels_json (ask_levels (opposing side b))"
    "jget (side @ ''_ask'') (qt_fields (book_quote b)) = jopt_int (best_ask (opposing side b))"
    "jget (side @ ''_ask_size'') (qt_fields (book_quote b)) = best_size (opposing side b)"
  using assms jget_quote [of b] by (auto simp: opposing_def)

lemma quoted_ladder:
  assumes "book_ok b" and "book_priced b" and "side \<in> {''yes'', ''no''}"
  shows "whole_contract_levels ft (qt_fields (book_quote b)) side = Some (whole_asks (opposing side b))"
proof -
  let ?ls = "opposing side b"
  have ok: "levels_ok ?ls" "priced ?ls" using assms by (auto simp: book_ok_def book_priced_def opposing_def)
  have raw: "raw_levels (qt_fields (book_quote b)) side = map (\<lambda>(p, c). JArr [JInt p, JFloat c]) (ask_levels ?ls)"
    unfolding raw_levels_def jget_quote_side [OF assms(3)] levels_json_def by simp
  have "sorted_wrt (\<lambda>x y. fst y < fst x) (rev ?ls)" using ok(1) by (simp add: levels_ok_def sorted_wrt_rev sorted_wrt_map)
  then have "sorted_wrt (<) (map fst (whole_asks ?ls))" using whole_asks_sorted unfolding whole_asks_def by blast
  then have "fold (\<lambda>(p, n). merge_level p n) (whole_asks ?ls) [] = whole_asks ?ls" using fold_merge_sorted [of "[]"] by simp
  moreover have "List.map_filter id (map whole_ask (rev ?ls)) = whole_asks ?ls"
    by (simp add: whole_asks_def List.map_filter_def filter_map comp_def)
  ultimately show ?thesis
    unfolding whole_contract_levels_def raw parse_quoted_levels [OF ok] by simp
qed

text \<open>The quoted ask is the first ask of the ladder, if the best opposing bid holds a whole contract.\<close>

lemma quoted_ask_is_top:
  assumes "levels_ok ls" and "best_size ls = JFloat (Fin y)" and "1 \<le> y"
  shows "\<exists>n rest. whole_asks ls = (100 - fst (last ls), n) # rest \<and> best_ask ls = Some (100 - fst (last ls))"
proof -
  have ne: "ls \<noteq> []" using assms(2) by (auto simp: best_size_def best_bid_def)
  then obtain xs x where ls: "ls = xs @ [x]" by (cases ls rule: rev_cases) auto
  have "map_of ls (fst x) = Some (snd x)"
    using assms(1) by (intro map_of_is_SomeI) (auto simp: ls levels_ok_def strict_sorted_iff sorted_wrt_append distinct_append dest: strict_sorted_imp_sorted)
  moreover have bb: "best_bid ls = Some (fst x)" using best_bid_last [OF assms(1)] ne arg_cong [OF ls, of last] by simp
  ultimately have "snd x = Fin y" using assms(2) by (simp add: best_size_def)
  then show ?thesis using assms(3)
    using bb by (auto simp: best_ask_def) (auto simp: whole_asks_def ls whole_ask_def List.map_filter_simps)
qed

lemma walk_rejections:
  "walk_ladder l r best levels w = Some w' \<Longrightarrow>
    wk_rejection w' \<in> {wk_rejection w, Some ''taker_edge_below_min'', Some ''taker_ev_below_min''}"
proof (induction levels arbitrary: w)
  case (Cons x levels)
  obtain price visible where x: "x = (price, visible)" by (cases x)
  have keep: "wk_rejection (take_level r price u w) = wk_rejection w" for u by (simp add: take_level_def Let_def)
  have why: "level_rejection r price fee \<in> {None, Some ''taker_edge_below_min'', Some ''taker_ev_below_min''}" for fee
    by (simp add: level_rejection_def Let_def)
  note p = Cons.prems [unfolded x walk_ladder.simps]
  consider "w' = w" | fee reason where "level_rejection r price fee = Some reason" "w' = w\<lparr>wk_rejection := Some reason\<rparr>"
    | u where "w' = take_level r price u w" | u where "walk_ladder l r best levels (take_level r price u w) = Some w'"
  proof (cases "ll_max_level_slippage l < price - best")
    case True
    then show ?thesis using p that(1) by simp
  next
    case near: False
    then obtain fee where fee: "kalshi_taker_fee_cents price 1 (Some (tr_ticker r)) = Some fee" using p by (auto split: option.splits)
    show ?thesis
    proof (cases "level_rejection r price fee")
      case (Some reason)
      then show ?thesis using p near fee that(2) by simp
    next
      case None
      then obtain u where u: "usable_count l visible = Some u" using p near fee by (auto split: option.splits)
      let ?v = "take_level r price u w"
      have p': "(if 1 \<le> u \<and> tr_requested_count r \<le> wk_selected ?v then Some ?v else walk_ladder l r best levels ?v) = Some w'"
        using p near fee None u by (simp add: Let_def)
      show ?thesis
      proof (cases "1 \<le> u \<and> tr_requested_count r \<le> wk_selected ?v")
        case True
        show ?thesis by (rule that(3) [of u]) (use p' True in simp)
      next
        case False
        show ?thesis by (rule that(4) [of u]) (use p' False in \<open>simp split: if_split_asm\<close>)
      qed
    qed
  qed
  then show ?case
  proof cases
    case (2 fee reason)
    then show ?thesis using why [of fee] by simp
  next
    case (4 u)
    then show ?thesis using Cons.IH keep by fastforce
  qed (simp_all add: keep)
qed (simp add: walk_ladder.simps)

lemma assessed_inconsistent:
  assumes "assess_taker_liquidity ft l r q = Some a" and "la_reason a = ''taker_book_inconsistent''"
  obtains best n rest quoted bid where "whole_contract_levels ft q (tr_side r) = Some ((best, n) # rest)"
    and "quoted_prices q (tr_side r) = Some (Some (quoted, bid))" and "quoted \<noteq> best" and "tr_side r \<in> {''yes'', ''no''}"
proof -
  have rr: "request_rejection l r = None"
    using assms by (cases "request_rejection l r") (auto simp: assess_taker_liquidity_def request_rejection_def reject_liquidity_def split: if_split_asm)
  then have side: "tr_side r \<in> {''yes'', ''no''}" by (auto simp: request_rejection_def split: if_split_asm)
  obtain ls where ls: "whole_contract_levels ft q (tr_side r) = Some ls"
    using assms(1) by (cases "whole_contract_levels ft q (tr_side r)") (simp_all add: assess_taker_liquidity_def rr)
  obtain best n rest where x: "ls = (best, n) # rest"
    using assms by (cases ls) (auto simp: assess_taker_liquidity_def rr ls reject_liquidity_def)
  obtain quoted bid where q: "quoted_prices q (tr_side r) = Some (Some (quoted, bid))"
    using assms by (cases "quoted_prices q (tr_side r)" rule: option.exhaust)
      (auto simp: assess_taker_liquidity_def rr ls x reject_liquidity_def split: option.splits)
  have "quoted \<noteq> best"
  proof
    assume e: "quoted = best"
    have "book_rejection l best quoted bid = None"
      using assms by (cases "book_rejection l best quoted bid")
        (auto simp: assess_taker_liquidity_def rr ls x q book_rejection_def reject_liquidity_def e split: if_split_asm)
    then have "assess_ladder l r best (best - bid) ls = Some a" using assms(1) by (simp add: assess_taker_liquidity_def rr ls x q)
    then obtain w where w: "walk_ladder l r best ls no_walk = Some w"
      and a: "(\<exists>v. a = nothing_selected l r best v w) \<or> (\<exists>v fee. a = conclude_plan l r best (best - bid) v w fee)"
      by (auto simp: assess_ladder_def Let_def split: option.splits if_split_asm)
    have "wk_rejection w \<in> {None, Some ''taker_edge_below_min'', Some ''taker_ev_below_min''}"
      using walk_rejections [OF w] by (simp add: no_walk_def)
    then show False
      using a assms(2) by (auto simp: nothing_selected_def conclude_plan_def Let_def reject_liquidity_def split: if_split_asm)
  qed
  then show thesis using that ls x q side by blast
qed


lemma best_size_of_asks:
  assumes "levels_ok ls" and "whole_asks ls = x # xs"
  obtains size where "best_size ls = JFloat size"
proof -
  have ne: "ls \<noteq> []" using assms(2) by (auto simp: whole_asks_def List.map_filter_simps)
  then have "fst (last ls) \<in> fst ` set ls" by simp
  then obtain c where "map_of ls (fst (last ls)) = Some c" by (metis map_of_eq_None_iff not_None_eq)
  then show thesis using that best_bid_last [OF assms(1)] ne by (simp add: best_size_def)
qed

lemma fetched_book:
  assumes "fresh_best_quote ft writable now ticker (Inr (JObj ob)) f = Some (Some q, f')"
  obtains b where "q = book_quote b" "book_ok b" "book_priced b"
proof -
  obtain yes no b where b: "apply_snapshot ft now [(''yes'', levels_json yes), (''no'', levels_json no)] empty_book = (b, True)" "q = book_quote b"
    using assms by (auto simp: fresh_best_quote_def split: sum.splits prod.splits bool.splits)
  show thesis
    using that [OF b(2)] b(1) apply_snapshot_ok [of empty_book ft now "[(''yes'', levels_json yes), (''no'', levels_json no)]"] by simp
qed

section \<open>Properties\<close>

text \<open>The books of a feed are well formed. Whatever frames arrive, in whatever order and shape, every book keeps ascending
  prices and no negative count; and if no frame names a price outside the exchange's range, all
  its prices are between 1 and 99 cents.\<close>

theorem books_stay_well_formed:
  assumes "run_frames ft limit arriving 0 (\<lambda>_. None) k = Some b"
  shows "book_ok b \<and> ((\<forall>(now, running, frame) \<in> set arriving. \<forall>v. frame = Some v \<longrightarrow> frame_in_range v) \<longrightarrow> book_priced b)"
proof -
  have r: "b \<in> ran (run_frames ft limit arriving 0 (\<lambda>_. None))" using assms by (rule ranI)
  have "book_ok b" using run_frames_books [of "\<lambda>_. None"] r by simp
  moreover have "book_priced b" if "\<forall>(now, running, frame) \<in> set arriving. \<forall>v. frame = Some v \<longrightarrow> frame_in_range v"
    using run_frames_priced [of "\<lambda>_. None" arriving] r that by force
  ultimately show ?thesis by blast
qed









text \<open>The planner of takers finds the quote of a fetched book inconsistent only for want of a whole contract: the best opposing bid
  then shows less than one, or an infinite count.\<close>

theorem inconsistent_only_for_fractions:
  assumes "fresh_best_quote ft writable now ticker (Inr (JObj ob)) f = Some (Some q, f')"
    and "assess_taker_liquidity ft' l r (qt_fields q) = Some a" and "la_reason a = ''taker_book_inconsistent''"
  shows "\<exists>size. jget (tr_side r @ ''_ask_size'') (qt_fields q) = JFloat size \<and> (\<forall>y. size = Fin y \<longrightarrow> y < 1)"
proof -
  obtain b where b: "q = book_quote b" "book_ok b" "book_priced b" by (rule fetched_book [OF assms(1)])
  obtain best n rest quoted bid where c: "whole_contract_levels ft' (qt_fields q) (tr_side r) = Some ((best, n) # rest)"
    "quoted_prices (qt_fields q) (tr_side r) = Some (Some (quoted, bid))" "quoted \<noteq> best" "tr_side r \<in> {''yes'', ''no''}"
    by (rule assessed_inconsistent [OF assms(2,3)])
  let ?ls = "opposing (tr_side r) b"
  have ok: "levels_ok ?ls" using b(2) by (simp add: book_ok_def opposing_def)
  have ladder: "whole_asks ?ls = (best, n) # rest" using c(1) quoted_ladder [OF b(2,3) c(4)] by (simp add: b(1))
  obtain size where size: "best_size ?ls = JFloat size"
    using ladder by (rule best_size_of_asks [OF ok])
  have "quoted = best" if y: "size = Fin y" "1 \<le> y" for y
  proof -
    obtain m rest' where "whole_asks ?ls = (100 - fst (last ?ls), m) # rest'" "best_ask ?ls = Some (100 - fst (last ?ls))"
      using quoted_ask_is_top [OF ok, of y] size y by auto
    then show ?thesis using c(2) ladder jget_quote_side(2) [OF c(4), of b]
      by (simp add: quoted_prices_def b(1) jopt_int_def int_or_skip_def split: option.splits)
  qed
  then have "\<forall>y. size = Fin y \<longrightarrow> y < 1" using c(3) by (auto simp: not_le [symmetric])
  then show ?thesis using size jget_quote_side(3) [OF c(4), of b] by (simp add: b(1))
qed


section \<open>Concrete feeds\<close>

definition sample_frame :: json where
  "sample_frame = JObj [(''type'', JStr ''orderbook_delta''), (''msg'', JObj [(''market_ticker'', JStr ''M''), (''side'', JStr ''no''),
     (''price'', JInt 55), (''delta'', JInt 5)])]"

lemma float_of_5: "float_of_int 5 = Fin 5" "to_float 5 = Fin 5"
  using float_of_int_small [of 5] by (simp_all add: float_of_int_def)

lemma sample_run: "run_frames ft None [(''t'', True, Some sample_frame)] 0 (\<lambda>_. None) (JStr ''M'') =
    Some \<lparr>bk_yes = [], bk_no = [(55, Fin 5)], bk_seq = JNull, bk_updated = Some ''t''\<rparr>"
  by (simp add: sample_frame_def apply_frame_def dict_key_def apply_delta_def empty_book_def float_of_5 fisfinite_def Let_def change_level_def count_at_def)

lemma books_stay_well_formed_witness: "book_priced \<lparr>bk_yes = [], bk_no = [(55, Fin 5)], bk_seq = JNull, bk_updated = Some ''t''\<rparr>"
  using books_stay_well_formed [OF sample_run [of Map.empty]] by (simp add: frame_in_range_def sample_frame_def)


definition fractional_top :: "(string \<times> json) list" where
  "fractional_top = [(''yes'', JArr [JArr [JInt 50, JInt 5]]), (''no'', JArr [JArr [JInt 45, JFloat (Fin (1 / 2))], JArr [JInt 40, JInt 5]])]"

definition fractional_book :: book_state where
  "fractional_book = \<lparr>bk_yes = [(50, Fin 5)], bk_no = [(40, Fin 5), (45, Fin (1 / 2))], bk_seq = JNull, bk_updated = Some ''t''\<rparr>"

lemma half: "to_float (1 / 2) = Fin (1 / 2)"
  by code_simp

lemma fractional_fetch: "fresh_best_quote ft w ''t'' ''M'' (Inr (JObj fractional_top)) Absent = Some (Some (book_quote fractional_book), Absent)"
  by (simp add: fresh_best_quote_def fractional_top_def fractional_book_def normalize_orderbook_levels_def normalize_level_def level_price_def
    caught_def int_or_skip_def float_or_skip_def fisfinite_def float_of_5 half apply_snapshot_def aggregate_levels_def levels_json_def
    snapshot_level_def add_level_def count_at_def empty_book_def List.map_filter_simps)

lemma inconsistent_only_for_fractions_witness:
  "\<exists>a. assess_taker_liquidity Map.empty default_limits (Liquidity.sample_request 500) (qt_fields (book_quote fractional_book)) = Some a \<and>
     la_reason a = ''taker_book_inconsistent'' \<and> jget ''yes_ask_size'' (qt_fields (book_quote fractional_book)) = JFloat (Fin (1 / 2))"
proof -
  let ?q = "qt_fields (book_quote fractional_book)" and ?r = "Liquidity.sample_request 500"
  have side: "tr_side ?r = ''yes''" by (simp add: Liquidity.sample_request_def)
  have "book_ok fractional_book" "book_priced fractional_book"
    by (simp_all add: fractional_book_def book_ok_def book_priced_def levels_ok_def priced_def)
  then have l: "whole_contract_levels Map.empty ?q ''yes'' = Some [(60, 5)]"
    using quoted_ladder [of fractional_book "''yes''" Map.empty]
    by (simp add: opposing_def fractional_book_def whole_asks_def whole_ask_def List.map_filter_simps)
  have p: "quoted_prices ?q ''yes'' = Some (Some (55, 50))"
    by (simp add: quoted_prices_def book_quote_def fractional_book_def best_ask_def best_bid_def jopt_int_def int_or_skip_def)
  obtain a where a: "assess_taker_liquidity Map.empty default_limits ?r ?q = Some a" "la_reason a = ''taker_book_inconsistent''"
    by (simp add: assess_taker_liquidity_def sample_gates(1) side l p book_rejection_def reject_liquidity_def)
  obtain size where "jget ''yes_ask_size'' ?q = JFloat size"
    using inconsistent_only_for_fractions [OF fractional_fetch [of Map.empty True] a] side by auto
  moreover have "jget ''yes_ask_size'' ?q = JFloat (Fin (1 / 2))"
    unfolding jget_quote by (simp add: fractional_book_def best_size_def best_bid_def)
  ultimately show ?thesis using a by blast
qed

end
