(* ===== verification/KillReconcile.thy ===== *)
theory KillReconcile
  imports PromotionChain Presubmit "HOL-Library.Sublist"
begin

text \<open>
  The cancellation and reconciliation after a kill, \<open>autonomy/kill_reconciliation.py\<close>: who may call the
  broker, which orders are cancelled, what is re-read and what the receipt says of it. The three
  injected broker functions act on an arbitrary world; \<open>Inl\<close> is an exception with its class name.
\<close>

section \<open>Reading answers\<close>

definition KILL_RECONCILIATION_VERSION :: string where
  "KILL_RECONCILIATION_VERSION = ''dummy-kill-reconciliation-v1''"

definition dict_rows :: "json list \<Rightarrow> (string \<times> json) list list" where
  "dict_rows xs = List.map_filter (\<lambda>x. case x of JObj row \<Rightarrow> Some row | _ \<Rightarrow> None) xs"

definition response_rows :: "string \<Rightarrow> json \<Rightarrow> string + (string \<times> json) list list" where
  "response_rows key v =
     (case (case v of JObj d \<Rightarrow> jget key d | _ \<Rightarrow> v) of
        JArr xs \<Rightarrow> Inr (dict_rows xs)
      | _ \<Rightarrow> Inl ''ValueError'')"

definition TERMINAL_STATUS :: "string list" where
  "TERMINAL_STATUS = [''canceled'', ''cancelled'', ''executed'', ''filled'', ''expired'']"

definition order_status :: "(json \<Rightarrow> string) \<Rightarrow> (string \<times> json) list \<Rightarrow> string" where
  "order_status rp row = lower (strip (str_of_json rp (por (jget ''status'' row) (JStr ''open''))))"

definition open_orders :: "(json \<Rightarrow> string) \<Rightarrow> json \<Rightarrow> string + (string \<times> json) list list" where
  "open_orders rp v = map_sum id (filter (\<lambda>row. order_status rp row \<notin> set TERMINAL_STATUS)) (response_rows ''orders'' v)"

text \<open>The quantity a row states, and the row if it is a residual; an infinite one raises.\<close>

definition stated_quantity :: "(string \<times> json) list \<Rightarrow> json" where
  "stated_quantity row =
     (if jget ''position'' row \<noteq> JNull then jget ''position'' row else jget_default ''quantity'' (jget_default ''count'' (JInt 0) row) row)"

definition residual_row :: "(string \<times> json) list \<Rightarrow> (string \<times> json) list option option" where
  "residual_row row =
     map_option (\<lambda>n. case n of
         None \<Rightarrow> Some (jput ''quantity_parse_error'' (JBool True) row)
       | Some q \<Rightarrow> if q = 0 then None else Some (jput ''reconciled_quantity'' (JInt q) row))
       (int_or_skip (stated_quantity row))"

definition residual_positions :: "json \<Rightarrow> string + (string \<times> json) list list" where
  "residual_positions v =
     (case response_rows ''positions'' v of
        Inl e \<Rightarrow> Inl e
      | Inr rows \<Rightarrow> (case option_all residual_row rows of None \<Rightarrow> Inl ''OverflowError'' | Some rs \<Rightarrow> Inr (List.map_filter id rs)))"

section \<open>Cancelling\<close>

datatype kill_call = List_Orders | Cancel_Order string | List_Positions

record 'w kill_broker =
  kb_orders :: "'w \<Rightarrow> (string + json) \<times> 'w"
  kb_cancel :: "string \<Rightarrow> 'w \<Rightarrow> string option \<times> 'w"
  kb_positions :: "'w \<Rightarrow> (string + json) \<times> 'w"

definition listed_id :: "(json \<Rightarrow> string) \<Rightarrow> (string \<times> json) list \<Rightarrow> string" where
  "listed_id rp row = strip (str_of_json rp (por (por (jget ''order_id'' row) (jget ''id'' row)) (JStr [])))"

text \<open>What the loop over the orders carries: the cancelled, the failures, the calls and the world.\<close>

record 'w cancel_state =
  cs_canceled :: "string list"
  cs_failures :: "(string \<times> string) list"
  cs_calls :: "kill_call list"
  cs_world :: 'w

definition cancel_one :: "(json \<Rightarrow> string) \<Rightarrow> 'w kill_broker \<Rightarrow> (string \<times> json) list \<Rightarrow> 'w cancel_state \<Rightarrow> 'w cancel_state" where
  "cancel_one rp b row s =
     (let oid = listed_id rp row in
      if oid = [] then s\<lparr>cs_failures := cs_failures s @ [([], ''missing_order_id'')]\<rparr>
      else (case kb_cancel b oid (cs_world s) of (e, w) \<Rightarrow>
        (let called = s\<lparr>cs_calls := cs_calls s @ [Cancel_Order oid], cs_world := w\<rparr> in
         case e of
           None \<Rightarrow> called\<lparr>cs_canceled := cs_canceled s @ [oid]\<rparr>
         | Some name \<Rightarrow> called\<lparr>cs_failures := cs_failures s @ [(oid, name)]\<rparr>)))"

section \<open>The receipt\<close>

definition failures_json :: "(string \<times> string) list \<Rightarrow> json" where
  "failures_json fs = JArr (map (\<lambda>(i, e). JObj [(''order_id'', JStr i), (''error'', JStr e)]) fs)"

text \<open>A value that \<open>json.dumps(allow_nan=False)\<close> writes; it raises for the others.\<close>

function (sequential) all_finite_json :: "json \<Rightarrow> bool" where
  "all_finite_json (JArr xs) = list_all all_finite_json xs"
| "all_finite_json (JObj d) = list_all (\<lambda>(_, v). all_finite_json v) d"
| "all_finite_json (JFloat x) = fisfinite x"
| "all_finite_json _ = True"
  by pat_completeness auto
termination
proof (relation "measure size")
  show "wf (measure size)" by simp
  fix xs :: "json list" and x
  show "x \<in> set xs \<Longrightarrow> (x, JArr xs) \<in> measure size" by (induction xs) auto
  fix d :: "(string \<times> json) list" and p :: "string \<times> json" and k v
  show "p \<in> set d \<Longrightarrow> (k, v) = p \<Longrightarrow> (v, JObj d) \<in> measure size" by (induction d) auto
qed

definition stamp_receipt :: "(json \<Rightarrow> string) \<Rightarrow> (string \<times> json) list \<Rightarrow> (string \<times> json) list option" where
  "stamp_receipt sha d =
     (if all_finite_json (JObj d) then Some (d @ [(''receipt_sha256'', JStr (sha (canonical (JObj d))))]) else None)"

text \<open>The receipt of a run that calls nobody.\<close>

definition blocked_receipt :: "clock \<Rightarrow> string \<Rightarrow> bool \<Rightarrow> (string \<times> json) list" where
  "blocked_receipt clk status authority =
     [(''kill_reconciliation_version'', JStr KILL_RECONCILIATION_VERSION), (''generated_at'', JStr (iso_now clk)), (''status'', JStr status),
      (''submission_authority'', JBool False), (''cancel_authority'', JBool authority), (''broker_contacted'', JBool False),
      (''canceled_order_ids'', JArr []), (''open_orders_after'', JNull), (''residual_positions'', JNull),
      (''flat_book_observed'', JBool False), (''liquidation_attempted'', JBool False)]"

definition queued_receipt :: "clock \<Rightarrow> string \<Rightarrow> (string \<times> json) list" where
  "queued_receipt clk asserted =
     [(''kill_reconciliation_version'', JStr KILL_RECONCILIATION_VERSION), (''generated_at'', JStr (iso_now clk)), (''kill_asserted_at'', JStr asserted),
      (''status'', JStr ''PENDING_CANCEL_AND_RECONCILE''), (''submission_authority'', JBool False), (''cancel_authority'', JBool False),
      (''broker_contacted'', JBool False), (''canceled_order_ids'', JArr []), (''open_orders_after'', JNull), (''residual_positions'', JNull),
      (''flat_book_observed'', JBool False), (''liquidation_attempted'', JBool False),
      (''operator_action'', JStr ''run the separately authorized central cancellation and reconciliation procedure'')]"

definition failed_receipt :: "clock \<Rightarrow> string \<Rightarrow> bool \<Rightarrow> 'w cancel_state \<Rightarrow> (string \<times> json) list" where
  "failed_receipt clk e contacted s =
     [(''kill_reconciliation_version'', JStr KILL_RECONCILIATION_VERSION), (''generated_at'', JStr (iso_now clk)), (''status'', JStr ''RECONCILIATION_FAILED''),
      (''error'', JStr e), (''submission_authority'', JBool False), (''cancel_authority'', JBool True), (''broker_contacted'', JBool contacted),
      (''canceled_order_ids'', JArr (map JStr (sort (cs_canceled s)))), (''cancellation_failures'', failures_json (cs_failures s)),
      (''open_orders_after'', JNull), (''residual_positions'', JNull), (''flat_book_observed'', JBool False), (''liquidation_attempted'', JBool False)]"

definition reconciled_status :: "(string \<times> json) list list \<Rightarrow> (string \<times> json) list list \<Rightarrow> 'w cancel_state \<Rightarrow> string" where
  "reconciled_status after residual s =
     (if after \<noteq> [] then ''INCOMPLETE_OPEN_ORDERS''
      else if residual \<noteq> [] then ''CANCELED_RESIDUAL_POSITIONS''
      else if cs_failures s \<noteq> [] then ''CANCELLATION_FAILURES_RECONCILED_FLAT''
      else ''CANCELED_NO_RESIDUAL_POSITIONS'')"

definition reconciled_receipt :: "clock \<Rightarrow> (string \<times> json) list list \<Rightarrow> (string \<times> json) list list \<Rightarrow> 'w cancel_state \<Rightarrow> (string \<times> json) list" where
  "reconciled_receipt clk after residual s =
     [(''kill_reconciliation_version'', JStr KILL_RECONCILIATION_VERSION), (''generated_at'', JStr (iso_now clk)),
      (''status'', JStr (reconciled_status after residual s)), (''submission_authority'', JBool False), (''cancel_authority'', JBool True),
      (''broker_contacted'', JBool True), (''canceled_order_ids'', JArr (map JStr (sort (cs_canceled s)))),
      (''cancellation_failures'', failures_json (cs_failures s)), (''open_orders_after'', JArr (map JObj after)),
      (''residual_positions'', JArr (map JObj residual)), (''flat_book_observed'', JBool (after = [] \<and> residual = [])),
      (''liquidation_attempted'', JBool False)]"

section \<open>The procedure\<close>

definition start_state :: "'w \<Rightarrow> 'w cancel_state" where
  "start_state w = \<lparr>cs_canceled = [], cs_failures = [], cs_calls = [List_Orders], cs_world = w\<rparr>"

text \<open>The two readings after the cancellations.\<close>

definition reread :: "(json \<Rightarrow> string) \<Rightarrow> 'w kill_broker \<Rightarrow> clock \<Rightarrow> 'w cancel_state \<Rightarrow> (string \<times> json) list \<times> kill_call list \<times> 'w" where
  "reread rp b clk s =
     (case kb_orders b (cs_world s) of (answer1, w1) \<Rightarrow>
        (let calls1 = cs_calls s @ [List_Orders] in
         case answer1 of Inl e \<Rightarrow> (failed_receipt clk e True s, calls1, w1) | Inr v \<Rightarrow>
         (case open_orders rp v of Inl e \<Rightarrow> (failed_receipt clk e True s, calls1, w1) | Inr after \<Rightarrow>
          (case kb_positions b w1 of (answer2, w2) \<Rightarrow>
            (let calls2 = calls1 @ [List_Positions] in
             case answer2 of Inl e \<Rightarrow> (failed_receipt clk e True s, calls2, w2) | Inr u \<Rightarrow>
             (case residual_positions u of Inl e \<Rightarrow> (failed_receipt clk e True s, calls2, w2) | Inr residual \<Rightarrow>
               (reconciled_receipt clk after residual s, calls2, w2)))))))"

definition cancel_and_reconcile :: "(json \<Rightarrow> string) \<Rightarrow> 'w kill_broker \<Rightarrow> clock \<Rightarrow> 'w \<Rightarrow> (string \<times> json) list \<times> kill_call list \<times> 'w" where
  "cancel_and_reconcile rp b clk w =
     (case kb_orders b w of (first, w1) \<Rightarrow>
        (let s = start_state w1 in
         case first of Inl e \<Rightarrow> (failed_receipt clk e False s, [List_Orders], w1) | Inr v \<Rightarrow>
         (case open_orders rp v of Inl e \<Rightarrow> (failed_receipt clk e False s, [List_Orders], w1) | Inr before \<Rightarrow>
          reread rp b clk (fold (cancel_one rp b) before s))))"

text \<open>
  \<open>execute_kill_reconciliation\<close>: the receipt returned, or \<open>None\<close> if stamping or writing it raises, the
  calls made, the file and the world afterwards. \<open>path\<close> tells whether there is a receipt path, \<open>writable\<close> whether
  the write succeeds.
\<close>

definition write_receipt :: "bool \<Rightarrow> bool \<Rightarrow> (string \<times> json) list option \<Rightarrow> json_file \<Rightarrow> (string \<times> json) list option \<times> json_file" where
  "write_receipt path writable stamped f =
     (case stamped of
        None \<Rightarrow> (None, f)
      | Some d \<Rightarrow> if \<not> path then (Some d, f) else if writable then (Some d, Holds (canonical (JObj d))) else (None, f))"

definition execute_kill_reconciliation ::
  "(json \<Rightarrow> string) \<Rightarrow> (json \<Rightarrow> string) \<Rightarrow> 'w kill_broker \<Rightarrow> clock \<Rightarrow> bool \<Rightarrow> bool \<Rightarrow> bool \<Rightarrow> bool \<Rightarrow> json_file \<Rightarrow> 'w \<Rightarrow>
   (string \<times> json) list option \<times> kill_call list \<times> json_file \<times> 'w" where
  "execute_kill_reconciliation sha rp b clk path writable kill_active authorized f w =
     (case (if \<not> kill_active then (blocked_receipt clk ''BLOCKED_KILL_SWITCH_NOT_ACTIVE'' authorized, [], w)
            else if \<not> authorized then (blocked_receipt clk ''CANCEL_AUTHORITY_REQUIRED'' False, [], w)
            else cancel_and_reconcile rp b clk w) of (d, calls, w') \<Rightarrow>
        (case write_receipt path writable (stamp_receipt sha d) f of (r, f') \<Rightarrow> (r, calls, f', w')))"

definition queue_kill_reconciliation ::
  "(json \<Rightarrow> string) \<Rightarrow> clock \<Rightarrow> bool \<Rightarrow> bool \<Rightarrow> string \<Rightarrow> json_file \<Rightarrow> (string \<times> json) list option \<times> json_file" where
  "queue_kill_reconciliation sha clk path writable asserted f = write_receipt path writable (stamp_receipt sha (queued_receipt clk asserted)) f"

section \<open>Lemmas\<close>











text \<open>What a receipt that claims a flat book rests on.\<close>

lemma finite_lists [simp]:
  "list_all all_finite_json (map JStr xs)" "all_finite_json (failures_json fs)"
  "list_all all_finite_json (map JObj rows) \<longleftrightarrow> list_all (\<lambda>row. all_finite_json (JObj row)) rows"
  by (induction xs) (simp_all add: failures_json_def list_all_iff split: prod.splits)









section \<open>A broker that does what it is told\<close>

text \<open>Its world is the open orders; it lists them, and a cancellation removes the order.\<close>

definition listed_order :: "string \<Rightarrow> json" where
  "listed_order i = JObj [(''order_id'', JStr i)]"

definition honest_broker :: "json \<Rightarrow> string list kill_broker" where
  "honest_broker positions =
     \<lparr>kb_orders = (\<lambda>ids. (Inr (JObj [(''orders'', JArr (map listed_order ids))]), ids)),
      kb_cancel = (\<lambda>i ids. (None, removeAll i ids)), kb_positions = (\<lambda>ids. (Inr positions, ids))\<rparr>"

lemma honest_open_orders:
  "open_orders rp (JObj [(''orders'', JArr (map listed_order ids))]) = Inr (map (\<lambda>i. [(''order_id'', JStr i)]) ids)"
proof -
  have "dict_rows (map listed_order ids) = map (\<lambda>i. [(''order_id'', JStr i)]) ids"
    by (induction ids) (simp_all add: dict_rows_def listed_order_def List.map_filter_simps)
  moreover have "order_status rp [(''order_id'', JStr i)] \<notin> set TERMINAL_STATUS" for i
  proof -
    have "lower (strip ''open'') \<notin> set TERMINAL_STATUS" by code_simp
    then show ?thesis by (simp add: order_status_def por_def)
  qed
  ultimately show ?thesis by (simp add: open_orders_def response_rows_def)
qed

lemma honest_cancels:
  "\<forall>i \<in> set ids. i \<noteq> [] \<and> strip i = i \<Longrightarrow>
   fold (cancel_one rp (honest_broker positions)) (map (\<lambda>i. [(''order_id'', JStr i)]) ids) s =
     s\<lparr>cs_canceled := cs_canceled s @ ids, cs_calls := cs_calls s @ map Cancel_Order ids, cs_world := filter (\<lambda>i. i \<notin> set ids) (cs_world s)\<rparr>"
proof (induction ids arbitrary: s)
  case (Cons i ids)
  have "filter (\<lambda>j. j \<notin> set ids) (removeAll i (cs_world s)) = filter (\<lambda>j. j \<notin> set (i # ids)) (cs_world s)"
    by (induction "cs_world s" arbitrary: s rule: list.induct) (auto simp: removeAll_filter_not_eq intro!: filter_cong)
  then show ?case using Cons by (simp add: cancel_one_def listed_id_def por_def honest_broker_def Let_def)
qed simp

section \<open>Properties\<close>




text \<open>C40: What a receipt can hide. Rows of positions that are no objects, that name their quantity otherwise, or that hold half a contract
  leave a receipt of a flat book; a first answer that cannot be read leaves one that denies
  contact with the broker that gave it; and a quantity that is no number lets the run raise after
  the cancellations, with no receipt written.\<close>

theorem receipt_can_mislead:
  defines "held \<equiv> JArr [JStr ''KXM-1'', JObj [(''ticker'', JStr ''KXM-2''), (''position_fp'', JStr ''10.00'')], JObj [(''ticker'', JStr ''KXM-3''), (''position'', JFloat (Fin (1 / 2)))]]"
  shows "map_option (\<lambda>d. (jget ''status'' d, jget ''flat_book_observed'' d))
      (fst (execute_kill_reconciliation sha rp (honest_broker held) clk False True True True f [])) =
      Some (JStr ''CANCELED_NO_RESIDUAL_POSITIONS'', JBool True) \<and>
    (case execute_kill_reconciliation sha rp ((honest_broker held)\<lparr>kb_orders := (\<lambda>w. (Inr (JStr ''maintenance''), w))\<rparr>) clk False True True True f [''A''] of
       (r, calls, rest) \<Rightarrow> calls = [List_Orders] \<and> map_option (jget ''broker_contacted'') r = Some (JBool False)) \<and>
    execute_kill_reconciliation sha rp (honest_broker (JArr [JObj [(''position'', JFloat NaN)]])) clk True True True True f [''A''] =
      (None, [List_Orders, Cancel_Order ''A'', List_Orders, List_Positions], f, [])"
proof -
  have none: "open_orders rp (JObj [(''orders'', JArr [])]) = Inr []" using honest_open_orders [of rp "[]"] by simp
  have "int_of_float (Fin (1 / 2)) = Some 0" by code_simp
  then have held: "residual_positions held = Inr []"
    by (simp add: held_def residual_positions_def response_rows_def dict_rows_def List.map_filter_simps residual_row_def stated_quantity_def int_or_skip_def
        jget_default_def)
  have bad: "open_orders rp (JStr s) = Inl ''ValueError''" for s by (simp add: open_orders_def response_rows_def)
  have nan: "residual_positions (JArr [JObj [(''position'', JFloat NaN)]]) = Inr [[(''position'', JFloat NaN), (''quantity_parse_error'', JBool True)]]"
    by (simp add: residual_positions_def response_rows_def dict_rows_def List.map_filter_simps residual_row_def stated_quantity_def int_or_skip_def int_of_float_def)
  have a: "\<forall>i \<in> set [''A'']. i \<noteq> [] \<and> strip i = i" by code_simp
  have "execute_kill_reconciliation sha rp (honest_broker (JArr [JObj [(''position'', JFloat NaN)]])) clk True True True True f [''A''] =
      (None, [List_Orders, Cancel_Order ''A'', List_Orders, List_Positions], f, [])"
    using honest_cancels [OF a, of rp "JArr [JObj [(''position'', JFloat NaN)]]" "start_state [''A'']"] honest_open_orders [of rp "[''A'']"]
    by (simp add: execute_kill_reconciliation_def cancel_and_reconcile_def honest_broker_def none nan reread_def start_state_def write_receipt_def
        reconciled_receipt_def stamp_receipt_def fisfinite_def Let_def)
  then show ?thesis
    by (simp add: execute_kill_reconciliation_def cancel_and_reconcile_def honest_broker_def none bad held reread_def start_state_def write_receipt_def
        reconciled_receipt_def reconciled_status_def failed_receipt_def stamp_receipt_def Let_def)
qed

section \<open>A concrete run\<close>







end
