(* ===== verification/PromotionEvidence.thy ===== *)
theory PromotionEvidence
  imports Allocation Presubmit "HOL-Library.Monad_Syntax"
begin

text \<open>
  The evidence on which scopes enter and leave the fusion, \<open>autonomy/auto_promotion.py\<close> up to its rails,
  with \<open>cluster_series\<close> of \<open>autonomy/promotion.py\<close>, \<open>mean_ci95\<close> of \<open>autonomy/stats.py\<close> and \<open>_brier_edge\<close> of
  \<open>autonomy/strategy_miner.py\<close>. A dict is an association list in insertion order. \<open>None\<close> is an
  exception that leaves the function.
\<close>

section \<open>What the engine uses from the standard library\<close>

text \<open>
  \<open>pl_draws s k i\<close> is the \<open>i\<close>-th \<open>randrange(k)\<close> of \<open>random.Random(s)\<close>; \<open>pl_square\<close> is \<open>x ** 2\<close> (\<open>None\<close>: OverflowError),
  \<open>pl_root\<close> is \<open>x ** 0.5\<close> and \<open>pl_sqrt\<close> is \<open>math.sqrt\<close> of a number that is not negative; \<open>pl_local\<close> is \<open>timestamp()\<close> of
  a time without offset; \<open>pl_compensated\<close>: whether \<open>sum\<close> compensates, as from Python 3.12 on.
\<close>

record promo_lib =
  pl_codec :: codec
  pl_local :: "int \<Rightarrow> pyfloat option"
  pl_float_text :: "string \<Rightarrow> pyfloat option"
  pl_draws :: "string \<Rightarrow> int \<Rightarrow> nat \<Rightarrow> nat"
  pl_square :: "pyfloat \<Rightarrow> pyfloat option"
  pl_root :: "pyfloat \<Rightarrow> pyfloat"
  pl_sqrt :: "pyfloat \<Rightarrow> pyfloat"
  pl_compensated :: bool
  pl_today :: int

abbreviation fsum :: "promo_lib \<Rightarrow> pyfloat list \<Rightarrow> pyfloat" where
  "fsum b xs \<equiv> py_sum (pl_compensated b) xs"

text \<open>\<open>x / n\<close> for a positive int \<open>n\<close>.\<close>

definition fdiv_int :: "pyfloat \<Rightarrow> int \<Rightarrow> pyfloat" where
  "fdiv_int x n = (case fdiv x (float_of_int n) of Some y \<Rightarrow> y | None \<Rightarrow> NaN)"

definition fmean :: "promo_lib \<Rightarrow> pyfloat list \<Rightarrow> pyfloat" where
  "fmean b xs = fdiv_int (fsum b xs) (int (length xs))"

section \<open>Configuration\<close>

definition CONTESTED_DISAGREEMENT :: pyfloat where "CONTESTED_DISAGREEMENT = to_float (5 / 100)"
definition STAGE1_WEIGHT_FRACTION :: pyfloat where "STAGE1_WEIGHT_FRACTION = Fin (1 / 4)"
definition STAGE2_WEIGHT_FRACTION :: pyfloat where "STAGE2_WEIGHT_FRACTION = Fin 1"
definition MIN_CLUSTERS :: int where "MIN_CLUSTERS = 300"
definition MIN_CLUSTERS_NO_CLV :: int where "MIN_CLUSTERS_NO_CLV = 450"
definition MIN_SPAN_DAYS :: pyfloat where "MIN_SPAN_DAYS = Fin 7"
definition MIN_BEAT_RATE :: pyfloat where "MIN_BEAT_RATE = to_float (55 / 100)"
definition CORRELATION_CAP :: pyfloat where "CORRELATION_CAP = to_float (8 / 10)"
definition MIN_CORR_OVERLAP :: int where "MIN_CORR_OVERLAP = 5"
definition MAX_PROMOTIONS_PER_DAY :: int where "MAX_PROMOTIONS_PER_DAY = 2"
definition STAGE2_MIN_TRADES :: int where "STAGE2_MIN_TRADES = 50"
definition STAGE1_MIN_FORWARD_TRADES :: int where "STAGE1_MIN_FORWARD_TRADES = 50"
definition STAGE1_MIN_FORWARD_CLUSTERS :: int where "STAGE1_MIN_FORWARD_CLUSTERS = 30"
definition STAGE1_MIN_FORWARD_SPAN_DAYS :: pyfloat where "STAGE1_MIN_FORWARD_SPAN_DAYS = Fin 7"
definition ARTIFACT_STALE_HOURS :: pyfloat where "ARTIFACT_STALE_HOURS = Fin 24"
definition BOOTSTRAP_SAMPLES :: nat where "BOOTSTRAP_SAMPLES = 1000"
definition FORWARD_EVIDENCE_VERSION :: string where "FORWARD_EVIDENCE_VERSION = ''promotion_forward_fill_v1''"
definition DEGRADE_TRAIL_CLUSTERS :: nat where "DEGRADE_TRAIL_CLUSTERS = 100"
definition DEGRADE_EDGE_FLOOR :: pyfloat where "DEGRADE_EDGE_FLOOR = to_float (- 5 / 1000)"
definition DEMOTE_TRAIL_CLUSTERS :: nat where "DEMOTE_TRAIL_CLUSTERS = 200"

record promotion_config =
  cg_stage1_weight :: pyfloat
  cg_stage2_weight :: pyfloat
  cg_min_clusters :: int
  cg_min_clusters_no_clv :: int
  cg_min_span_days :: pyfloat
  cg_min_beat_rate :: pyfloat
  cg_correlation_cap :: pyfloat
  cg_min_corr_overlap :: int
  cg_max_promotions_per_day :: int
  cg_stage2_min_trades :: int
  cg_forward_trades :: int
  cg_forward_clusters :: int
  cg_forward_span_days :: pyfloat
  cg_contested_disagreement :: pyfloat
  cg_roi_min_roi :: pyfloat
  cg_allow_modeled :: bool
  cg_minimal_bar :: bool
  cg_minimal_span_days :: pyfloat
  cg_minimal_trades :: int
  cg_minimal_clusters :: int
  cg_roi_min_clusters :: int
  cg_roi_min_span_days :: pyfloat

text \<open>\<open>DEFAULT_CONFIG\<close> from the two arming variables of the environment.\<close>

definition arming :: "string option \<Rightarrow> bool" where
  "arming raw \<longleftrightarrow> strip (case raw of None \<Rightarrow> ''0'' | Some s \<Rightarrow> s) = ''1''"

definition default_config :: "string option \<Rightarrow> string option \<Rightarrow> promotion_config" where
  "default_config modeled_env minimal_env =
     \<lparr>cg_stage1_weight = STAGE1_WEIGHT_FRACTION, cg_stage2_weight = STAGE2_WEIGHT_FRACTION, cg_min_clusters = MIN_CLUSTERS,
      cg_min_clusters_no_clv = MIN_CLUSTERS_NO_CLV, cg_min_span_days = MIN_SPAN_DAYS, cg_min_beat_rate = MIN_BEAT_RATE,
      cg_correlation_cap = CORRELATION_CAP, cg_min_corr_overlap = MIN_CORR_OVERLAP, cg_max_promotions_per_day = MAX_PROMOTIONS_PER_DAY,
      cg_stage2_min_trades = STAGE2_MIN_TRADES, cg_forward_trades = STAGE1_MIN_FORWARD_TRADES,
      cg_forward_clusters = STAGE1_MIN_FORWARD_CLUSTERS, cg_forward_span_days = STAGE1_MIN_FORWARD_SPAN_DAYS,
      cg_contested_disagreement = CONTESTED_DISAGREEMENT, cg_roi_min_roi = to_float (5 / 100), cg_allow_modeled = arming modeled_env,
      cg_minimal_bar = arming minimal_env, cg_minimal_span_days = Fin 0, cg_minimal_trades = 5, cg_minimal_clusters = 3,
      cg_roi_min_clusters = 200, cg_roi_min_span_days = Fin 7\<rparr>"

text \<open>\<open>resolved_forward_gates\<close>: trades, clusters, days.\<close>

definition forward_gates :: "promotion_config \<Rightarrow> pyfloat \<times> pyfloat \<times> pyfloat" where
  "forward_gates cfg =
     (if \<not> cg_minimal_bar cfg then (float_of_int (cg_forward_trades cfg), float_of_int (cg_forward_clusters cfg), cg_forward_span_days cfg)
      else (float_of_int (cg_minimal_trades cfg), float_of_int (cg_minimal_clusters cfg), cg_minimal_span_days cfg))"

definition bar_text :: "promotion_config \<Rightarrow> string" where
  "bar_text cfg = (if cg_minimal_bar cfg then ''minimal'' else ''standard'')"

definition config_dict :: "promotion_config \<Rightarrow> (string \<times> json) list" where
  "config_dict cfg =
     (case forward_gates cfg of (trades, clusters, days) \<Rightarrow>
       [(''stage1_weight_fraction'', JFloat (cg_stage1_weight cfg)), (''stage2_weight_fraction'', JFloat (cg_stage2_weight cfg)),
        (''min_clusters'', JInt (cg_min_clusters cfg)), (''min_clusters_no_clv'', JInt (cg_min_clusters_no_clv cfg)),
        (''min_span_days'', JFloat (cg_min_span_days cfg)), (''min_beat_rate'', JFloat (cg_min_beat_rate cfg)),
        (''correlation_cap'', JFloat (cg_correlation_cap cfg)), (''min_corr_overlap'', JInt (cg_min_corr_overlap cfg)),
        (''max_promotions_per_day'', JInt (cg_max_promotions_per_day cfg)), (''stage2_min_trades'', JInt (cg_stage2_min_trades cfg)),
        (''stage1_min_forward_trades'', JFloat trades), (''stage1_min_forward_clusters'', JFloat clusters),
        (''stage1_min_forward_span_days'', JFloat days), (''bar'', JStr (bar_text cfg)),
        (''strict_stage1_min_forward_trades'', JInt (cg_forward_trades cfg)),
        (''strict_stage1_min_forward_clusters'', JInt (cg_forward_clusters cfg)),
        (''strict_stage1_min_forward_span_days'', JFloat (cg_forward_span_days cfg)),
        (''allow_modeled_fill_evidence'', JBool (cg_allow_modeled cfg)), (''contested_disagreement'', JFloat (cg_contested_disagreement cfg)),
        (''roi_path_min_roi'', JFloat (cg_roi_min_roi cfg)), (''roi_path_min_clusters'', JInt (cg_roi_min_clusters cfg)),
        (''roi_path_min_span_days'', JFloat (cg_roi_min_span_days cfg))])"

section \<open>Settled emissions\<close>

record settled_row =
  rw_source :: string
  rw_ticker :: string
  rw_event_cluster :: string
  rw_created_at :: string
  rw_probability_yes :: pyfloat
  rw_market_probability :: pyfloat
  rw_result_yes :: bool
  rw_features :: "(string \<times> json) list"
  rw_scope :: string

definition clamp01 :: "pyfloat \<Rightarrow> pyfloat" where
  "clamp01 v = fmin (Fin 1) (fmax (Fin 0) v)"

definition favors_yes :: "settled_row \<Rightarrow> bool" where
  "favors_yes r \<longleftrightarrow> fle (clamp01 (rw_market_probability r)) (rw_probability_yes r)"

definition entry_cost :: "settled_row \<Rightarrow> pyfloat" where
  "entry_cost r = (if favors_yes r then clamp01 (rw_market_probability r) else fsub (Fin 1) (clamp01 (rw_market_probability r)))"

definition settled :: "settled_row \<Rightarrow> pyfloat" where
  "settled r = (if rw_result_yes r then Fin 1 else Fin 0)"

text \<open>The price in cents; the clamped probability is a number between 0 and 1.\<close>

definition counterfactual_price :: "settled_row \<Rightarrow> int" where
  "counterfactual_price r =
     (case fmul (clamp01 (rw_market_probability r)) (Fin 100) of Fin y \<Rightarrow> min 99 (max 1 (round_half_even y)) | _ \<Rightarrow> 1)"

definition counterfactual_pnl :: "promo_lib \<Rightarrow> settled_row \<Rightarrow> pyfloat option" where
  "counterfactual_pnl b r =
     (let payoff = (if favors_yes r then settled r else fsub (Fin 1) (settled r)) in
      map_option (\<lambda>fee. fsub (fsub payoff (entry_cost r)) (fdiv_int (float_of_int fee) 100))
        (kalshi_maker_fee_cents (pl_today b) (counterfactual_price r) 1 (Some (rw_ticker r)) None))"

definition is_contested :: "pyfloat \<Rightarrow> settled_row \<Rightarrow> bool" where
  "is_contested disagreement r \<longleftrightarrow> fle disagreement (fabs (fsub (rw_probability_yes r) (clamp01 (rw_market_probability r))))"

definition brier_edge :: "promo_lib \<Rightarrow> settled_row \<Rightarrow> pyfloat option" where
  "brier_edge b r = do {
     market \<leftarrow> pl_square b (fsub (rw_market_probability r) (settled r));
     model \<leftarrow> pl_square b (fsub (rw_probability_yes r) (settled r));
     Some (fsub market model) }"

text \<open>\<open>None\<close>: the text is not a time.\<close>

definition row_ts :: "promo_lib \<Rightarrow> settled_row \<Rightarrow> pyfloat option" where
  "row_ts b r =
     (case from_iso (pl_codec b) (z_to_offset (rw_created_at r)) of
        None \<Rightarrow> None
      | Some (Aware us) \<Rightarrow> Some (timestamp us)
      | Some (Naive us) \<Rightarrow> pl_local b us)"

text \<open>\<open>d.setdefault(k, []).append(v)\<close>.\<close>

fun push_value :: "string \<Rightarrow> 'a \<Rightarrow> (string \<times> 'a list) list \<Rightarrow> (string \<times> 'a list) list" where
  "push_value k v [] = [(k, [v])]"
| "push_value k v ((k', vs) # d) = (if k = k' then (k', vs @ [v]) # d else (k', vs) # push_value k v d)"

definition group_values :: "(string \<times> 'a) list \<Rightarrow> (string \<times> 'a list) list" where
  "group_values xs = fold (\<lambda>(k, v). push_value k v) xs []"

definition span_of :: "pyfloat list \<Rightarrow> pyfloat" where
  "span_of ts = (case ts of [] \<Rightarrow> Fin 0 | t # us \<Rightarrow> fdiv_int (fsub (fold (\<lambda>x m. fmax m x) us t) (fold (\<lambda>x m. fmin m x) us t)) 86400)"

section \<open>The cluster bootstrap\<close>

definition percentile :: "pyfloat list \<Rightarrow> pyfloat \<Rightarrow> pyfloat" where
  "percentile xs q =
     (let ordered = sort xs in
      if ordered = [] then Fin 0
      else (case fmul (float_of_int (int (length ordered) - 1)) q of
          Fin position \<Rightarrow>
            (let lower = nat (trunc_rat position); upper = min (length ordered - 1) (lower + 1);
                 part = fsub (Fin position) (float_of_int (int lower))
             in fadd (fmul (ordered ! lower) (fsub (Fin 1) part)) (fmul (ordered ! upper) part))
        | _ \<Rightarrow> NaN))"

record boot_ci =
  bo_mean :: pyfloat
  bo_lower :: pyfloat
  bo_upper :: pyfloat
  bo_clusters :: int
  bo_family :: int
  bo_resamples :: int

definition boot_sample :: "promo_lib \<Rightarrow> string \<Rightarrow> (pyfloat \<times> int) list \<Rightarrow> nat \<Rightarrow> pyfloat" where
  "boot_sample b seed aggregates j =
     (let k = length aggregates; picks = map (\<lambda>i. aggregates ! pl_draws b seed (int k) (j * k + i)) [0..<k]
      in fdiv_int (fold (\<lambda>x acc. fadd acc (fst x)) picks (Fin 0)) (sum_list (map snd picks)))"

definition cluster_bootstrap_ci :: "promo_lib \<Rightarrow> string \<Rightarrow> int \<Rightarrow> (string \<times> pyfloat list) list \<Rightarrow> boot_ci option" where
  "cluster_bootstrap_ci b seed family_size values_by_cluster =
     (let aggregates = map (\<lambda>(c, vs). (fsum b vs, int (length vs))) (filter (\<lambda>(c, vs). vs \<noteq> []) values_by_cluster);
          observed = fdiv_int (fsum b (map fst aggregates)) (sum_list (map snd aggregates)); family = max 1 family_size;
          samples = map (boot_sample b seed aggregates) [0..<BOOTSTRAP_SAMPLES];
          alpha = fdiv_int (to_float (25 / 1000)) family;
          (lo, hi) = (if length aggregates = 1 then (observed, observed)
            else (percentile samples alpha, percentile samples (fsub (Fin 1) alpha)))
      in if aggregates = [] then None
         else Some \<lparr>bo_mean = py_round 6 observed, bo_lower = py_round 6 lo, bo_upper = py_round 6 hi,
           bo_clusters = int (length aggregates), bo_family = family,
           bo_resamples = (if 1 < length aggregates then int BOOTSTRAP_SAMPLES else 0)\<rparr>)"

definition boot_dict :: "boot_ci option \<Rightarrow> json" where
  "boot_dict ci =
     (case ci of
        None \<Rightarrow> JNull
      | Some c \<Rightarrow> JObj [(''mean'', JFloat (bo_mean c)), (''lower'', JFloat (bo_lower c)), (''upper'', JFloat (bo_upper c)),
          (''clusters'', JInt (bo_clusters c)), (''family_size'', JInt (bo_family c)), (''resamples'', JInt (bo_resamples c)),
          (''method'', JStr ''event_cluster_bootstrap_95'')])"

definition lower_above_zero :: "boot_ci option \<Rightarrow> bool" where
  "lower_above_zero ci \<longleftrightarrow> (case ci of None \<Rightarrow> False | Some c \<Rightarrow> flt (Fin 0) (bo_lower c))"

definition lower_json :: "boot_ci option \<Rightarrow> json" where
  "lower_json ci = (case ci of None \<Rightarrow> JNull | Some c \<Rightarrow> JFloat (bo_lower c))"

section \<open>The correlation guard\<close>

text \<open>\<open>Some None\<close>: no correlation; \<open>None\<close>: an OverflowError or a ZeroDivisionError.\<close>

definition pearson :: "promo_lib \<Rightarrow> (pyfloat \<times> pyfloat) list \<Rightarrow> pyfloat option option" where
  "pearson b pairs =
     (if length pairs < 2 then Some None
      else
        (let mean_x = fmean b (map fst pairs); mean_y = fmean b (map snd pairs);
             dx = map (\<lambda>p. fsub (fst p) mean_x) pairs; dy = map (\<lambda>p. fsub (snd p) mean_y) pairs
         in do {
           xx \<leftarrow> option_all (pl_square b) dx;
           yy \<leftarrow> option_all (pl_square b) dy;
           (if fle (fsum b xx) (Fin 0) \<or> fle (fsum b yy) (Fin 0) then Some None
            else map_option Some (fdiv (fsum b (map2 fmul dx dy)) (fmul (pl_root b (fsum b xx)) (pl_root b (fsum b yy))))) }))"

record correlation_verdict =
  cv_max :: pyfloat
  cv_with :: "string option"
  cv_cap :: pyfloat
  cv_ok :: bool

fun worst_correlation ::
  "promo_lib \<Rightarrow> int \<Rightarrow> (string \<times> pyfloat) list \<Rightarrow> (string \<times> (string \<times> pyfloat) list) list \<Rightarrow> pyfloat \<times> string option \<Rightarrow> (pyfloat \<times> string option) option" where
  "worst_correlation b min_overlap probs [] worst = Some worst"
| "worst_correlation b min_overlap probs ((source, tape) # fused) worst =
     (let shared = List.map_filter (\<lambda>(t, p). map_option (Pair p) (map_of tape t)) probs in
      if int (length shared) < min_overlap then worst_correlation b min_overlap probs fused worst
      else (case pearson b shared of
          None \<Rightarrow> None
        | Some None \<Rightarrow> worst_correlation b min_overlap probs fused worst
        | Some (Some r) \<Rightarrow> worst_correlation b min_overlap probs fused (if flt (fabs (fst worst)) (fabs r) then (r, Some source) else worst)))"

definition correlation_guard ::
  "promo_lib \<Rightarrow> pyfloat \<Rightarrow> int \<Rightarrow> (string \<times> pyfloat) list \<Rightarrow> (string \<times> (string \<times> pyfloat) list) list \<Rightarrow> correlation_verdict option" where
  "correlation_guard b cap min_overlap source_probs fused =
     map_option (\<lambda>(worst, source). \<lparr>cv_max = py_round 4 worst, cv_with = source, cv_cap = cap, cv_ok = fle (fabs worst) cap\<rparr>)
       (worst_correlation b min_overlap source_probs fused (Fin 0, None))"

section \<open>Series of clusters\<close>

fun note_edge :: "string \<Rightarrow> pyfloat \<Rightarrow> pyfloat \<Rightarrow> (string \<times> pyfloat \<times> pyfloat list) list \<Rightarrow> (string \<times> pyfloat \<times> pyfloat list) list" where
  "note_edge c ts edge [] = [(c, ts, [edge])]"
| "note_edge c ts edge ((c', ts', edges) # d) =
     (if c = c' then (c', fmin ts' ts, edges @ [edge]) # d else (c', ts', edges) # note_edge c ts edge d)"

text \<open>One mean edge per cluster, in the order of the earliest times.\<close>

definition cluster_series :: "promo_lib \<Rightarrow> (pyfloat \<times> string \<times> pyfloat) list \<Rightarrow> (pyfloat \<times> pyfloat) list" where
  "cluster_series b rows =
     sort_key fst (map (\<lambda>(c, ts, edges). (ts, fmean b edges)) (fold (\<lambda>(ts, c, edge). note_edge c ts edge) rows []))"

text \<open>The rows with a time, with their cluster and edge.\<close>

definition timed_edges :: "promo_lib \<Rightarrow> settled_row list \<Rightarrow> (pyfloat \<times> string \<times> pyfloat) list option" where
  "timed_edges b rows =
     option_all (\<lambda>(ts, r). map_option (\<lambda>e. (ts, rw_event_cluster r, e)) (brier_edge b r))
       (List.map_filter (\<lambda>r. map_option (\<lambda>ts. (ts, r)) (row_ts b r)) rows)"

record mean_ci =
  mc_mean :: pyfloat
  mc_lower :: "pyfloat option"
  mc_upper :: "pyfloat option"
  mc_n :: int

text \<open>\<open>mean_ci95\<close> without collapsing of a single value; \<open>Some None\<close>: no values.\<close>

definition mean_ci95 :: "promo_lib \<Rightarrow> pyfloat list \<Rightarrow> mean_ci option option" where
  "mean_ci95 b vs =
     (let n = int (length vs); mean = fmean b vs in
      if vs = [] then Some None
      else if n < 2 then Some (Some \<lparr>mc_mean = py_round 6 mean, mc_lower = None, mc_upper = None, mc_n = n\<rparr>)
      else map_option (\<lambda>squares.
          (let half = fmul (to_float (196 / 100)) (pl_sqrt b (fdiv_int (fdiv_int (fsum b squares) (n - 1)) n))
           in Some \<lparr>mc_mean = py_round 6 mean, mc_lower = Some (py_round 6 (fsub mean half)), mc_upper = Some (py_round 6 (fadd mean half)), mc_n = n\<rparr>))
        (option_all (\<lambda>v. pl_square b (fsub v mean)) vs))"

record demotion_verdict =
  dv_breach :: bool
  dv_upper :: "pyfloat option"
  dv_clusters :: int

definition demotion_breach :: "promo_lib \<Rightarrow> promotion_config \<Rightarrow> settled_row list \<Rightarrow> demotion_verdict option" where
  "demotion_breach b cfg rows = do {
     edges \<leftarrow> timed_edges b (filter (is_contested (cg_contested_disagreement cfg)) rows);
     ci \<leftarrow> mean_ci95 b (map snd (last_n DEMOTE_TRAIL_CLUSTERS (cluster_series b edges)));
     (let upper = Option.bind ci mc_upper in
      Some \<lparr>dv_breach = (case upper of None \<Rightarrow> False | Some u \<Rightarrow> flt u (Fin 0)), dv_upper = upper,
        dv_clusters = int (length (last_n DEMOTE_TRAIL_CLUSTERS (cluster_series b edges)))\<rparr>) }"

definition demotion_dict :: "string \<Rightarrow> demotion_verdict \<Rightarrow> json" where
  "demotion_dict scope v = JObj [(''scope'', JStr scope), (''breach'', JBool (dv_breach v)), (''trailing_ci95_upper'', jopt_float (dv_upper v)),
     (''trailing_clusters'', JInt (dv_clusters v))]"

section \<open>The dossier of a scope\<close>

record scope_evidence =
  se_scope :: string
  se_clusters :: int
  se_contested :: int
  se_span_days :: pyfloat
  se_beat_rate :: "pyfloat option"
  se_brier_ci :: "boot_ci option"
  se_pnl_ci :: "boot_ci option"
  se_clv_lower :: "pyfloat option"
  se_trailing_mean :: "pyfloat option"
  se_degrading :: bool
  se_correlation :: correlation_verdict
  se_family_size :: int
  se_eligible :: bool
  se_required_clusters :: int
  se_min_span_days :: pyfloat
  se_min_beat_rate :: pyfloat

definition has_clv :: "scope_evidence \<Rightarrow> bool" where
  "has_clv e \<longleftrightarrow> se_clv_lower e \<noteq> None"

definition clv_pass :: "scope_evidence \<Rightarrow> bool" where
  "clv_pass e \<longleftrightarrow> (case se_clv_lower e of None \<Rightarrow> True | Some x \<Rightarrow> flt (Fin 0) x)"

definition beat_rate_pass :: "scope_evidence \<Rightarrow> bool" where
  "beat_rate_pass e \<longleftrightarrow> (case se_beat_rate e of None \<Rightarrow> False | Some x \<Rightarrow> fle (se_min_beat_rate e) x)"

definition dossier_gate :: "string \<Rightarrow> (string \<times> json) list \<Rightarrow> bool \<Rightarrow> string \<times> json" where
  "dossier_gate name shown ok = (name, JObj (shown @ [(''pass'', JBool ok)]))"

definition dossier :: "scope_evidence \<Rightarrow> (string \<times> json) list" where
  "dossier e =
     [(''scope'', JStr (se_scope e)),
      dossier_gate ''clusters'' [(''measured'', JInt (se_clusters e)), (''threshold'', JInt (se_required_clusters e)),
        (''note'', JStr (if \<not> has_clv e then ''no CLV instrumentation -> higher cluster bar'' else ''CLV present''))]
        (se_required_clusters e \<le> se_clusters e),
      dossier_gate ''evidence_span_days'' [(''measured'', JFloat (py_round 3 (se_span_days e))), (''threshold'', JFloat (se_min_span_days e))]
        (fle (se_min_span_days e) (se_span_days e)),
      dossier_gate ''contested_brier_edge_ci95_lower'' [(''measured'', lower_json (se_brier_ci e)), (''threshold'', JFloat (Fin 0)),
        (''family_size'', JInt (se_family_size e)), (''bonferroni_applied'', JBool (1 < se_family_size e))] (lower_above_zero (se_brier_ci e)),
      dossier_gate ''contested_beat_rate'' [(''measured'', jopt_float (se_beat_rate e)), (''threshold'', JFloat (se_min_beat_rate e))] (beat_rate_pass e),
      dossier_gate ''counterfactual_pnl_ci95_lower'' [(''measured'', lower_json (se_pnl_ci e)), (''threshold'', JFloat (Fin 0)),
        (''unit'', JStr ''dollars_per_contract''), (''evidence_role'', JStr ''diagnostic_midpoint_maker_counterfactual''),
        (''witnessed_fill_evidence'', JBool False), (''automatic_promotion_authority'', JBool False)] (lower_above_zero (se_pnl_ci e)),
      dossier_gate ''not_degrading'' [(''measured'', jopt_float (se_trailing_mean e)), (''threshold'', JFloat DEGRADE_EDGE_FLOOR)] (\<not> se_degrading e),
      dossier_gate ''clv_ci95_lower'' [(''measured'', jopt_float (se_clv_lower e)),
        (''requirement'', JStr (if has_clv e then ''clv_positive'' else ''clusters_ge_'' @ show_int (se_required_clusters e) @ ''_no_clv''))] (clv_pass e),
      dossier_gate ''correlation_guard'' [(''measured'', JFloat (cv_max (se_correlation e))), (''with_source'', jopt_str (cv_with (se_correlation e))),
        (''threshold'', JFloat (cv_cap (se_correlation e)))] (cv_ok (se_correlation e)),
      dossier_gate ''promotion_eligible'' [(''measured'', JBool (se_eligible e))] (se_eligible e)]"

text \<open>\<open>evidence_pass\<close> and \<open>failing_criteria\<close> read the dossier.\<close>

definition gate_passes :: "(string \<times> json) list \<Rightarrow> string \<Rightarrow> bool" where
  "gate_passes d k \<longleftrightarrow> (case jget k d of JObj g \<Rightarrow> truthy (jget ''pass'' g) | _ \<Rightarrow> False)"

definition EVIDENCE_GATES :: "string list" where
  "EVIDENCE_GATES = [''clusters'', ''evidence_span_days'', ''contested_brier_edge_ci95_lower'', ''contested_beat_rate'',
     ''counterfactual_pnl_ci95_lower'', ''not_degrading'', ''clv_ci95_lower'', ''promotion_eligible'']"

definition evidence_pass :: "scope_evidence \<Rightarrow> bool" where
  "evidence_pass e \<longleftrightarrow> (\<forall>k \<in> set EVIDENCE_GATES. gate_passes (dossier e) k)"

definition failing_criteria :: "(string \<times> json) list \<Rightarrow> string list" where
  "failing_criteria d = map fst (filter (\<lambda>x. case snd x of JObj g \<Rightarrow> jget ''pass'' g = JBool False | _ \<Rightarrow> False) d)"

definition representative_probs :: "promo_lib \<Rightarrow> settled_row list \<Rightarrow> (string \<times> pyfloat) list" where
  "representative_probs b rows =
     map (\<lambda>(t, ps). (t, fmean b ps)) (group_values (map (\<lambda>r. (rw_ticker r, rw_probability_yes r)) rows))"

definition build_scope_evidence ::
  "promo_lib \<Rightarrow> promotion_config \<Rightarrow> string \<Rightarrow> settled_row list \<Rightarrow> pyfloat option \<Rightarrow> int \<Rightarrow> bool \<Rightarrow>
   (string \<times> (string \<times> pyfloat) list) list \<Rightarrow> scope_evidence option" where
  "build_scope_evidence b cfg scope rows clv_lower family_size eligible fused =
     (let contested = filter (is_contested (cg_contested_disagreement cfg)) rows in do {
        edges \<leftarrow> option_all (brier_edge b) contested;
        pnls \<leftarrow> option_all (counterfactual_pnl b) contested;
        timed \<leftarrow> timed_edges b contested;
        correlation \<leftarrow> correlation_guard b (cg_correlation_cap cfg) (cg_min_corr_overlap cfg) (representative_probs b contested)
          (filter (\<lambda>x. fst x \<noteq> split_head CHR ''|'' scope) fused);
        (let edges_by_cluster = group_values (zip (map rw_event_cluster contested) edges);
             beats = int (length (filter (flt (Fin 0)) edges)); n = int (length contested);
             trail = map snd (last_n DEGRADE_TRAIL_CLUSTERS (cluster_series b timed));
             trailing = (if trail = [] then None else Some (fmean b trail))
         in Some \<lparr>se_scope = scope, se_clusters = int (length edges_by_cluster), se_contested = n,
           se_span_days = span_of (List.map_filter (row_ts b) contested),
           se_beat_rate = (if n = 0 then None else Some (int_truediv beats n)),
           se_brier_ci = cluster_bootstrap_ci b (''brier:'' @ scope) family_size edges_by_cluster,
           se_pnl_ci = cluster_bootstrap_ci b (''pnl:'' @ scope) 1 (group_values (zip (map rw_event_cluster contested) pnls)),
           se_clv_lower = clv_lower, se_trailing_mean = trailing,
           se_degrading = (case trailing of None \<Rightarrow> False | Some m \<Rightarrow> flt m DEGRADE_EDGE_FLOOR), se_correlation = correlation,
           se_family_size = max 1 family_size, se_eligible = eligible,
           se_required_clusters = (if clv_lower \<noteq> None then cg_min_clusters cfg else cg_min_clusters_no_clv cfg),
           se_min_span_days = cg_min_span_days cfg, se_min_beat_rate = cg_min_beat_rate cfg\<rparr>) })"

section \<open>Diagnostics and forward evidence\<close>

record roi_verdict =
  ro_pass :: bool
  ro_roi :: "pyfloat option"
  ro_ci :: "(pyfloat \<times> pyfloat) option"
  ro_clusters :: int
  ro_span_days :: pyfloat
  ro_contested :: int

text \<open>The sums of a dict of running totals, keyed by cluster.\<close>

fun add_total :: "string \<Rightarrow> pyfloat \<Rightarrow> (string \<times> pyfloat) list \<Rightarrow> (string \<times> pyfloat) list" where
  "add_total k v [] = [(k, fadd (Fin 0) v)]"
| "add_total k v ((k', t) # d) = (if k = k' then (k', fadd t v) # d else (k', t) # add_total k v d)"

definition total_of :: "(string \<times> pyfloat) list \<Rightarrow> string \<Rightarrow> pyfloat" where
  "total_of d k = (case map_of d k of Some t \<Rightarrow> t | None \<Rightarrow> Fin 0)"

definition ratio_sample :: "promo_lib \<Rightarrow> string \<Rightarrow> string list \<Rightarrow> (string \<times> pyfloat) list \<Rightarrow> (string \<times> pyfloat) list \<Rightarrow> nat \<Rightarrow> pyfloat option" where
  "ratio_sample b seed clusters net cost j =
     (let n = length clusters; picks = map (\<lambda>i. clusters ! pl_draws b seed (int n) (j * n + i)) [0..<n];
          paid = fsum b (map (total_of cost) picks)
      in if fle paid (Fin 0) then None else fdiv (fsum b (map (total_of net) picks)) paid)"

definition roi_door_evidence :: "promo_lib \<Rightarrow> promotion_config \<Rightarrow> string \<Rightarrow> settled_row list \<Rightarrow> roi_verdict option" where
  "roi_door_evidence b cfg scope rows =
     (let contested = filter (is_contested (cg_contested_disagreement cfg)) rows in
      map_option (\<lambda>pnls.
        (let net = fold (\<lambda>(k, v). add_total k v) (zip (map rw_event_cluster contested) pnls) [];
             cost = fold (\<lambda>r. add_total (rw_event_cluster r) (entry_cost r)) contested [];
             clusters = sort (map fst net); n = int (length clusters);
             span = span_of (List.map_filter (row_ts b) contested); total_cost = fsum b (map snd cost);
             roi = (if flt (Fin 0) total_cost then fdiv (fsum b (map snd net)) total_cost else None);
             ratios = List.map_filter (ratio_sample b (''roi_door:'' @ scope) clusters net cost) [0..<1000];
             ci = (if roi \<noteq> None \<and> 2 \<le> n \<and> ratios \<noteq> []
               then Some (py_round 6 (percentile ratios (to_float (25 / 1000))), py_round 6 (percentile ratios (to_float (975 / 1000))))
               else None)
         in \<lparr>ro_pass = (case (roi, ci) of
                 (Some x, Some (lo, hi)) \<Rightarrow> cg_roi_min_clusters cfg \<le> n \<and> fle (cg_roi_min_span_days cfg) span \<and>
                   fle (cg_roi_min_roi cfg) x \<and> flt (Fin 0) lo
               | _ \<Rightarrow> False),
             ro_roi = roi, ro_ci = ci, ro_clusters = n, ro_span_days = span, ro_contested = int (length contested)\<rparr>))
        (option_all (counterfactual_pnl b) contested))"

definition roi_dict :: "promotion_config \<Rightarrow> roi_verdict \<Rightarrow> json" where
  "roi_dict cfg v = JObj
     [(''pass'', JBool (ro_pass v)), (''research_only'', JBool True), (''witnessed_fill_evidence'', JBool False),
      (''automatic_promotion_authority'', JBool False), (''roi_on_entry_cost'', jopt_float (map_option (py_round 6) (ro_roi v))),
      (''roi_ci95'', case ro_ci v of None \<Rightarrow> JNull | Some (lo, hi) \<Rightarrow> JObj [(''lower'', JFloat lo), (''upper'', JFloat hi)]),
      (''threshold_roi'', JFloat (cg_roi_min_roi cfg)), (''n_clusters'', JInt (ro_clusters v)),
      (''threshold_clusters'', JInt (cg_roi_min_clusters cfg)), (''span_days'', JFloat (py_round 3 (ro_span_days v))),
      (''threshold_span_days'', JFloat (cg_roi_min_span_days cfg)), (''n_contested'', JInt (ro_contested v))]"

text \<open>\<open>None\<close>: no time with an offset.\<close>

definition aware_timestamp :: "codec \<Rightarrow> json \<Rightarrow> pyfloat option" where
  "aware_timestamp c v =
     (case from_iso c (z_to_offset (str_of_json (repr_text c) v)) of Some (Aware us) \<Rightarrow> Some (timestamp us) | _ \<Rightarrow> None)"

definition IS_TRUE_FLAGS :: "string list" where
  "IS_TRUE_FLAGS = [''receipt_bounded'', ''witnessed_fill_net_pnl'', ''out_of_sample_after_registration'', ''isolated_candidate_decisions'']"

text \<open>Whether the fills are modelled; \<open>None\<close>: \<open>int\<close> raises on the count of a provenance that is an object.\<close>

definition modeled_fills :: "json \<Rightarrow> bool option" where
  "modeled_fills provenance =
     (case provenance of
        JObj d \<Rightarrow> map_option (\<lambda>n. 0 < n) (int_of_json (jget_default ''modeled_taker'' (JInt 0) d))
      | JStr s \<Rightarrow> Some (s \<in> {''modeled'', ''modeled_taker_at_ask''})
      | _ \<Rightarrow> Some False)"

definition truth_failures :: "bool \<Rightarrow> (string \<times> json) list \<Rightarrow> string list" where
  "truth_failures modeled_ok raw =
     map fst (filter (\<lambda>x. \<not> snd x)
       [(''receipt_bounded'', jget ''receipt_bounded'' raw = JBool True),
        (''witnessed_fill_net_pnl'', jget ''witnessed_fill_net_pnl'' raw = JBool True \<or> modeled_ok),
        (''out_of_sample_after_registration'', jget ''out_of_sample_after_registration'' raw = JBool True),
        (''isolated_candidate_decisions'', jget ''isolated_candidate_decisions'' raw = JBool True),
        (''ledger_verified'', jget ''evidence_origin'' raw = JStr ''ledger_verified''),
        (''version'', jget ''evidence_version'' raw = JStr FORWARD_EVIDENCE_VERSION)])"

definition hex_digit :: "char \<Rightarrow> bool" where
  "hex_digit ch \<longleftrightarrow> ch \<in> set ''0123456789abcdef''"

definition fingerprint_of :: "codec \<Rightarrow> (string \<times> json) list \<Rightarrow> string" where
  "fingerprint_of c raw = lower (str_of_json (repr_text c) (por (jget ''candidate_fingerprint'' raw) (JStr [])))"

text \<open>The finite numbers of a cluster; \<open>None\<close>: the OverflowError of a huge int.\<close>

definition clean_values :: "promo_lib \<Rightarrow> json list \<Rightarrow> pyfloat list option" where
  "clean_values b vs = map_option (\<lambda>xs. filter fisfinite (List.map_filter id xs)) (option_all (float_or_skip (pl_float_text b)) vs)"

definition clean_cluster :: "promo_lib \<Rightarrow> string \<times> json \<Rightarrow> (string \<times> pyfloat list) option option" where
  "clean_cluster b x =
     (case snd x of
        JArr vs \<Rightarrow> if strip (fst x) = [] then Some None
          else map_option (\<lambda>xs. if xs = [] then None else Some (fst x, xs)) (clean_values b vs)
      | _ \<Rightarrow> Some None)"

definition clean_clusters :: "promo_lib \<Rightarrow> json \<Rightarrow> (string \<times> pyfloat list) list option" where
  "clean_clusters b payload =
     (case payload of JObj d \<Rightarrow> map_option (List.map_filter id) (option_all (clean_cluster b) d) | _ \<Rightarrow> Some [])"

definition declared_trades :: "(string \<times> json) list \<Rightarrow> int option" where
  "declared_trades raw =
     (case int_or_skip (jget_default ''n_trades'' (JInt 0) raw) of None \<Rightarrow> None | Some None \<Rightarrow> Some 0 | Some (Some n) \<Rightarrow> Some n)"

text \<open>The times of the trades, if each counted trade has one.\<close>

definition trade_times :: "codec \<Rightarrow> json \<Rightarrow> int \<Rightarrow> pyfloat list option" where
  "trade_times c payload counted =
     (let ts = (case payload of JArr vs \<Rightarrow> map (aware_timestamp c) vs | _ \<Rightarrow> []) in
      if int (length ts) \<noteq> counted \<or> None \<in> set ts then None else Some (map the ts))"

record forward_verdict =
  fv_failures :: "string list"
  fv_dict :: "(string \<times> json) list"
  fv_lower :: "pyfloat option"
  fv_trades :: int
  fv_clusters :: int
  fv_span_days :: pyfloat

definition fv_pass :: "forward_verdict \<Rightarrow> bool" where
  "fv_pass v \<longleftrightarrow> fv_failures v = []"

definition missing_forward :: "string \<Rightarrow> forward_verdict" where
  "missing_forward scope =
     (let failures = [''missing_forward_witnessed_fill_evidence''] in
      \<lparr>fv_failures = failures, fv_dict =
         [(''scope'', JStr scope), (''evidence_version'', JStr FORWARD_EVIDENCE_VERSION), (''pass'', JBool False),
          (''automatic_promotion_authority'', JBool False), (''n_trades'', JInt 0), (''event_clusters'', JInt 0),
          (''span_days'', JFloat (Fin 0)), (''pnl_ci95'', JNull), (''failures'', JArr (map JStr failures))],
       fv_lower = None, fv_trades = 0, fv_clusters = 0, fv_span_days = Fin 0\<rparr>)"

definition forward_gate_failures :: "promotion_config \<Rightarrow> int \<Rightarrow> int \<Rightarrow> pyfloat \<Rightarrow> boot_ci option \<Rightarrow> (string \<times> bool) list" where
  "forward_gate_failures cfg counted clusters seen ci =
     (case forward_gates cfg of (trades, least, days) \<Rightarrow>
       [(''minimum_trades'', fle trades (float_of_int counted)), (''minimum_event_clusters'', fle least (float_of_int clusters)),
        (''minimum_span_days'', fle days seen), (''positive_cluster_ci95_lower'', lower_above_zero ci)])"

text \<open>The span of two or more times; a single one has none.\<close>

definition forward_span :: "pyfloat list \<Rightarrow> pyfloat" where
  "forward_span ts = (if length ts < 2 then Fin 0 else span_of ts)"

definition forward_failures ::
  "promo_lib \<Rightarrow> promotion_config \<Rightarrow> bool \<Rightarrow> (string \<times> json) list \<Rightarrow> (string \<times> pyfloat list) list \<Rightarrow> int \<Rightarrow> boot_ci option \<Rightarrow> string list" where
  "forward_failures b cfg modeled_ok raw clusters declared ci =
     (let fingerprint = fingerprint_of (pl_codec b) raw; registered = aware_timestamp (pl_codec b) (jget ''registered_at'' raw);
          counted = int (sum_list (map (length \<circ> snd) clusters)); times = trade_times (pl_codec b) (jget ''trade_timestamps'' raw) counted;
          valid = (case times of None \<Rightarrow> [] | Some ts \<Rightarrow> ts)
      in truth_failures modeled_ok raw @
         (if length fingerprint \<noteq> 64 \<or> (\<exists>ch \<in> set fingerprint. \<not> hex_digit ch) then [''invalid_candidate_fingerprint''] else []) @
         (if registered = None then [''invalid_registration_timestamp''] else []) @
         (if declared \<noteq> counted then [''trade_count_mismatch''] else []) @
         (if times = None then [''invalid_trade_timestamps''] else []) @
         (case registered of None \<Rightarrow> []
          | Some t \<Rightarrow> if \<exists>x \<in> set valid. fle x t then [''not_strictly_forward_of_registration''] else []) @
         map fst (filter (\<lambda>x. \<not> snd x) (forward_gate_failures cfg counted (int (length clusters)) (forward_span valid) ci)))"

definition forward_dict ::
  "promo_lib \<Rightarrow> promotion_config \<Rightarrow> string \<Rightarrow> bool \<Rightarrow> (string \<times> json) list \<Rightarrow> (string \<times> pyfloat list) list \<Rightarrow> boot_ci option \<Rightarrow> string list \<Rightarrow>
   (string \<times> json) list" where
  "forward_dict b cfg scope modeled_ok raw clusters ci failures =
     (let counted = int (sum_list (map (length \<circ> snd) clusters)); fingerprint = fingerprint_of (pl_codec b) raw;
          valid = (case trade_times (pl_codec b) (jget ''trade_timestamps'' raw) counted of None \<Rightarrow> [] | Some ts \<Rightarrow> ts)
      in case forward_gates cfg of (trades, least, days) \<Rightarrow>
       [(''scope'', JStr scope), (''evidence_version'', JStr FORWARD_EVIDENCE_VERSION), (''pass'', JBool (failures = [])),
        (''automatic_promotion_authority'', JBool (failures = [])), (''n_trades'', JInt counted),
        (''event_clusters'', JInt (int (length clusters))), (''span_days'', JFloat (py_round 6 (forward_span valid))),
        (''pnl_ci95'', boot_dict ci), (''failures'', JArr (map JStr (sort (remdups failures)))),
        (''candidate_fingerprint'', if fingerprint = [] then JNull else JStr fingerprint), (''registered_at'', jget ''registered_at'' raw),
        (''minimum_trades'', JFloat trades), (''minimum_event_clusters'', JFloat least), (''minimum_span_days'', JFloat days),
        (''bar'', JStr (bar_text cfg)),
        (''gates'', JObj (map (\<lambda>(k, ok). (k, JBool ok)) (forward_gate_failures cfg counted (int (length clusters)) (forward_span valid) ci))),
        (''evidence_origin'', jget ''evidence_origin'' raw),
        (''evidence_grade'', JStr (if modeled_ok then ''modeled'' else ''witnessed'')),
        (''fill_provenance'', jget ''fill_provenance'' raw), (''modeled_fill_evidence_allowed'', JBool (cg_allow_modeled cfg))] @
       map (\<lambda>k. (k, JBool (jget k raw = JBool True))) IS_TRUE_FLAGS)"

definition forward_witnessed_fill_evidence :: "promo_lib \<Rightarrow> promotion_config \<Rightarrow> string \<Rightarrow> json \<Rightarrow> forward_verdict option" where
  "forward_witnessed_fill_evidence b cfg scope forward =
     (case forward of
        JObj raw \<Rightarrow> do {
          modeled \<leftarrow> modeled_fills (jget ''fill_provenance'' raw);
          clusters \<leftarrow> clean_clusters b (jget ''pnl_by_cluster'' raw);
          declared \<leftarrow> declared_trades raw;
          (let modeled_ok = (cg_allow_modeled cfg \<and> modeled); ci = cluster_bootstrap_ci b (''forward-fill:'' @ scope) 1 clusters;
               counted = int (sum_list (map (length \<circ> snd) clusters));
               failures = forward_failures b cfg modeled_ok raw clusters declared ci;
               valid = (case trade_times (pl_codec b) (jget ''trade_timestamps'' raw) counted of None \<Rightarrow> [] | Some ts \<Rightarrow> ts)
           in Some \<lparr>fv_failures = failures, fv_dict = forward_dict b cfg scope modeled_ok raw clusters ci failures,
             fv_lower = map_option bo_lower ci, fv_trades = counted, fv_clusters = int (length clusters), fv_span_days = forward_span valid\<rparr>) }
      | _ \<Rightarrow> Some (missing_forward scope))"

section \<open>Rails\<close>

record rails_inputs =
  ri_kill_file :: bool
  ri_heartbeat_status :: "string option"
  ri_heartbeat_alive :: bool
  ri_health_error :: bool
  ri_weight_saturation :: bool
  ri_exchange_anomaly :: bool
  ri_artifact_age_hours :: "pyfloat option"
  ri_last_success_age_hours :: "pyfloat option"

definition TRANSIENT_CYCLE_ERRORS :: "string list" where
  "TRANSIENT_CYCLE_ERRORS = [''OperationalError'', ''CycleDeadline'', ''TimeoutError'']"

definition TRANSIENT_CYCLE_ERROR_TOLERANCE_HOURS :: pyfloat where
  "TRANSIENT_CYCLE_ERROR_TOLERANCE_HOURS = Fin 2"

definition is_transient_cycle_error :: "string \<Rightarrow> bool" where
  "is_transient_cycle_error status \<longleftrightarrow> (\<exists>m \<in> set TRANSIENT_CYCLE_ERRORS. has_infix m status)"

definition heartbeat_cycle_error :: "rails_inputs \<Rightarrow> bool" where
  "heartbeat_cycle_error r =
     (let status = (case ri_heartbeat_status r of None \<Rightarrow> [] | Some s \<Rightarrow> s);
          healthy = (case ri_last_success_age_hours r of None \<Rightarrow> False | Some h \<Rightarrow> fle h TRANSIENT_CYCLE_ERROR_TOLERANCE_HOURS)
      in startswith status ''CYCLE_ERROR'' \<and> \<not> (is_transient_cycle_error status \<and> healthy))"

text \<open>The reasons to abort; the run aborts if there is one.\<close>

definition evaluate_rails :: "pyfloat \<Rightarrow> rails_inputs \<Rightarrow> string list" where
  "evaluate_rails stale_hours r =
     map fst (filter snd
       [(''kill_file_present'', ri_kill_file r), (''heartbeat_cycle_error'', heartbeat_cycle_error r),
        (''heartbeat_not_alive'', \<not> ri_heartbeat_alive r), (''health_error'', ri_health_error r),
        (''weight_saturation_anomaly'', ri_weight_saturation r), (''exchange_anomaly'', ri_exchange_anomaly r),
        (''evidence_artifacts_stale'', case ri_artifact_age_hours r of None \<Rightarrow> False | Some h \<Rightarrow> flt stale_hours h)])"

section \<open>What passing means\<close>

lemma evidence_pass_iff:
  "evidence_pass e \<longleftrightarrow> se_required_clusters e \<le> se_clusters e \<and> fle (se_min_span_days e) (se_span_days e) \<and>
     lower_above_zero (se_brier_ci e) \<and> beat_rate_pass e \<and> lower_above_zero (se_pnl_ci e) \<and> \<not> se_degrading e \<and> clv_pass e \<and> se_eligible e"
  by (simp add: evidence_pass_def EVIDENCE_GATES_def gate_passes_def dossier_def dossier_gate_def)

text \<open>The settled and registered evidence that a forward verdict without failures rests on.\<close>

definition forward_sound :: "promo_lib \<Rightarrow> promotion_config \<Rightarrow> (string \<times> json) list \<Rightarrow> forward_verdict \<Rightarrow> bool" where
  "forward_sound b cfg raw v \<longleftrightarrow>
     (\<forall>k \<in> {''receipt_bounded'', ''out_of_sample_after_registration'', ''isolated_candidate_decisions''}. jget k raw = JBool True) \<and>
     (jget ''witnessed_fill_net_pnl'' raw = JBool True \<or> cg_allow_modeled cfg \<and> modeled_fills (jget ''fill_provenance'' raw) = Some True) \<and>
     jget ''evidence_origin'' raw = JStr ''ledger_verified'' \<and>
     (\<exists>registered ts. aware_timestamp (pl_codec b) (jget ''registered_at'' raw) = Some registered \<and>
        trade_times (pl_codec b) (jget ''trade_timestamps'' raw) (fv_trades v) = Some ts \<and> (\<forall>t \<in> set ts. \<not> fle t registered)) \<and>
     (case forward_gates cfg of (trades, least, days) \<Rightarrow>
        fle trades (float_of_int (fv_trades v)) \<and> fle least (float_of_int (fv_clusters v)) \<and> fle days (fv_span_days v)) \<and>
     (\<exists>x. fv_lower v = Some x \<and> flt (Fin 0) x)"

lemma truth_failures_Nil:
  "truth_failures ok raw = [] \<longleftrightarrow> jget ''receipt_bounded'' raw = JBool True \<and> (jget ''witnessed_fill_net_pnl'' raw = JBool True \<or> ok) \<and>
     jget ''out_of_sample_after_registration'' raw = JBool True \<and> jget ''isolated_candidate_decisions'' raw = JBool True \<and>
     jget ''evidence_origin'' raw = JStr ''ledger_verified'' \<and> jget ''evidence_version'' raw = JStr FORWARD_EVIDENCE_VERSION"
  by (simp add: truth_failures_def)

lemma forward_pass_sound:
  assumes "forward_witnessed_fill_evidence b cfg scope forward = Some v" and "fv_pass v"
  obtains raw where "forward = JObj raw" and "forward_sound b cfg raw v"
proof -
  obtain raw where raw: "forward = JObj raw"
    using assms by (cases forward) (auto simp: forward_witnessed_fill_evidence_def missing_forward_def fv_pass_def Let_def)
  obtain modeled clusters declared where m: "modeled_fills (jget ''fill_provenance'' raw) = Some modeled"
    and c: "clean_clusters b (jget ''pnl_by_cluster'' raw) = Some clusters" "declared_trades raw = Some declared"
    using assms(1) by (auto simp: raw forward_witnessed_fill_evidence_def bind_eq_Some_conv)
  let ?ci = "cluster_bootstrap_ci b (''forward-fill:'' @ scope) 1 clusters" and ?n = "int (sum_list (map (length \<circ> snd) clusters))"
  let ?times = "trade_times (pl_codec b) (jget ''trade_timestamps'' raw) ?n"
  have v: "fv_failures v = forward_failures b cfg (cg_allow_modeled cfg \<and> modeled) raw clusters declared ?ci" "fv_trades v = ?n"
    "fv_clusters v = int (length clusters)" "fv_lower v = map_option bo_lower ?ci"
    "fv_span_days v = forward_span (case ?times of None \<Rightarrow> [] | Some ts \<Rightarrow> ts)"
    using assms(1) by (auto simp: raw forward_witnessed_fill_evidence_def m c Let_def)
  note none = assms(2) [unfolded fv_pass_def v(1) forward_failures_def Let_def append_is_Nil_conv]
  have t: "truth_failures (cg_allow_modeled cfg \<and> modeled) raw = []" using none by blast
  obtain registered where r: "aware_timestamp (pl_codec b) (jget ''registered_at'' raw) = Some registered"
    using none by (auto split: if_split_asm)
  obtain ts where ts: "?times = Some ts" using none by (auto split: if_split_asm)
  have after: "\<forall>x \<in> set ts. \<not> fle x registered" using none by (simp add: r ts split: if_split_asm)
  have g: "\<forall>x \<in> set (forward_gate_failures cfg ?n (int (length clusters)) (forward_span ts) ?ci). snd x"
    using none by (simp add: ts filter_empty_conv)
  obtain trades least days where fg: "forward_gates cfg = (trades, least, days)" by (cases "forward_gates cfg") auto
  have "lower_above_zero ?ci" using g by (simp add: forward_gate_failures_def fg)
  then have lo: "\<exists>x. fv_lower v = Some x \<and> flt (Fin 0) x" by (auto simp: v lower_above_zero_def split: option.splits)
  have bars: "case forward_gates cfg of (trades, least, days) \<Rightarrow>
      fle trades (float_of_int (fv_trades v)) \<and> fle least (float_of_int (fv_clusters v)) \<and> fle days (fv_span_days v)"
    using g by (simp add: forward_gate_failures_def v ts fg)
  have "forward_sound b cfg raw v"
    unfolding forward_sound_def using t [unfolded truth_failures_Nil] m r ts after lo bars by (simp add: v(2))
  then show thesis using that raw by blast
qed

end
