(* ===== verification/PromotionEngine.thy ===== *)
theory PromotionEngine
  imports PromotionEvidence PromotionChain "HOL-Library.AList"
begin

text \<open>
  Which scopes are in the fusion: the registry of \<open>autonomy/promotion.py\<close>, the decisions of
  \<open>AutoPromotionEngine\<close> in \<open>autonomy/auto_promotion.py\<close>, and the daily run of
  \<open>autonomy/auto_promotion_runner.py\<close> that records and applies them. \<open>None\<close> is an exception that leaves
  the function.
\<close>

section \<open>The registry\<close>

definition json_dict :: "json_file \<Rightarrow> (string \<times> json) list" where
  "json_dict f = (case f of Holds (JObj d) \<Rightarrow> d | _ \<Rightarrow> [])"

text \<open>\<open>for x in v or []\<close>; a truthy value that is no iterable raises.\<close>

definition items_of :: "json \<Rightarrow> json list option" where
  "items_of v = (case v of JArr xs \<Rightarrow> Some xs | JObj d \<Rightarrow> Some (map (JStr \<circ> fst) d) | JStr s \<Rightarrow> Some (map (\<lambda>ch. JStr [ch]) s)
     | _ \<Rightarrow> if truthy v then None else Some [])"

definition SCOPE_PARTS :: "string list" where
  "SCOPE_PARTS = [''source'', ''subject'', ''market_type'', ''horizon'']"

fun join_bar :: "string list \<Rightarrow> string" where
  "join_bar [] = []"
| "join_bar [s] = s"
| "join_bar (s # t # ts) = s @ ''|'' @ join_bar (t # ts)"

text \<open>The scope of an entry, if all four parts are there.\<close>

definition entry_scope :: "(json \<Rightarrow> string) \<Rightarrow> (string \<times> json) list \<Rightarrow> string option" where
  "entry_scope rp e =
     (if \<forall>k \<in> set SCOPE_PARTS. truthy (jget k e) then Some (join_bar (map (\<lambda>k. str_of_json rp (jget k e)) SCOPE_PARTS)) else None)"

text \<open>\<open>int(v)\<close> and \<open>float(v)\<close> under the handler of TypeError and ValueError.\<close>

definition entry_stage :: "(string \<times> json) list \<Rightarrow> int option" where
  "entry_stage e = map_option (\<lambda>n. case n of None \<Rightarrow> 2 | Some n \<Rightarrow> n) (int_or_skip (jget_default ''stage'' (JInt 2) e))"

definition entry_fraction :: "(string \<Rightarrow> pyfloat option) \<Rightarrow> (string \<times> json) list \<Rightarrow> pyfloat option" where
  "entry_fraction ft e =
     (if jget ''weight_fraction'' e = JNull then Some (Fin 1)
      else map_option (\<lambda>x. case x of None \<Rightarrow> Fin 1 | Some x \<Rightarrow> x) (float_or_skip ft (jget ''weight_fraction'' e)))"

record promotion_registry =
  pr_promoted :: "string list"
  pr_stage :: "string \<Rightarrow> int option"
  pr_fraction :: "string \<Rightarrow> pyfloat option"
  pr_demoted :: "string list"

definition note_promotion :: "(json \<Rightarrow> string) \<Rightarrow> (string \<Rightarrow> pyfloat option) \<Rightarrow> json \<Rightarrow> promotion_registry \<Rightarrow> promotion_registry option" where
  "note_promotion rp ft v reg =
     (case v of
        JObj e \<Rightarrow>
          (case entry_scope rp e of
             None \<Rightarrow> Some reg
           | Some key \<Rightarrow> do {
               stage \<leftarrow> entry_stage e;
               fraction \<leftarrow> entry_fraction ft e;
               Some (reg\<lparr>pr_promoted := List.insert key (pr_promoted reg), pr_stage := (pr_stage reg)(key \<mapsto> stage),
                 pr_fraction := (pr_fraction reg)(key \<mapsto> fraction)\<rparr>) })
      | _ \<Rightarrow> Some reg)"

fun note_promotions :: "(json \<Rightarrow> string) \<Rightarrow> (string \<Rightarrow> pyfloat option) \<Rightarrow> json list \<Rightarrow> promotion_registry \<Rightarrow> promotion_registry option" where
  "note_promotions rp ft [] reg = Some reg"
| "note_promotions rp ft (v # vs) reg = Option.bind (note_promotion rp ft v reg) (note_promotions rp ft vs)"

definition demoted_scope :: "(json \<Rightarrow> string) \<Rightarrow> json \<Rightarrow> string option" where
  "demoted_scope rp v =
     (case v of
        JObj e \<Rightarrow> if truthy (jget ''scope'' e) then Some (str_of_json rp (jget ''scope'' e)) else None
      | JStr s \<Rightarrow> Some s
      | _ \<Rightarrow> None)"

text \<open>\<open>PromotionRegistry(promotions, demotions)\<close>.\<close>

definition load_promotions :: "(json \<Rightarrow> string) \<Rightarrow> (string \<Rightarrow> pyfloat option) \<Rightarrow> json_file \<Rightarrow> json_file \<Rightarrow> promotion_registry option" where
  "load_promotions rp ft promotions demotions = do {
     entries \<leftarrow> items_of (jget ''promotions'' (json_dict promotions));
     reg \<leftarrow> note_promotions rp ft entries \<lparr>pr_promoted = [], pr_stage = Map.empty, pr_fraction = Map.empty, pr_demoted = []\<rparr>;
     gone \<leftarrow> items_of (jget ''demotions'' (json_dict demotions));
     Some (reg\<lparr>pr_demoted := remdups (List.map_filter (demoted_scope rp) gone)\<rparr>) }"

definition is_promoted :: "promotion_registry \<Rightarrow> string \<Rightarrow> bool" where
  "is_promoted reg scope \<longleftrightarrow> scope \<in> set (pr_promoted reg) \<and> scope \<notin> set (pr_demoted reg)"

definition stage_for :: "promotion_registry \<Rightarrow> string \<Rightarrow> int option" where
  "stage_for reg scope = (if is_promoted reg scope then Some (case pr_stage reg scope of None \<Rightarrow> 2 | Some n \<Rightarrow> n) else None)"

definition weight_multiplier :: "promotion_registry \<Rightarrow> string \<Rightarrow> pyfloat" where
  "weight_multiplier reg scope = (if is_promoted reg scope then (case pr_fraction reg scope of None \<Rightarrow> Fin 1 | Some x \<Rightarrow> x) else Fin 1)"

text \<open>The active scopes of a snapshot, with their stages.\<close>

definition active_scopes :: "promotion_registry \<Rightarrow> (string \<times> int) list" where
  "active_scopes reg =
     map (\<lambda>s. (s, case pr_stage reg s of None \<Rightarrow> 2 | Some n \<Rightarrow> n)) (sort (filter (\<lambda>s. s \<notin> set (pr_demoted reg)) (pr_promoted reg)))"

section \<open>Decisions\<close>

record scope_decision =
  sd_scope :: string
  sd_action :: string
  sd_stage :: int
  sd_weight :: pyfloat
  sd_dossier :: "(string \<times> json) list"
  sd_reason :: string

record realized =
  rz_trades :: int
  rz_pnl_by_cluster :: "(string \<times> pyfloat list) list"
  rz_forward :: json

record engine_inputs =
  ei_scope_rows :: "(string \<times> settled_row list) list"
  ei_promoted :: "(string \<times> int) list"
  ei_used_today :: int
  ei_clv :: "(string \<times> pyfloat) list"
  ei_realized :: "(string \<times> realized) list"
  ei_eligible :: "string list option"
  ei_families :: "(string \<times> int) list"
  ei_fused :: "(string \<times> (string \<times> pyfloat) list) list"

record engine_result =
  er_promotions :: "scope_decision list"
  er_escalations :: "scope_decision list"
  er_demotions :: "scope_decision list"
  er_replacements :: "scope_decision list"
  er_reviews :: "scope_decision list"
  er_deferred :: "scope_decision list"
  er_declined :: "scope_decision list"

definition demote_decision :: "string \<Rightarrow> int \<Rightarrow> demotion_verdict \<Rightarrow> scope_decision" where
  "demote_decision scope stage v =
     \<lparr>sd_scope = scope, sd_action = ''DEMOTE'', sd_stage = stage, sd_weight = Fin 0,
      sd_dossier = [(''demotion'', demotion_dict scope v), (''prior_stage'', JInt stage)],
      sd_reason = ''trailing contested Brier-edge CI95 upper < 0''\<rparr>"

definition demotions_of :: "promo_lib \<Rightarrow> promotion_config \<Rightarrow> engine_inputs \<Rightarrow> scope_decision list option" where
  "demotions_of b cfg i =
     map_option (List.map_filter id) (option_all (\<lambda>(scope, stage).
       map_option (\<lambda>v. if dv_breach v then Some (demote_decision scope stage v) else None)
         (demotion_breach b cfg (case map_of (ei_scope_rows i) scope of None \<Rightarrow> [] | Some rows \<Rightarrow> rows))) (ei_promoted i))"

definition escalation_lower :: "promo_lib \<Rightarrow> string \<Rightarrow> realized \<Rightarrow> boot_ci option" where
  "escalation_lower b scope r = cluster_bootstrap_ci b (''escalate:'' @ scope) 1 (rz_pnl_by_cluster r)"

definition escalation_pass :: "promo_lib \<Rightarrow> promotion_config \<Rightarrow> string \<Rightarrow> realized option \<Rightarrow> bool" where
  "escalation_pass b cfg scope realized =
     (case realized of None \<Rightarrow> False
      | Some r \<Rightarrow> cg_stage2_min_trades cfg \<le> rz_trades r \<and> lower_above_zero (escalation_lower b scope r))"

definition escalation_dict :: "promo_lib \<Rightarrow> promotion_config \<Rightarrow> string \<Rightarrow> realized option \<Rightarrow> json" where
  "escalation_dict b cfg scope realized =
     (case realized of
        None \<Rightarrow> JObj [(''pass'', JBool False), (''n_trades'', JInt 0), (''reason'', JStr ''no realized attribution'')]
      | Some r \<Rightarrow> JObj [(''pass'', JBool (escalation_pass b cfg scope realized)), (''n_trades'', JInt (rz_trades r)),
          (''threshold_trades'', JInt (cg_stage2_min_trades cfg)), (''pnl_ci95_lower'', lower_json (escalation_lower b scope r)),
          (''pnl_ci'', boot_dict (escalation_lower b scope r))])"

definition rank_of :: "pyfloat option \<Rightarrow> pyfloat" where
  "rank_of lo = (case lo of None \<Rightarrow> Fin 0 | Some x \<Rightarrow> x)"

definition escalation_candidate ::
  "promo_lib \<Rightarrow> promotion_config \<Rightarrow> engine_inputs \<Rightarrow> string list \<Rightarrow> string \<times> int \<Rightarrow> (pyfloat \<times> scope_decision) option" where
  "escalation_candidate b cfg i demoted x =
     (case x of (scope, stage) \<Rightarrow>
        (let realized = map_of (ei_realized i) scope in
         if scope \<in> set demoted \<or> 2 \<le> stage \<or> \<not> escalation_pass b cfg scope realized then None
         else Some (rank_of (Option.bind realized (\<lambda>r. map_option bo_lower (escalation_lower b scope r))),
           \<lparr>sd_scope = scope, sd_action = ''ESCALATE'', sd_stage = 2, sd_weight = cg_stage2_weight cfg,
            sd_dossier = [(''escalation'', escalation_dict b cfg scope realized)],
            sd_reason = ''>= '' @ show_int (cg_stage2_min_trades cfg) @ '' realized trades, P&L CI95 lower > 0''\<rparr>)))"

text \<open>What becomes of a scope that is not promoted.\<close>

datatype scope_outcome = Skipped | Reviewed scope_decision | Declined scope_decision | Replaced scope_decision
  | Candidate pyfloat scope_decision

fun join_words :: "string list \<Rightarrow> string" where
  "join_words [] = []"
| "join_words [s] = s"
| "join_words (s # t # ts) = s @ '', '' @ join_words (t # ts)"

definition withheld :: "string \<Rightarrow> (string \<times> json) list \<Rightarrow> scope_decision" where
  "withheld scope d =
     \<lparr>sd_scope = scope, sd_action = ''HUMAN_REVIEW_CANDIDATE'', sd_stage = 0, sd_weight = Fin 0, sd_dossier = d,
      sd_reason = ''automatic promotion withheld: requires predictive gates plus receipt-bounded post-registration isolated witnessed-fill net P&L over independent forward event clusters''\<rparr>"

definition declined :: "string \<Rightarrow> (string \<times> json) list \<Rightarrow> string list \<Rightarrow> scope_decision" where
  "declined scope d failing =
     \<lparr>sd_scope = scope, sd_action = ''DECLINED'', sd_stage = 0, sd_weight = Fin 0, sd_dossier = d,
      sd_reason = ''failed: '' @ (if failing = [] then ''unknown'' else join_words failing)\<rparr>"

definition replacement :: "promotion_config \<Rightarrow> string \<Rightarrow> (string \<times> json) list \<Rightarrow> string option \<Rightarrow> scope_decision" where
  "replacement cfg scope d source =
     \<lparr>sd_scope = scope, sd_action = ''REPLACEMENT_CANDIDATE'', sd_stage = 1, sd_weight = Fin 0, sd_dossier = d,
      sd_reason = ''correlated > '' @ fixed_text 2 (cg_correlation_cap cfg) @ '' with already-fused '' @
        (case source of None \<Rightarrow> ''None'' | Some s \<Rightarrow> s)\<rparr>"

definition promotion :: "promotion_config \<Rightarrow> string \<Rightarrow> (string \<times> json) list \<Rightarrow> scope_decision" where
  "promotion cfg scope d =
     \<lparr>sd_scope = scope, sd_action = ''PROMOTE'', sd_stage = 1, sd_weight = cg_stage1_weight cfg,
      sd_dossier = d @ [(''promotion_path'', JStr ''forward_witnessed_fill_v1'')],
      sd_reason = ''cleared predictive gates and receipt-bounded post-registration isolated witnessed-fill net-P&L gate''\<rparr>"

definition judge_scope :: "promo_lib \<Rightarrow> promotion_config \<Rightarrow> engine_inputs \<Rightarrow> string \<times> settled_row list \<Rightarrow> scope_outcome option" where
  "judge_scope b cfg i x =
     (case x of (scope, rows) \<Rightarrow>
        if map_of (ei_promoted i) scope \<noteq> None then Some Skipped
        else if (case ei_eligible i of None \<Rightarrow> False | Some ok \<Rightarrow> scope \<notin> set ok) then Some Skipped
        else do {
          e \<leftarrow> build_scope_evidence b cfg scope rows (map_of (ei_clv i) scope)
            (case map_of (ei_families i) scope of None \<Rightarrow> 1 | Some n \<Rightarrow> n) True (ei_fused i);
          roi \<leftarrow> roi_door_evidence b cfg scope rows;
          forward \<leftarrow> forward_witnessed_fill_evidence b cfg scope (case map_of (ei_realized i) scope of None \<Rightarrow> JNull | Some r \<Rightarrow> rz_forward r);
          (let d = dossier e @ [(''counterfactual_roi_diagnostic'', roi_dict cfg roi), (''forward_witnessed_fill_evidence'', JObj (fv_dict forward))]
           in Some
             (if \<not> (evidence_pass e \<and> fv_pass forward)
              then if evidence_pass e \<or> ro_pass roi \<or> fv_pass forward then Reviewed (withheld scope d)
                   else Declined (declined scope d (sort (failing_criteria (dossier e))))
              else if \<not> cv_ok (se_correlation e) then Replaced (replacement cfg scope d (cv_with (se_correlation e)))
              else Candidate (rank_of (fv_lower forward)) (promotion cfg scope d))) })"

definition deferral :: "promotion_config \<Rightarrow> scope_decision \<Rightarrow> scope_decision" where
  "deferral cfg d = d\<lparr>sd_reason := ''daily promotion cap reached ('' @ show_int (cg_max_promotions_per_day cfg) @ ''/day)''\<rparr>"

definition ranked :: "(pyfloat \<times> scope_decision) list \<Rightarrow> scope_decision list" where
  "ranked xs = map snd (sort_key (\<lambda>x. (fneg (fst x), sd_scope (snd x))) xs)"

text \<open>The actions that add risk, strongest evidence first, and how many of them the day still allows.\<close>

definition candidates_of :: "scope_outcome list \<Rightarrow> (pyfloat \<times> scope_decision) list" where
  "candidates_of outcomes = List.map_filter (\<lambda>x. case x of Candidate rank d \<Rightarrow> Some (rank, d) | _ \<Rightarrow> None) outcomes"

definition additions :: "promo_lib \<Rightarrow> promotion_config \<Rightarrow> engine_inputs \<Rightarrow> scope_decision list \<Rightarrow> scope_outcome list \<Rightarrow> (pyfloat \<times> scope_decision) list" where
  "additions b cfg i demotions outcomes =
     List.map_filter (escalation_candidate b cfg i (map sd_scope demotions)) (ei_promoted i) @ candidates_of outcomes"

definition add_budget :: "promotion_config \<Rightarrow> engine_inputs \<Rightarrow> nat" where
  "add_budget cfg i = nat (max 0 (cg_max_promotions_per_day cfg - ei_used_today i))"

text \<open>\<open>decide\<close> of a run that its rails do not abort.\<close>

definition decide_promotions :: "promo_lib \<Rightarrow> promotion_config \<Rightarrow> engine_inputs \<Rightarrow> engine_result option" where
  "decide_promotions b cfg i = do {
     demotions \<leftarrow> demotions_of b cfg i;
     outcomes \<leftarrow> option_all (judge_scope b cfg i) (ei_scope_rows i);
     (let adds = ranked (additions b cfg i demotions outcomes); accepted = take (add_budget cfg i) adds
      in Some
        \<lparr>er_promotions = filter (\<lambda>d. sd_action d \<noteq> ''ESCALATE'') accepted, er_escalations = filter (\<lambda>d. sd_action d = ''ESCALATE'') accepted,
         er_demotions = demotions, er_replacements = List.map_filter (\<lambda>x. case x of Replaced d \<Rightarrow> Some d | _ \<Rightarrow> None) outcomes,
         er_reviews = List.map_filter (\<lambda>x. case x of Reviewed d \<Rightarrow> Some d | _ \<Rightarrow> None) outcomes,
         er_deferred = map (deferral cfg) (drop (add_budget cfg i) adds),
         er_declined = List.map_filter (\<lambda>x. case x of Declined d \<Rightarrow> Some d | _ \<Rightarrow> None) outcomes\<rparr>) }"

section \<open>Gathering\<close>

text \<open>The rows of the database by scope, and the scopes whose rows are gated and opted in.\<close>

definition group_rows_by_scope :: "settled_row list \<Rightarrow> (string \<times> settled_row list) list" where
  "group_rows_by_scope rows = group_values (map (\<lambda>r. (rw_scope r, r)) (filter (\<lambda>r. rw_scope r \<noteq> []) rows))"

definition flagged :: "string \<Rightarrow> settled_row \<Rightarrow> bool" where
  "flagged k r \<longleftrightarrow> truthy (jget k (rw_features r))"

definition eligible_scopes_from_rows :: "settled_row list \<Rightarrow> string list" where
  "eligible_scopes_from_rows rows =
     List.map_filter (\<lambda>(scope, rs).
       if length rs \<le> length (filter (flagged ''challenger_only'') rs) * 2 \<and> length rs \<le> length (filter (flagged ''promotion_eligible'') rs) * 2
       then Some scope else None) (group_rows_by_scope rows)"

text \<open>The sources in the fusion, in the order of their first rows; the program holds them in a set.\<close>

definition fused_probs_by_source :: "promo_lib \<Rightarrow> settled_row list \<Rightarrow> string list \<Rightarrow> (string \<times> (string \<times> pyfloat) list) list" where
  "fused_probs_by_source b rows promoted_sources =
     List.map_filter (\<lambda>(source, rs).
       if length (filter (flagged ''challenger_only'') rs) * 2 < length rs \<or> source \<in> set promoted_sources
       then Some (source, representative_probs b rs) else None) (group_values (map (\<lambda>r. (rw_source r, r)) rows))"

definition load_mined_family_sizes :: "json_file \<Rightarrow> (string \<times> int) list option" where
  "load_mined_family_sizes f =
     map_option (List.map_filter id) (option_all (\<lambda>(scope, v).
       map_option (map_option (\<lambda>n. (scope, max 1 n))) (int_or_skip v)) (json_dict f))"

section \<open>Applying\<close>

text \<open>The files of a run: the ledger, the promotions and the sticky demotions.\<close>

record promo_files =
  pf_ledger :: "ledger_file option"
  pf_promotions :: json_file
  pf_demotions :: json_file

text \<open>The clock, the digest and the printer of the ledger, and the time the run is for.\<close>

record promo_run =
  rn_sha :: "json \<Rightarrow> string"
  rn_repr :: "json \<Rightarrow> string"
  rn_clock :: clock
  rn_now_iso :: string

definition split_bar :: "string \<Rightarrow> string list" where
  "split_bar s = foldr (\<lambda>ch parts. if ch = CHR ''|'' then [] # parts else (ch # hd parts) # tl parts) s [[]]"

definition scope_parts :: "string \<Rightarrow> (string \<times> json) list option" where
  "scope_parts scope =
     (let parts = split_bar scope in
      if length parts \<noteq> 4 \<or> (\<exists>p \<in> set parts. strip p = []) then None else Some (zip SCOPE_PARTS (map JStr parts)))"

definition record_decision ::
  "promo_run \<Rightarrow> string \<Rightarrow> scope_decision \<Rightarrow> (string \<times> json) list \<Rightarrow> promo_files \<Rightarrow> ledger_error + ledger_entry \<times> promo_files" where
  "record_decision run action d payload files =
     map_sum id (\<lambda>(x, g). (x, files\<lparr>pf_ledger := Some g\<rparr>))
       (append_entry (rn_sha run) (rn_repr run) (rn_clock run) action (sd_scope d) payload (Some (rn_now_iso run)) (pf_ledger files))"

definition promotion_payload :: "promotion_config \<Rightarrow> scope_decision \<Rightarrow> (string \<times> json) list" where
  "promotion_payload cfg d =
     [(''stage'', JInt (sd_stage d)), (''weight_fraction'', JFloat (sd_weight d)), (''reason'', JStr (sd_reason d)),
      (''thresholds'', JObj (config_dict cfg)), (''dossier'', JObj (sd_dossier d))]"

definition demotion_payload :: "promotion_config \<Rightarrow> scope_decision \<Rightarrow> (string \<times> json) list" where
  "demotion_payload cfg d = [(''reason'', JStr (sd_reason d)), (''thresholds'', JObj (config_dict cfg)), (''dossier'', JObj (sd_dossier d))]"

type_synonym scope_entries = "(string \<times> (string \<times> json) list) list"

text \<open>
  What the loops carry: the files, the entries by scope, the scopes applied. \<open>Inl\<close>: an error of
  the ledger leaves the call, with the files as they then are.
\<close>

fun apply_promotions ::
  "promo_run \<Rightarrow> promotion_config \<Rightarrow> scope_decision list \<Rightarrow> promo_files \<times> scope_entries \<times> string list \<Rightarrow>
   (ledger_error \<times> promo_files) + promo_files \<times> scope_entries \<times> string list" where
  "apply_promotions run cfg [] st = Inr st"
| "apply_promotions run cfg (d # ds) (files, entries, past) =
     (case scope_parts (sd_scope d) of
        None \<Rightarrow> apply_promotions run cfg ds (files, entries, past)
      | Some parts \<Rightarrow>
          (case record_decision run ''PROMOTE'' d (promotion_payload cfg d) files of
             Inl e \<Rightarrow> Inl (e, files)
           | Inr (x, files') \<Rightarrow>
               apply_promotions run cfg ds (files', AList.update (sd_scope d)
                 (parts @ [(''stage'', JInt (sd_stage d)), (''weight_fraction'', JFloat (sd_weight d)), (''promoted_at'', JStr (rn_now_iso run)),
                   (''promoted_by'', JStr ''auto_promotion_engine''), (''evidence_ref'', JStr (le_entry_hash x))]) entries,
                 past @ [sd_scope d])))"

fun apply_escalations ::
  "promo_run \<Rightarrow> promotion_config \<Rightarrow> scope_decision list \<Rightarrow> promo_files \<times> scope_entries \<times> string list \<Rightarrow>
   (ledger_error \<times> promo_files) + promo_files \<times> scope_entries \<times> string list" where
  "apply_escalations run cfg [] st = Inr st"
| "apply_escalations run cfg (d # ds) (files, entries, past) =
     (case record_decision run ''ESCALATE'' d (promotion_payload cfg d) files of
        Inl e \<Rightarrow> Inl (e, files)
      | Inr (x, files') \<Rightarrow>
          apply_escalations run cfg ds (files',
            AList.map_entry (sd_scope d) (\<lambda>e. jput ''escalation_evidence_ref'' (JStr (le_entry_hash x)) (jput ''escalated_at'' (JStr (rn_now_iso run))
              (jput ''weight_fraction'' (JFloat (sd_weight d)) (jput ''stage'' (JInt (sd_stage d)) e)))) entries, past @ [sd_scope d]))"

fun apply_demotions ::
  "promo_run \<Rightarrow> promotion_config \<Rightarrow> scope_decision list \<Rightarrow> promo_files \<Rightarrow> (ledger_error \<times> promo_files) + promo_files" where
  "apply_demotions run cfg [] files = Inr files"
| "apply_demotions run cfg (d # ds) files =
     (case record_decision run ''DEMOTE'' d (demotion_payload cfg d) files of
        Inl e \<Rightarrow> Inl (e, files)
      | Inr (x, files') \<Rightarrow> apply_demotions run cfg ds files')"

text \<open>The entries of the promotions file by scope; of two with one scope the later counts.\<close>

definition entries_by_scope :: "(json \<Rightarrow> string) \<Rightarrow> json list \<Rightarrow> scope_entries" where
  "entries_by_scope rp vs =
     fold (\<lambda>v. case v of JObj e \<Rightarrow> (case entry_scope rp e of None \<Rightarrow> id | Some k \<Rightarrow> AList.update k e) | _ \<Rightarrow> id) vs []"

text \<open>The new promotions file. Its entries are written in the order of their scopes, which no reader depends on.\<close>

definition promotions_file :: "promo_run \<Rightarrow> scope_entries \<Rightarrow> json_file" where
  "promotions_file run entries = Holds (JObj [(''version'', JInt 2),
     (''promotions'', JArr (map (JObj \<circ> snd) (sort_key fst entries))), (''updated_at'', JStr (rn_now_iso run))])"

record applied =
  ap_promoted :: "string list"
  ap_escalated :: "string list"
  ap_demoted :: "string list"

text \<open>\<open>apply_result\<close>: the files afterwards; \<open>None\<close> with them: an exception left the call.\<close>

definition apply_result :: "promo_run \<Rightarrow> promotion_config \<Rightarrow> engine_result \<Rightarrow> promo_files \<Rightarrow> applied option \<times> promo_files" where
  "apply_result run cfg r files =
     (case items_of (jget ''promotions'' (json_dict (pf_promotions files))) of
        None \<Rightarrow> (None, files)
      | Some vs \<Rightarrow>
          (case apply_promotions run cfg (er_promotions r) (files, entries_by_scope (rn_repr run) vs, []) of
             Inl (e, files') \<Rightarrow> (None, files')
           | Inr (files1, entries1, promoted) \<Rightarrow>
               (case apply_escalations run cfg (er_escalations r) (files1, entries1, []) of
                  Inl (e, files') \<Rightarrow> (None, files')
                | Inr (files2, entries2, escalated) \<Rightarrow>
                    (case apply_demotions run cfg (er_demotions r) files2 of
                       Inl (e, files') \<Rightarrow> (None, files')
                     | Inr files3 \<Rightarrow>
                         (Some \<lparr>ap_promoted = promoted, ap_escalated = escalated, ap_demoted = map sd_scope (er_demotions r)\<rparr>,
                          if promoted \<noteq> [] \<or> escalated \<noteq> [] then files3\<lparr>pf_promotions := promotions_file run entries2\<rparr> else files3)))))"

section \<open>The daily run\<close>

definition risk_action :: "ledger_entry \<Rightarrow> bool" where
  "risk_action e \<longleftrightarrow> le_action e = ''PROMOTE'' \<or> le_action e = ''ESCALATE''"

definition used_today :: "promo_run \<Rightarrow> promo_files \<Rightarrow> ledger_error + int" where
  "used_today run files =
     map_sum id (\<lambda>es. int (length (filter risk_action es))) (entries_on_date (rn_sha run) (rn_repr run) (rn_now_iso run) (pf_ledger files))"

text \<open>The demotions of the engine join the sticky file; \<open>None\<close>: the file cannot be iterated.\<close>

definition demotion_entries :: "(json \<Rightarrow> string) \<Rightarrow> json list \<Rightarrow> scope_entries" where
  "demotion_entries rp vs =
     fold (\<lambda>v. case v of JObj e \<Rightarrow> if truthy (jget ''scope'' e) then AList.update (str_of_json rp (jget ''scope'' e)) e else id | _ \<Rightarrow> id) vs []"

definition merge_demotion :: "promo_run \<Rightarrow> string \<Rightarrow> scope_entries \<Rightarrow> scope_entries" where
  "merge_demotion run scope merged =
     (if map_of merged scope = None
      then merged @ [(scope, [(''scope'', JStr scope), (''detected_at'', JStr (rn_now_iso run)),
        (''reason'', JStr ''auto_promotion_engine trailing CI breach'')])]
      else merged)"

definition demotions_file :: "promo_run \<Rightarrow> scope_entries \<Rightarrow> json_file" where
  "demotions_file run merged = Holds (JObj [(''demotions'', JArr (map (JObj \<circ> snd) (sort_key fst merged))), (''generated_at'', JStr (rn_now_iso run))])"

definition stick_demotions :: "promo_run \<Rightarrow> string list \<Rightarrow> promo_files \<Rightarrow> promo_files option" where
  "stick_demotions run scopes files =
     (if scopes = [] then Some files
      else map_option (\<lambda>vs. files\<lparr>pf_demotions := demotions_file run (fold (merge_demotion run) scopes (demotion_entries (rn_repr run) vs))\<rparr>)
        (items_of (jget ''demotions'' (json_dict (pf_demotions files)))))"

text \<open>
  What one run gathers beside its files: its rails, whether there is a database, the settled rows,
  the closing-line evidence and the realized attribution by scope, and the file of mined
  families. The two maps come from a report and from SQL.
\<close>

record gathered =
  ga_rails :: rails_inputs
  ga_database :: bool
  ga_rows :: "settled_row list"
  ga_clv :: "(string \<times> pyfloat) list"
  ga_realized :: "(string \<times> realized) list"
  ga_families :: json_file

datatype run_status = Aborted "string list" | No_Database | Applied applied | Raised

definition engine_inputs_of :: "promo_lib \<Rightarrow> promo_run \<Rightarrow> gathered \<Rightarrow> int \<Rightarrow> promo_files \<Rightarrow> engine_inputs option" where
  "engine_inputs_of b run g used files = do {
     families \<leftarrow> load_mined_family_sizes (ga_families g);
     reg \<leftarrow> load_promotions (rn_repr run) (pl_float_text b) (pf_promotions files) (pf_demotions files);
     Some \<lparr>ei_scope_rows = group_rows_by_scope (ga_rows g), ei_promoted = active_scopes reg, ei_used_today = used, ei_clv = ga_clv g,
       ei_realized = ga_realized g, ei_eligible = Some (eligible_scopes_from_rows (ga_rows g)), ei_families = families,
       ei_fused = fused_probs_by_source b (ga_rows g) (map (split_head CHR ''|'' \<circ> fst) (active_scopes reg))\<rparr> }"

definition run_auto_promotion :: "promo_lib \<Rightarrow> promotion_config \<Rightarrow> promo_run \<Rightarrow> gathered \<Rightarrow> promo_files \<Rightarrow> run_status \<times> promo_files" where
  "run_auto_promotion b cfg run g files =
     (case used_today run files of
        Inl (Escaped e) \<Rightarrow> (Raised, files)
      | Inl e \<Rightarrow> (Aborted [''promotion_ledger_broken''], files)
      | Inr used \<Rightarrow>
          (case evaluate_rails ARTIFACT_STALE_HOURS (ga_rails g) of
             [] \<Rightarrow>
               (if \<not> ga_database g then (No_Database, files)
                else (case Option.bind (engine_inputs_of b run g used files) (decide_promotions b cfg) of
                    None \<Rightarrow> (Raised, files)
                  | Some r \<Rightarrow>
                      (case apply_result run cfg r files of
                         (None, files') \<Rightarrow> (Raised, files')
                       | (Some a, files') \<Rightarrow>
                           (case stick_demotions run (ap_demoted a) files' of
                              None \<Rightarrow> (Raised, files')
                            | Some files'' \<Rightarrow> (Applied a, files'')))))
           | reasons \<Rightarrow>
               (case append_entry (rn_sha run) (rn_repr run) (rn_clock run) ''ABORT'' ''*''
                   [(''rails'', JObj [(''abort'', JBool True), (''reasons'', JArr (map JStr reasons))])] (Some (rn_now_iso run)) (pf_ledger files) of
                  Inl e \<Rightarrow> (Raised, files)
                | Inr (x, f) \<Rightarrow> (Aborted reasons, files\<lparr>pf_ledger := Some f\<rparr>))))"

section \<open>Decisions follow the ladder\<close>

lemma in_map_filter: "y \<in> set (List.map_filter f xs) \<longleftrightarrow> (\<exists>x \<in> set xs. f x = Some y)"
  by (force simp: List.map_filter_def)

lemma in_candidates_of: "(rank, d) \<in> set (candidates_of outcomes) \<longleftrightarrow> Candidate rank d \<in> set outcomes"
proof
  assume "(rank, d) \<in> set (candidates_of outcomes)"
  then obtain x where "x \<in> set outcomes" "(case x of Candidate rank d \<Rightarrow> Some (rank, d) | _ \<Rightarrow> None) = Some (rank, d)"
    by (auto simp: candidates_of_def in_map_filter)
  then show "Candidate rank d \<in> set outcomes" by (auto split: scope_outcome.split_asm)
next
  assume "Candidate rank d \<in> set outcomes"
  then show "(rank, d) \<in> set (candidates_of outcomes)" unfolding candidates_of_def in_map_filter by (rule bexI [rotated]) simp
qed

lemma option_all_image: "option_all f xs = Some ys \<Longrightarrow> x \<in> set xs \<Longrightarrow> \<exists>y \<in> set ys. f x = Some y"
  by (induction xs arbitrary: ys) (auto simp: bind_eq_Some_conv split: option.splits)

lemma ranked_set: "d \<in> set (ranked xs) \<longleftrightarrow> (\<exists>rank. (rank, d) \<in> set xs)"
  by (force simp: ranked_def)

lemma judge_candidate:
  assumes "judge_scope b cfg i (scope, rows) = Some (Candidate rank d)"
  obtains e roi forward where
    "map_of (ei_promoted i) scope = None" and "\<forall>ok. ei_eligible i = Some ok \<longrightarrow> scope \<in> set ok"
    and "build_scope_evidence b cfg scope rows (map_of (ei_clv i) scope) (case map_of (ei_families i) scope of None \<Rightarrow> 1 | Some n \<Rightarrow> n) True (ei_fused i) = Some e"
    and "forward_witnessed_fill_evidence b cfg scope (case map_of (ei_realized i) scope of None \<Rightarrow> JNull | Some r \<Rightarrow> rz_forward r) = Some forward"
    and "evidence_pass e" and "fv_pass forward" and "cv_ok (se_correlation e)" and "rank = rank_of (fv_lower forward)"
    and "d = promotion cfg scope (dossier e @ [(''counterfactual_roi_diagnostic'', roi_dict cfg roi), (''forward_witnessed_fill_evidence'', JObj (fv_dict forward))])"
  using assms
  by (auto simp: judge_scope_def bind_eq_Some_conv Let_def split: if_split_asm option.splits)

lemma decide_parts:
  assumes "decide_promotions b cfg i = Some r"
  obtains outcomes where "option_all (judge_scope b cfg i) (ei_scope_rows i) = Some outcomes"
    and "demotions_of b cfg i = Some (er_demotions r)"
    and "er_promotions r = filter (\<lambda>d. sd_action d \<noteq> ''ESCALATE'') (take (add_budget cfg i) (ranked (additions b cfg i (er_demotions r) outcomes)))"
    and "er_escalations r = filter (\<lambda>d. sd_action d = ''ESCALATE'') (take (add_budget cfg i) (ranked (additions b cfg i (er_demotions r) outcomes)))"
    and "er_deferred r = map (deferral cfg) (drop (add_budget cfg i) (ranked (additions b cfg i (er_demotions r) outcomes)))"
  using assms by (auto simp: decide_promotions_def bind_eq_Some_conv Let_def)

lemma escalation_action: "escalation_candidate b cfg i demoted x = Some (rank, d) \<Longrightarrow> sd_action d = ''ESCALATE'' \<and>
    sd_scope d = fst x \<and> sd_stage d = 2 \<and> sd_weight d = cg_stage2_weight cfg \<and> fst x \<notin> set demoted \<and> snd x < 2 \<and>
    escalation_pass b cfg (fst x) (map_of (ei_realized i) (fst x))"
  by (auto simp: escalation_candidate_def Let_def split: prod.splits if_split_asm)

lemma promotion_action: "sd_action (promotion cfg scope d) = ''PROMOTE''" "sd_scope (promotion cfg scope d) = scope"
  "sd_stage (promotion cfg scope d) = 1" "sd_weight (promotion cfg scope d) = cg_stage1_weight cfg"
  by (simp_all add: promotion_def)

lemma addition_cases:
  assumes "option_all (judge_scope b cfg i) (ei_scope_rows i) = Some outcomes" and "d \<in> set (ranked (additions b cfg i demotions outcomes))"
  shows "sd_action d = ''ESCALATE'' \<and> (\<exists>x \<in> set (ei_promoted i). \<exists>rank. escalation_candidate b cfg i (map sd_scope demotions) x = Some (rank, d)) \<or>
    sd_action d = ''PROMOTE'' \<and> (\<exists>scope rows rank. (scope, rows) \<in> set (ei_scope_rows i) \<and> judge_scope b cfg i (scope, rows) = Some (Candidate rank d))"
proof -
  obtain rank where "(rank, d) \<in> set (additions b cfg i demotions outcomes)" using assms(2) by (auto simp: ranked_set)
  then consider x where "x \<in> set (ei_promoted i)" "escalation_candidate b cfg i (map sd_scope demotions) x = Some (rank, d)"
    | "Candidate rank d \<in> set outcomes"
    unfolding additions_def set_append Un_iff in_candidates_of in_map_filter by blast
  then show ?thesis
  proof cases
    case 1
    then show ?thesis using escalation_action by blast
  next
    case 2
    then obtain scope rows where j: "(scope, rows) \<in> set (ei_scope_rows i)" "judge_scope b cfg i (scope, rows) = Some (Candidate rank d)"
      using option_all_set [OF assms(1)] by fastforce
    have "sd_action d = ''PROMOTE''" by (rule judge_candidate [OF j(2)]) (simp add: promotion_action)
    then show ?thesis using j by blast
  qed
qed

lemma promotions_are_candidates:
  assumes "decide_promotions b cfg i = Some r" and "d \<in> set (er_promotions r)"
  obtains scope rows rank where "(scope, rows) \<in> set (ei_scope_rows i)" and "judge_scope b cfg i (scope, rows) = Some (Candidate rank d)"
proof -
  obtain outcomes where o: "option_all (judge_scope b cfg i) (ei_scope_rows i) = Some outcomes"
    and p: "er_promotions r = filter (\<lambda>d. sd_action d \<noteq> ''ESCALATE'') (take (add_budget cfg i) (ranked (additions b cfg i (er_demotions r) outcomes)))"
    by (rule decide_parts [OF assms(1)])
  have "d \<in> set (ranked (additions b cfg i (er_demotions r) outcomes))" "sd_action d \<noteq> ''ESCALATE''"
    using assms(2) by (auto simp: p dest: in_set_takeD)
  then show thesis using addition_cases [OF o] that by blast
qed

lemma escalations_are_candidates:
  assumes "decide_promotions b cfg i = Some r" and "d \<in> set (er_escalations r)"
  obtains stage where "(sd_scope d, stage) \<in> set (ei_promoted i)" and "stage < 2" and "sd_scope d \<notin> sd_scope ` set (er_demotions r)"
    and "escalation_pass b cfg (sd_scope d) (map_of (ei_realized i) (sd_scope d))" and "sd_stage d = 2" and "sd_weight d = cg_stage2_weight cfg"
proof -
  obtain outcomes where o: "option_all (judge_scope b cfg i) (ei_scope_rows i) = Some outcomes"
    and p: "er_escalations r = filter (\<lambda>d. sd_action d = ''ESCALATE'') (take (add_budget cfg i) (ranked (additions b cfg i (er_demotions r) outcomes)))"
    by (rule decide_parts [OF assms(1)])
  have d: "d \<in> set (ranked (additions b cfg i (er_demotions r) outcomes))" "sd_action d = ''ESCALATE''"
    using assms(2) by (auto simp: p dest: in_set_takeD)
  obtain x rank where x: "x \<in> set (ei_promoted i)" "escalation_candidate b cfg i (map sd_scope (er_demotions r)) x = Some (rank, d)"
    using addition_cases [OF o d(1)] d(2) by auto
  show thesis using that [of "snd x"] x(1) escalation_action [OF x(2)] by auto
qed

lemma additions_within_budget:
  assumes "decide_promotions b cfg i = Some r"
  shows "int (length (er_promotions r) + length (er_escalations r)) \<le> max 0 (cg_max_promotions_per_day cfg - ei_used_today i)"
proof -
  obtain outcomes where p: "er_promotions r = filter (\<lambda>d. sd_action d \<noteq> ''ESCALATE'') (take (add_budget cfg i) (ranked (additions b cfg i (er_demotions r) outcomes)))"
      "er_escalations r = filter (\<lambda>d. sd_action d = ''ESCALATE'') (take (add_budget cfg i) (ranked (additions b cfg i (er_demotions r) outcomes)))"
    by (rule decide_parts [OF assms])
  have "length (er_promotions r) + length (er_escalations r) \<le> add_budget cfg i"
    using sum_length_filter_compl [of "\<lambda>d. sd_action d = ''ESCALATE''" "take (add_budget cfg i) (ranked (additions b cfg i (er_demotions r) outcomes))"]
    by (simp add: p)
  then show ?thesis unfolding add_budget_def by linarith
qed

text \<open>What the record of a promotion says: the gates of the ladder, all passed.\<close>

definition scope_earned :: "promo_lib \<Rightarrow> promotion_config \<Rightarrow> engine_inputs \<Rightarrow> string \<Rightarrow> bool" where
  "scope_earned b cfg i scope \<longleftrightarrow>
     (\<exists>rows e raw v. (scope, rows) \<in> set (ei_scope_rows i) \<and>
        build_scope_evidence b cfg scope rows (map_of (ei_clv i) scope) (case map_of (ei_families i) scope of None \<Rightarrow> 1 | Some n \<Rightarrow> n) True (ei_fused i) = Some e \<and>
        se_required_clusters e \<le> se_clusters e \<and> fle (se_min_span_days e) (se_span_days e) \<and> lower_above_zero (se_brier_ci e) \<and>
        beat_rate_pass e \<and> lower_above_zero (se_pnl_ci e) \<and> \<not> se_degrading e \<and> clv_pass e \<and> cv_ok (se_correlation e) \<and>
        map_option rz_forward (map_of (ei_realized i) scope) = Some (JObj raw) \<and>
        forward_witnessed_fill_evidence b cfg scope (JObj raw) = Some v \<and> forward_sound b cfg raw v)"

lemma promoted_scope_earned:
  assumes "decide_promotions b cfg i = Some r" and "d \<in> set (er_promotions r)"
  shows "scope_earned b cfg i (sd_scope d) \<and> map_of (ei_promoted i) (sd_scope d) = None \<and> (\<forall>ok. ei_eligible i = Some ok \<longrightarrow> sd_scope d \<in> set ok) \<and>
    sd_action d = ''PROMOTE'' \<and> sd_stage d = 1 \<and> sd_weight d = cg_stage1_weight cfg"
proof -
  obtain scope rows rank where j: "(scope, rows) \<in> set (ei_scope_rows i)" "judge_scope b cfg i (scope, rows) = Some (Candidate rank d)"
    by (rule promotions_are_candidates [OF assms])
  obtain e roi v where p: "map_of (ei_promoted i) scope = None" "\<forall>ok. ei_eligible i = Some ok \<longrightarrow> scope \<in> set ok"
    "build_scope_evidence b cfg scope rows (map_of (ei_clv i) scope) (case map_of (ei_families i) scope of None \<Rightarrow> 1 | Some n \<Rightarrow> n) True (ei_fused i) = Some e"
    and f: "forward_witnessed_fill_evidence b cfg scope (case map_of (ei_realized i) scope of None \<Rightarrow> JNull | Some r \<Rightarrow> rz_forward r) = Some v"
    and q: "evidence_pass e" "fv_pass v" "cv_ok (se_correlation e)"
    and d: "d = promotion cfg scope (dossier e @ [(''counterfactual_roi_diagnostic'', roi_dict cfg roi), (''forward_witnessed_fill_evidence'', JObj (fv_dict v))])"
    by (rule judge_candidate [OF j(2)])
  obtain raw where raw: "(case map_of (ei_realized i) scope of None \<Rightarrow> JNull | Some r \<Rightarrow> rz_forward r) = JObj raw" "forward_sound b cfg raw v"
    by (rule forward_pass_sound [OF f q(2)])
  have "map_option rz_forward (map_of (ei_realized i) scope) = Some (JObj raw)" using raw(1) by (auto split: option.splits)
  then have "scope_earned b cfg i scope" unfolding scope_earned_def using j(1) p(3) q(1,3) f raw unfolding evidence_pass_iff by auto
  then show ?thesis using p(1,2) by (simp add: d promotion_action)
qed

section \<open>Properties of a decision\<close>

text \<open>Fusion membership is earned. A promoted scope is not in the fusion yet, is eligible, has passed every predictive gate and the
  correlation guard, and has receipt-bounded, isolated forward evidence after its registration
  with a positive lower bound over enough trades, clusters and days; it enters at stage one with
  the weight of a probation.\<close>

theorem promotion_is_earned:
  assumes "decide_promotions b cfg i = Some r" and "d \<in> set (er_promotions r)"
  shows "scope_earned b cfg i (sd_scope d) \<and> map_of (ei_promoted i) (sd_scope d) = None \<and> (\<forall>ok. ei_eligible i = Some ok \<longrightarrow> sd_scope d \<in> set ok) \<and>
    sd_action d = ''PROMOTE'' \<and> sd_stage d = 1 \<and> sd_weight d = cg_stage1_weight cfg"
  by (rule promoted_scope_earned [OF assms])

text \<open>Adding risk is limited, taking it away is not. Promotions and escalations together are at most what the day still allows; an
  escalated scope is at stage one, is not demoted in the same run and has enough settled trades
  with a positive lower bound; and every scope in the fusion whose recent record is confidently
  negative is demoted, whatever the day has seen.\<close>

theorem risk_is_rationed:
  assumes "decide_promotions b cfg i = Some r"
  shows "int (length (er_promotions r) + length (er_escalations r)) \<le> max 0 (cg_max_promotions_per_day cfg - ei_used_today i) \<and>
    (\<forall>d \<in> set (er_escalations r). \<exists>stage < 2. (sd_scope d, stage) \<in> set (ei_promoted i) \<and> sd_scope d \<notin> sd_scope ` set (er_demotions r) \<and>
       escalation_pass b cfg (sd_scope d) (map_of (ei_realized i) (sd_scope d))) \<and>
    (\<forall>(scope, stage) \<in> set (ei_promoted i). \<forall>v. demotion_breach b cfg (case map_of (ei_scope_rows i) scope of None \<Rightarrow> [] | Some rows \<Rightarrow> rows) = Some v \<longrightarrow>
       dv_breach v \<longrightarrow> demote_decision scope stage v \<in> set (er_demotions r))"
proof (intro conjI ballI)
  show "int (length (er_promotions r) + length (er_escalations r)) \<le> max 0 (cg_max_promotions_per_day cfg - ei_used_today i)"
    by (rule additions_within_budget [OF assms])
  fix d assume "d \<in> set (er_escalations r)"
  then show "\<exists>stage < 2. (sd_scope d, stage) \<in> set (ei_promoted i) \<and> sd_scope d \<notin> sd_scope ` set (er_demotions r) \<and>
      escalation_pass b cfg (sd_scope d) (map_of (ei_realized i) (sd_scope d))"
    using escalations_are_candidates [OF assms] by blast
next
  fix x assume x: "x \<in> set (ei_promoted i)"
  obtain scope stage where s: "x = (scope, stage)" by (cases x)
  have dm: "demotions_of b cfg i = Some (er_demotions r)" by (rule decide_parts [OF assms])
  show "case x of (scope, stage) \<Rightarrow> \<forall>v. demotion_breach b cfg (case map_of (ei_scope_rows i) scope of None \<Rightarrow> [] | Some rows \<Rightarrow> rows) = Some v \<longrightarrow>
      dv_breach v \<longrightarrow> demote_decision scope stage v \<in> set (er_demotions r)"
    using dm x by (auto simp: s demotions_of_def dest!: option_all_image) (metis in_map_filter id_apply)
qed

end
