(* ===== verification/PromotionRuns.thy ===== *)
theory PromotionRuns
  imports PromotionEngine
begin

text \<open>
  The daily runs of \<open>autonomy/auto_promotion_runner.py\<close> over their files: the ledger they append to
  and count in, the promotions they write, the demotions they merge.
\<close>

section \<open>The ledger of the runs\<close>

text \<open>A ledger that verifies, with its entries, whose last line is terminated.\<close>

definition ledger_holds :: "(json \<Rightarrow> string) \<Rightarrow> (json \<Rightarrow> string) \<Rightarrow> ledger_file option \<Rightarrow> ledger_entry list \<Rightarrow> bool" where
  "ledger_holds sha rp f es \<longleftrightarrow> read_verified sha rp f = Inr es \<and> (case f of None \<Rightarrow> True | Some g \<Rightarrow> lf_terminated g)"

text \<open>Between two states of the files only \<open>new\<close> was appended, at the time of the run.\<close>

definition ledger_grows :: "promo_run \<Rightarrow> promo_files \<Rightarrow> promo_files \<Rightarrow> ledger_entry list \<Rightarrow> bool" where
  "ledger_grows run files files' new \<longleftrightarrow>
     (\<forall>es. ledger_holds (rn_sha run) (rn_repr run) (pf_ledger files) es \<longrightarrow>
        ledger_holds (rn_sha run) (rn_repr run) (pf_ledger files') (es @ new)) \<and>
     (rn_now_iso run \<noteq> [] \<longrightarrow> (\<forall>x \<in> set new. le_at x = rn_now_iso run)) \<and>
     pf_promotions files' = pf_promotions files \<and> pf_demotions files' = pf_demotions files"

lemma ledger_grows_refl [simp]: "ledger_grows run files files []"
  by (simp add: ledger_grows_def)

lemma ledger_grows_trans: "ledger_grows run f g xs \<Longrightarrow> ledger_grows run g h ys \<Longrightarrow> ledger_grows run f h (xs @ ys)"
  by (auto simp: ledger_grows_def simp flip: append_assoc)

lemma append_scope: "append_entry sha rp clk action scope payload given_at f = Inr r \<Longrightarrow> strip scope \<noteq> []"
  by (auto simp: append_entry_def split: if_split_asm)

lemma appended_entry:
  assumes "append_entry sha rp clk action scope payload given_at f = Inr (x, g)" and "ledger_holds sha rp f es"
  shows "ledger_holds sha rp (Some g) (es @ [canonical_entry x])" and "le_action x = action" and "le_scope x = scope"
proof -
  have a: "action \<in> set VALID_ACTIONS" using assms(1) by (auto simp: append_entry_def split: if_split_asm)
  have r: "read_verified sha rp f = Inr es" "case f of None \<Rightarrow> True | Some g \<Rightarrow> lf_terminated g"
    using assms(2) by (auto simp: ledger_holds_def)
  have "\<exists>x' g'. append_entry sha rp clk action scope payload given_at f = Inr (x', g') \<and> lf_terminated g' \<and>
    read_verified sha rp (Some g') = Inr (es @ [canonical_entry x']) \<and> le_sequence x' = int (length es) \<and>
    le_previous_hash x' = chain_head es \<and> le_action x' = action \<and> le_scope x' = scope \<and> le_payload x' = payload"
    by (rule append_then_read [OF r(1) a append_scope [OF assms(1)] r(2)])
  then show "ledger_holds sha rp (Some g) (es @ [canonical_entry x])" "le_action x = action" "le_scope x = scope"
    using assms(1) by (auto simp: ledger_holds_def)
qed

lemma canonical_entry_fields [simp]: "le_action (canonical_entry e) = le_action e" "le_scope (canonical_entry e) = le_scope e"
  "le_at (canonical_entry e) = le_at e" "le_entry_hash (canonical_entry e) = le_entry_hash e"
  by (simp_all add: canonical_entry_def)

lemma recorded:
  assumes "record_decision run action d payload files = Inr (x, files')"
  obtains "ledger_grows run files files' [canonical_entry x]" and "le_action x = action" and "le_scope x = sd_scope d" and "strip (sd_scope d) \<noteq> []"
proof -
  obtain g where g: "append_entry (rn_sha run) (rn_repr run) (rn_clock run) action (sd_scope d) payload (Some (rn_now_iso run)) (pf_ledger files) = Inr (x, g)"
    "files' = files\<lparr>pf_ledger := Some g\<rparr>"
    using assms
    by (cases "append_entry (rn_sha run) (rn_repr run) (rn_clock run) action (sd_scope d) payload (Some (rn_now_iso run)) (pf_ledger files)")
      (auto simp: record_decision_def)
  have "rn_now_iso run \<noteq> [] \<longrightarrow> le_at x = rn_now_iso run"
    using g(1) by (auto simp: append_entry_def new_entry_def Let_def split: if_split_asm sum.splits list.splits)
  then have "ledger_grows run files files' [canonical_entry x]"
    using appended_entry(1) [OF g(1)] by (simp add: ledger_grows_def g(2))
  moreover have "le_action x = action" "le_scope x = sd_scope d"
    using g(1) by (auto simp: append_entry_def new_entry_def Let_def split: if_split_asm sum.splits)
  ultimately show thesis using that append_scope [OF g(1)] by blast
qed

text \<open>The files a part of an application leaves, also when an error of the ledger ends it.\<close>

definition files_left :: "(ledger_error \<times> promo_files) + promo_files \<times> 'a \<Rightarrow> promo_files" where
  "files_left res = (case res of Inl (e, f) \<Rightarrow> f | Inr (f, x) \<Rightarrow> f)"

lemma apply_promotions_grow:
  "\<exists>new. ledger_grows run files (files_left (apply_promotions run cfg ds (files, entries, past))) new \<and> length new \<le> length ds"
proof (induction ds arbitrary: files entries past)
  case Nil
  then show ?case by (auto simp: files_left_def intro: exI [of _ "[]"])
next
  case (Cons d ds)
  show ?case
  proof (cases "scope_parts (sd_scope d)")
    case None
    then show ?thesis using Cons.IH [of files entries past] by (auto intro: le_SucI)
  next
    case (Some parts)
    show ?thesis
    proof (cases "record_decision run ''PROMOTE'' d (promotion_payload cfg d) files")
      case (Inl e)
      then show ?thesis by (auto simp: Some files_left_def intro: exI [of _ "[]"])
    next
      case (Inr r)
      obtain x f where r: "r = (x, f)" by (cases r)
      have g: "ledger_grows run files f [canonical_entry x]" by (rule recorded [OF Inr [unfolded r]])
      show ?thesis unfolding apply_promotions.simps Some Inr r option.case sum.case prod.case
        using Cons.IH [of f] ledger_grows_trans [OF g] by (metis Suc_le_mono append_Cons append_Nil length_Cons)
    qed
  qed
qed

lemma apply_escalations_grow:
  "\<exists>new. ledger_grows run files (files_left (apply_escalations run cfg ds (files, entries, past))) new \<and> length new \<le> length ds"
proof (induction ds arbitrary: files entries past)
  case Nil
  then show ?case by (auto simp: files_left_def intro: exI [of _ "[]"])
next
  case (Cons d ds)
  show ?case
  proof (cases "record_decision run ''ESCALATE'' d (promotion_payload cfg d) files")
    case (Inl e)
    then show ?thesis by (auto simp: files_left_def intro: exI [of _ "[]"])
  next
    case (Inr r)
    obtain x f where r: "r = (x, f)" by (cases r)
    have g: "ledger_grows run files f [canonical_entry x]" by (rule recorded [OF Inr [unfolded r]])
    show ?thesis unfolding apply_escalations.simps Inr r sum.case prod.case
      using Cons.IH [of f] ledger_grows_trans [OF g] by (metis Suc_le_mono append_Cons append_Nil length_Cons)
  qed
qed

text \<open>Demotions add no risk.\<close>

definition safe_entries :: "ledger_entry list \<Rightarrow> bool" where
  "safe_entries new \<longleftrightarrow> (\<forall>x \<in> set new. \<not> risk_action x)"

lemma apply_demotions_grow:
  "\<exists>new. ledger_grows run files (case apply_demotions run cfg ds files of Inl (e, f) \<Rightarrow> f | Inr f \<Rightarrow> f) new \<and> safe_entries new \<and>
     (\<forall>f. apply_demotions run cfg ds files = Inr f \<longrightarrow> (\<forall>d \<in> set ds. strip (sd_scope d) \<noteq> []))"
proof (induction ds arbitrary: files)
  case Nil
  then show ?case by (auto simp: safe_entries_def intro: exI [of _ "[]"])
next
  case (Cons d ds)
  show ?case
  proof (cases "record_decision run ''DEMOTE'' d (demotion_payload cfg d) files")
    case (Inl e)
    then show ?thesis by (auto simp: safe_entries_def intro: exI [of _ "[]"])
  next
    case (Inr r)
    obtain x f where r: "r = (x, f)" by (cases r)
    have g: "ledger_grows run files f [canonical_entry x]" "le_action x = ''DEMOTE''" "strip (sd_scope d) \<noteq> []"
      by (rule recorded [OF Inr [unfolded r]]; assumption)+
    obtain new where new: "ledger_grows run f (case apply_demotions run cfg ds f of Inl (e, f) \<Rightarrow> f | Inr f \<Rightarrow> f) new" "safe_entries new"
      "\<forall>f'. apply_demotions run cfg ds f = Inr f' \<longrightarrow> (\<forall>d \<in> set ds. strip (sd_scope d) \<noteq> [])"
      using Cons.IH [of f] by blast
    have "safe_entries (canonical_entry x # new)" using new(2) g(2) by (simp add: safe_entries_def risk_action_def)
    then show ?thesis using ledger_grows_trans [OF g(1) new(1)] new(3) g(3) by (auto simp: Inr r intro!: exI [of _ "canonical_entry x # new"])
  qed
qed

section \<open>The entries of the promotions\<close>

lemma join_split_bar: "join_bar (split_bar s) = s"
proof -
  have "split_bar s \<noteq> [] \<and> join_bar (split_bar s) = s"
  proof (induction s)
    case Nil
    then show ?case by (simp add: split_bar_def)
  next
    case (Cons ch s)
    obtain p ps where p: "split_bar s = p # ps" using Cons by (cases "split_bar s") auto
    have "split_bar (ch # s) = (if ch = CHR ''|'' then [] # p # ps else (ch # p) # ps)"
      using p by (simp add: split_bar_def)
    moreover have "join_bar ((ch # p) # ps) = ch # join_bar (p # ps)" by (cases ps) auto
    ultimately show ?case using Cons p by auto
  qed
  then show ?thesis ..
qed

text \<open>Every entry is filed under its own scope and its stage and weight can be read.\<close>

definition reads_as :: "(json \<Rightarrow> string) \<Rightarrow> (string \<Rightarrow> pyfloat option) \<Rightarrow> (string \<times> json) list \<Rightarrow> string \<Rightarrow> int \<Rightarrow> pyfloat \<Rightarrow> bool" where
  "reads_as rp ft e k stage w \<longleftrightarrow> entry_scope rp e = Some k \<and> entry_stage e = Some stage \<and> entry_fraction ft e = Some w"

definition table_ok :: "(json \<Rightarrow> string) \<Rightarrow> (string \<Rightarrow> pyfloat option) \<Rightarrow> scope_entries \<Rightarrow> bool" where
  "table_ok rp ft entries \<longleftrightarrow> distinct (map fst entries) \<and> (\<forall>k e. map_of entries k = Some e \<longrightarrow> (\<exists>stage w. reads_as rp ft e k stage w))"

lemma table_ok_update: "table_ok rp ft entries \<Longrightarrow> reads_as rp ft e k stage w \<Longrightarrow> table_ok rp ft (AList.update k e entries)"
  by (auto simp: table_ok_def AList.distinct_update AList.update_conv')

text \<open>A decision that is applied writes its stage and its weight.\<close>

lemma promoted_entry_reads:
  assumes "scope_parts scope = Some parts"
  shows "reads_as rp ft (parts @ [(''stage'', JInt stage), (''weight_fraction'', JFloat w), (''promoted_at'', a), (''promoted_by'', b), (''evidence_ref'', c)])
    scope stage w"
proof -
  obtain p q r t where l: "split_bar scope = [p, q, r, t]" and parts: "parts = zip SCOPE_PARTS (map JStr [p, q, r, t])"
    and ne: "strip p \<noteq> []" "strip q \<noteq> []" "strip r \<noteq> []" "strip t \<noteq> []"
  proof -
    from assms have n: "length (split_bar scope) = 4" and e: "\<forall>p \<in> set (split_bar scope). strip p \<noteq> []" "parts = zip SCOPE_PARTS (map JStr (split_bar scope))"
      by (auto simp: scope_parts_def Let_def split: if_split_asm)
    obtain p q r t where "split_bar scope = [p, q, r, t]" using n by (auto simp: numeral_eq_Suc length_Suc_conv)
    then show thesis using that e by auto
  qed
  have j: "join_bar [p, q, r, t] = scope" using join_split_bar [of scope] l by simp
  have "strip [] = []" by code_simp
  then have "p \<noteq> []" "q \<noteq> []" "r \<noteq> []" "t \<noteq> []" using ne by auto
  then show ?thesis using j
    by (simp add: reads_as_def entry_scope_def entry_stage_def entry_fraction_def parts SCOPE_PARTS_def int_or_skip_def float_or_skip_def)
qed

lemma jget_default_jput: "jget_default k v (jput k' u d) = (if k = k' then u else jget_default k v d)"
  by (induction k' u d rule: jput.induct) auto

lemma escalated_entry_reads:
  assumes "reads_as rp ft e k stage w"
  shows "reads_as rp ft (jput ''escalation_evidence_ref'' c (jput ''escalated_at'' a (jput ''weight_fraction'' (JFloat w') (jput ''stage'' (JInt stage') e)))) k stage' w'"
proof -
  let ?e = "jput ''escalation_evidence_ref'' c (jput ''escalated_at'' a (jput ''weight_fraction'' (JFloat w') (jput ''stage'' (JInt stage') e)))"
  have "entry_scope rp ?e = entry_scope rp e" by (simp add: entry_scope_def SCOPE_PARTS_def jget_jput)
  moreover have "entry_stage ?e = Some stage'" by (simp add: entry_stage_def jget_default_jput int_or_skip_def)
  moreover have "entry_fraction ft ?e = Some w'" by (simp add: entry_fraction_def jget_jput float_or_skip_def)
  ultimately show ?thesis using assms by (simp add: reads_as_def)
qed

text \<open>What may become of an entry: nothing, or what a decision about its scope writes.\<close>

definition decided_entry :: "(json \<Rightarrow> string) \<Rightarrow> (string \<Rightarrow> pyfloat option) \<Rightarrow> scope_decision list \<Rightarrow> scope_entries \<Rightarrow> string \<Rightarrow> (string \<times> json) list \<Rightarrow> bool" where
  "decided_entry rp ft ds entries k e \<longleftrightarrow>
     map_of entries k = Some e \<or> (\<exists>d \<in> set ds. sd_scope d = k \<and> reads_as rp ft e k (sd_stage d) (sd_weight d))"

lemma apply_promotions_table:
  "apply_promotions run cfg ds (files, entries, past) = Inr (files', entries', past') \<Longrightarrow> table_ok rp ft entries \<Longrightarrow>
   table_ok rp ft entries' \<and> (\<forall>k e. map_of entries' k = Some e \<longrightarrow> decided_entry rp ft ds entries k e) \<and>
   dom (map_of entries) \<subseteq> dom (map_of entries')"
proof (induction ds arbitrary: files entries past)
  case Nil
  then show ?case by (simp add: decided_entry_def)
next
  case (Cons d ds)
  show ?case
  proof (cases "scope_parts (sd_scope d)")
    case None
    then show ?thesis using Cons.IH [of files entries past] Cons.prems by (auto simp: decided_entry_def)
  next
    case (Some parts)
    obtain x f where r: "record_decision run ''PROMOTE'' d (promotion_payload cfg d) files = Inr (x, f)"
      using Cons.prems(1) by (auto simp: Some split: sum.splits)
    define e where "e = parts @ [(''stage'', JInt (sd_stage d)), (''weight_fraction'', JFloat (sd_weight d)), (''promoted_at'', JStr (rn_now_iso run)),
                   (''promoted_by'', JStr ''auto_promotion_engine''), (''evidence_ref'', JStr (le_entry_hash x))]"
    have e: "reads_as rp ft e (sd_scope d) (sd_stage d) (sd_weight d)" unfolding e_def by (rule promoted_entry_reads [OF Some])
    have run: "apply_promotions run cfg ds (f, AList.update (sd_scope d) e entries, past @ [sd_scope d]) = Inr (files', entries', past')"
      using Cons.prems(1) by (simp add: Some r e_def)
    have ih: "table_ok rp ft entries'" "\<forall>k e'. map_of entries' k = Some e' \<longrightarrow> decided_entry rp ft ds (AList.update (sd_scope d) e entries) k e'"
      "dom (map_of (AList.update (sd_scope d) e entries)) \<subseteq> dom (map_of entries')"
      using Cons.IH [OF run table_ok_update [OF Cons.prems(2) e]] by blast+
    have "decided_entry rp ft (d # ds) entries k e'" if "map_of entries' k = Some e'" for k e'
      using ih(2) [rule_format, OF that] e by (cases "k = sd_scope d") (auto simp: decided_entry_def AList.update_conv')
    then show ?thesis using ih(1,3) by (auto simp: AList.update_conv')
  qed
qed

lemma apply_escalations_table:
  "apply_escalations run cfg ds (files, entries, past) = Inr (files', entries', past') \<Longrightarrow> table_ok rp ft entries \<Longrightarrow>
   table_ok rp ft entries' \<and> (\<forall>k e. map_of entries' k = Some e \<longrightarrow> decided_entry rp ft ds entries k e) \<and>
   dom (map_of entries') = dom (map_of entries)"
proof (induction ds arbitrary: files entries past)
  case Nil
  then show ?case by (simp add: decided_entry_def)
next
  case (Cons d ds)
  obtain x f where r: "record_decision run ''ESCALATE'' d (promotion_payload cfg d) files = Inr (x, f)"
    using Cons.prems(1) by (auto split: sum.splits)
  define h where "h = (\<lambda>e. jput ''escalation_evidence_ref'' (JStr (le_entry_hash x)) (jput ''escalated_at'' (JStr (rn_now_iso run))
              (jput ''weight_fraction'' (JFloat (sd_weight d)) (jput ''stage'' (JInt (sd_stage d)) e))))"
  have h: "reads_as rp ft e k stage w \<Longrightarrow> reads_as rp ft (h e) k (sd_stage d) (sd_weight d)" for e k stage w
    unfolding h_def by (rule escalated_entry_reads)
  have m: "map_of (AList.map_entry (sd_scope d) h entries) = (map_of entries)(sd_scope d := map_option h (map_of entries (sd_scope d)))"
    by (simp add: AList.map_of_map_entry map_option_case)
  have ok: "table_ok rp ft (AList.map_entry (sd_scope d) h entries)"
    using Cons.prems(2) h by (fastforce simp: table_ok_def AList.distinct_map_entry m)
  have run: "apply_escalations run cfg ds (f, AList.map_entry (sd_scope d) h entries, past @ [sd_scope d]) = Inr (files', entries', past')"
    using Cons.prems(1) by (simp add: r h_def)
  have one: "decided_entry rp ft [d] entries k e" if at: "map_of (AList.map_entry (sd_scope d) h entries) k = Some e" for k e
  proof (cases "k = sd_scope d")
    case True
    then obtain z where z: "map_of entries k = Some z" "e = h z" using at by (auto simp only: m fun_upd_same map_option_eq_Some)
    then obtain stage w where "reads_as rp ft z k stage w" using Cons.prems(2) unfolding table_ok_def by blast
    then show ?thesis using h True by (auto simp: decided_entry_def z(2))
  qed (use at in \<open>simp add: m decided_entry_def\<close>)
  have "dom (map_of (AList.map_entry (sd_scope d) h entries)) = dom (map_of entries)" by (auto simp: m split: if_split_asm)
  moreover have "decided_entry rp ft (d # ds) entries k e" if "decided_entry rp ft ds (AList.map_entry (sd_scope d) h entries) k e" for k e
    using that one [of k e] by (auto simp: decided_entry_def)
  ultimately show ?case using Cons.IH [OF run ok] by auto
qed

section \<open>Loading what was written\<close>

definition file_entry :: "(json \<Rightarrow> string) \<Rightarrow> json \<Rightarrow> scope_entries \<Rightarrow> scope_entries" where
  "file_entry rp v = (case v of JObj e \<Rightarrow> (case entry_scope rp e of None \<Rightarrow> id | Some k \<Rightarrow> AList.update k e) | _ \<Rightarrow> id)"

lemma entries_by_scope_fold: "entries_by_scope rp vs = fold (file_entry rp) vs []"
  unfolding entries_by_scope_def file_entry_def ..

text \<open>A registry that was loaded from entries.\<close>

definition registry_of :: "(json \<Rightarrow> string) \<Rightarrow> (string \<Rightarrow> pyfloat option) \<Rightarrow> scope_entries \<Rightarrow> promotion_registry \<Rightarrow> bool" where
  "registry_of rp ft entries reg \<longleftrightarrow> table_ok rp ft entries \<and> set (pr_promoted reg) = dom (map_of entries) \<and>
     (\<forall>k e. map_of entries k = Some e \<longrightarrow> reads_as rp ft e k (the (pr_stage reg k)) (the (pr_fraction reg k)) \<and>
        pr_stage reg k \<noteq> None \<and> pr_fraction reg k \<noteq> None)"

lemma note_promotion_entries:
  assumes "note_promotion rp ft v reg = Some reg'" and "registry_of rp ft entries reg"
  shows "registry_of rp ft (file_entry rp v entries) reg'"
proof (cases "\<exists>e k. v = JObj e \<and> entry_scope rp e = Some k")
  case True
  then obtain e k where v: "v = JObj e" "entry_scope rp e = Some k" by blast
  obtain stage w where s: "entry_stage e = Some stage" "entry_fraction ft e = Some w"
    and reg: "reg' = reg\<lparr>pr_promoted := List.insert k (pr_promoted reg), pr_stage := (pr_stage reg)(k \<mapsto> stage), pr_fraction := (pr_fraction reg)(k \<mapsto> w)\<rparr>"
    using assms(1) by (auto simp: note_promotion_def v bind_eq_Some_conv)
  have r: "reads_as rp ft e k stage w" using v(2) s by (simp add: reads_as_def)
  have t: "table_ok rp ft (AList.update k e entries)" using assms(2) r by (intro table_ok_update) (auto simp: registry_of_def)
  show ?thesis using assms(2) r t by (auto simp: registry_of_def file_entry_def v reg AList.update_conv')
next
  case False
  then show ?thesis using assms by (auto simp: note_promotion_def file_entry_def split: json.splits option.splits)
qed

lemma note_promotions_entries:
  "note_promotions rp ft vs reg = Some reg' \<Longrightarrow> registry_of rp ft entries reg \<Longrightarrow> registry_of rp ft (fold (file_entry rp) vs entries) reg'"
proof (induction vs arbitrary: reg entries)
  case (Cons v vs)
  then show ?case using note_promotion_entries by (fastforce simp: bind_eq_Some_conv)
qed simp

lemma note_promotions_total:
  "(\<And>v. v \<in> set vs \<Longrightarrow> \<exists>e k stage w. v = JObj e \<and> reads_as rp ft e k stage w) \<Longrightarrow> \<exists>reg'. note_promotions rp ft vs reg = Some reg' \<and> pr_demoted reg' = pr_demoted reg"
proof (induction vs arbitrary: reg)
  case (Cons v vs)
  obtain e k stage w where v: "v = JObj e" "reads_as rp ft e k stage w" using Cons.prems [of v] by auto
  then have one: "\<exists>reg'. note_promotion rp ft v reg = Some reg' \<and> pr_demoted reg' = pr_demoted reg"
    by (simp add: note_promotion_def reads_as_def)
  have "\<exists>reg'. note_promotions rp ft vs r = Some reg' \<and> pr_demoted reg' = pr_demoted r" for r
    by (rule Cons.IH) (rule Cons.prems, simp)
  then show ?case using one by fastforce
qed simp

lemma fold_file_entry:
  "distinct (map fst es) \<Longrightarrow> (\<And>k e. (k, e) \<in> set es \<Longrightarrow> entry_scope rp e = Some k) \<Longrightarrow>
   map_of (fold (file_entry rp) (map (JObj \<circ> snd) es) acc) = map_of acc ++ map_of es"
proof (induction es arbitrary: acc)
  case (Cons x es)
  obtain k e where x: "x = (k, e)" by (cases x)
  have "entry_scope rp e = Some k" using Cons.prems(2) by (simp add: x)
  moreover have "k \<notin> dom (map_of es)" using Cons.prems(1) by (auto simp: x dom_map_of_conv_image_fst)
  moreover have "map_of (fold (file_entry rp) (map (JObj \<circ> snd) es) (AList.update k e acc)) = map_of (AList.update k e acc) ++ map_of es"
    using Cons.prems by (intro Cons.IH) auto
  moreover have "fold (file_entry rp) (map (JObj \<circ> snd) (x # es)) acc = fold (file_entry rp) (map (JObj \<circ> snd) es) (AList.update k e acc)"
    using calculation(1) by (simp add: x) (simp add: file_entry_def)
  ultimately show ?case
    by (simp only: x AList.update_conv' map_add_upd map_of.simps fst_conv snd_conv) (erule map_add_upd_left)
qed simp

lemma registry_of_same:
  assumes "registry_of rp ft entries reg" and "map_of entries' = map_of entries" and "distinct (map fst entries')"
  shows "registry_of rp ft entries' reg"
  using assms by (simp add: registry_of_def table_ok_def del: map_of_eq_Some_iff)

lemma empty_registry: "registry_of rp ft [] \<lparr>pr_promoted = [], pr_stage = Map.empty, pr_fraction = Map.empty, pr_demoted = []\<rparr>"
  by (simp add: registry_of_def table_ok_def)

lemma registry_of_demoted: "registry_of rp ft entries (reg\<lparr>pr_demoted := ds\<rparr>) = registry_of rp ft entries reg"
  by (simp add: registry_of_def)

lemma load_promotions_entries:
  assumes "load_promotions rp ft promotions demotions = Some reg"
  obtains vs where "items_of (jget ''promotions'' (json_dict promotions)) = Some vs" and "registry_of rp ft (entries_by_scope rp vs) reg"
proof -
  obtain vs reg0 ds where v: "items_of (jget ''promotions'' (json_dict promotions)) = Some vs"
    "note_promotions rp ft vs \<lparr>pr_promoted = [], pr_stage = Map.empty, pr_fraction = Map.empty, pr_demoted = []\<rparr> = Some reg0"
    "reg = reg0\<lparr>pr_demoted := ds\<rparr>"
    using assms by (auto simp: load_promotions_def bind_eq_Some_conv)
  show thesis using that [OF v(1)] note_promotions_entries [OF v(2) empty_registry]
    by (simp add: v(3) registry_of_demoted entries_by_scope_fold)
qed

lemma load_demoted:
  assumes "load_promotions rp ft promotions demotions = Some reg"
  obtains vs where "items_of (jget ''demotions'' (json_dict demotions)) = Some vs" and "pr_demoted reg = remdups (List.map_filter (demoted_scope rp) vs)"
  using assms by (auto simp: load_promotions_def bind_eq_Some_conv)

text \<open>A promotions file that was written loads, with the entries that were written.\<close>

lemma load_written:
  assumes "table_ok rp ft entries" and "items_of (jget ''demotions'' (json_dict demotions)) = Some gone"
  obtains reg where "load_promotions rp ft (promotions_file run entries) demotions = Some reg" and "registry_of rp ft entries reg"
proof -
  let ?es = "sort_key fst entries"
  have d: "distinct (map fst ?es)"
  proof -
    have "distinct (map fst entries)" using assms(1) by (simp add: table_ok_def)
    then show ?thesis by (metis distinct_map distinct_sort set_sort)
  qed
  have m: "map_of ?es = map_of entries"
    using d assms(1) by (intro map_of_inject_set [THEN iffD2]) (auto simp: table_ok_def)
  have e: "\<exists>stage w. reads_as rp ft e k stage w" if "(k, e) \<in> set ?es" for k e
    using that assms(1) d unfolding m [symmetric] table_ok_def by (metis m map_of_eq_Some_iff)
  let ?vs = "map (JObj \<circ> snd) ?es"
  have i: "items_of (jget ''promotions'' (json_dict (promotions_file run entries))) = Some ?vs"
    by (simp add: promotions_file_def json_dict_def items_of_def)
  obtain reg0 where n: "note_promotions rp ft ?vs \<lparr>pr_promoted = [], pr_stage = Map.empty, pr_fraction = Map.empty, pr_demoted = []\<rparr> = Some reg0"
  proof -
    have "\<exists>reg'. note_promotions rp ft ?vs \<lparr>pr_promoted = [], pr_stage = Map.empty, pr_fraction = Map.empty, pr_demoted = []\<rparr> = Some reg' \<and> pr_demoted reg' = []"
      using note_promotions_total [of ?vs rp ft "\<lparr>pr_promoted = [], pr_stage = Map.empty, pr_fraction = Map.empty, pr_demoted = []\<rparr>"] e by fastforce
    then show thesis using that by blast
  qed
  have "map_of (fold (file_entry rp) ?vs []) = map_of [] ++ map_of ?es"
    by (rule fold_file_entry [OF d]) (use e in \<open>auto simp: reads_as_def\<close>)
  then have "map_of entries = map_of (fold (file_entry rp) ?vs [])" by (simp add: m)
  then have "registry_of rp ft entries reg0"
    using registry_of_same [OF note_promotions_entries [OF n empty_registry]] assms(1) by (simp add: table_ok_def)
  moreover have "load_promotions rp ft (promotions_file run entries) demotions = Some (reg0\<lparr>pr_demoted := remdups (List.map_filter (demoted_scope rp) gone)\<rparr>)"
    by (simp add: load_promotions_def i n assms(2))
  ultimately show thesis using that by (simp add: registry_of_demoted)
qed

section \<open>One application\<close>

definition risk_entries :: "ledger_entry list \<Rightarrow> nat" where
  "risk_entries es = length (filter risk_action es)"

lemma risk_entries_le: "risk_entries es \<le> length es"
  by (simp add: risk_entries_def)

lemma risk_entries_append [simp]: "risk_entries (xs @ ys) = risk_entries xs + risk_entries ys"
  by (simp add: risk_entries_def)

lemma risk_entries_safe: "safe_entries es \<Longrightarrow> risk_entries es = 0"
  by (simp add: risk_entries_def safe_entries_def filter_empty_conv)

text \<open>Entries are kept, and changed or added only as decided.\<close>

definition table_follows ::
  "(json \<Rightarrow> string) \<Rightarrow> (string \<Rightarrow> pyfloat option) \<Rightarrow> engine_result \<Rightarrow> scope_entries \<Rightarrow> scope_entries \<Rightarrow> bool" where
  "table_follows rp ft r old new \<longleftrightarrow> table_ok rp ft new \<and> dom (map_of old) \<subseteq> dom (map_of new) \<and>
     (\<forall>k e. map_of new k = Some e \<longrightarrow> map_of old k = Some e \<or>
        (\<exists>d \<in> set (er_promotions r). sd_scope d = k \<and> reads_as rp ft e k (sd_stage d) (sd_weight d)) \<or>
        (\<exists>d \<in> set (er_escalations r). sd_scope d = k \<and> reads_as rp ft e k (sd_stage d) (sd_weight d)))"

lemma apply_result_parts:
  assumes "apply_result run cfg r files = (a, files')"
  obtains mid new where "ledger_grows run files mid new" and "risk_entries new \<le> length (er_promotions r) + length (er_escalations r)"
    and "files' = mid \<or> (\<exists>vs table. items_of (jget ''promotions'' (json_dict (pf_promotions files))) = Some vs \<and>
       files' = mid\<lparr>pf_promotions := promotions_file run table\<rparr> \<and>
       (\<forall>ft. table_ok (rn_repr run) ft (entries_by_scope (rn_repr run) vs) \<longrightarrow> table_follows (rn_repr run) ft r (entries_by_scope (rn_repr run) vs) table))"
    and "\<forall>x. a = Some x \<longrightarrow> ap_demoted x = map sd_scope (er_demotions r) \<and> (\<forall>s \<in> set (ap_demoted x). strip s \<noteq> [])"
proof (cases "items_of (jget ''promotions'' (json_dict (pf_promotions files)))")
  case None
  then show thesis using assms that [of files "[]"] by (auto simp: apply_result_def risk_entries_def)
next
  case (Some vs)
  let ?old = "entries_by_scope (rn_repr run) vs"
  let ?p = "apply_promotions run cfg (er_promotions r) (files, ?old, [])"
  obtain n1 where n1: "ledger_grows run files (files_left ?p) n1" "length n1 \<le> length (er_promotions r)"
    using apply_promotions_grow by blast
  show thesis
  proof (cases ?p)
    case (Inl l)
    then show thesis using assms that [of files' n1] n1 risk_entries_le [of n1] by (auto simp: apply_result_def Some files_left_def split: prod.splits)
  next
    case (Inr l)
    obtain f1 t1 s1 where l: "l = (f1, t1, s1)" by (cases l)
    note p = Inr [unfolded l]
    let ?q = "apply_escalations run cfg (er_escalations r) (f1, t1, [])"
    have g1: "ledger_grows run files f1 n1" using n1(1) by (simp add: p files_left_def)
    obtain n2 where n2: "ledger_grows run f1 (files_left ?q) n2" "length n2 \<le> length (er_escalations r)"
      using apply_escalations_grow by blast
    note g2 = ledger_grows_trans [OF g1 n2(1)]
    have r2: "risk_entries (n1 @ n2) \<le> length (er_promotions r) + length (er_escalations r)"
      using n1(2) n2(2) risk_entries_le [of n1] risk_entries_le [of n2] by simp
    show thesis
    proof (cases ?q)
      case (Inl m)
      then show thesis using assms that [OF g2 r2] by (auto simp: apply_result_def Some p files_left_def split: prod.splits)
    next
      case (Inr m)
      obtain f2 t2 s2 where m: "m = (f2, t2, s2)" by (cases m)
      note q = Inr [unfolded m]
      let ?d = "apply_demotions run cfg (er_demotions r) f2"
      obtain n3 where n3: "ledger_grows run f2 (case ?d of Inl (e, f) \<Rightarrow> f | Inr f \<Rightarrow> f) n3" "safe_entries n3"
        "\<forall>f. ?d = Inr f \<longrightarrow> (\<forall>d \<in> set (er_demotions r). strip (sd_scope d) \<noteq> [])"
        using apply_demotions_grow by blast
      have g3: "ledger_grows run files (case ?d of Inl (e, f) \<Rightarrow> f | Inr f \<Rightarrow> f) ((n1 @ n2) @ n3)"
        using ledger_grows_trans [OF g2 [unfolded q files_left_def sum.case prod.case] n3(1)] .
      have r3: "risk_entries ((n1 @ n2) @ n3) \<le> length (er_promotions r) + length (er_escalations r)"
        using r2 risk_entries_safe [OF n3(2)] by simp
      have t: "table_follows (rn_repr run) ft r ?old t2" if ok: "table_ok (rn_repr run) ft ?old" for ft
        using apply_promotions_table [OF p ok] apply_escalations_table [OF q, of "rn_repr run" ft]
        by (fastforce simp: table_follows_def decided_entry_def)
      show thesis
      proof (cases ?d)
        case (Inl m)
        then show thesis using assms that [OF g3 r3] by (auto simp: apply_result_def Some p q split: prod.splits)
      next
        case (Inr f3)
        have a: "a = Some \<lparr>ap_promoted = s1, ap_escalated = s2, ap_demoted = map sd_scope (er_demotions r)\<rparr>"
          and f: "files' = f3 \<or> files' = f3\<lparr>pf_promotions := promotions_file run t2\<rparr>"
          using assms by (auto simp: apply_result_def Some p q Inr split: if_split_asm)
        show thesis
        proof (rule that [OF g3 [unfolded Inr sum.case] r3])
          show "files' = f3 \<or> (\<exists>vs table. items_of (jget ''promotions'' (json_dict (pf_promotions files))) = Some vs \<and>
             files' = f3\<lparr>pf_promotions := promotions_file run table\<rparr> \<and>
             (\<forall>ft. table_ok (rn_repr run) ft (entries_by_scope (rn_repr run) vs) \<longrightarrow> table_follows (rn_repr run) ft r (entries_by_scope (rn_repr run) vs) table))"
            using f Some t by blast
          show "\<forall>x. a = Some x \<longrightarrow> ap_demoted x = map sd_scope (er_demotions r) \<and> (\<forall>s \<in> set (ap_demoted x). strip s \<noteq> [])"
            using n3(3) Inr by (simp add: a)
        qed
      qed
    qed
  qed
qed

section \<open>One run\<close>

text \<open>A run decides only on a ledger that can be counted, with every rail clear and a database.\<close>

definition run_decides :: "promo_lib \<Rightarrow> promotion_config \<Rightarrow> promo_run \<Rightarrow> gathered \<Rightarrow> promo_files \<Rightarrow> engine_inputs \<Rightarrow> engine_result \<Rightarrow> bool" where
  "run_decides b cfg run g files i r \<longleftrightarrow>
     (\<exists>used. used_today run files = Inr used \<and> evaluate_rails ARTIFACT_STALE_HOURS (ga_rails g) = [] \<and> ga_database g \<and>
        engine_inputs_of b run g used files = Some i \<and> decide_promotions b cfg i = Some r)"

lemma abort_entry:
  assumes "append_entry (rn_sha run) (rn_repr run) (rn_clock run) ''ABORT'' ''*'' payload (Some (rn_now_iso run)) (pf_ledger files) = Inr (x, f)"
  shows "ledger_grows run files (files\<lparr>pf_ledger := Some f\<rparr>) [canonical_entry x]" and "safe_entries [canonical_entry x]"
proof -
  have x: "le_action x = ''ABORT''" "rn_now_iso run \<noteq> [] \<longrightarrow> le_at x = rn_now_iso run"
    using assms by (auto simp: append_entry_def new_entry_def Let_def split: if_split_asm sum.splits list.splits)
  then show "ledger_grows run files (files\<lparr>pf_ledger := Some f\<rparr>) [canonical_entry x]"
    using appended_entry(1) [OF assms] by (simp add: ledger_grows_def)
  show "safe_entries [canonical_entry x]" using x by (simp add: safe_entries_def risk_action_def)
qed

lemma run_parts:
  assumes "run_auto_promotion b cfg run g files = (status, files')"
  obtains (kept) new where "ledger_grows run files files' new" "safe_entries new" "\<forall>a. status \<noteq> Applied a"
  | (decided) i r a mid where "run_decides b cfg run g files i r" "apply_result run cfg r files = (a, mid)"
    "(\<forall>x. status \<noteq> Applied x) \<and> files' = mid \<or> (\<exists>x. a = Some x \<and> stick_demotions run (ap_demoted x) mid = Some files' \<and> status = Applied x)"
proof (cases "used_today run files")
  case (Inl e)
  then show thesis using assms kept [of "[]"] by (cases e) (auto simp: run_auto_promotion_def safe_entries_def)
next
  case (Inr used)
  show thesis
  proof (cases "evaluate_rails ARTIFACT_STALE_HOURS (ga_rails g)")
    case (Cons e es)
    let ?append = "append_entry (rn_sha run) (rn_repr run) (rn_clock run) ''ABORT'' ''*''
      [(''rails'', JObj [(''abort'', JBool True), (''reasons'', JArr (map JStr (e # es)))])] (Some (rn_now_iso run)) (pf_ledger files)"
    show thesis
    proof (cases ?append)
      case (Inl l)
      then show thesis using assms kept [of "[]"] by (auto simp: run_auto_promotion_def Inr Cons safe_entries_def)
    next
      case (Inr l)
      obtain x f where l: "l = (x, f)" by (cases l)
      have "files' = files\<lparr>pf_ledger := Some f\<rparr>" "status = Aborted (e # es)"
        using assms Inr by (auto simp: run_auto_promotion_def \<open>used_today run files = Inr used\<close> Cons l)
      then show thesis using kept abort_entry [OF Inr [unfolded l]] by blast
    qed
  next
    case Nil
    show thesis
    proof (cases "ga_database g")
      case False
      then show thesis using assms kept [of "[]"] by (auto simp: run_auto_promotion_def Inr Nil safe_entries_def)
    next
      case True
      show thesis
      proof (cases "Option.bind (engine_inputs_of b run g used files) (decide_promotions b cfg)")
        case None
        then show thesis using assms True kept [of "[]"] by (auto simp: run_auto_promotion_def Inr Nil safe_entries_def)
      next
        case (Some r)
        then obtain i where i: "engine_inputs_of b run g used files = Some i" "decide_promotions b cfg i = Some r" by (auto simp: bind_eq_Some_conv)
        have d: "run_decides b cfg run g files i r" using Inr Nil True i by (simp add: run_decides_def)
        obtain a mid where a: "apply_result run cfg r files = (a, mid)" by (cases "apply_result run cfg r files")
        show thesis
        proof (rule decided [OF d a])
          show "(\<forall>x. status \<noteq> Applied x) \<and> files' = mid \<or> (\<exists>x. a = Some x \<and> stick_demotions run (ap_demoted x) mid = Some files' \<and> status = Applied x)"
            using assms by (auto simp: run_auto_promotion_def Inr Nil True Some a split: option.splits)
        qed
      qed
    qed
  qed
qed

lemma stick_demotions_files:
  assumes "stick_demotions run scopes files = Some files'"
  shows "pf_ledger files' = pf_ledger files" and "pf_promotions files' = pf_promotions files"
  using assms by (auto simp: stick_demotions_def split: if_split_asm)




section \<open>Runs in sequence\<close>






section \<open>The registry after a run\<close>

lemma load_other_demotions:
  assumes "load_promotions rp ft promotions demotions = Some reg" and "items_of (jget ''demotions'' (json_dict demotions')) = Some gone"
  shows "load_promotions rp ft promotions demotions' = Some (reg\<lparr>pr_demoted := remdups (List.map_filter (demoted_scope rp) gone)\<rparr>)"
  using assms by (auto simp: load_promotions_def bind_eq_Some_conv)

lemma registry_of_reads:
  assumes "registry_of rp ft entries reg" and "map_of entries k = Some e" and "reads_as rp ft e k stage w"
  shows "pr_stage reg k = Some stage" and "pr_fraction reg k = Some w"
  using assms by (auto simp: registry_of_def reads_as_def simp del: map_of_eq_Some_iff)

lemma registry_of_entry:
  assumes "registry_of rp ft entries reg" and "map_of entries k = Some e"
  obtains stage w where "reads_as rp ft e k stage w" and "pr_stage reg k = Some stage" and "pr_fraction reg k = Some w"
  using assms by (force simp: registry_of_def simp del: map_of_eq_Some_iff)

lemma followed_registry:
  assumes "registry_of rp ft old reg" and "registry_of rp ft new reg'" and "table_follows rp ft r old new"
  shows "set (pr_promoted reg) \<subseteq> set (pr_promoted reg')"
    and "scope \<in> set (pr_promoted reg') \<Longrightarrow>
      scope \<in> set (pr_promoted reg) \<and> pr_stage reg' scope = pr_stage reg scope \<and> pr_fraction reg' scope = pr_fraction reg scope \<or>
      (\<exists>d. (d \<in> set (er_promotions r) \<or> d \<in> set (er_escalations r)) \<and> sd_scope d = scope \<and>
         pr_stage reg' scope = Some (sd_stage d) \<and> pr_fraction reg' scope = Some (sd_weight d))"
proof -
  show "set (pr_promoted reg) \<subseteq> set (pr_promoted reg')" using assms by (auto simp: registry_of_def table_follows_def)
  assume "scope \<in> set (pr_promoted reg')"
  then obtain e where e: "map_of new scope = Some e" using assms(2) by (auto simp: registry_of_def simp del: map_of_eq_Some_iff)
  then consider "map_of old scope = Some e"
    | d where "d \<in> set (er_promotions r) \<or> d \<in> set (er_escalations r)" "sd_scope d = scope" "reads_as rp ft e scope (sd_stage d) (sd_weight d)"
    using assms(3) unfolding table_follows_def by blast
  then show "scope \<in> set (pr_promoted reg) \<and> pr_stage reg' scope = pr_stage reg scope \<and> pr_fraction reg' scope = pr_fraction reg scope \<or>
      (\<exists>d. (d \<in> set (er_promotions r) \<or> d \<in> set (er_escalations r)) \<and> sd_scope d = scope \<and>
         pr_stage reg' scope = Some (sd_stage d) \<and> pr_fraction reg' scope = Some (sd_weight d))"
  proof cases
    case 1
    obtain stage w where "reads_as rp ft e scope stage w" "pr_stage reg scope = Some stage" "pr_fraction reg scope = Some w"
      by (rule registry_of_entry [OF assms(1) 1])
    moreover have "scope \<in> set (pr_promoted reg)" using assms(1) 1 unfolding registry_of_def by blast
    ultimately show ?thesis using registry_of_reads [OF assms(2) e] by auto
  next
    case 2
    then show ?thesis using registry_of_reads [OF assms(2) e 2(3)] by blast
  qed
qed

lemma stick_demotions_items:
  assumes "stick_demotions run scopes files = Some files'" and "items_of (jget ''demotions'' (json_dict (pf_demotions files))) = Some gone"
  obtains gone' where "items_of (jget ''demotions'' (json_dict (pf_demotions files'))) = Some gone'"
proof (cases "scopes = []")
  case True
  then show thesis using assms that by (simp add: stick_demotions_def)
next
  case False
  then have "files' = files\<lparr>pf_demotions := demotions_file run (fold (merge_demotion run) scopes (demotion_entries (rn_repr run) gone))\<rparr>"
    using assms by (auto simp: stick_demotions_def)
  then show thesis using that by (simp add: demotions_file_def json_dict_def items_of_def)
qed

lemma applied_registry:
  assumes "apply_result run cfg r files = (a, mid)" and "load_promotions (rn_repr run) ft (pf_promotions files) (pf_demotions files) = Some reg"
    and "pf_promotions files' = pf_promotions mid" and "items_of (jget ''demotions'' (json_dict (pf_demotions files'))) = Some gone"
  shows "\<exists>reg'. load_promotions (rn_repr run) ft (pf_promotions files') (pf_demotions files') = Some reg' \<and> set (pr_promoted reg) \<subseteq> set (pr_promoted reg') \<and>
    (\<forall>scope \<in> set (pr_promoted reg').
      scope \<in> set (pr_promoted reg) \<and> pr_stage reg' scope = pr_stage reg scope \<and> pr_fraction reg' scope = pr_fraction reg scope \<or>
      (\<exists>d. (d \<in> set (er_promotions r) \<or> d \<in> set (er_escalations r)) \<and> sd_scope d = scope \<and>
         pr_stage reg' scope = Some (sd_stage d) \<and> pr_fraction reg' scope = Some (sd_weight d)))"
proof -
  obtain vs where vs: "items_of (jget ''promotions'' (json_dict (pf_promotions files))) = Some vs"
    "registry_of (rn_repr run) ft (entries_by_scope (rn_repr run) vs) reg"
    by (rule load_promotions_entries [OF assms(2)])
  let ?old = "entries_by_scope (rn_repr run) vs"
  have ok: "table_ok (rn_repr run) ft ?old" using vs(2) by (simp add: registry_of_def)
  obtain f new where g: "ledger_grows run files f new" and m: "mid = f \<or> (\<exists>vs' table. items_of (jget ''promotions'' (json_dict (pf_promotions files))) = Some vs' \<and>
       mid = f\<lparr>pf_promotions := promotions_file run table\<rparr> \<and>
       (\<forall>ft. table_ok (rn_repr run) ft (entries_by_scope (rn_repr run) vs') \<longrightarrow> table_follows (rn_repr run) ft r (entries_by_scope (rn_repr run) vs') table))"
    by (rule apply_result_parts [OF assms(1)])
  have "pf_promotions f = pf_promotions files" using g by (simp add: ledger_grows_def)
  then have "pf_promotions files' = pf_promotions files \<or> (\<exists>table. pf_promotions files' = promotions_file run table \<and> table_follows (rn_repr run) ft r ?old table)"
    using m ok assms(3) vs(1) by auto
  then consider "pf_promotions files' = pf_promotions files"
    | table where "pf_promotions files' = promotions_file run table" "table_follows (rn_repr run) ft r ?old table"
    by blast
  then show ?thesis
  proof cases
    case 1
    then show ?thesis using load_other_demotions [OF assms(2,4)] by simp
  next
    case 2
    have t: "table_ok (rn_repr run) ft table" using 2(2) by (simp add: table_follows_def)
    obtain reg' where l: "load_promotions (rn_repr run) ft (pf_promotions files') (pf_demotions files') = Some reg'"
      and r': "registry_of (rn_repr run) ft table reg'"
      using load_written [OF t assms(4)] 2(1) by metis
    show ?thesis using l followed_registry [OF vs(2) r' 2(2)] by blast
  qed
qed








lemma run_registry:
  assumes "run_auto_promotion b cfg run g files = (status, files')"
    and "load_promotions (rn_repr run) (pl_float_text b) (pf_promotions files) (pf_demotions files) = Some reg"
  shows "\<exists>reg'. load_promotions (rn_repr run) (pl_float_text b) (pf_promotions files') (pf_demotions files') = Some reg' \<and>
    set (pr_promoted reg) \<subseteq> set (pr_promoted reg') \<and>
    (\<forall>scope \<in> set (pr_promoted reg').
       scope \<in> set (pr_promoted reg) \<and> pr_stage reg' scope = pr_stage reg scope \<and> pr_fraction reg' scope = pr_fraction reg scope \<or>
       (\<exists>i r. run_decides b cfg run g files i r \<and>
          (map_of (ei_promoted i) scope = None \<and> scope_earned b cfg i scope \<and> pr_stage reg' scope = Some 1 \<and> pr_fraction reg' scope = Some (cg_stage1_weight cfg) \<or>
           (\<exists>stage < 2. (scope, stage) \<in> set (ei_promoted i) \<and> escalation_pass b cfg scope (map_of (ei_realized i) scope) \<and>
              pr_stage reg' scope = Some 2 \<and> pr_fraction reg' scope = Some (cg_stage2_weight cfg)))))"
  using assms(1)
proof (cases rule: run_parts)
  case (kept new)
  then show ?thesis using assms(2) by (simp add: ledger_grows_def)
next
  case (decided i r a mid)
  have dec: "decide_promotions b cfg i = Some r" using decided(1) by (auto simp: run_decides_def)
  obtain gone where gone: "items_of (jget ''demotions'' (json_dict (pf_demotions files))) = Some gone" by (rule load_demoted [OF assms(2)])
  obtain f new where "ledger_grows run files f new" "pf_demotions mid = pf_demotions f" by (rule apply_result_parts [OF decided(2)]) auto
  then have "pf_demotions mid = pf_demotions files" by (simp add: ledger_grows_def)
  then have gm: "items_of (jget ''demotions'' (json_dict (pf_demotions mid))) = Some gone" using gone by simp
  have p: "pf_promotions files' = pf_promotions mid" using decided(3) stick_demotions_files(2) by blast
  obtain gone' where g: "items_of (jget ''demotions'' (json_dict (pf_demotions files'))) = Some gone'"
    using decided(3) gm stick_demotions_items [OF _ gm] by blast
  obtain reg' where l: "load_promotions (rn_repr run) (pl_float_text b) (pf_promotions files') (pf_demotions files') = Some reg'"
      "set (pr_promoted reg) \<subseteq> set (pr_promoted reg')"
    and e: "\<And>scope. scope \<in> set (pr_promoted reg') \<Longrightarrow>
      scope \<in> set (pr_promoted reg) \<and> pr_stage reg' scope = pr_stage reg scope \<and> pr_fraction reg' scope = pr_fraction reg scope \<or>
      (\<exists>d. (d \<in> set (er_promotions r) \<or> d \<in> set (er_escalations r)) \<and> sd_scope d = scope \<and>
         pr_stage reg' scope = Some (sd_stage d) \<and> pr_fraction reg' scope = Some (sd_weight d))"
    using applied_registry [OF decided(2) assms(2) p g] by blast
  have "scope \<in> set (pr_promoted reg) \<and> pr_stage reg' scope = pr_stage reg scope \<and> pr_fraction reg' scope = pr_fraction reg scope \<or>
       (map_of (ei_promoted i) scope = None \<and> scope_earned b cfg i scope \<and> pr_stage reg' scope = Some 1 \<and> pr_fraction reg' scope = Some (cg_stage1_weight cfg) \<or>
        (\<exists>stage < 2. (scope, stage) \<in> set (ei_promoted i) \<and> escalation_pass b cfg scope (map_of (ei_realized i) scope) \<and>
           pr_stage reg' scope = Some 2 \<and> pr_fraction reg' scope = Some (cg_stage2_weight cfg)))" if "scope \<in> set (pr_promoted reg')" for scope
    using e [OF that]
  proof (elim disjE exE conjE)
    fix d assume d: "d \<in> set (er_promotions r)" "sd_scope d = scope" "pr_stage reg' scope = Some (sd_stage d)" "pr_fraction reg' scope = Some (sd_weight d)"
    show ?thesis using promoted_scope_earned [OF dec d(1)] d(2-4) by simp
  next
    fix d assume d: "d \<in> set (er_escalations r)" "sd_scope d = scope" "pr_stage reg' scope = Some (sd_stage d)" "pr_fraction reg' scope = Some (sd_weight d)"
    obtain stage where "(scope, stage) \<in> set (ei_promoted i)" "stage < 2" "escalation_pass b cfg scope (map_of (ei_realized i) scope)"
      "sd_stage d = 2" "sd_weight d = cg_stage2_weight cfg"
      using escalations_are_candidates [OF dec d(1)] d(2) by metis
    then show ?thesis using d(3,4) by auto
  qed simp
  then show ?thesis using l decided(1) by blast
qed

section \<open>Properties of the runs\<close>


text \<open>C31: The fusion grows by evidence only. After a run the registry loads again and lists what it listed; each listed scope has the
  stage and weight it had, or the run decided, with a countable ledger and clear rails: a new scope
  that earned it at stage one, or an active one of a lower stage that the settled trades escalate.\<close>

theorem fusion_grows_by_evidence:
  assumes "run_auto_promotion b cfg run g files = (status, files')"
    and "load_promotions (rn_repr run) (pl_float_text b) (pf_promotions files) (pf_demotions files) = Some reg"
  shows "\<exists>reg'. load_promotions (rn_repr run) (pl_float_text b) (pf_promotions files') (pf_demotions files') = Some reg' \<and>
    set (pr_promoted reg) \<subseteq> set (pr_promoted reg') \<and>
    (\<forall>scope \<in> set (pr_promoted reg').
       scope \<in> set (pr_promoted reg) \<and> pr_stage reg' scope = pr_stage reg scope \<and> pr_fraction reg' scope = pr_fraction reg scope \<or>
       (\<exists>i r. run_decides b cfg run g files i r \<and>
          (map_of (ei_promoted i) scope = None \<and> scope_earned b cfg i scope \<and> pr_stage reg' scope = Some 1 \<and> pr_fraction reg' scope = Some (cg_stage1_weight cfg) \<or>
           (\<exists>stage < 2. (scope, stage) \<in> set (ei_promoted i) \<and> escalation_pass b cfg scope (map_of (ei_realized i) scope) \<and>
              pr_stage reg' scope = Some 2 \<and> pr_fraction reg' scope = Some (cg_stage2_weight cfg)))))"
  by (rule run_registry [OF assms])



end
