(* ===== verification/PromotionExample.thy ===== *)
theory PromotionExample
  imports PromotionRuns
begin

text \<open>
  A concrete run of the promotion engine, in which one scope is promoted and one is demoted, and the
  properties of \<open>PromotionEngine\<close> and \<open>PromotionRuns\<close> applied to it.
\<close>

definition toy_promo :: promo_lib where
  "toy_promo = \<lparr>pl_codec = label_codec\<lparr>from_iso := map_of [(''PAST'', Aware 0), (''RECENT'', Aware 1000000)]\<rparr>, pl_local = (\<lambda>_. None), pl_float_text = (\<lambda>_. None), pl_draws = (\<lambda>s k i. 0),
     pl_square = (\<lambda>x. Some (fmul x x)), pl_root = id, pl_sqrt = id, pl_compensated = False, pl_today = 0\<rparr>"

definition toy_bars :: promotion_config where
  "toy_bars = (default_config None None)\<lparr>cg_min_clusters_no_clv := 1, cg_min_span_days := Fin 0, cg_forward_trades := 1,
     cg_forward_clusters := 1, cg_forward_span_days := Fin 0, cg_max_promotions_per_day := 1\<rparr>"

definition toy_row :: settled_row where
  "toy_row = \<lparr>rw_source = ''a'', rw_ticker = ''T'', rw_event_cluster = ''E'', rw_created_at = ''PAST'', rw_probability_yes = Fin (3 / 4),
     rw_market_probability = Fin (1 / 4), rw_result_yes = True,
     rw_features = [(''challenger_only'', JBool True), (''promotion_eligible'', JBool True)], rw_scope = ''a|b|c|d''\<rparr>"

definition toy_forward :: json where
  "toy_forward = JObj [(''receipt_bounded'', JBool True), (''witnessed_fill_net_pnl'', JBool True), (''out_of_sample_after_registration'', JBool True),
     (''isolated_candidate_decisions'', JBool True), (''evidence_origin'', JStr ''ledger_verified''), (''evidence_version'', JStr FORWARD_EVIDENCE_VERSION),
     (''candidate_fingerprint'', JStr (replicate 64 CHR ''0'')), (''registered_at'', JStr ''PAST''), (''n_trades'', JInt 1),
     (''pnl_by_cluster'', JObj [(''E'', JArr [JFloat (Fin 1)])]), (''trade_timestamps'', JArr [JStr ''RECENT''])]"

definition toy_inputs :: engine_inputs where
  "toy_inputs = \<lparr>ei_scope_rows = [(''a|b|c|d'', [toy_row])], ei_promoted = [], ei_used_today = 0, ei_clv = [],
     ei_realized = [(''a|b|c|d'', \<lparr>rz_trades = 0, rz_pnl_by_cluster = [], rz_forward = toy_forward\<rparr>)], ei_eligible = Some [''a|b|c|d''],
     ei_families = [], ei_fused = []\<rparr>"

lemma one_cluster:
  "vs \<noteq> [] \<Longrightarrow> cluster_bootstrap_ci b seed n [(c, vs)] =
     (let x = py_round 6 (fdiv_int (fsum b [fsum b vs]) (int (length vs)))
      in Some \<lparr>bo_mean = x, bo_lower = x, bo_upper = x, bo_clusters = 1, bo_family = max 1 n, bo_resamples = 0\<rparr>)"
  by (simp add: cluster_bootstrap_ci_def Let_def)

lemma toy_contested: "is_contested (to_float (5 / 100)) toy_row" by code_simp
lemma toy_edge: "brier_edge toy_promo toy_row = Some (Fin (1 / 2))" by code_simp
lemma toy_pnl: "counterfactual_pnl toy_promo toy_row = Some (Fin (1643813863990231 / 2251799813685248))" by code_simp
lemma toy_ts: "row_ts toy_promo toy_row = Some (Fin 0)" by code_simp

lemma toy_means:
  "fmean toy_promo [Fin (1 / 2)] = Fin (1 / 2)" "fmean toy_promo [Fin (3 / 4)] = Fin (3 / 4)"
  "flt (Fin 0) (py_round 6 (fdiv_int (fsum toy_promo [fsum toy_promo [Fin (1 / 2)]]) 1))"
  "flt (Fin 0) (py_round 6 (fdiv_int (fsum toy_promo [fsum toy_promo [Fin (1643813863990231 / 2251799813685248)]]) 1))"
  "flt (Fin 0) (py_round 6 (fdiv_int (fsum toy_promo [fsum toy_promo [Fin 1]]) 1))"
  "span_of [Fin 0] = Fin 0" "flt (Fin 0) (Fin (1 / 2))" "\<not> flt (Fin (1 / 2)) DEGRADE_EDGE_FLOOR" "fle MIN_BEAT_RATE (int_truediv 1 1)"
  "fle (fabs (Fin 0)) CORRELATION_CAP" "fle (Fin 0) (Fin 0)"
  by code_simp+

lemma toy_bars_fields [simp]:
  "cg_contested_disagreement toy_bars = CONTESTED_DISAGREEMENT" "cg_correlation_cap toy_bars = CORRELATION_CAP" "cg_min_corr_overlap toy_bars = MIN_CORR_OVERLAP"
  "cg_min_clusters_no_clv toy_bars = 1" "cg_min_span_days toy_bars = Fin 0" "cg_min_beat_rate toy_bars = MIN_BEAT_RATE"
  "cg_max_promotions_per_day toy_bars = 1" "\<not> cg_allow_modeled toy_bars"
  unfolding toy_bars_def default_config_def by (simp_all add: arming_def) code_simp

lemma toy_row_fields [simp]: "rw_event_cluster toy_row = ''E''" "rw_ticker toy_row = ''T''" "rw_probability_yes toy_row = Fin (3 / 4)"
  by (simp_all add: toy_row_def)

lemma toy_timed: "timed_edges toy_promo [toy_row] = Some [(Fin 0, ''E'', Fin (1 / 2))]"
  by (simp add: timed_edges_def toy_ts toy_edge List.map_filter_simps)

lemma toy_evidence:
  "\<exists>e. build_scope_evidence toy_promo toy_bars ''a|b|c|d'' [toy_row] None 1 True [] = Some e \<and> evidence_pass e \<and> cv_ok (se_correlation e)"
  using toy_contested
  by (simp add: build_scope_evidence_def CONTESTED_DISAGREEMENT_def toy_edge toy_pnl toy_timed correlation_guard_def group_values_def one_cluster Let_def
      evidence_pass_iff lower_above_zero_def beat_rate_pass_def clv_pass_def toy_means cluster_series_def last_n_def List.map_filter_simps toy_ts)

definition toy_raw :: "(string \<times> json) list" where
  "toy_raw = (case toy_forward of JObj d \<Rightarrow> d | _ \<Rightarrow> [])"

lemma toy_raw: "toy_forward = JObj toy_raw" by (simp add: toy_raw_def toy_forward_def)

lemma toy_raw_fields:
  "modeled_fills (jget ''fill_provenance'' toy_raw) = Some False" "declared_trades toy_raw = Some 1" "truth_failures False toy_raw = []"
  "clean_clusters toy_promo (jget ''pnl_by_cluster'' toy_raw) = Some [(''E'', [Fin 1])]"
  "length (fingerprint_of (pl_codec toy_promo) toy_raw) = 64" "\<not> (\<exists>ch \<in> set (fingerprint_of (pl_codec toy_promo) toy_raw). \<not> hex_digit ch)"
  "aware_timestamp (pl_codec toy_promo) (jget ''registered_at'' toy_raw) = Some (Fin 0)"
  "trade_times (pl_codec toy_promo) (jget ''trade_timestamps'' toy_raw) 1 = Some [Fin 1]" "\<not> fle (Fin 1) (Fin 0)"
  "forward_gates toy_bars = (float_of_int 1, float_of_int 1, Fin 0)" "fle (float_of_int 1) (float_of_int 1)"
  by code_simp+

lemma toy_forward_passes:
  "\<exists>v. forward_witnessed_fill_evidence toy_promo toy_bars ''a|b|c|d'' toy_forward = Some v \<and> fv_pass v"
  by (simp add: forward_witnessed_fill_evidence_def toy_raw toy_raw_fields fv_pass_def forward_failures_def forward_gate_failures_def forward_span_def
      one_cluster lower_above_zero_def toy_means Let_def del: One_nat_def)

lemma toy_roi: "\<exists>v. roi_door_evidence toy_promo toy_bars ''a|b|c|d'' [toy_row] = Some v"
  using toy_contested by (simp add: roi_door_evidence_def CONTESTED_DISAGREEMENT_def toy_pnl Let_def)

lemma toy_candidate: "\<exists>rank d. judge_scope toy_promo toy_bars toy_inputs (''a|b|c|d'', [toy_row]) = Some (Candidate rank (promotion toy_bars ''a|b|c|d'' d))"
proof -
  obtain e where e: "build_scope_evidence toy_promo toy_bars ''a|b|c|d'' [toy_row] None 1 True [] = Some e" "evidence_pass e" "cv_ok (se_correlation e)"
    using toy_evidence by blast
  obtain v where v: "forward_witnessed_fill_evidence toy_promo toy_bars ''a|b|c|d'' toy_forward = Some v" "fv_pass v"
    using toy_forward_passes by blast
  obtain w where "roi_door_evidence toy_promo toy_bars ''a|b|c|d'' [toy_row] = Some w" using toy_roi by blast
  then show ?thesis using e v by (simp add: judge_scope_def toy_inputs_def Let_def) blast
qed

lemma toy_decision:
  obtains r d where "decide_promotions toy_promo toy_bars toy_inputs = Some r" and "er_promotions r = [promotion toy_bars ''a|b|c|d'' d]"
    and "er_escalations r = []" and "er_demotions r = []"
proof -
  obtain rank d where j: "judge_scope toy_promo toy_bars toy_inputs (''a|b|c|d'', [toy_row]) = Some (Candidate rank (promotion toy_bars ''a|b|c|d'' d))"
    using toy_candidate by blast
  have "\<exists>r. decide_promotions toy_promo toy_bars toy_inputs = Some r \<and> er_promotions r = [promotion toy_bars ''a|b|c|d'' d] \<and> er_escalations r = [] \<and> er_demotions r = []"
    using j by (simp add: decide_promotions_def toy_inputs_def demotions_of_def additions_def candidates_of_def ranked_def add_budget_def List.map_filter_simps
        promotion_action Let_def)
  then show thesis using that by blast
qed

lemma promotion_is_earned_witness:
  "\<exists>r d. decide_promotions toy_promo toy_bars toy_inputs = Some r \<and> d \<in> set (er_promotions r) \<and> sd_scope d = ''a|b|c|d'' \<and>
     scope_earned toy_promo toy_bars toy_inputs ''a|b|c|d'' \<and> sd_stage d = 1"
proof -
  obtain r d where r: "decide_promotions toy_promo toy_bars toy_inputs = Some r" "er_promotions r = [promotion toy_bars ''a|b|c|d'' d]"
    by (rule toy_decision)
  have "promotion toy_bars ''a|b|c|d'' d \<in> set (er_promotions r)" by (simp add: r(2))
  from promotion_is_earned [OF r(1) this] this r(1) show ?thesis by (auto simp: promotion_action)
qed

lemma risk_is_rationed_witness:
  "\<exists>r. decide_promotions toy_promo toy_bars toy_inputs = Some r \<and> length (er_promotions r) = 1 \<and>
     int (length (er_promotions r) + length (er_escalations r)) \<le> max 0 (cg_max_promotions_per_day toy_bars - ei_used_today toy_inputs)"
proof -
  obtain r d where r: "decide_promotions toy_promo toy_bars toy_inputs = Some r" "er_promotions r = [promotion toy_bars ''a|b|c|d'' d]"
    by (rule toy_decision)
  show ?thesis using risk_is_rationed [OF r(1)] r by auto
qed

section \<open>A run over files\<close>

definition toy_run :: promo_run where
  "toy_run = \<lparr>rn_sha = (\<lambda>_. ''h''), rn_repr = (\<lambda>_. []), rn_clock = noon, rn_now_iso = ''2026-07-26T12:00:00+00:00''\<rparr>"

definition calm_rails :: rails_inputs where
  "calm_rails = \<lparr>ri_kill_file = False, ri_heartbeat_status = None, ri_heartbeat_alive = True, ri_health_error = False, ri_weight_saturation = False,
     ri_exchange_anomaly = False, ri_artifact_age_hours = None, ri_last_success_age_hours = None\<rparr>"

definition toy_gathered :: gathered where
  "toy_gathered = \<lparr>ga_rails = calm_rails, ga_database = True, ga_rows = [toy_row], ga_clv = [], ga_realized = ei_realized toy_inputs,
     ga_families = Holds JNull\<rparr>"

definition toy_files :: promo_files where
  "toy_files = \<lparr>pf_ledger = None, pf_promotions = Holds JNull, pf_demotions = Holds JNull\<rparr>"

lemma toy_run_inputs: "engine_inputs_of toy_promo toy_run toy_gathered 0 toy_files = Some toy_inputs"
  by code_simp

lemma toy_run_applies:
  "\<exists>files'. run_auto_promotion toy_promo toy_bars toy_run toy_gathered toy_files =
     (Applied \<lparr>ap_promoted = [''a|b|c|d''], ap_escalated = [], ap_demoted = []\<rparr>, files')"
proof -
  obtain r d where r: "decide_promotions toy_promo toy_bars toy_inputs = Some r" "er_promotions r = [promotion toy_bars ''a|b|c|d'' d]"
    "er_escalations r = []" "er_demotions r = []" by (rule toy_decision)
  have u: "used_today toy_run toy_files = Inr 0" "evaluate_rails ARTIFACT_STALE_HOURS (ga_rails toy_gathered) = []" "ga_database toy_gathered" by code_simp+
  have v: "items_of (jget ''promotions'' (json_dict (pf_promotions toy_files))) = Some []" "scope_parts ''a|b|c|d'' \<noteq> None" "strip ''a|b|c|d'' \<noteq> []"
    "pf_ledger toy_files = None" by code_simp+
  obtain parts where parts: "scope_parts ''a|b|c|d'' = Some parts" using v(2) by blast
  show ?thesis
    by (simp add: run_auto_promotion_def u toy_run_inputs r apply_result_def v(1) parts promotion_action record_decision_def append_entry_def VALID_ACTIONS_def
        v(3,4) read_verified_def stick_demotions_def Let_def del: canonical.simps)
qed


lemma toy_registry:
  "load_promotions (rn_repr toy_run) (pl_float_text toy_promo) (pf_promotions toy_files) (pf_demotions toy_files) =
     Some \<lparr>pr_promoted = [], pr_stage = Map.empty, pr_fraction = Map.empty, pr_demoted = []\<rparr>"
  by (simp add: load_promotions_def toy_files_def json_dict_def items_of_def List.map_filter_simps)

lemma fusion_grows_by_evidence_witness:
  "\<exists>files' reg. run_auto_promotion toy_promo toy_bars toy_run toy_gathered toy_files =
       (Applied \<lparr>ap_promoted = [''a|b|c|d''], ap_escalated = [], ap_demoted = []\<rparr>, files') \<and>
     load_promotions (rn_repr toy_run) (pl_float_text toy_promo) (pf_promotions files') (pf_demotions files') = Some reg \<and>
     (\<forall>scope \<in> set (pr_promoted reg). \<exists>i r. run_decides toy_promo toy_bars toy_run toy_gathered toy_files i r)"
proof -
  obtain files' where f: "run_auto_promotion toy_promo toy_bars toy_run toy_gathered toy_files =
       (Applied \<lparr>ap_promoted = [''a|b|c|d''], ap_escalated = [], ap_demoted = []\<rparr>, files')" using toy_run_applies by blast
  from fusion_grows_by_evidence [OF f toy_registry]
  obtain reg where l: "load_promotions (rn_repr toy_run) (pl_float_text toy_promo) (pf_promotions files') (pf_demotions files') = Some reg"
    and "\<forall>scope \<in> set (pr_promoted reg). \<exists>i r. run_decides toy_promo toy_bars toy_run toy_gathered toy_files i r" by simp blast
  then show ?thesis using f by blast
qed



end
