(* ===== verification/Spec2Isabelle.thy ===== *)
theory Spec2Isabelle
  imports RiskState Exposure Fees LiveSubmit Compliance ModelInfluence Sentinel SubmissionRuns
    RiskBrain Allocation ExecutorRuns ProcLock PromotionChain CreditBudget LiveBook
    KillReconcile PromotionExample
begin

text \<open>
  A verification development of the trading system in \<open>src/\<close>: an autonomous trader of binary
  event contracts on the Kalshi exchange, written in Python. What is verified is the path on
  which money moves and the durable state around it.

  \<^bold>\<open>The program and how its parts interact.\<close> A cycle forecasts markets, the allocator
  (\<open>autonomy/allocator.py\<close>) turns a forecast, a book and the state of the risk brain
  (\<open>autonomy/risk_brain.py\<close>) into a sized decision, and the executor (\<open>autonomy/executor.py\<close>) places
  it, on paper or live. Live, it reprices takers against a fresh quote
  (\<open>autonomy/live_book.py\<close>, \<open>autonomy/executable_liquidity.py\<close>), checks the venue's book, and hands an attested forecast
  and a request to the firewall (\<open>live_firewall/firewall.py\<close>), which is the only code that may
  send an order. The firewall evaluates every gate, awaits the broker's book, and in one
  uninterrupted stretch re-evaluates, reserves the order in the exposure book
  (\<open>live_firewall/exposure_tracker.py\<close>) and sends it. Its stop controls and its daily loss live in
  \<open>core/state.py\<close>. Which model scopes may influence a forecast is earned through evidence and
  recorded in a hash-chained ledger.

  \<^bold>\<open>The theories.\<close> Each opens with what it holds; definitions carry the names of the source and
  stand in its order.
  \<^item> \<open>Prelude\<close>, \<open>PyNum\<close>, \<open>PyJson\<close>: Python strings and dictionaries; floats and decimals as rationals with one
    computable rounding function; JSON values, state files, the clock and the text of times.
  \<^item> \<open>Latch\<close>: the interface of the two durable stores as the locale of a fail-closed latch, with the
    facts the firewall uses; \<open>RiskState\<close> (\<open>core/state.py\<close>) and \<open>Exposure\<close> provide its interpretations.
  \<^item> \<open>Fees\<close> (\<open>autonomy/fees.py\<close>), \<open>EnvLoader\<close> (\<open>core/env_loader.py\<close>), \<open>CapsAuthority\<close> (\<open>core/caps_authority.py\<close>),
    \<open>LiveSubmit\<close> (\<open>core/live_submit_state.py\<close>, \<open>core/live_execution_mode.py\<close>, \<open>core/proof_lock.py\<close>), \<open>Ontology\<close>
    (\<open>core/ontology.py\<close>), \<open>TargetPolicy\<close> (\<open>autonomy/target_policy.py\<close>), \<open>Compliance\<close> (\<open>compliance/\<close>), \<open>Sentinel\<close>
    (\<open>live_firewall/secret_sentinel.py\<close>): the authorities a live order needs.
  \<^item> \<open>ModelAuthority\<close> and \<open>ModelInfluence\<close> (\<open>forecasting/\<close>): which model scope may influence an order, and the
    attestation that binds a forecast to one order.
  \<^item> \<open>LiveGates\<close>, \<open>Firewall\<close>, \<open>Submission\<close>, \<open>SubmissionRuns\<close> (\<open>live_firewall/firewall.py\<close>): the local gates;
    evaluation, compliance, rehearsal and the coroutine \<open>submit\<close>; its properties; one concrete
    submission that the properties are applied to.
  \<^item> \<open>RiskBrain\<close>, \<open>Allocation\<close> (\<open>autonomy/candidate_allocation.py\<close>, \<open>allocation_weights.py\<close>,
    \<open>allocation_config.py\<close>), \<open>Trading\<close> (\<open>autonomy/ontology.py\<close>, \<open>execution_policy.py\<close>, \<open>scanner.py\<close>), \<open>Decide\<close>: how much to
    buy of what.
  \<^item> \<open>Liquidity\<close>, \<open>Presubmit\<close> (\<open>autonomy/staleness.py\<close> and the gates of the executor), \<open>Executor\<close>,
    \<open>ExecutorSafety\<close>, \<open>ExecutorRuns\<close>: from a decision to the firewall and back to an outcome.
  \<^item> \<open>ProcLock\<close> (\<open>autonomy/proclock.py\<close>), \<open>PromotionChain\<close> (\<open>autonomy/promotion_ledger.py\<close>), \<open>CreditBudget\<close>
    (\<open>autonomy/odds_api_budget.py\<close>): the lock of one instance, the ledger of governance, the
    governor of metered data.
  \<^item> \<open>LiveBook\<close> (\<open>autonomy/live_book.py\<close>): the book kept from the frames of the feed, and its quote.
  \<^item> \<open>KillReconcile\<close> (\<open>autonomy/kill_reconciliation.py\<close>): the cancellation of open orders after a kill, the second
    reading of the broker and the receipt. The injected broker functions act on an arbitrary world.
  \<^item> \<open>PromotionEvidence\<close> (\<open>autonomy/auto_promotion.py\<close> up to its rails), \<open>PromotionEngine\<close> (its decisions, the registry of
    \<open>autonomy/promotion.py\<close>, the run of \<open>autonomy/auto_promotion_runner.py\<close>), \<open>PromotionRuns\<close> (what runs do to ledger
    and registry) and \<open>PromotionExample\<close> (one concrete run): which scopes enter and leave the fusion.

  \<^bold>\<open>What the lemmas show.\<close> For the firewall: an order leaves only if every gate passed on the
  book that the broker sent and nothing intervened, with its reservation stored and all caps
  kept, at most once per proposal, and never after a stop that is durable by then; an ambiguous
  answer keeps the reservation. For the executor: the same from \<open>execute\<close> down, and outcomes that
  tell the truth about contact. For the stores: stop controls are only released deliberately,
  losses count each settlement once, and every sequence of calls keeps the book well formed.
  For the sizing: budgets, stages, purchases and plans stay within their limits.
  For the services around it: a lock excludes while its holders live and every acquisition ends, the ledger
  reads back what was appended and is fixed by its head, and metered fetches stay within their
  caps.
  The book of a feed keeps its shape under all frames and refines an integer book under whole
  deltas. The fusion grows only by evidence that passed every gate under clear rails, never by
  more per day than the cap over all runs, and demotions stick.
  After a kill the broker is touched only with authority and only to cancel what it listed, and a
  receipt of a flat book rests on a second reading of orders and positions.
  Where the code does not do what it means to, a theorem shows the case.

  \<^bold>\<open>How the code is modelled.\<close> Exceptions are values: \<open>None\<close> or \<open>Inl\<close> for one that leaves a function. A state
  file is absent, a JSON value, or unreadable; whether a write succeeds is a script the
  operations consume. One reading of the clock, of the environment and of the files serves one
  evaluation. At an await of a coroutine the argument \<open>moment\<close> gives what the rest of the process
  has done meanwhile. The processes that compete for a lock take steps of one call of the
  operating system each. Text is ASCII; floats are binary64 with infinities and NaN and one
  zero. Hash functions, printers and parsers of floats and dates, the broker and all other code
  outside \<open>src/\<close> are arguments, with their documented laws as hypotheses where a property needs
  them. Loops over data are structural recursion, so that no fuel is needed; a loop over events (frames
  of a socket, calls of processes) is a recursion over the list of those events.

  \<^bold>\<open>Not modelled.\<close> The forecasting itself (signals, sports and weather models, calibration), ingest
  adapters, the SQL ledger with backtests and paper twins, dashboards and reports, the research
  laboratory, the repository harvester, operator tools and scripts, and HTTP transport: they are
  statistics over feeds, presentation or I/O, and none of them may send an order. The daemon and
  session loops only schedule the parts above. Account reconciliation calls the exposure book
  modelled here with what the broker reports; its ledger queries are SQL.
\<close>

end
